(* ===== verification/Prelude.thy ===== *)
theory Prelude
  imports Main "HOL-Library.Sublist" "HOL-Library.List_Lexorder" "HOL-Library.Word" "HOL-Library.Code_Target_Nat"
begin

text \<open>
  The vocabulary the components share: Rust strings as lists of Unicode scalar values, the string
  functions of the standard library the source calls (trim, char classes, split, join, decimal
  printing and parsing), results as sums with the error on the left, and the collections of facts
  the component proofs use.

  A Rust \<open>str\<close> is a sequence of scalar values; \<open>len()\<close> counts its UTF-8 bytes
  (\<open>str_len\<close>), \<open>chars().count()\<close> counts the values (\<open>length\<close>). String literals of the
  source are ASCII and are written \<open>asc ''...''\<close>.
\<close>

named_theorems char_class "definitions of the character classes"
named_theorems validator_defs "definitions of the input validators"
named_theorems wire_defs "definitions of the wire spellings"

section \<open>Strings\<close>

type_synonym uchar = nat
type_synonym ustr = "uchar list"

definition asc :: "string \<Rightarrow> ustr" where
  "asc s = map of_char s"

lemma asc_Nil [simp]: "asc [] = []"
  by (simp add: asc_def)

lemma asc_append: "asc (s @ t) = asc s @ asc t"
  by (simp add: asc_def)

lemma of_char_nat_inj: "(of_char c :: nat) = of_char d \<longleftrightarrow> c = d"
  by simp

lemma asc_eq_iff [simp]: "asc s = asc t \<longleftrightarrow> s = t"
proof
  assume "asc s = asc t"
  then show "s = t"
    unfolding asc_def by (rule map_injective) (simp add: inj_def of_char_nat_inj)
qed simp

lemma asc_eq_Nil [simp]: "asc s = [] \<longleftrightarrow> s = []" "[] = asc s \<longleftrightarrow> s = []"
  by (auto simp: asc_def)

lemma length_asc [simp]: "length (asc s) = length s"
  by (simp add: asc_def)

lemma asc_Cons: "asc (c # s) = of_char c # asc s"
  by (simp add: asc_def)

lemma set_asc_bound: "c \<in> set (asc s) \<Longrightarrow> c < 256"
  by (auto simp: asc_def)

text \<open>UTF-8: the bytes of one scalar value and of a string.\<close>

definition is_scalar :: "uchar \<Rightarrow> bool" where
  "is_scalar c \<longleftrightarrow> c < 0x110000 \<and> \<not> (0xD800 \<le> c \<and> c < 0xE000)"

definition utf8_len :: "uchar \<Rightarrow> nat" where
  "utf8_len c = (if c < 0x80 then 1 else if c < 0x800 then 2 else if c < 0x10000 then 3 else 4)"

definition utf8_enc :: "uchar \<Rightarrow> nat list" where
  "utf8_enc c =
     (if c < 0x80 then [c]
      else if c < 0x800 then [0xC0 + c div 64, 0x80 + c mod 64]
      else if c < 0x10000 then [0xE0 + c div 4096, 0x80 + (c div 64) mod 64, 0x80 + c mod 64]
      else [0xF0 + c div 262144, 0x80 + (c div 4096) mod 64, 0x80 + (c div 64) mod 64,
            0x80 + c mod 64])"

definition utf8 :: "ustr \<Rightarrow> nat list" where
  "utf8 s = concat (map utf8_enc s)"

definition str_len :: "ustr \<Rightarrow> nat" where
  "str_len s = sum_list (map utf8_len s)"

lemma length_utf8_enc: "length (utf8_enc c) = utf8_len c"
  by (simp add: utf8_enc_def utf8_len_def)

lemma length_utf8: "length (utf8 s) = str_len s"
  by (induction s) (simp_all add: utf8_def str_len_def length_utf8_enc)

lemma str_len_Nil [simp]: "str_len [] = 0"
  by (simp add: str_len_def)

lemma str_len_Cons [simp]: "str_len (c # s) = utf8_len c + str_len s"
  by (simp add: str_len_def)

lemma str_len_append [simp]: "str_len (s @ t) = str_len s + str_len t"
  by (simp add: str_len_def)

lemma utf8_len_bounds: "1 \<le> utf8_len c" "utf8_len c \<le> 4"
  by (simp_all add: utf8_len_def)

lemma length_le_str_len: "length s \<le> str_len s"
proof (induction s)
  case (Cons c s)
  then show ?case using utf8_len_bounds(1) [of c] by simp
qed simp

lemma str_len_ascii: "\<forall>c\<in>set s. c < 0x80 \<Longrightarrow> str_len s = length s"
  by (induction s) (simp_all add: utf8_len_def)

lemma utf8_ascii: "\<forall>c\<in>set s. c < 0x80 \<Longrightarrow> utf8 s = s"
  by (induction s) (simp_all add: utf8_def utf8_enc_def)

lemma scalar_bound: "is_scalar c \<Longrightarrow> c < 0x110000"
  by (simp add: is_scalar_def)

lemma utf8_enc_byte: "is_scalar c \<Longrightarrow> b \<in> set (utf8_enc c) \<Longrightarrow> b < 256"
  by (auto simp: utf8_enc_def is_scalar_def split: if_splits)

lemma divmod_eq: "(a::nat) div n = b div n \<Longrightarrow> a mod n = b mod n \<Longrightarrow> a = b"
  by (metis div_mult_mod_eq)

lemma div_split: "(a::nat) div 4096 = a div 64 div 64" "(a::nat) div 262144 = a div 4096 div 64"
  by (simp_all add: div_mult2_eq [symmetric])

definition lead_class :: "nat \<Rightarrow> nat" where
  "lead_class b = (if b < 0x80 then 1 else if b < 0xE0 then 2 else if b < 0xF0 then 3 else 4)"

lemma lead_class_enc: "is_scalar c \<Longrightarrow> lead_class (hd (utf8_enc c)) = utf8_len c"
  by (auto simp: utf8_enc_def utf8_len_def lead_class_def is_scalar_def)

lemma utf8_enc_inj:
  assumes "utf8_enc c = utf8_enc d"
  shows "c = d"
proof -
  have "utf8_len c = utf8_len d" using assms by (metis length_utf8_enc)
  then consider "c < 0x80" "d < 0x80"
    | "\<not> c < 0x80" "\<not> d < 0x80" "c < 0x800" "d < 0x800"
    | "\<not> c < 0x800" "\<not> d < 0x800" "c < 0x10000" "d < 0x10000"
    | "\<not> c < 0x10000" "\<not> d < 0x10000"
    by (auto simp: utf8_len_def split: if_splits)
  then show ?thesis
  proof cases
    case 1 with assms show ?thesis by (simp add: utf8_enc_def)
  next
    case 2 with assms show ?thesis
      by (intro divmod_eq [of c 64 d]) (simp_all add: utf8_enc_def)
  next
    case 3
    with assms have "c div 64 = d div 64"
      by (intro divmod_eq [of "c div 64" 64]) (simp_all add: utf8_enc_def div_split)
    with 3 assms show ?thesis
      by (intro divmod_eq [of c 64 d]) (simp_all add: utf8_enc_def)
  next
    case 4
    with assms have "c div 4096 = d div 4096"
      by (intro divmod_eq [of "c div 4096" 64]) (simp_all add: utf8_enc_def div_split)
    with 4 assms have "c div 64 = d div 64"
      by (intro divmod_eq [of "c div 64" 64]) (simp_all add: utf8_enc_def div_split)
    with 4 assms show ?thesis
      by (intro divmod_eq [of c 64 d]) (simp_all add: utf8_enc_def)
  qed
qed

lemma utf8_Cons [simp]: "utf8 (c # s) = utf8_enc c @ utf8 s"
  by (simp add: utf8_def)

lemma utf8_Nil [simp]: "utf8 [] = []"
  by (simp add: utf8_def)

lemma utf8_enc_ne [simp]: "utf8_enc c \<noteq> []"
  by (simp add: utf8_enc_def)

lemma utf8_inj:
  "\<forall>c\<in>set s. is_scalar c \<Longrightarrow> \<forall>c\<in>set t. is_scalar c \<Longrightarrow> utf8 s = utf8 t \<Longrightarrow> s = t"
proof (induction s arbitrary: t)
  case Nil
  then show ?case by (cases t) simp_all
next
  case (Cons c s)
  then obtain d t' where t: "t = d # t'" by (cases t) simp_all
  with Cons.prems have eq: "utf8_enc c @ utf8 s = utf8_enc d @ utf8 t'" by simp
  then have "hd (utf8_enc c) = hd (utf8_enc d)" using utf8_enc_ne by (metis hd_append2)
  moreover have "is_scalar c" "is_scalar d" using Cons.prems t by simp_all
  ultimately have "utf8_len c = utf8_len d" by (metis lead_class_enc)
  then have "length (utf8_enc c) = length (utf8_enc d)" by (simp only: length_utf8_enc)
  then have "utf8_enc c = utf8_enc d" and same: "utf8 s = utf8 t'"
    using append_eq_append_conv [of "utf8_enc c" "utf8_enc d" "utf8 s" "utf8 t'"] eq by auto
  then have "c = d" by (intro utf8_enc_inj)
  moreover have "s = t'" using Cons.prems t same by (intro Cons.IH) simp_all
  ultimately show ?case using t by simp
qed


text \<open>The character classes of \<open>char\<close>.\<close>

definition is_control :: "uchar \<Rightarrow> bool" where
  [char_class]: "is_control c \<longleftrightarrow> c < 0x20 \<or> (0x7F \<le> c \<and> c \<le> 0x9F)"

definition is_whitespace :: "uchar \<Rightarrow> bool" where
  [char_class]: "is_whitespace c \<longleftrightarrow>
     (9 \<le> c \<and> c \<le> 13) \<or> c = 0x20 \<or> c = 0x85 \<or> c = 0xA0 \<or> c = 0x1680 \<or>
     (0x2000 \<le> c \<and> c \<le> 0x200A) \<or> c = 0x2028 \<or> c = 0x2029 \<or> c = 0x202F \<or> c = 0x205F \<or>
     c = 0x3000"

definition is_ascii_digit :: "uchar \<Rightarrow> bool" where
  [char_class]: "is_ascii_digit c \<longleftrightarrow> 48 \<le> c \<and> c \<le> 57"

definition is_ascii_alphabetic :: "uchar \<Rightarrow> bool" where
  [char_class]: "is_ascii_alphabetic c \<longleftrightarrow> (65 \<le> c \<and> c \<le> 90) \<or> (97 \<le> c \<and> c \<le> 122)"

definition is_ascii_alphanumeric :: "uchar \<Rightarrow> bool" where
  [char_class]: "is_ascii_alphanumeric c \<longleftrightarrow> is_ascii_digit c \<or> is_ascii_alphabetic c"

definition is_ascii_hexdigit :: "uchar \<Rightarrow> bool" where
  [char_class]: "is_ascii_hexdigit c \<longleftrightarrow>
     is_ascii_digit c \<or> (65 \<le> c \<and> c \<le> 70) \<or> (97 \<le> c \<and> c \<le> 102)"

definition is_ascii_whitespace :: "nat \<Rightarrow> bool" where
  [char_class]: "is_ascii_whitespace c \<longleftrightarrow> c = 9 \<or> c = 10 \<or> c = 12 \<or> c = 13 \<or> c = 32"

definition to_ascii_lower :: "uchar \<Rightarrow> uchar" where
  "to_ascii_lower c = (if 65 \<le> c \<and> c \<le> 90 then c + 32 else c)"

definition to_ascii_lowercase :: "ustr \<Rightarrow> ustr" where
  "to_ascii_lowercase s = map to_ascii_lower s"

definition eq_ignore_ascii_case :: "ustr \<Rightarrow> ustr \<Rightarrow> bool" where
  "eq_ignore_ascii_case s t \<longleftrightarrow> to_ascii_lowercase s = to_ascii_lowercase t"

lemma hexdigit_not_whitespace: "is_ascii_hexdigit c \<Longrightarrow> \<not> is_whitespace c"
  by (auto simp: char_class)

lemma alphanumeric_not_whitespace: "is_ascii_alphanumeric c \<Longrightarrow> \<not> is_whitespace c"
  by (auto simp: char_class)

lemma hexdigit_alphanumeric: "is_ascii_hexdigit c \<Longrightarrow> is_ascii_alphanumeric c"
  by (auto simp: char_class)

lemma alphanumeric_ascii: "is_ascii_alphanumeric c \<Longrightarrow> c < 0x80"
  by (auto simp: char_class)

subsection \<open>Trimming\<close>

definition trim_start_matches :: "(uchar \<Rightarrow> bool) \<Rightarrow> ustr \<Rightarrow> ustr" where
  "trim_start_matches p s = dropWhile p s"

definition trim_end_matches :: "(uchar \<Rightarrow> bool) \<Rightarrow> ustr \<Rightarrow> ustr" where
  "trim_end_matches p s = rev (dropWhile p (rev s))"

definition trim_matches :: "(uchar \<Rightarrow> bool) \<Rightarrow> ustr \<Rightarrow> ustr" where
  "trim_matches p s = trim_end_matches p (trim_start_matches p s)"

definition trim :: "ustr \<Rightarrow> ustr" where
  "trim s = trim_matches is_whitespace s"

definition trim_end :: "ustr \<Rightarrow> ustr" where
  "trim_end s = trim_end_matches is_whitespace s"

lemma set_trim_matches: "set (trim_matches p s) \<subseteq> set s"
  unfolding trim_matches_def trim_end_matches_def trim_start_matches_def
  by (auto dest!: set_dropWhileD)

lemma set_trim: "c \<in> set (trim s) \<Longrightarrow> c \<in> set s"
  using set_trim_matches [of is_whitespace s] by (auto simp: trim_def)

lemma dropWhile_fix: "xs = [] \<or> \<not> p (hd xs) \<Longrightarrow> dropWhile p xs = xs"
  by (cases xs) auto

lemma trim_end_matches_hd:
  "trim_end_matches p s \<noteq> [] \<Longrightarrow> hd (trim_end_matches p s) = hd s"
proof -
  assume ne: "trim_end_matches p s \<noteq> []"
  have "s = trim_end_matches p s @ rev (takeWhile p (rev s))"
    unfolding trim_end_matches_def
    by (metis rev_append rev_rev_ident takeWhile_dropWhile_id)
  with ne show ?thesis by (metis hd_append2)
qed

lemma trim_matches_ends:
  assumes "trim_matches p s \<noteq> []"
  shows "\<not> p (hd (trim_matches p s))" and "\<not> p (last (trim_matches p s))"
proof -
  let ?t = "trim_start_matches p s"
  from assms have ne: "trim_end_matches p ?t \<noteq> []" by (simp add: trim_matches_def)
  then have "?t \<noteq> []" by (auto simp: trim_end_matches_def)
  then have "\<not> p (hd ?t)"
    unfolding trim_start_matches_def by (metis hd_dropWhile)
  with trim_end_matches_hd [OF ne] show "\<not> p (hd (trim_matches p s))"
    by (simp add: trim_matches_def)
  from ne have "dropWhile p (rev ?t) \<noteq> []" by (simp add: trim_end_matches_def)
  then have "\<not> p (hd (dropWhile p (rev ?t)))" by (rule hd_dropWhile)
  then show "\<not> p (last (trim_matches p s))"
    by (simp add: trim_matches_def trim_end_matches_def last_rev)
qed

lemma trim_matches_fix:
  assumes "s = [] \<or> (\<not> p (hd s) \<and> \<not> p (last s))"
  shows "trim_matches p s = s"
proof (cases "s = []")
  case False
  with assms have "dropWhile p s = s" "dropWhile p (rev s) = rev s"
    by (auto intro!: dropWhile_fix simp: hd_rev)
  then show ?thesis
    by (simp add: trim_matches_def trim_end_matches_def trim_start_matches_def)
qed (simp add: trim_matches_def trim_end_matches_def trim_start_matches_def)

lemma trim_idem [simp]: "trim (trim s) = trim s"
  unfolding trim_def by (rule trim_matches_fix) (use trim_matches_ends in blast)

lemma trim_fix: "\<forall>c\<in>set s. \<not> is_whitespace c \<Longrightarrow> trim s = s"
  unfolding trim_def by (rule trim_matches_fix) (cases "s = []"; simp)

lemma trim_Nil [simp]: "trim [] = []"
  by (simp add: trim_fix)

lemma sublist_trim: "sublist (trim s) s"
proof -
  have "s = takeWhile is_whitespace s @ dropWhile is_whitespace s" by simp
  moreover have "dropWhile is_whitespace s =
      trim s @ rev (takeWhile is_whitespace (rev (dropWhile is_whitespace s)))"
    unfolding trim_def trim_matches_def trim_end_matches_def trim_start_matches_def
    by (metis rev_append rev_rev_ident takeWhile_dropWhile_id)
  ultimately show ?thesis by (metis sublist_def)
qed

lemma sublist_trans: "sublist a b \<Longrightarrow> sublist b c \<Longrightarrow> sublist a c"
  unfolding sublist_def by (metis append_assoc)

lemma sublist_later: "sublist a x \<Longrightarrow> sublist a (p @ x)"
  unfolding sublist_def by (metis append_assoc)

lemma sublist_earlier: "sublist a x \<Longrightarrow> sublist a (x @ q)"
  unfolding sublist_def by (metis append_assoc)

lemma sublist_here: "sublist (a @ b) (a @ b @ q)"
  unfolding sublist_def by (metis append_Nil append_assoc)

lemma length_trim: "length (trim s) \<le> length s"
  using sublist_trim by (rule sublist_length_le)

section \<open>Searching, splitting, joining\<close>

fun contains_str :: "ustr \<Rightarrow> ustr \<Rightarrow> bool" where
  "contains_str pat [] \<longleftrightarrow> pat = []"
| "contains_str pat (c # s) \<longleftrightarrow> prefix pat (c # s) \<or> contains_str pat s"

lemma contains_str_sublist: "contains_str pat s \<longleftrightarrow> sublist pat s"
  by (induction s) (auto simp: sublist_Cons_right)

definition contains_char :: "uchar \<Rightarrow> ustr \<Rightarrow> bool" where
  "contains_char c s \<longleftrightarrow> c \<in> set s"

text \<open>\<open>str::split\<close> with a character class: one piece more than there are separators.\<close>

fun split_chars :: "(uchar \<Rightarrow> bool) \<Rightarrow> ustr \<Rightarrow> ustr list" where
  "split_chars p [] = [[]]"
| "split_chars p (c # s) =
     (if p c then [] # split_chars p s
      else (case split_chars p s of [] \<Rightarrow> [[c]] | w # ws \<Rightarrow> (c # w) # ws))"

lemma split_chars_ne: "split_chars p s \<noteq> []"
  by (induction s) (auto split: list.splits)

lemma split_chars_single: "\<forall>c\<in>set t. \<not> p c \<Longrightarrow> split_chars p t = [t]"
  by (induction t) auto

lemma split_chars_sep: "p c \<Longrightarrow> split_chars p (a @ c # b) = split_chars p a @ split_chars p b"
proof (induction a)
  case (Cons d a)
  then show ?case using split_chars_ne [of p a] by (auto split: list.splits)
qed simp

lemma split_chars_free: "w \<in> set (split_chars p s) \<Longrightarrow> c \<in> set w \<Longrightarrow> \<not> p c \<and> c \<in> set s"
  by (induction s arbitrary: w) (fastforce split: if_splits list.splits)+

lemma length_split_chars: "length (split_chars p s) = Suc (length (filter p s))"
proof (induction s)
  case (Cons c s)
  then show ?case using split_chars_ne [of p s] by (auto split: list.splits)
qed simp

fun join :: "ustr \<Rightarrow> ustr list \<Rightarrow> ustr" where
  "join sep [] = []"
| "join sep [w] = w"
| "join sep (w # v # ws) = w @ sep @ join sep (v # ws)"

text \<open>Decimal printing, as \<open>Display\<close> prints integers.\<close>

fun nat_digits :: "nat \<Rightarrow> ustr" where
  "nat_digits n = (if n < 10 then [48 + n] else nat_digits (n div 10) @ [48 + n mod 10])"

declare nat_digits.simps [simp del]

definition show_nat :: "nat \<Rightarrow> ustr" where
  "show_nat n = nat_digits n"

definition show_int :: "int \<Rightarrow> ustr" where
  "show_int i = (if i < 0 then asc ''-'' @ nat_digits (nat (- i)) else nat_digits (nat i))"

lemma nat_digits_digits: "c \<in> set (nat_digits n) \<Longrightarrow> is_ascii_digit c"
proof (induction n rule: nat_digits.induct)
  case (1 n)
  show ?case
  proof (cases "n < 10")
    case True
    with 1 show ?thesis by (auto simp: nat_digits.simps [of n] char_class)
  next
    case False
    have "n mod 10 < 10" by simp
    with 1 False show ?thesis by (auto simp: nat_digits.simps [of n] char_class)
  qed
qed

fun digits_value :: "nat \<Rightarrow> ustr \<Rightarrow> nat" where
  "digits_value acc [] = acc"
| "digits_value acc (c # s) = digits_value (10 * acc + (c - 48)) s"

lemma digits_value_append: "digits_value acc (s @ t) = digits_value (digits_value acc s) t"
  by (induction s arbitrary: acc) auto

lemma digits_value_show: "digits_value 0 (nat_digits n) = n"
proof (induction n rule: nat_digits.induct)
  case (1 n)
  then show ?case by (cases "n < 10") (simp_all add: nat_digits.simps [of n] digits_value_append)
qed

lemma nat_digits_inj: "nat_digits m = nat_digits n \<Longrightarrow> m = n"
  by (metis digits_value_show)

text \<open>
  \<open>str::parse\<close> for an unsigned type of \<open>bits\<close> bits: an optional leading \<open>+\<close>, at least one
  ASCII digit, digits only, and no overflow.
\<close>

definition parse_unsigned :: "nat \<Rightarrow> ustr \<Rightarrow> nat option" where
  "parse_unsigned bits s =
     (let d = (case s of [] \<Rightarrow> [] | c # r \<Rightarrow> if c = 43 then r else s) in
      if d \<noteq> [] \<and> (\<forall>c\<in>set d. is_ascii_digit c) \<and> digits_value 0 d < 2 ^ bits
      then Some (digits_value 0 d) else None)"

section \<open>Results\<close>

text \<open>A \<open>Result<T, E>\<close> of the source is \<open>'e + 't\<close>: \<open>Inl\<close> is \<open>Err\<close>, \<open>Inr\<close> is \<open>Ok\<close>.\<close>

fun is_ok :: "'e + 'a \<Rightarrow> bool" where
  "is_ok (Inl e) = False"
| "is_ok (Inr a) = True"

fun map_err :: "('e \<Rightarrow> 'f) \<Rightarrow> 'e + 'a \<Rightarrow> 'f + 'a" where
  "map_err f (Inl e) = Inl (f e)"
| "map_err f (Inr a) = Inr a"

fun ok_unit :: "'e + 'a \<Rightarrow> 'e + unit" where
  "ok_unit (Inl e) = Inl e"
| "ok_unit (Inr a) = Inr ()"

fun unwrap_or :: "'a \<Rightarrow> 'e + 'a \<Rightarrow> 'a" where
  "unwrap_or d (Inl e) = d"
| "unwrap_or d (Inr a) = a"

text \<open>
  \<open>match (&a, &b, ...)\<close> over several results: \<open>Ok(())\<close> when every one is, else the first error.
\<close>

fun first_error :: "('e + unit) list \<Rightarrow> 'e + unit" where
  "first_error [] = Inr ()"
| "first_error (Inl e # rs) = Inl e"
| "first_error (Inr u # rs) = first_error rs"

text \<open>\<open>opt.map(f).transpose()\<close>: absent is fine, present is checked.\<close>

definition checked :: "('a \<Rightarrow> 'e + 'b) \<Rightarrow> 'a option \<Rightarrow> 'e + 'b option" where
  "checked f v = (case v of None \<Rightarrow> Inr None | Some a \<Rightarrow> (case f a of Inl e \<Rightarrow> Inl e | Inr b \<Rightarrow> Inr (Some b)))"

lemma is_ok_iff: "is_ok r \<longleftrightarrow> (\<exists>a. r = Inr a)"
  by (cases r) auto

lemma is_ok_map_err [simp]: "is_ok (map_err f r) = is_ok r"
  by (cases r) auto

lemma is_ok_ok_unit [simp]: "is_ok (ok_unit r) = is_ok r"
  by (cases r) auto

lemma map_err_Inr [simp]: "map_err f r = Inr a \<longleftrightarrow> r = Inr a"
  by (cases r) auto

lemma ok_unit_Inr [simp]: "ok_unit r = Inr u \<longleftrightarrow> is_ok r"
  by (cases r) auto

lemma first_error_ok [simp]: "first_error rs = Inr u \<longleftrightarrow> (\<forall>r\<in>set rs. is_ok r)"
  by (induction rs rule: first_error.induct) auto

lemma first_error_mem: "first_error rs = Inl e \<Longrightarrow> Inl e \<in> set rs"
  by (induction rs rule: first_error.induct) auto

lemma is_ok_first_error [simp]: "is_ok (first_error rs) \<longleftrightarrow> (\<forall>r\<in>set rs. is_ok r)"
  by (induction rs rule: first_error.induct) auto

lemma is_ok_checked: "is_ok (checked f v) \<longleftrightarrow> (\<forall>a. v = Some a \<longrightarrow> is_ok (f a))"
  by (auto simp: checked_def split: option.splits sum.splits)

end
