(* ===== verification/Json.thy ===== *)
theory Json
  imports Prelude
begin

text \<open>
  JSON values as \<open>serde_json::Value\<close> has them, with objects as key-sorted association lists (the
  crate is built without \<open>preserve_order\<close>, so \<open>serde_json::Map\<close> is a \<open>BTreeMap\<close>), the accessors
  and map operations the source calls, and the record of the library functions that are not part
  of the repository: every definition that uses one takes the record as an argument.
\<close>

section \<open>Values and maps\<close>

datatype json =
    JNull
  | JBool bool
  | JNum int
  | JFloat ustr
  | JStr ustr
  | JArr "json list"
  | JObj "(ustr \<times> json) list"

type_synonym json_map = "(ustr \<times> json) list"

fun map_insert :: "ustr \<Rightarrow> 'v \<Rightarrow> (ustr \<times> 'v) list \<Rightarrow> (ustr \<times> 'v) list" where
  "map_insert k v [] = [(k, v)]"
| "map_insert k v ((k', v') # m) =
     (if k = k' then (k, v) # m
      else if k < k' then (k, v) # (k', v') # m
      else (k', v') # map_insert k v m)"

definition map_remove :: "ustr \<Rightarrow> (ustr \<times> 'v) list \<Rightarrow> (ustr \<times> 'v) list" where
  "map_remove k m = filter (\<lambda>(k', _). k' \<noteq> k) m"

lemma map_of_insert [simp]: "map_of (map_insert k v m) = (map_of m)(k \<mapsto> v)"
  by (induction k v m rule: map_insert.induct) (auto simp: fun_eq_iff)

lemma map_of_remove [simp]: "map_of (map_remove k m) = (map_of m)(k := None)"
  by (induction m) (auto simp: map_remove_def fun_eq_iff)

lemma keys_map_insert: "fst ` set (map_insert k v m) = insert k (fst ` set m)"
  by (induction k v m rule: map_insert.induct) auto

lemma map_insert_not_Nil [simp]: "map_insert k v m \<noteq> []"
  by (induction k v m rule: map_insert.induct) auto

text \<open>The representation invariant: keys strictly increasing.\<close>

definition map_ok :: "(ustr \<times> 'v) list \<Rightarrow> bool" where
  "map_ok m \<longleftrightarrow> sorted_wrt (<) (map fst m)"

lemma map_ok_Nil [simp]: "map_ok []"
  by (simp add: map_ok_def)

lemma map_ok_insert: "map_ok m \<Longrightarrow> map_ok (map_insert k v m)"
proof (induction k v m rule: map_insert.induct)
  case (2 k v k' v' m)
  show ?case
  proof (cases "k < k' \<or> k = k'")
    case True
    with "2.prems" show ?thesis by (auto simp: map_ok_def)
  next
    case False
    then have "k' < k" by auto
    have "map_ok m" using "2.prems" by (simp add: map_ok_def)
    with False "2.IH" have "map_ok (map_insert k v m)" by auto
    moreover have "\<forall>x\<in>fst ` set (map_insert k v m). k' < x"
      using "2.prems" \<open>k' < k\<close> by (auto simp: keys_map_insert map_ok_def)
    ultimately show ?thesis using False by (auto simp: map_ok_def)
  qed
qed (simp add: map_ok_def)

lemma map_ok_remove: "map_ok m \<Longrightarrow> map_ok (map_remove k m)"
  by (induction m) (auto simp: map_ok_def map_remove_def)

text \<open>A map is determined by its lookups.\<close>

lemma map_ok_ext:
  assumes "map_ok a" and "map_ok b" and "map_of a = map_of b"
  shows "a = b"
proof -
  from assms(1,2) have d: "distinct (map fst a)" "distinct (map fst b)"
      and st: "sorted (map fst a)" "sorted (map fst b)"
    by (auto simp: map_ok_def strict_sorted_iff)
  have ab: "set a = set b"
    using map_of_eq_Some_iff [OF d(1)] map_of_eq_Some_iff [OF d(2)] assms(3) by auto
  from d(1) ab have "inj_on fst (set a \<union> set b)" by (simp add: distinct_map)
  then show ?thesis using st d ab by (intro map_sorted_distinct_set_unique) auto
qed

text \<open>\<open>json!({ k: v, ... })\<close> inserts its pairs in order.\<close>

fun obj_of :: "(ustr \<times> json) list \<Rightarrow> json_map" where
  "obj_of [] = []"
| "obj_of ((k, v) # kvs) = (if k \<in> fst ` set kvs then obj_of kvs else map_insert k v (obj_of kvs))"

definition jobj :: "(ustr \<times> json) list \<Rightarrow> json" where
  "jobj kvs = JObj (obj_of kvs)"

lemma keys_obj_of: "fst ` set (obj_of kvs) = fst ` set kvs"
  by (induction kvs rule: obj_of.induct) (auto simp: keys_map_insert)

lemma map_of_obj_of: "map_of (obj_of kvs) = map_of (rev kvs)"
proof (induction kvs rule: obj_of.induct)
  case (2 k v kvs)
  show ?case
  proof (cases "k \<in> fst ` set kvs")
    case True
    then obtain w where "map_of (rev kvs) k = Some w"
      by (metis domD dom_map_of_conv_image_fst set_rev)
    with True 2 show ?thesis by (auto simp: fun_eq_iff map_add_def split: option.splits)
  next
    case False
    then have "map_of (rev kvs) k = None" by (auto simp: map_of_eq_None_iff)
    with False 2 show ?thesis by (auto simp: fun_eq_iff map_add_def split: option.splits)
  qed
qed simp

lemma map_ok_obj_of: "map_ok (obj_of kvs)"
  by (induction kvs rule: obj_of.induct) (auto simp: map_ok_insert)

text \<open>\<open>Value::get\<close> by key, and the \<open>as_*\<close> accessors.\<close>

fun jget :: "ustr \<Rightarrow> json \<Rightarrow> json option" where
  "jget k (JObj m) = map_of m k"
| "jget k _ = None"

fun as_str :: "json \<Rightarrow> ustr option" where
  "as_str (JStr s) = Some s"
| "as_str _ = None"

fun as_bool :: "json \<Rightarrow> bool option" where
  "as_bool (JBool b) = Some b"
| "as_bool _ = None"

fun as_u64 :: "json \<Rightarrow> nat option" where
  "as_u64 (JNum i) = (if 0 \<le> i \<and> i < 2 ^ 64 then Some (nat i) else None)"
| "as_u64 _ = None"

fun as_array :: "json \<Rightarrow> json list option" where
  "as_array (JArr xs) = Some xs"
| "as_array _ = None"

definition get_str :: "ustr \<Rightarrow> json \<Rightarrow> ustr option" where
  "get_str k v = Option.bind (jget k v) as_str"

lemma jget_jobj: "jget k (jobj kvs) = map_of (rev kvs) k"
  by (simp add: jobj_def map_of_obj_of)

definition jopt_str :: "ustr option \<Rightarrow> json" where
  "jopt_str v = (case v of None \<Rightarrow> JNull | Some s \<Rightarrow> JStr s)"

section \<open>Functions of libraries outside the repository\<close>

text \<open>
  \<open>percent_encode set s\<close> is \<open>percent_encoding::utf8_percent_encode\<close>; \<open>nd_digit\<close> the Unicode class
  \<open>\d\<close> of the \<open>regex\<close> crate; \<open>url_parse\<close> the \<open>url\<close> crate (an error text, or scheme and host);
  \<open>rfc3339\<close>, \<open>utc_format\<close> and \<open>to_rfc3339\<close> the \<open>chrono\<close> functions on instants in nanoseconds since the epoch;
  \<open>json_parse\<close> and \<open>json_text\<close> the \<open>serde_json\<close> reader and printer.
\<close>

record libs =
  percent_encode :: "(nat \<Rightarrow> bool) \<Rightarrow> ustr \<Rightarrow> ustr"
  nd_digit :: "uchar \<Rightarrow> bool"
  url_parse :: "ustr \<Rightarrow> ustr + (ustr \<times> ustr option)"
  rfc3339 :: "ustr \<Rightarrow> ustr + int"
  utc_format :: "int \<Rightarrow> ustr"
  to_rfc3339 :: "int \<Rightarrow> ustr"
  json_parse :: "nat list \<Rightarrow> ustr + json"
  json_text :: "json \<Rightarrow> ustr"

text \<open>
  The documented behaviour of \<open>utf8_percent_encode\<close>: each UTF-8 byte that is outside ASCII or in
  the set is written \<open>%XX\<close> with upper-case hexadecimal digits, the others stay.
\<close>

definition hex_upper :: "nat \<Rightarrow> uchar" where
  "hex_upper d = (if d < 10 then 48 + d else 55 + d)"

definition percent_byte :: "nat \<Rightarrow> ustr" where
  "percent_byte b = [37, hex_upper (b div 16), hex_upper (b mod 16)]"

definition percent_encode_doc :: "(nat \<Rightarrow> bool) \<Rightarrow> ustr \<Rightarrow> ustr" where
  "percent_encode_doc encset s =
     concat (map (\<lambda>b. if 128 \<le> b \<or> encset b then percent_byte b else [b]) (utf8 s))"

definition percent_documented :: "'x libs_scheme \<Rightarrow> bool" where
  "percent_documented l \<longleftrightarrow> percent_encode l = percent_encode_doc"


text \<open>Decoding gets the UTF-8 bytes back, so the encoding loses nothing.\<close>

definition hex_value :: "uchar \<Rightarrow> nat" where
  "hex_value c = (if is_ascii_digit c then c - 48 else c - 55)"

fun percent_decode :: "ustr \<Rightarrow> nat list" where
  "percent_decode (c # a # b # s) =
     (if c = 37 then (16 * hex_value a + hex_value b) # percent_decode s
      else c # percent_decode (a # b # s))"
| "percent_decode s = s"

lemma hex_value_upper: "d < 16 \<Longrightarrow> hex_value (hex_upper d) = d"
  by (auto simp: hex_value_def hex_upper_def char_class)

lemma percent_decode_byte: "b < 256 \<Longrightarrow> percent_decode (percent_byte b @ s) = b # percent_decode s"
  by (simp add: percent_byte_def hex_value_upper)

lemma percent_decode_other: "c \<noteq> 37 \<Longrightarrow> percent_decode (c # s) = c # percent_decode s"
  by (cases s rule: percent_decode.cases) auto

lemma percent_decode_bytes:
  assumes "\<forall>b\<in>set bs. b < 256" and "enc 37"
  shows "percent_decode (concat (map (\<lambda>b. if 128 \<le> b \<or> enc b then percent_byte b else [b]) bs)) = bs"
  using assms
proof (induction bs)
  case (Cons b bs)
  show ?case
  proof (cases "128 \<le> b \<or> enc b")
    case True
    with Cons show ?thesis by (simp add: percent_decode_byte)
  next
    case False
    with Cons.prems have "b \<noteq> 37" by auto
    with False Cons show ?thesis by (simp add: percent_decode_other)
  qed
qed simp

lemma percent_decode_doc:
  assumes "\<forall>c\<in>set s. is_scalar c" and "enc 37"
  shows "percent_decode (percent_encode_doc enc s) = utf8 s"
  unfolding percent_encode_doc_def
  by (rule percent_decode_bytes) (use assms in \<open>auto simp: utf8_def dest: utf8_enc_byte\<close>)

lemma hex_upper_alnum: "d < 16 \<Longrightarrow> is_ascii_alphanumeric (hex_upper d)"
  by (auto simp: hex_upper_def char_class)

lemma percent_doc_chars:
  assumes "\<forall>c\<in>set s. is_scalar c" and "c \<in> set (percent_encode_doc enc s)"
  shows "c = 37 \<or> is_ascii_alphanumeric c \<or> (c < 128 \<and> \<not> enc c)"
proof -
  have "\<forall>b\<in>set (utf8 s). b < 256" using assms(1) by (auto simp: utf8_def dest: utf8_enc_byte)
  then show ?thesis using assms(2)
    by (auto simp: percent_encode_doc_def percent_byte_def hex_upper_alnum split: if_splits)
qed

lemma percent_doc_inj:
  assumes "\<forall>c\<in>set s. is_scalar c" and "\<forall>c\<in>set t. is_scalar c" and "enc 37"
    and "percent_encode_doc enc s = percent_encode_doc enc t"
  shows "s = t"
proof (rule utf8_inj [OF assms(1,2)])
  have "utf8 s = percent_decode (percent_encode_doc enc s)"
    by (rule percent_decode_doc [symmetric]) (rule assms)+
  also have "\<dots> = percent_decode (percent_encode_doc enc t)" by (simp only: assms(4))
  also have "\<dots> = utf8 t"
    by (rule percent_decode_doc) (rule assms)+
  finally show "utf8 s = utf8 t" .
qed

lemma percent_doc_fixed:
  assumes "\<forall>c\<in>set s. c < 128 \<and> \<not> enc c"
  shows "percent_encode_doc enc s = s"
proof -
  have "utf8 s = s" using assms by (intro utf8_ascii) auto
  moreover have "concat (map (\<lambda>b. if 128 \<le> b \<or> enc b then percent_byte b else [b]) s) = s"
    using assms by (induction s) auto
  ultimately show ?thesis by (simp add: percent_encode_doc_def)
qed


end
