(* ===== verification/Errors.thy ===== *)
theory Errors
  imports Json
begin

text \<open>
  \<open>src/error.rs\<close> and the identity and permission enumerations of \<open>src/auth.rs\<close> and
  \<open>src/auth/session.rs\<close> it prints: tool results, protocol errors, the builders of every structured
  error, and the mapping of an upstream HTTP status to a tool error for each authentication kind.
\<close>

section \<open>Tool results and protocol errors\<close>

text \<open>
  \<open>CallToolResult\<close> is built only by \<open>structured\<close> and \<open>structured_error\<close>: structured content and
  the error flag. \<open>ErrorData\<close> is built by \<open>invalid_params\<close>, \<open>internal_error\<close> and
  \<open>resource_not_found\<close>.
\<close>

datatype call_tool_result = Structured json | StructuredError json

fun structured_content :: "call_tool_result \<Rightarrow> json" where
  "structured_content (Structured v) = v"
| "structured_content (StructuredError v) = v"

fun is_error :: "call_tool_result \<Rightarrow> bool" where
  "is_error (Structured v) = False"
| "is_error (StructuredError v) = True"

datatype mcp_error =
    InvalidParams (message: ustr)
  | InternalError (message: ustr)
  | ResourceNotFound (message: ustr)

definition sq :: "ustr \<Rightarrow> ustr" where
  "sq s = 39 # s @ [39]"

definition tool_error :: "ustr \<Rightarrow> call_tool_result" where
  "tool_error m = StructuredError (jobj [(asc ''error'', JStr m)])"

definition internal_error :: "ustr \<Rightarrow> mcp_error" where
  "internal_error m = InternalError m"

definition invalid_params :: "ustr \<Rightarrow> mcp_error" where
  "invalid_params m = InvalidParams m"

lemma message_invalid_params [simp]: "message (invalid_params m) = m"
  by (simp add: invalid_params_def)

section \<open>Identities, audiences and permission categories\<close>

datatype auth_kind = App | User

datatype identity_snapshot =
    AppIdentity (client_id: ustr)
  | UserIdentity (account: ustr) (tenant_id: ustr)

fun display_prompt :: "identity_snapshot \<Rightarrow> ustr" where
  "display_prompt (AppIdentity c) = asc ''application '' @ c @ asc '' (app)''"
| "display_prompt (UserIdentity a t) = a @ asc '' (user)''"

fun display_summary :: "identity_snapshot \<Rightarrow> ustr" where
  "display_summary (AppIdentity c) = asc ''app:'' @ c"
| "display_summary (UserIdentity a t) = asc ''user:'' @ a"

datatype audience = Endpoint | Graph

fun resource_url :: "audience \<Rightarrow> ustr" where
  "resource_url Endpoint = asc ''https://api.securitycenter.microsoft.com''"
| "resource_url Graph = asc ''https://graph.microsoft.com''"

fun audience_str :: "audience \<Rightarrow> ustr" where
  "audience_str Endpoint = asc ''endpoint''"
| "audience_str Graph = asc ''graph''"

datatype reauth_reason =
  SessionExpired | MfaRequired | InteractionRequired | SessionRevoked | ConditionalAccess

fun reauth_str :: "reauth_reason \<Rightarrow> ustr" where
  "reauth_str SessionExpired = asc ''session_expired''"
| "reauth_str MfaRequired = asc ''mfa_required''"
| "reauth_str InteractionRequired = asc ''interaction_required''"
| "reauth_str SessionRevoked = asc ''session_revoked''"
| "reauth_str ConditionalAccess = asc ''conditional_access''"

datatype permission_category =
    ReadEndpoint | ReadGraph | ReadWriteNamed | PLiveResponse | PDeviceResponse | POffboarding
  | PIndicators | PTriage

fun wire_name :: "permission_category \<Rightarrow> ustr" where
  "wire_name ReadEndpoint = asc ''read_endpoint''"
| "wire_name ReadGraph = asc ''read_graph''"
| "wire_name ReadWriteNamed = asc ''read_write_named''"
| "wire_name PLiveResponse = asc ''live_response''"
| "wire_name PDeviceResponse = asc ''device_response''"
| "wire_name POffboarding = asc ''offboarding''"
| "wire_name PIndicators = asc ''indicators''"
| "wire_name PTriage = asc ''triage''"

fun category_name :: "permission_category \<Rightarrow> ustr" where
  "category_name ReadEndpoint = asc ''Read (endpoint)''"
| "category_name ReadGraph = asc ''Read (Graph)''"
| "category_name ReadWriteNamed = asc ''Reads needing write-named scopes''"
| "category_name PLiveResponse = asc ''Live Response''"
| "category_name PDeviceResponse = asc ''Device response''"
| "category_name POffboarding = asc ''Offboarding''"
| "category_name PIndicators = asc ''Indicators''"
| "category_name PTriage = asc ''Triage''"

fun category_audience :: "permission_category \<Rightarrow> ustr" where
  "category_audience ReadGraph = asc ''graph''"
| "category_audience PTriage = asc ''graph''"
| "category_audience _ = asc ''endpoint''"

fun delegated_scope :: "permission_category \<Rightarrow> ustr" where
  "delegated_scope ReadEndpoint = asc ''the *.Read equivalents, plus User.Read.All''"
| "delegated_scope ReadGraph = asc ''ThreatHunting.Read.All, ThreatIntelligence.Read.All, SecurityAlert.Read.All, SecurityIncident.Read.All''"
| "delegated_scope ReadWriteNamed = asc ''Machine.ReadWrite, Alert.ReadWrite, Ti.ReadWrite, Library.Manage''"
| "delegated_scope PLiveResponse = asc ''Machine.LiveResponse, Machine.CollectForensics, Machine.StopAndQuarantine, Library.Manage''"
| "delegated_scope PDeviceResponse = asc ''Machine.Isolate, Machine.RestrictExecution, Machine.Scan, Machine.ReadWrite, Alert.ReadWrite''"
| "delegated_scope POffboarding = asc ''Machine.Offboard''"
| "delegated_scope PIndicators = asc ''Ti.ReadWrite''"
| "delegated_scope PTriage = asc ''Alert.ReadWrite, SecurityAlert.ReadWrite.All, SecurityIncident.ReadWrite.All''"

fun defender_role :: "permission_category \<Rightarrow> ustr" where
  "defender_role ReadEndpoint = asc ''View data''"
| "defender_role ReadGraph = asc ''Entra Security Reader, or a Unified RBAC role with equivalent read''"
| "defender_role ReadWriteNamed = asc ''View data''"
| "defender_role PLiveResponse = asc ''Live response capabilities; Alerts investigation; Active remediation actions''"
| "defender_role PDeviceResponse = asc ''Active remediation actions (isolate, restrict, scan, investigate); Manage security settings (tags, device value)''"
| "defender_role POffboarding = asc ''Per Permission options''"
| "defender_role PIndicators = asc ''Active remediation actions (manage indicators)''"
| "defender_role PTriage = asc ''Alerts investigation; Entra Security Operator''"

definition is_app_only :: "permission_category \<Rightarrow> bool" where
  "is_app_only c = False"

section \<open>Error builders\<close>

definition app_only_note :: ustr where
  "app_only_note = asc ''Microsoft documents only an application permission for this operation.''"

definition app_only_suffix :: "permission_category \<Rightarrow> ustr" where
  "app_only_suffix c = (if is_app_only c then asc '' '' @ app_only_note else [])"

definition status_error :: "ustr \<Rightarrow> nat \<Rightarrow> call_tool_result" where
  "status_error m s =
     StructuredError (jobj [(asc ''error'', JStr m), (asc ''httpStatus'', JNum (int s))])"

definition bad_request_msg :: "ustr \<Rightarrow> ustr" where
  "bad_request_msg ctx = asc ''Bad request: '' @ ctx @ asc ''. Check input parameters.''"

definition not_found_msg :: "ustr \<Rightarrow> ustr" where
  "not_found_msg ctx = asc ''Resource not found: '' @ ctx @ asc ''. Check that the identifier is correct.''"

definition rate_limit_msg :: "ustr \<Rightarrow> ustr" where
  "rate_limit_msg ctx = asc ''Rate limit exceeded for: '' @ ctx @ asc ''. Wait before retrying the request.''"

definition timeout_msg :: ustr where
  "timeout_msg = asc ''Request timed out. The query may be too complex or the service is busy. Try simplifying the query or narrowing the timespan.''"

definition failed_msg :: "nat \<Rightarrow> ustr \<Rightarrow> ustr" where
  "failed_msg s ctx = asc ''API request failed with HTTP '' @ show_nat s @ asc '' for: '' @ ctx @ asc ''.''"

definition http_error_app :: "nat \<Rightarrow> ustr \<Rightarrow> call_tool_result" where
  "http_error_app s ctx = status_error
     (if s = 400 then bad_request_msg ctx
      else if s = 401 then asc ''Authentication failed. Check AZURE_TENANT_ID, AZURE_CLIENT_ID, and AZURE_CLIENT_SECRET.''
      else if s = 403 then asc ''Permission denied for: '' @ ctx @ asc ''. Ensure the application registration has the required permissions and the tenant has appropriate licenses.''
      else if s = 404 then not_found_msg ctx
      else if s = 429 then rate_limit_msg ctx
      else if s = 504 then timeout_msg
      else failed_msg s ctx) s"

definition http_error_user :: "nat \<Rightarrow> ustr \<Rightarrow> permission_category \<Rightarrow> call_tool_result" where
  "http_error_user s ctx c =
     (if s = 401 then
        status_error (asc ''Authentication rejected by '' @ category_audience c
          @ asc ''; re-authentication may be required '' @ [0x2014]
          @ asc '' restart the server to sign in again.'' @ app_only_suffix c) 401
      else if s = 403 then
        StructuredError (jobj
          [(asc ''error'', JStr (asc ''Permission denied for '' @ ctx
              @ asc ''. The signed-in user's own rights apply (Defender role, device-group scope, consented scopes), not the server's. Required: ''
              @ category_name c @ asc '' '' @ [0x2014] @ asc '' delegated scope '' @ delegated_scope c
              @ asc ''; Defender role permission '' @ sq (defender_role c) @ asc ''.'' @ app_only_suffix c)),
           (asc ''httpStatus'', JNum 403),
           (asc ''permission_category'', JStr (wire_name c))])
      else if s = 400 then status_error (bad_request_msg ctx) 400
      else if s = 404 then status_error (not_found_msg ctx) 404
      else if s = 429 then status_error (rate_limit_msg ctx) 429
      else if s = 504 then status_error timeout_msg 504
      else status_error (failed_msg s ctx) s)"

fun http_error :: "nat \<Rightarrow> ustr \<Rightarrow> auth_kind \<Rightarrow> permission_category \<Rightarrow> call_tool_result" where
  "http_error s ctx App c = http_error_app s ctx"
| "http_error s ctx User c = http_error_user s ctx c"

text \<open>A transport error of the HTTP client: a timeout, a failed connection, or another with its text.\<close>

datatype net_error = NetTimeout | NetConnect | NetOther ustr

fun network_error :: "net_error \<Rightarrow> ustr \<Rightarrow> call_tool_result" where
  "network_error NetTimeout ctx =
     tool_error (asc ''Request timed out for: '' @ ctx @ asc ''. Try narrowing the query scope.'')"
| "network_error NetConnect ctx =
     tool_error (asc ''Connection failed for: '' @ ctx @ asc ''. Check network connectivity and service reachability.'')"
| "network_error (NetOther e) ctx =
     tool_error (asc ''Network error for '' @ ctx @ asc '': '' @ e)"

definition code_error :: "ustr \<Rightarrow> string \<Rightarrow> call_tool_result" where
  "code_error m code =
     StructuredError (jobj [(asc ''error'', JStr m), (asc ''code'', JStr (asc code))])"

definition read_only_violation :: "ustr \<Rightarrow> call_tool_result" where
  "read_only_violation t = code_error
     (asc ''Server is operating in read-only mode: mutating operation '' @ sq t @ asc '' is disallowed'')
     ''read_only_violation''"

definition category_disabled :: "ustr \<Rightarrow> call_tool_result" where
  "category_disabled flag =
     code_error (asc ''Category is disabled. Enable it with '' @ flag) ''category_disabled''"

definition confirmation_unavailable :: call_tool_result where
  "confirmation_unavailable = code_error
     (asc ''The client cannot show confirmation prompts (it did not declare the elicitation capability with form mode). To run destructive tools without confirmation in trusted automation, start the server with --disable-human-confirmation.'')
     ''confirmation_unavailable''"

definition not_confirmed :: call_tool_result where
  "not_confirmed = code_error (asc ''Action not confirmed by user'') ''not_confirmed''"

definition audit_unavailable :: call_tool_result where
  "audit_unavailable =
     code_error (asc ''Audit log is not available; mutating action was rejected'') ''audit_unavailable''"

definition reauthentication_required :: "ustr \<Rightarrow> call_tool_result" where
  "reauthentication_required reason = StructuredError (jobj
     [(asc ''error'', JStr (asc ''Re-authentication required ('' @ reason @ asc ''). Restart the server to sign in again.'')),
      (asc ''code'', JStr (asc ''reauthentication_required'')),
      (asc ''reason'', JStr reason)])"

definition consent_missing :: "ustr \<Rightarrow> ustr list \<Rightarrow> call_tool_result" where
  "consent_missing aud scopes = StructuredError (jobj
     [(asc ''error'', JStr (asc ''The signed-in user has not consented to '' @ aud @ asc '' scopes (''
         @ join (asc '' '') scopes
         @ asc ''); an administrator must grant consent, then restart the server.'')),
      (asc ''code'', JStr (asc ''consent_missing'')),
      (asc ''audience'', JStr aud)])"

definition scope_not_requested :: "ustr \<Rightarrow> ustr \<Rightarrow> call_tool_result" where
  "scope_not_requested action scope = code_error
     (action @ asc '' needs '' @ scope @ asc '', which is write-named and is not requested under --read-only'')
     ''scope_not_requested''"

definition unknown_action_error :: "ustr \<Rightarrow> ustr \<Rightarrow> ustr list \<Rightarrow> mcp_error" where
  "unknown_action_error tool action valid = invalid_params
     (asc ''Unknown action '' @ sq action @ asc '' for tool '' @ sq tool @ asc ''. Valid actions are: ''
      @ join (asc '', '') valid)"

definition package_not_ready :: "ustr \<Rightarrow> call_tool_result" where
  "package_not_ready status = StructuredError (jobj
     [(asc ''error'', JStr (asc ''Investigation package is not ready yet (current status: '' @ status
         @ asc ''). Please retry when status is Succeeded.'')),
      (asc ''httpStatus'', JNum 404),
      (asc ''status'', JStr status)])"

definition staging_filesystem_error :: "ustr \<Rightarrow> call_tool_result" where
  "staging_filesystem_error e =
     code_error (asc ''Filesystem error in artifact staging directory: '' @ e) ''filesystem_error''"

text \<open>\<open>http_status_of\<close> of \<open>src/server.rs\<close> reads back what these builders wrote.\<close>

definition http_status_of :: "call_tool_result \<Rightarrow> nat option" where
  "http_status_of r = Option.bind (jget (asc ''httpStatus'') (structured_content r)) as_u64"

lemma http_status_status_error [simp]: "s < 2 ^ 64 \<Longrightarrow> http_status_of (status_error m s) = Some s"
  by (simp add: http_status_of_def status_error_def jget_jobj)

lemma http_status_tool_error [simp]: "http_status_of (tool_error m) = None"
  by (simp add: http_status_of_def tool_error_def jget_jobj)

lemma http_status_code_error [simp]: "http_status_of (code_error m c) = None"
  by (simp add: http_status_of_def code_error_def jget_jobj)

lemma is_error_builders [simp]:
  "is_error (tool_error m)" "is_error (status_error m s)" "is_error (code_error m c)"
  "is_error (reauthentication_required r)" "is_error (consent_missing a ss)"
  by (simp_all add: tool_error_def status_error_def code_error_def reauthentication_required_def
      consent_missing_def)

lemma is_error_network_error [simp]: "is_error (network_error e ctx)"
  by (cases e) auto

lemma is_error_http_error [simp]: "is_error (http_error s ctx k c)"
  by (cases k) (auto simp: http_error_app_def http_error_user_def)

lemma http_status_http_error: "s < 65536 \<Longrightarrow> http_status_of (http_error s ctx k c) = Some s"
  by (cases k)
     (auto simp: http_error_app_def http_error_user_def http_status_of_def jget_jobj status_error_def)

lemma http_status_network_error: "http_status_of (network_error e ctx) = None"
  by (cases e) auto

end
