(* ===== verification/Ip.thy ===== *)
theory Ip
  imports Prelude
begin

text \<open>
  \<open>str::parse::<IpAddr>()\<close> and \<open>str::parse::<SocketAddr>()\<close> of the Rust standard library, which
  the validators, the loopback test and the indicator classifier rest on: an atomic
  backtracking reader over the text, and the whole text must be used up.
\<close>

section \<open>Addresses\<close>

datatype ip_addr =
    V4 nat nat nat nat
  | V6 "nat list"

fun is_loopback :: "ip_addr \<Rightarrow> bool" where
  "is_loopback (V4 a b c d) \<longleftrightarrow> a = 127"
| "is_loopback (V6 gs) \<longleftrightarrow> gs = [0, 0, 0, 0, 0, 0, 0, 1]"

section \<open>The reader\<close>

definition to_digit :: "nat \<Rightarrow> uchar \<Rightarrow> nat option" where
  "to_digit radix c =
     (let d = (if 48 \<le> c \<and> c \<le> 57 then Some (c - 48)
               else if 97 \<le> c \<and> c \<le> 122 then Some (c - 87)
               else if 65 \<le> c \<and> c \<le> 90 then Some (c - 55) else None)
      in case d of Some v \<Rightarrow> if v < radix then Some v else None | None \<Rightarrow> None)"

fun radix_value :: "nat \<Rightarrow> nat \<Rightarrow> ustr \<Rightarrow> nat" where
  "radix_value radix acc [] = acc"
| "radix_value radix acc (c # s) =
     radix_value radix (radix * acc + (case to_digit radix c of Some v \<Rightarrow> v | None \<Rightarrow> 0)) s"

definition read_number :: "nat \<Rightarrow> nat option \<Rightarrow> bool \<Rightarrow> nat \<Rightarrow> ustr \<Rightarrow> (nat \<times> ustr) option" where
  "read_number radix max_digits allow_zero_prefix limit s =
     (let ds = takeWhile (\<lambda>c. to_digit radix c \<noteq> None) s;
          r = dropWhile (\<lambda>c. to_digit radix c \<noteq> None) s;
          v = radix_value radix 0 ds
      in if ds = [] then None
         else if (case max_digits of Some m \<Rightarrow> m < length ds | None \<Rightarrow> False) then None
         else if \<not> allow_zero_prefix \<and> hd ds = 48 \<and> 1 < length ds then None
         else if limit \<le> v then None
         else Some (v, r))"

fun read_given :: "uchar \<Rightarrow> ustr \<Rightarrow> ustr option" where
  "read_given c [] = None"
| "read_given c (x # s) = (if x = c then Some s else None)"

definition read_separated :: "uchar \<Rightarrow> nat \<Rightarrow> (ustr \<Rightarrow> ('a \<times> ustr) option) \<Rightarrow> ustr \<Rightarrow> ('a \<times> ustr) option" where
  "read_separated sep i inner s = (if 0 < i then Option.bind (read_given sep s) inner else inner s)"

definition read_octet :: "nat \<Rightarrow> ustr \<Rightarrow> (nat \<times> ustr) option" where
  "read_octet i s = read_separated 46 i (read_number 10 (Some 3) False 256) s"

definition read_ipv4 :: "ustr \<Rightarrow> ((nat \<times> nat \<times> nat \<times> nat) \<times> ustr) option" where
  "read_ipv4 s =
     (case read_octet 0 s of None \<Rightarrow> None | Some (a, s1) \<Rightarrow>
      (case read_octet 1 s1 of None \<Rightarrow> None | Some (b, s2) \<Rightarrow>
       (case read_octet 2 s2 of None \<Rightarrow> None | Some (c, s3) \<Rightarrow>
        (case read_octet 3 s3 of None \<Rightarrow> None | Some (d, s4) \<Rightarrow> Some ((a, b, c, d), s4)))))"

function read_groups :: "nat \<Rightarrow> nat \<Rightarrow> ustr \<Rightarrow> nat list \<times> bool \<times> ustr" where
  "read_groups limit i s =
     (if limit \<le> i then ([], False, s)
      else (case (if i < limit - 1 then read_separated 58 i read_ipv4 s else None) of
          Some ((a, b, c, d), r) \<Rightarrow> ([a * 256 + b, c * 256 + d], True, r)
        | None \<Rightarrow>
            (case read_separated 58 i (read_number 16 (Some 4) True 65536) s of
              None \<Rightarrow> ([], False, s)
            | Some (g, r) \<Rightarrow>
                (let (gs, v4, r') = read_groups limit (Suc i) r in (g # gs, v4, r')))))"
  by pat_completeness auto
termination
  by (relation "measure (\<lambda>(limit, i, s). limit - i)") auto

declare read_groups.simps [simp del]

definition read_ipv6 :: "ustr \<Rightarrow> (nat list \<times> ustr) option" where
  "read_ipv6 s =
     (let (head, head_v4, s1) = read_groups 8 0 s in
      if length head = 8 then Some (head, s1)
      else if head_v4 then None
      else (case Option.bind (read_given 58 s1) (read_given 58) of
          None \<Rightarrow> None
        | Some s2 \<Rightarrow>
            (let (tail, _, s3) = read_groups (8 - (length head + 1)) 0 s2
             in Some (head @ replicate (8 - length head - length tail) 0 @ tail, s3))))"

definition read_ip :: "ustr \<Rightarrow> (ip_addr \<times> ustr) option" where
  "read_ip s =
     (case read_ipv4 s of
       Some ((a, b, c, d), r) \<Rightarrow> Some (V4 a b c d, r)
     | None \<Rightarrow> (case read_ipv6 s of Some (gs, r) \<Rightarrow> Some (V6 gs, r) | None \<Rightarrow> None))"

definition parse_ip :: "ustr \<Rightarrow> ip_addr option" where
  "parse_ip s = (case read_ip s of Some (a, []) \<Rightarrow> Some a | _ \<Rightarrow> None)"

text \<open>\<open>SocketAddr\<close>: \<open>v4:port\<close>, or \<open>[v6]:port\<close> with an optional \<open>%scope\<close>.\<close>

definition read_port :: "ustr \<Rightarrow> (nat \<times> ustr) option" where
  "read_port s = Option.bind (read_given 58 s) (read_number 10 None True 65536)"

definition read_scope :: "ustr \<Rightarrow> ustr" where
  "read_scope s =
     (case Option.bind (read_given 37 s) (read_number 10 None True (2 ^ 32)) of
       Some (_, r) \<Rightarrow> r | None \<Rightarrow> s)"

definition read_socket_v4 :: "ustr \<Rightarrow> (ip_addr \<times> ustr) option" where
  "read_socket_v4 s =
     (case read_ipv4 s of None \<Rightarrow> None
      | Some ((a, b, c, d), r) \<Rightarrow> map_option (\<lambda>(_, r'). (V4 a b c d, r')) (read_port r))"

definition read_socket_v6 :: "ustr \<Rightarrow> (ip_addr \<times> ustr) option" where
  "read_socket_v6 s =
     (case Option.bind (read_given 91 s) read_ipv6 of None \<Rightarrow> None
      | Some (gs, r) \<Rightarrow>
          (case read_given 93 (read_scope r) of None \<Rightarrow> None
           | Some r' \<Rightarrow> map_option (\<lambda>(_, r''). (V6 gs, r'')) (read_port r')))"

definition parse_socket :: "ustr \<Rightarrow> ip_addr option" where
  "parse_socket s =
     (case (case read_socket_v4 s of Some x \<Rightarrow> Some x | None \<Rightarrow> read_socket_v6 s) of
       Some (a, []) \<Rightarrow> Some a | _ \<Rightarrow> None)"

section \<open>What an accepted address looks like\<close>

definition ip_char :: "uchar \<Rightarrow> bool" where
  "ip_char c \<longleftrightarrow> is_ascii_hexdigit c \<or> c = 46 \<or> c = 58"

definition reads :: "(uchar \<Rightarrow> bool) \<Rightarrow> ustr \<Rightarrow> ustr \<Rightarrow> bool" where
  "reads p s r \<longleftrightarrow> (\<exists>u. s = u @ r \<and> (\<forall>c\<in>set u. p c))"

lemma reads_refl [simp]: "reads p s s"
  by (simp add: reads_def)

lemma reads_trans: "reads p s r \<Longrightarrow> reads p r t \<Longrightarrow> reads p s t"
  unfolding reads_def by (metis Un_iff append_assoc set_append)

lemma reads_all: "reads p s [] \<Longrightarrow> \<forall>c\<in>set s. p c"
  by (auto simp: reads_def)

lemma to_digit_hex: "to_digit radix c = Some v \<Longrightarrow> radix \<le> 16 \<Longrightarrow> is_ascii_hexdigit c"
  by (auto simp: to_digit_def Let_def char_class split: if_splits)

lemma read_number_reads:
  assumes "read_number radix m z l s = Some (v, r)" and "radix \<le> 16"
  shows "reads ip_char s r"
proof -
  let ?p = "\<lambda>c. to_digit radix c \<noteq> None"
  from assms have "r = dropWhile ?p s"
    by (auto simp: read_number_def Let_def split: if_splits)
  then have "s = takeWhile ?p s @ r" by simp
  moreover have "\<forall>c\<in>set (takeWhile ?p s). ip_char c"
    using assms(2) by (auto dest!: set_takeWhileD to_digit_hex simp: ip_char_def)
  ultimately show ?thesis unfolding reads_def by blast
qed

lemma read_given_reads: "read_given c s = Some r \<Longrightarrow> p c \<Longrightarrow> reads p s r"
  by (cases s) (auto simp: reads_def split: if_splits intro: exI [of _ "[c]"])

lemma read_separated_reads:
  assumes "read_separated sep i inner s = Some (v, r)" and "p sep"
    and "\<And>t. inner t = Some (v, r) \<Longrightarrow> reads p t r"
  shows "reads p s r"
  using assms by (auto simp: read_separated_def split: if_splits bind_splits
      intro: reads_trans read_given_reads)

lemma read_octet_reads: "read_octet i s = Some (v, r) \<Longrightarrow> reads ip_char s r"
  unfolding read_octet_def
  by (erule read_separated_reads) (auto simp: ip_char_def intro: read_number_reads)

lemma read_ipv4_reads: "read_ipv4 s = Some (q, r) \<Longrightarrow> reads ip_char s r"
  unfolding read_ipv4_def
  by (auto split: option.splits prod.splits dest!: read_octet_reads intro: reads_trans)

lemma read_groups_reads: "read_groups limit i s = (gs, v4, r) \<Longrightarrow> reads ip_char s r"
proof (induction limit i s arbitrary: gs v4 r rule: read_groups.induct)
  case (1 limit i s)
  have four: "reads ip_char s t" if "read_separated 58 i read_ipv4 s = Some (q, t)" for q t
    using that by (rule read_separated_reads) (auto simp: ip_char_def intro: read_ipv4_reads)
  have num: "reads ip_char s t" if "read_separated 58 i (read_number 16 (Some 4) True 65536) s = Some (q, t)" for q t
    using that by (rule read_separated_reads) (auto simp: ip_char_def intro: read_number_reads)
  let ?four = "if i < limit - 1 then read_separated 58 i read_ipv4 s else None"
  let ?num = "read_separated 58 i (read_number 16 (Some 4) True 65536) s"
  show ?case
  proof (cases "limit \<le> i")
    case True
    with "1.prems" show ?thesis by (simp add: read_groups.simps [of limit i s])
  next
    case small: False
    show ?thesis
    proof (cases ?four)
      case (Some x)
      with small "1.prems" obtain q where "?four = Some (q, r)"
        by (cases x) (auto simp: read_groups.simps [of limit i s] split: prod.splits)
      then show ?thesis by (auto split: if_splits intro: four)
    next
      case no_v4: None
      show ?thesis
      proof (cases ?num)
        case None
        with small no_v4 "1.prems" show ?thesis by (simp add: read_groups.simps [of limit i s])
      next
        case (Some x)
        obtain g t where x: "x = (g, t)" by (cases x)
        obtain gs' w' r' where rest: "read_groups limit (Suc i) t = (gs', w', r')"
          by (cases "read_groups limit (Suc i) t") auto
        with small no_v4 Some x "1.prems" have "r' = r"
          by (simp add: read_groups.simps [of limit i s])
        with "1.IH" [OF small no_v4 Some x [symmetric] rest] have "reads ip_char t r" by simp
        moreover from Some x have "reads ip_char s t" by (simp add: num)
        ultimately show ?thesis by (metis reads_trans)
      qed
    qed
  qed
qed

lemma read_ipv6_reads:
  assumes "read_ipv6 s = Some (gs, r)"
  shows "reads ip_char s r"
proof -
  obtain head w s1 where head: "read_groups 8 0 s = (head, w, s1)"
    by (cases "read_groups 8 0 s") auto
  have 1: "reads ip_char s s1" using head by (rule read_groups_reads)
  show ?thesis
  proof (cases "length head = 8")
    case True
    with assms head 1 show ?thesis by (simp add: read_ipv6_def)
  next
    case short: False
    let ?colons = "Option.bind (read_given 58 s1) (read_given 58)"
    from assms head short obtain s2 where s2: "?colons = Some s2"
      by (cases ?colons) (auto simp: read_ipv6_def split: if_splits)
    then obtain t where "read_given 58 s1 = Some t" and "read_given 58 t = Some s2"
      by (auto simp: bind_eq_Some_conv)
    then have 2: "reads ip_char s1 s2"
      using read_given_reads [of 58 s1 t ip_char] read_given_reads [of 58 t s2 ip_char]
      by (simp add: ip_char_def) (metis reads_trans)
    obtain tail w' s3 where tail: "read_groups (8 - (length head + 1)) 0 s2 = (tail, w', s3)"
      by (cases "read_groups (8 - (length head + 1)) 0 s2") auto
    have "s3 = r"
      using assms head short s2 tail by (auto simp: read_ipv6_def split: if_splits)
    then have "reads ip_char s2 r" using read_groups_reads [OF tail] by simp
    with 1 2 show ?thesis by (metis reads_trans)
  qed
qed

lemma read_ip_reads: "read_ip s = Some (a, r) \<Longrightarrow> reads ip_char s r"
  unfolding read_ip_def
  by (cases "read_ipv4 s"; cases "read_ipv6 s") (auto dest: read_ipv4_reads read_ipv6_reads)

lemma parse_ip_read: "parse_ip s = Some a \<Longrightarrow> read_ip s = Some (a, [])"
  by (cases "read_ip s") (auto simp: parse_ip_def split: list.splits)

lemma parse_ip_chars: "parse_ip s = Some a \<Longrightarrow> \<forall>c\<in>set s. ip_char c"
  by (rule reads_all, rule read_ip_reads, rule parse_ip_read)

lemma ip_char_not_whitespace: "ip_char c \<Longrightarrow> \<not> is_whitespace c"
  by (auto simp: ip_char_def char_class)

lemma read_groups_Nil [simp]: "read_groups limit 0 [] = ([], False, [])"
  by (simp add: read_groups.simps [of limit 0] read_separated_def read_ipv4_def read_octet_def
      read_number_def)

lemma parse_ip_Nil [simp]: "parse_ip [] = None"
  by (simp add: parse_ip_def read_ip_def read_ipv6_def read_ipv4_def read_octet_def
      read_separated_def read_number_def)

end
