(* ===== verification/Cli.thy ===== *)
theory Cli
  imports Errors Ip
begin

text \<open>
  \<open>src/cli.rs\<close>: the parsed command line, the mutating tools and their categories, and the resolved
  server configuration. \<open>clap\<close> (flag and environment parsing) is a library: a \<open>cli\<close> record is what
  it hands over. Environment variables are read through a lookup function.
\<close>

section \<open>Settings\<close>

datatype transport_mode = Stdio | Http
datatype auth_mode = AppMode | UserMode
datatype sign_in_flow = Auto | Browser | DeviceCode
datatype auth_config = AppAuth | UserAuth (flow: sign_in_flow)
datatype audit_log_setting = Explicit (log_path: ustr) | Default (log_path: ustr)

fun is_explicit :: "audit_log_setting \<Rightarrow> bool" where
  "is_explicit (Explicit p) = True"
| "is_explicit (Default p) = False"

text \<open>\<open>Path::join\<close> on Unix: an absolute right side replaces, otherwise one separator is added.\<close>

definition path_join :: "ustr \<Rightarrow> ustr \<Rightarrow> ustr" where
  "path_join a b =
     (if b \<noteq> [] \<and> hd b = 47 then b
      else if a = [] \<or> last a = 47 then a @ b
      else a @ [47] @ b)"

definition resolve_audit_path :: "(ustr \<Rightarrow> ustr option) \<Rightarrow> ustr" where
  "resolve_audit_path lookup =
     (let var = (\<lambda>k. case lookup k of Some s \<Rightarrow> if s = [] then None else Some s | None \<Rightarrow> None);
          file = (\<lambda>d. path_join (path_join d (asc ''microsoft-defender-mcp'')) (asc ''audit.jsonl''))
      in (case var (asc ''XDG_STATE_HOME'') of
           Some xdg \<Rightarrow> file xdg
         | None \<Rightarrow>
             (case var (asc ''HOME'') of
               Some home \<Rightarrow> file (path_join (path_join home (asc ''.local'')) (asc ''state''))
             | None \<Rightarrow>
                 (case var (asc ''LOCALAPPDATA'') of
                   Some local \<Rightarrow> file local
                 | None \<Rightarrow> asc ''./microsoft-defender-mcp-audit.jsonl''))))"

section \<open>Mutating tools and categories\<close>

datatype mutating_tool = Response | DeviceResponse | Indicators | Triage

definition all_tools :: "mutating_tool list" where
  "all_tools = [Response, DeviceResponse, Indicators, Triage]"

fun tool_name :: "mutating_tool \<Rightarrow> ustr" where
  "tool_name Response = asc ''defender_response''"
| "tool_name DeviceResponse = asc ''defender_device_response''"
| "tool_name Indicators = asc ''defender_indicators''"
| "tool_name Triage = asc ''defender_triage''"

definition tool_from_name :: "ustr \<Rightarrow> mutating_tool option" where
  "tool_from_name n = find (\<lambda>t. tool_name t = n) all_tools"

fun destructive :: "mutating_tool \<Rightarrow> bool" where
  "destructive Triage = False"
| "destructive _ = True"

fun enable_flag :: "mutating_tool \<Rightarrow> ustr" where
  "enable_flag Response = asc ''--enable-live-response''"
| "enable_flag DeviceResponse = asc ''--enable-device-response''"
| "enable_flag Indicators = asc ''--enable-indicators''"
| "enable_flag Triage = asc ''--enable-triage''"

record mutation_categories =
  live_response :: bool
  device_response :: bool
  offboarding :: bool
  indicators :: bool
  triage :: bool

definition no_categories :: mutation_categories where
  "no_categories = \<lparr>live_response = False, device_response = False, offboarding = False,
     indicators = False, triage = False\<rparr>"

definition from_flags :: "bool \<Rightarrow> bool \<Rightarrow> bool \<Rightarrow> bool \<Rightarrow> bool \<Rightarrow> bool \<Rightarrow> mutation_categories" where
  "from_flags read_only lr dr off ind tri =
     (if read_only then no_categories
      else \<lparr>live_response = lr, device_response = dr, offboarding = off \<and> dr,
            indicators = ind, triage = tri\<rparr>)"

definition any_category :: "mutation_categories \<Rightarrow> bool" where
  "any_category c \<longleftrightarrow> live_response c \<or> device_response c \<or> indicators c \<or> triage c"

fun tool_enabled :: "mutation_categories \<Rightarrow> mutating_tool \<Rightarrow> bool" where
  "tool_enabled c Response = live_response c"
| "tool_enabled c DeviceResponse = device_response c"
| "tool_enabled c Indicators = indicators c"
| "tool_enabled c Triage = triage c"

section \<open>Configuration\<close>

record cli =
  cli_transport :: transport_mode
  cli_bind_address :: ustr
  cli_read_only :: bool
  enable_live_response :: bool
  allowed_commands :: "ustr option"
  enable_device_response :: bool
  enable_offboarding :: bool
  enable_indicators :: bool
  enable_triage :: bool
  disable_human_confirmation :: bool
  cli_audit_log :: "ustr option"
  cli_auth_mode :: auth_mode
  cli_sign_in_flow :: "sign_in_flow option"
  cli_quarantine_dir :: ustr

record server_config =
  transport :: transport_mode
  bind_address :: ustr
  read_only :: bool
  categories :: mutation_categories
  live_response_allowed_commands :: "ustr list option"
  quarantine_dir :: ustr
  audit_log :: audit_log_setting
  confirm_destructive :: bool
  auth :: auth_config

definition parse_allowed_commands :: "ustr option \<Rightarrow> ustr list option" where
  "parse_allowed_commands v =
     (case map_option (\<lambda>l. filter (\<lambda>s. s \<noteq> []) (map trim (split_chars (\<lambda>c. c = 44) l))) v of
       Some l \<Rightarrow> if l = [] then None else Some l
     | None \<Rightarrow> None)"

definition from_cli :: "(ustr \<Rightarrow> ustr option) \<Rightarrow> cli \<Rightarrow> server_config" where
  "from_cli env_var c =
     \<lparr>transport = cli_transport c,
      bind_address = cli_bind_address c,
      read_only = cli_read_only c,
      categories = from_flags (cli_read_only c) (enable_live_response c)
        (enable_device_response c) (enable_offboarding c) (enable_indicators c) (enable_triage c),
      live_response_allowed_commands = parse_allowed_commands (allowed_commands c),
      quarantine_dir = cli_quarantine_dir c,
      audit_log = (case cli_audit_log c of Some p \<Rightarrow> Explicit p
                   | None \<Rightarrow> Default (resolve_audit_path env_var)),
      confirm_destructive = \<not> disable_human_confirmation c,
      auth = (case cli_auth_mode c of AppMode \<Rightarrow> AppAuth
              | UserMode \<Rightarrow> UserAuth (case cli_sign_in_flow c of Some f \<Rightarrow> f | None \<Rightarrow> Auto))\<rparr>"

text \<open>\<open>rsplit_once(':')\<close>: the text before the last colon, if there is one.\<close>

definition before_last_colon :: "ustr \<Rightarrow> ustr" where
  "before_last_colon s =
     (if 58 \<in> set s then rev (tl (dropWhile (\<lambda>c. c \<noteq> 58) (rev s))) else s)"

definition is_loopback_address :: "ustr \<Rightarrow> bool" where
  "is_loopback_address a =
     (case parse_socket a of
       Some ip \<Rightarrow> is_loopback ip
     | None \<Rightarrow>
         (let host = trim_end_matches (\<lambda>c. c = 93) (trim_start_matches (\<lambda>c. c = 91) (before_last_colon a))
          in eq_ignore_ascii_case host (asc ''localhost'') \<or>
             (case parse_ip host of Some ip \<Rightarrow> is_loopback ip | None \<Rightarrow> False)))"

text \<open>
  \<open>validate_credentials\<close>; \<open>env_var\<close> is \<open>std::env::var\<close>. The stderr note about an ignored secret has
  no effect on the result.
\<close>

definition required_var :: "(ustr \<Rightarrow> ustr option) \<Rightarrow> ustr \<Rightarrow> ustr + ustr" where
  "required_var env_var k =
     (case env_var k of
       None \<Rightarrow> Inl (k @ asc '' environment variable is required'')
     | Some v \<Rightarrow> if trim v = [] then Inl (k @ asc '' environment variable is required'') else Inr v)"

definition validate_credentials :: "(ustr \<Rightarrow> ustr option) \<Rightarrow> auth_mode \<Rightarrow> ustr + unit" where
  "validate_credentials env_var mode =
     (case required_var env_var (asc ''AZURE_TENANT_ID'') of
       Inl e \<Rightarrow> Inl e
     | Inr tenant \<Rightarrow>
         (case required_var env_var (asc ''AZURE_CLIENT_ID'') of
           Inl e \<Rightarrow> Inl e
         | Inr client \<Rightarrow>
             (case mode of
               AppMode \<Rightarrow> ok_unit (required_var env_var (asc ''AZURE_CLIENT_SECRET''))
             | UserMode \<Rightarrow>
                 (let t = to_ascii_lowercase (trim tenant) in
                  if t = asc ''common'' \<or> t = asc ''organizations''
                  then Inl (asc ''AZURE_TENANT_ID cannot be '' @ sq (asc ''common'') @ asc '' or ''
                            @ sq (asc ''organizations''))
                  else Inr ()))))"

section \<open>Facts\<close>

lemma tool_from_name_name [simp]: "tool_from_name (tool_name t) = Some t"
  by (cases t) (simp_all add: tool_from_name_def all_tools_def)

lemma tool_from_name_Some: "tool_from_name n = Some t \<longleftrightarrow> tool_name t = n"
  by (cases t) (auto simp: tool_from_name_def all_tools_def split: if_splits)

lemma from_flags_read_only [simp]: "\<not> any_category (from_flags True lr dr off ind tri)"
  by (simp add: from_flags_def no_categories_def any_category_def)

lemma tool_enabled_none [simp]: "\<not> tool_enabled no_categories t"
  by (cases t) (simp_all add: no_categories_def)

lemma any_category_tool: "any_category c \<longleftrightarrow> (\<exists>t. tool_enabled c t)"
proof
  assume "any_category c"
  then show "\<exists>t. tool_enabled c t"
    unfolding any_category_def by (metis tool_enabled.simps)
next
  assume "\<exists>t. tool_enabled c t"
  then obtain t where "tool_enabled c t" by blast
  then show "any_category c" by (cases t) (auto simp: any_category_def)
qed

text \<open>The configurations that \<open>from_cli\<close> can build.\<close>

definition config_ok :: "server_config \<Rightarrow> bool" where
  "config_ok c \<longleftrightarrow>
     (read_only c \<longrightarrow> categories c = no_categories) \<and>
     (offboarding (categories c) \<longrightarrow> device_response (categories c)) \<and>
     live_response_allowed_commands c \<noteq> Some []"

text \<open>
  C35. Every configuration that the command line resolves to is consistent: a read-only server has no
  mutating category, offboarding is enabled only together with device response, and an allowlist of
  Live Response commands, when there is one, is not empty.
\<close>

theorem resolved_config_ok: "config_ok (from_cli env_var c)"
  by (auto simp: config_ok_def from_cli_def from_flags_def no_categories_def
      parse_allowed_commands_def split: option.splits)

text \<open>
  \<open>--read-only\<close> always overrides the enablement flags, whatever else was given: no mutating
  tool is enabled in the resolved configuration, and offboarding is enabled only together with
  device response and its own flag.
\<close>

theorem read_only_overrides:
  "cli_read_only c \<Longrightarrow>
     \<not> any_category (categories (from_cli env_var c)) \<and>
     (\<forall>t. \<not> tool_enabled (categories (from_cli env_var c)) t) \<and>
     \<not> offboarding (categories (from_cli env_var c))"
  by (simp add: from_cli_def from_flags_def any_category_tool) (simp add: no_categories_def)

definition demo_cli :: cli where
  "demo_cli = \<lparr>cli_transport = Stdio, cli_bind_address = asc ''127.0.0.1:8080'', cli_read_only = True,
     enable_live_response = True, allowed_commands = None, enable_device_response = True,
     enable_offboarding = True, enable_indicators = True, enable_triage = True,
     disable_human_confirmation = True, cli_audit_log = None, cli_auth_mode = AppMode,
     cli_sign_in_flow = None, cli_quarantine_dir = asc ''./quarantine''\<rparr>"

lemma read_only_overrides_witness:
  "\<not> any_category (categories (from_cli (\<lambda>k. None) demo_cli))"
  using read_only_overrides [of demo_cli "\<lambda>k. None"] by (simp add: demo_cli_def)

end
