(* ===== verification/ServerTypes.thy ===== *)
theory ServerTypes
  imports Errors
begin

text \<open>
  The closed enumerations of \<open>src/server.rs\<close> (device response, indicators, triage, Live Response
  commands), their input spellings and their wire spellings per upstream API, and the action
  catalogs of the mutating tools. \<open>closed_enum\<close> is the shared deserializer; the locale
  \<open>enumeration\<close> is its contract, interpreted for every enumeration that uses it.
\<close>

section \<open>The shared deserializer\<close>

definition closed_enum :: "ustr \<Rightarrow> 'a list \<Rightarrow> ('a \<Rightarrow> ustr) \<Rightarrow> ustr \<Rightarrow> ustr + 'a" where
  "closed_enum field variants name value =
     (case find (\<lambda>v. name v = value) variants of
       Some v \<Rightarrow> Inr v
     | None \<Rightarrow> Inl (asc ''invalid '' @ field @ asc '' '' @ sq value @ asc ''; valid values: ''
                   @ join (asc '', '') (map name variants)))"

locale enumeration =
  fixes variants :: "'a list" and spelling :: "'a \<Rightarrow> ustr"
  assumes complete: "v \<in> set variants"
    and spelling_inj: "spelling v = spelling w \<Longrightarrow> v = w"
begin

lemma parse_spelling: "closed_enum field variants spelling (spelling v) = Inr v"
proof -
  have "find (\<lambda>w. spelling w = spelling v) variants = Some v"
  proof (cases "find (\<lambda>w. spelling w = spelling v) variants")
    case None
    then show ?thesis using complete [of v] by (auto simp: find_None_iff)
  next
    case (Some w)
    then have "spelling w = spelling v" by (auto simp: find_Some_iff)
    with Some show ?thesis by (auto dest: spelling_inj)
  qed
  then show ?thesis by (simp add: closed_enum_def)
qed

lemma parse_accepts: "closed_enum field variants spelling s = Inr v \<longleftrightarrow> s = spelling v"
proof
  assume "closed_enum field variants spelling s = Inr v"
  then have "find (\<lambda>w. spelling w = s) variants = Some v"
    by (auto simp: closed_enum_def split: option.splits)
  then show "s = spelling v" by (auto simp: find_Some_iff)
qed (simp add: parse_spelling)

end

section \<open>Live Response commands\<close>

datatype command_type = PutFile | RunScript | GetFile

fun command_type_str :: "command_type \<Rightarrow> ustr" where
  "command_type_str PutFile = asc ''PutFile''"
| "command_type_str RunScript = asc ''RunScript''"
| "command_type_str GetFile = asc ''GetFile''"

record live_response_command =
  cmd_type :: command_type
  cmd_params :: "(ustr \<times> ustr) list"

definition command_json :: "live_response_command \<Rightarrow> json" where
  "command_json c = jobj
     [(asc ''type'', JStr (command_type_str (cmd_type c))),
      (asc ''params'', JArr (map (\<lambda>(k, v). jobj [(asc ''key'', JStr k), (asc ''value'', JStr v)]) (cmd_params c)))]"

section \<open>Device response\<close>

datatype isolation_type = IsoFull | Selective | UnManagedDevice

fun isolation_str :: "isolation_type \<Rightarrow> ustr" where
  "isolation_str IsoFull = asc ''Full''"
| "isolation_str Selective = asc ''Selective''"
| "isolation_str UnManagedDevice = asc ''UnManagedDevice''"

definition parse_isolation :: "ustr \<Rightarrow> ustr + isolation_type" where
  "parse_isolation = closed_enum (asc ''isolation_type'') [IsoFull, Selective, UnManagedDevice] isolation_str"

datatype scan_type = Quick | ScanFull

fun scan_str :: "scan_type \<Rightarrow> ustr" where
  "scan_str Quick = asc ''Quick''"
| "scan_str ScanFull = asc ''Full''"

definition parse_scan :: "ustr \<Rightarrow> ustr + scan_type" where
  "parse_scan = closed_enum (asc ''scan_type'') [Quick, ScanFull] scan_str"

datatype device_value = DvLow | DvNormal | DvHigh

fun device_value_str :: "device_value \<Rightarrow> ustr" where
  "device_value_str DvLow = asc ''Low''"
| "device_value_str DvNormal = asc ''Normal''"
| "device_value_str DvHigh = asc ''High''"

definition parse_device_value :: "ustr \<Rightarrow> ustr + device_value" where
  "parse_device_value = closed_enum (asc ''device_value'') [DvLow, DvNormal, DvHigh] device_value_str"

section \<open>Indicators\<close>

datatype indicator_type =
  FileSha1 | FileSha256 | FileMd5 | CertificateThumbprint | IpAddress | DomainName | Url

fun indicator_type_str :: "indicator_type \<Rightarrow> ustr" where
  "indicator_type_str FileSha1 = asc ''FileSha1''"
| "indicator_type_str FileSha256 = asc ''FileSha256''"
| "indicator_type_str FileMd5 = asc ''FileMd5''"
| "indicator_type_str CertificateThumbprint = asc ''CertificateThumbprint''"
| "indicator_type_str IpAddress = asc ''IpAddress''"
| "indicator_type_str DomainName = asc ''DomainName''"
| "indicator_type_str Url = asc ''Url''"

definition parse_indicator_type :: "ustr \<Rightarrow> ustr + indicator_type" where
  "parse_indicator_type = closed_enum (asc ''indicator_type'')
     [FileSha1, FileSha256, FileMd5, CertificateThumbprint, IpAddress, DomainName, Url]
     indicator_type_str"

datatype indicator_action = Allowed | Audit | Warn | Block | BlockAndRemediate

fun indicator_action_str :: "indicator_action \<Rightarrow> ustr" where
  "indicator_action_str Allowed = asc ''Allowed''"
| "indicator_action_str Audit = asc ''Audit''"
| "indicator_action_str Warn = asc ''Warn''"
| "indicator_action_str Block = asc ''Block''"
| "indicator_action_str BlockAndRemediate = asc ''BlockAndRemediate''"

definition parse_indicator_action :: "ustr \<Rightarrow> ustr + indicator_action" where
  "parse_indicator_action value =
     (if value = asc ''Alert'' \<or> value = asc ''AlertAndBlock''
      then Inl (asc ''indicator_action '' @ sq value @ asc '' is legacy, unsupported since January 2022'')
      else closed_enum (asc ''indicator_action'') [Allowed, Audit, Warn, Block, BlockAndRemediate]
             indicator_action_str value)"

datatype indicator_severity = Informational | SevLow | SevMedium | SevHigh

fun severity_str :: "indicator_severity \<Rightarrow> ustr" where
  "severity_str Informational = asc ''Informational''"
| "severity_str SevLow = asc ''Low''"
| "severity_str SevMedium = asc ''Medium''"
| "severity_str SevHigh = asc ''High''"

definition parse_severity :: "ustr \<Rightarrow> ustr + indicator_severity" where
  "parse_severity = closed_enum (asc ''severity'') [Informational, SevLow, SevMedium, SevHigh] severity_str"

section \<open>Triage\<close>

datatype triage_target = MdeAlertPatch | MdeAlertBatch | XdrAlert | XdrIncident
datatype triage_status = New | InProgress | Resolved | Active | Redirected

fun status_str :: "triage_status \<Rightarrow> ustr" where
  "status_str New = asc ''new''"
| "status_str InProgress = asc ''inProgress''"
| "status_str Resolved = asc ''resolved''"
| "status_str Active = asc ''active''"
| "status_str Redirected = asc ''redirected''"

definition unsupported_status :: "triage_status \<Rightarrow> string \<Rightarrow> mcp_error" where
  "unsupported_status s what = invalid_params
     (asc ''status '' @ sq (status_str s) @ asc '' is not supported for '' @ asc what)"

fun status_wire :: "triage_status \<Rightarrow> triage_target \<Rightarrow> mcp_error + ustr" where
  "status_wire s XdrAlert =
     (case s of New \<Rightarrow> Inr (asc ''new'') | InProgress \<Rightarrow> Inr (asc ''inProgress'')
      | Resolved \<Rightarrow> Inr (asc ''resolved'')
      | _ \<Rightarrow> Inl (unsupported_status s ''XDR alerts; valid: new, inProgress, resolved''))"
| "status_wire s XdrIncident =
     (case s of Active \<Rightarrow> Inr (asc ''active'') | InProgress \<Rightarrow> Inr (asc ''inProgress'')
      | Resolved \<Rightarrow> Inr (asc ''resolved'') | Redirected \<Rightarrow> Inr (asc ''redirected'')
      | New \<Rightarrow> Inl (unsupported_status s ''XDR incidents; valid: active, inProgress, resolved, redirected''))"
| "status_wire s _ =
     (case s of New \<Rightarrow> Inr (asc ''New'') | InProgress \<Rightarrow> Inr (asc ''InProgress'')
      | Resolved \<Rightarrow> Inr (asc ''Resolved'')
      | _ \<Rightarrow> Inl (unsupported_status s ''endpoint alerts; valid: new, inProgress, resolved''))"

definition parse_status :: "ustr \<Rightarrow> ustr + triage_status" where
  "parse_status = closed_enum (asc ''status'') [New, InProgress, Resolved, Active, Redirected] status_str"

datatype classification = TruePositive | InformationalExpectedActivity | FalsePositive

fun classification_str :: "classification \<Rightarrow> ustr" where
  "classification_str TruePositive = asc ''truePositive''"
| "classification_str InformationalExpectedActivity = asc ''informationalExpectedActivity''"
| "classification_str FalsePositive = asc ''falsePositive''"

fun classification_mde :: "classification \<Rightarrow> ustr" where
  "classification_mde TruePositive = asc ''TruePositive''"
| "classification_mde InformationalExpectedActivity = asc ''InformationalExpectedActivity''"
| "classification_mde FalsePositive = asc ''FalsePositive''"

fun classification_wire :: "classification \<Rightarrow> triage_target \<Rightarrow> ustr" where
  "classification_wire c MdeAlertPatch = classification_mde c"
| "classification_wire c MdeAlertBatch = classification_mde c"
| "classification_wire c _ = classification_str c"

definition parse_classification :: "ustr \<Rightarrow> ustr + classification" where
  "parse_classification = closed_enum (asc ''classification'')
     [TruePositive, InformationalExpectedActivity, FalsePositive] classification_str"

datatype determination =
    MultiStagedAttack | MaliciousUserActivity | CompromisedAccount | Malware | Phishing
  | UnwantedSoftware | SecurityTesting | LineOfBusinessApplication | ConfirmedActivity
  | NotMalicious | NotEnoughDataToValidate | Other

fun determination_str :: "determination \<Rightarrow> ustr" where
  "determination_str MultiStagedAttack = asc ''multiStagedAttack''"
| "determination_str MaliciousUserActivity = asc ''maliciousUserActivity''"
| "determination_str CompromisedAccount = asc ''compromisedAccount''"
| "determination_str Malware = asc ''malware''"
| "determination_str Phishing = asc ''phishing''"
| "determination_str UnwantedSoftware = asc ''unwantedSoftware''"
| "determination_str SecurityTesting = asc ''securityTesting''"
| "determination_str LineOfBusinessApplication = asc ''lineOfBusinessApplication''"
| "determination_str ConfirmedActivity = asc ''confirmedActivity''"
| "determination_str NotMalicious = asc ''notMalicious''"
| "determination_str NotEnoughDataToValidate = asc ''notEnoughDataToValidate''"
| "determination_str Other = asc ''other''"

fun allowed_for :: "classification \<Rightarrow> determination list" where
  "allowed_for TruePositive =
     [MultiStagedAttack, MaliciousUserActivity, CompromisedAccount, Malware, Phishing,
      UnwantedSoftware, Other]"
| "allowed_for InformationalExpectedActivity =
     [SecurityTesting, LineOfBusinessApplication, ConfirmedActivity, Other]"
| "allowed_for FalsePositive = [NotMalicious, NotEnoughDataToValidate, Other]"

fun determination_patch :: "determination \<Rightarrow> ustr" where
  "determination_patch MultiStagedAttack = asc ''MultiStagedAttack''"
| "determination_patch MaliciousUserActivity = asc ''MaliciousUserActivity''"
| "determination_patch CompromisedAccount = asc ''CompromisedUser''"
| "determination_patch Malware = asc ''Malware''"
| "determination_patch Phishing = asc ''Phishing''"
| "determination_patch UnwantedSoftware = asc ''UnwantedSoftware''"
| "determination_patch SecurityTesting = asc ''SecurityTesting''"
| "determination_patch LineOfBusinessApplication = asc ''LineOfBusinessApplication''"
| "determination_patch ConfirmedActivity = asc ''ConfirmedActivity''"
| "determination_patch NotMalicious = asc ''NotMalicious''"
| "determination_patch NotEnoughDataToValidate = asc ''InsufficientData''"
| "determination_patch Other = asc ''Other''"

fun determination_batch :: "determination \<Rightarrow> ustr" where
  "determination_batch ConfirmedActivity = asc ''ConfirmedUserActivity''"
| "determination_batch NotMalicious = asc ''Clean''"
| "determination_batch MultiStagedAttack = asc ''MultiStagedAttack''"
| "determination_batch MaliciousUserActivity = asc ''MaliciousUserActivity''"
| "determination_batch CompromisedAccount = asc ''CompromisedUser''"
| "determination_batch Malware = asc ''Malware''"
| "determination_batch Phishing = asc ''Phishing''"
| "determination_batch UnwantedSoftware = asc ''UnwantedSoftware''"
| "determination_batch SecurityTesting = asc ''SecurityTesting''"
| "determination_batch LineOfBusinessApplication = asc ''LineOfBusinessApplication''"
| "determination_batch NotEnoughDataToValidate = asc ''InsufficientData''"
| "determination_batch Other = asc ''Other''"

fun determination_wire :: "determination \<Rightarrow> triage_target \<Rightarrow> ustr" where
  "determination_wire d MdeAlertPatch = determination_patch d"
| "determination_wire d MdeAlertBatch = determination_batch d"
| "determination_wire d _ = determination_str d"

definition parse_determination :: "ustr \<Rightarrow> ustr + determination" where
  "parse_determination = closed_enum (asc ''determination'')
     [MultiStagedAttack, MaliciousUserActivity, CompromisedAccount, Malware, Phishing,
      UnwantedSoftware, SecurityTesting, LineOfBusinessApplication, ConfirmedActivity,
      NotMalicious, NotEnoughDataToValidate, Other] determination_str"

section \<open>The contract, for each enumeration\<close>

interpretation isolation: enumeration "[IsoFull, Selective, UnManagedDevice]" isolation_str
proof
  fix v w
  show "v \<in> set [IsoFull, Selective, UnManagedDevice]" by (cases v) simp_all
  show "isolation_str v = isolation_str w \<Longrightarrow> v = w" by (cases v; cases w) simp_all
qed

interpretation scan: enumeration "[Quick, ScanFull]" scan_str
proof
  fix v w
  show "v \<in> set [Quick, ScanFull]" by (cases v) simp_all
  show "scan_str v = scan_str w \<Longrightarrow> v = w" by (cases v; cases w) simp_all
qed

interpretation dvalue: enumeration "[DvLow, DvNormal, DvHigh]" device_value_str
proof
  fix v w
  show "v \<in> set [DvLow, DvNormal, DvHigh]" by (cases v) simp_all
  show "device_value_str v = device_value_str w \<Longrightarrow> v = w" by (cases v; cases w) simp_all
qed

interpretation itype: enumeration
  "[FileSha1, FileSha256, FileMd5, CertificateThumbprint, IpAddress, DomainName, Url]"
  indicator_type_str
proof
  fix v w
  show "v \<in> set [FileSha1, FileSha256, FileMd5, CertificateThumbprint, IpAddress, DomainName, Url]"
    by (cases v) simp_all
  show "indicator_type_str v = indicator_type_str w \<Longrightarrow> v = w" by (cases v; cases w) simp_all
qed

interpretation iaction: enumeration "[Allowed, Audit, Warn, Block, BlockAndRemediate]" indicator_action_str
proof
  fix v w
  show "v \<in> set [Allowed, Audit, Warn, Block, BlockAndRemediate]" by (cases v) simp_all
  show "indicator_action_str v = indicator_action_str w \<Longrightarrow> v = w" by (cases v; cases w) simp_all
qed

interpretation severity: enumeration "[Informational, SevLow, SevMedium, SevHigh]" severity_str
proof
  fix v w
  show "v \<in> set [Informational, SevLow, SevMedium, SevHigh]" by (cases v) simp_all
  show "severity_str v = severity_str w \<Longrightarrow> v = w" by (cases v; cases w) simp_all
qed

interpretation tstatus: enumeration "[New, InProgress, Resolved, Active, Redirected]" status_str
proof
  fix v w
  show "v \<in> set [New, InProgress, Resolved, Active, Redirected]" by (cases v) simp_all
  show "status_str v = status_str w \<Longrightarrow> v = w" by (cases v; cases w) simp_all
qed

interpretation classif: enumeration
  "[TruePositive, InformationalExpectedActivity, FalsePositive]" classification_str
proof
  fix v w
  show "v \<in> set [TruePositive, InformationalExpectedActivity, FalsePositive]" by (cases v) simp_all
  show "classification_str v = classification_str w \<Longrightarrow> v = w" by (cases v; cases w) simp_all
qed

interpretation determ: enumeration
  "[MultiStagedAttack, MaliciousUserActivity, CompromisedAccount, Malware, Phishing,
    UnwantedSoftware, SecurityTesting, LineOfBusinessApplication, ConfirmedActivity,
    NotMalicious, NotEnoughDataToValidate, Other]" determination_str
proof
  fix v w
  show "v \<in> set [MultiStagedAttack, MaliciousUserActivity, CompromisedAccount, Malware, Phishing,
    UnwantedSoftware, SecurityTesting, LineOfBusinessApplication, ConfirmedActivity,
    NotMalicious, NotEnoughDataToValidate, Other]" by (cases v) simp_all
  show "determination_str v = determination_str w \<Longrightarrow> v = w" by (cases v; cases w) simp_all
qed

text \<open>
  Every enumeration field of the mutating tools is read back from exactly its own input
  spelling, and from nothing else: parsing accepts a text as a value just when the text is the
  spelling of that value.
\<close>

theorem enumerations_roundtrip:
  "(parse_isolation s = Inr i \<longleftrightarrow> s = isolation_str i) \<and>
   (parse_scan s = Inr sc \<longleftrightarrow> s = scan_str sc) \<and>
   (parse_device_value s = Inr dv \<longleftrightarrow> s = device_value_str dv) \<and>
   (parse_indicator_type s = Inr it \<longleftrightarrow> s = indicator_type_str it) \<and>
   (parse_indicator_action s = Inr ia \<longleftrightarrow> s = indicator_action_str ia) \<and>
   (parse_severity s = Inr sv \<longleftrightarrow> s = severity_str sv) \<and>
   (parse_status s = Inr st \<longleftrightarrow> s = status_str st) \<and>
   (parse_classification s = Inr cl \<longleftrightarrow> s = classification_str cl) \<and>
   (parse_determination s = Inr dt \<longleftrightarrow> s = determination_str dt)"
  unfolding parse_isolation_def parse_scan_def parse_device_value_def parse_indicator_type_def
    parse_severity_def parse_status_def parse_classification_def parse_determination_def
    isolation.parse_accepts scan.parse_accepts dvalue.parse_accepts itype.parse_accepts
    severity.parse_accepts tstatus.parse_accepts classif.parse_accepts determ.parse_accepts
    parse_indicator_action_def
  by (cases ia; auto simp: iaction.parse_accepts)

end
