(* ===== verification/Validation.thy ===== *)
theory Validation
  imports ServerTypes Ip
begin

text \<open>
  \<open>src/validation.rs\<close>: every input validator, with its error texts, in the order of the source.
  Most validators trim their input and accept the trimmed text exactly when a predicate holds of
  it; that contract is the locale \<open>validator\<close>, interpreted for each of them. A borrowed
  \<open>&str\<close> result is the text itself. The clock \<open>Utc::now()\<close> is an argument \<open>now\<close> (nanoseconds
  since the epoch), and the \<open>url\<close>, \<open>chrono\<close> and \<open>percent_encoding\<close> functions come from \<open>libs\<close>.
\<close>

section \<open>Path segments\<close>

definition unreserved :: "uchar \<Rightarrow> bool" where
  "unreserved c \<longleftrightarrow> is_ascii_alphanumeric c \<or> c = 45 \<or> c = 46 \<or> c = 95 \<or> c = 126"

definition path_segment_encode_set :: "nat \<Rightarrow> bool" where
  "path_segment_encode_set b \<longleftrightarrow> \<not> unreserved b"

definition encode_path_segment :: "'x libs_scheme \<Rightarrow> ustr \<Rightarrow> ustr" where
  "encode_path_segment l s = percent_encode l path_segment_encode_set s"

section \<open>Host names, identifiers, addresses\<close>

definition validate_hostname :: "ustr \<Rightarrow> mcp_error + ustr" where
  [validator_defs]: "validate_hostname hostname =
     (let t = trim hostname in
      if t = [] then Inl (invalid_params (asc ''hostname cannot be empty''))
      else if 253 < str_len t then
        Inl (invalid_params (asc ''hostname exceeds maximum length of 253 characters''))
      else if contains_char 47 t then
        Inl (invalid_params (asc ''hostname must not contain slashes '' @ [0x2014]
               @ asc '' provide a single hostname, not a URL''))
      else if list_ex is_control t then
        Inl (invalid_params (asc ''hostname contains invalid control characters''))
      else if list_ex is_whitespace t then
        Inl (invalid_params (asc ''hostname must not contain whitespace''))
      else if t = asc ''.'' \<or> contains_str (asc ''..'') t then
        Inl (invalid_params (asc ''hostname must not contain dot segments''))
      else Inr t)"

definition validate_required_id :: "ustr \<Rightarrow> ustr \<Rightarrow> mcp_error + ustr" where
  [validator_defs]: "validate_required_id value param =
     (let t = trim value in
      if t = [] then Inl (invalid_params (param @ asc '' cannot be empty''))
      else if t = asc ''.'' \<or> t = asc ''..'' then
        Inl (invalid_params (param @ asc '' cannot be '' @ sq (asc ''.'') @ asc '' or '' @ sq (asc ''..'')))
      else if list_ex is_control t then
        Inl (invalid_params (param @ asc '' contains invalid control characters''))
      else Inr t)"

definition ip_message :: "ustr \<Rightarrow> ustr \<Rightarrow> ustr" where
  "ip_message field t = field @ asc '' must be a valid IPv4 or IPv6 address, got '' @ sq t"

definition validate_ip_address :: "ustr \<Rightarrow> mcp_error + ustr" where
  [validator_defs]: "validate_ip_address ip =
     (let t = trim ip in
      if t = [] then Inl (invalid_params (asc ''ip_address cannot be empty''))
      else if parse_ip t = None then Inl (invalid_params (ip_message (asc ''ip_address'') t))
      else Inr t)"

text \<open>The anchored expressions \<open>^[a-fA-F0-9]{n}$\<close>.\<close>

definition hex_re :: "nat \<Rightarrow> ustr \<Rightarrow> bool" where
  "hex_re n s \<longleftrightarrow> length s = n \<and> list_all is_ascii_hexdigit s"

definition validate_sha1 :: "ustr \<Rightarrow> mcp_error + ustr" where
  [validator_defs]: "validate_sha1 hash =
     (let t = trim hash in
      if \<not> hex_re 40 t then
        Inl (invalid_params (asc ''file_sha1 must be a 40-character hex string (SHA1 hash)''))
      else Inr t)"

definition validate_machine_id :: "ustr \<Rightarrow> mcp_error + ustr" where
  [validator_defs]: "validate_machine_id machine_id =
     (let t = trim machine_id in
      if \<not> hex_re 40 t then
        Inl (invalid_params (asc ''machine_id must be a 40-character hex string (Defender machine ID)''))
      else Inr t)"

definition validate_action_id :: "ustr \<Rightarrow> mcp_error + ustr" where
  [validator_defs]: "validate_action_id action_id =
     (let t = trim action_id in
      if t = [] \<or> 64 < str_len t \<or> \<not> list_all (\<lambda>b. is_ascii_alphanumeric b \<or> b = 45) (utf8 t) then
        Inl (invalid_params (asc ''action_id must be a machine action GUID or hex ID (ASCII letters, digits, and '' @ sq (asc ''-'') @ asc '' only)''))
      else Inr t)"

definition min_justification_len :: nat where
  "min_justification_len = 10"

definition validate_comment :: "ustr \<Rightarrow> ustr \<Rightarrow> mcp_error + ustr" where
  [validator_defs]: "validate_comment comment field =
     (let t = trim comment; n = length t in
      if n < min_justification_len then
        Inl (invalid_params (field @ asc '' must be at least '' @ show_nat min_justification_len
               @ asc '' characters describing the purpose (got '' @ show_nat n @ asc '')''))
      else Inr t)"

definition validate_file_hash :: "ustr \<Rightarrow> mcp_error + ustr" where
  [validator_defs]: "validate_file_hash hash =
     (let t = trim hash; n = str_len t;
          valid = (if n = 32 then hex_re 32 t else if n = 40 then hex_re 40 t
                   else if n = 64 then hex_re 64 t else False)
      in if \<not> valid then
           Inl (invalid_params (asc ''file_id must be a valid MD5 (32), SHA1 (40), or SHA256 (64) hex hash''))
         else Inr t)"

definition validate_tag_name :: "ustr \<Rightarrow> mcp_error + ustr" where
  [validator_defs]: "validate_tag_name tag_name =
     (let t = trim tag_name in
      if t = [] then Inl (invalid_params (asc ''tag_name cannot be empty''))
      else if list_ex is_control t then
        Inl (invalid_params (asc ''tag_name contains invalid control characters''))
      else Inr t)"

section \<open>File uploads\<close>

definition validate_file_name :: "ustr \<Rightarrow> mcp_error + ustr" where
  [validator_defs]: "validate_file_name file_name =
     (let t = trim file_name in
      if t = [] then Inl (invalid_params (asc ''file_name cannot be empty''))
      else if t = asc ''.'' \<or> t = asc ''..'' then
        Inl (invalid_params (asc ''file_name cannot be '' @ sq (asc ''.'') @ asc '' or '' @ sq (asc ''..'')))
      else if contains_char 47 t \<or> contains_char 92 t then
        Inl (invalid_params (asc ''file_name must be a simple file name without path separators (''
               @ sq (asc ''/'') @ asc '' or '' @ sq [92] @ asc '')''))
      else if list_ex is_control t then
        Inl (invalid_params (asc ''file_name contains invalid control characters''))
      else Inr t)"

definition control_but_layout :: "uchar \<Rightarrow> bool" where
  "control_but_layout c \<longleftrightarrow> is_control c \<and> c \<noteq> 10 \<and> c \<noteq> 13 \<and> c \<noteq> 9"

definition validate_description :: "ustr \<Rightarrow> mcp_error + ustr" where
  [validator_defs]: "validate_description description =
     (let t = trim description in
      if t = [] then Inl (invalid_params (asc ''description cannot be empty''))
      else if list_ex control_but_layout t then
        Inl (invalid_params (asc ''description contains invalid control characters''))
      else Inr t)"

text \<open>\<open>^CVE-\d{4}-\d{4,}$\<close>; \<open>\d\<close> is Unicode-aware in the \<open>regex\<close> crate.\<close>

definition cve_re :: "'x libs_scheme \<Rightarrow> ustr \<Rightarrow> bool" where
  "cve_re l s \<longleftrightarrow> take 4 s = asc ''CVE-'' \<and> 13 \<le> length s \<and>
     list_all (nd_digit l) (take 4 (drop 4 s)) \<and> s ! 8 = 45 \<and> list_all (nd_digit l) (drop 9 s)"

definition validate_cve_id :: "'x libs_scheme \<Rightarrow> ustr \<Rightarrow> mcp_error + ustr" where
  [validator_defs]: "validate_cve_id l cve_id =
     (let t = trim cve_id in
      if \<not> cve_re l t then
        Inl (invalid_params (asc ''CVE ID must match pattern CVE-YYYY-NNNN+ (e.g., CVE-2021-44228)''))
      else Inr t)"


section \<open>Paging, look-back, query size\<close>

definition validate_top :: "int option \<Rightarrow> mcp_error + unit" where
  [validator_defs]: "validate_top tp =
     (case tp of
       Some t \<Rightarrow> if 1 \<le> t \<and> t \<le> 1000 then Inr ()
                 else Inl (invalid_params (asc ''top must be between 1 and 1000, got '' @ show_int t))
     | None \<Rightarrow> Inr ())"

definition validate_endpoint_top :: "int option \<Rightarrow> mcp_error + unit" where
  [validator_defs]: "validate_endpoint_top tp =
     (case tp of
       Some t \<Rightarrow> if 1 \<le> t \<and> t \<le> 10000 then Inr ()
                 else Inl (invalid_params (asc ''top must be between 1 and 10000, got '' @ show_int t))
     | None \<Rightarrow> Inr ())"

definition validate_skip :: "int option \<Rightarrow> mcp_error + unit" where
  [validator_defs]: "validate_skip skip =
     (case skip of
       Some s \<Rightarrow> if 0 \<le> s \<and> s \<le> 100000 then Inr ()
                 else Inl (invalid_params (asc ''skip must be between 0 and 100000, got '' @ show_int s))
     | None \<Rightarrow> Inr ())"

definition validate_odata_params :: "int option \<Rightarrow> int option \<Rightarrow> mcp_error + unit" where
  [validator_defs]: "validate_odata_params tp skip =
     (case validate_top tp of Inl e \<Rightarrow> Inl e | Inr _ \<Rightarrow> validate_skip skip)"

definition validate_endpoint_odata_params :: "int option \<Rightarrow> int option \<Rightarrow> mcp_error + unit" where
  [validator_defs]: "validate_endpoint_odata_params tp skip =
     (case validate_endpoint_top tp of Inl e \<Rightarrow> Inl e | Inr _ \<Rightarrow> validate_skip skip)"

definition validate_look_back_hours :: "int option \<Rightarrow> mcp_error + unit" where
  [validator_defs]: "validate_look_back_hours hours =
     (case hours of
       Some h \<Rightarrow> if 1 \<le> h \<and> h \<le> 720 then Inr ()
                 else Inl (invalid_params (asc ''look_back_hours must be between 1 and 720''))
     | None \<Rightarrow> Inr ())"

definition validate_kql_query :: "ustr \<Rightarrow> mcp_error + unit" where
  [validator_defs]: "validate_kql_query query =
     (if trim query = [] then Inl (invalid_params (asc ''KQL query cannot be empty''))
      else if 128000 < str_len query then
        Inl (invalid_params (asc ''KQL query exceeds maximum length of 128KB''))
      else Inr ())"

section \<open>Live Response commands, texts, batches\<close>

fun command_allowed :: "ustr list \<Rightarrow> live_response_command list \<Rightarrow> mcp_error + unit" where
  "command_allowed allowed [] = Inr ()"
| "command_allowed allowed (cmd # cmds) =
     (let s = command_type_str (cmd_type cmd) in
      if s \<notin> set allowed then
        Inl (invalid_params (asc ''Command type '' @ sq s
          @ asc '' is not in the allowed list (DEFENDER_LIVE_RESPONSE_ALLOWED_COMMANDS=''
          @ join (asc '','') allowed @ asc '')''))
      else command_allowed allowed cmds)"

definition validate_live_response_commands ::
  "live_response_command list \<Rightarrow> ustr list option \<Rightarrow> mcp_error + unit" where
  [validator_defs]: "validate_live_response_commands commands allowed =
     (if commands = [] then
        Inl (invalid_params (asc ''commands array cannot be empty '' @ [0x2014]
               @ asc '' at least one command is required''))
      else if 20 < length commands then
        Inl (invalid_params (asc ''commands array exceeds maximum of 20 commands''))
      else (case allowed of Some a \<Rightarrow> command_allowed a commands | None \<Rightarrow> Inr ()))"

definition allows_newlines :: "ustr \<Rightarrow> bool" where
  "allows_newlines field \<longleftrightarrow> field = asc ''comment'' \<or> field = asc ''justification'' \<or>
     suffix (asc ''_comment'') field \<or> suffix (asc ''_justification'') field"

definition validate_text :: "ustr \<Rightarrow> nat \<Rightarrow> ustr \<Rightarrow> mcp_error + ustr" where
  [validator_defs]: "validate_text s mx field =
     (let t = trim s; n = length t in
      if t = [] then Inl (invalid_params (field @ asc '' cannot be empty''))
      else if mx < n then
        Inl (invalid_params (field @ asc '' exceeds maximum length of '' @ show_nat mx
               @ asc '' characters (got '' @ show_nat n @ asc '')''))
      else if (if allows_newlines field then list_ex control_but_layout t else list_ex is_control t) then
        Inl (invalid_params (field @ asc '' contains invalid control characters''))
      else Inr t)"

definition validate_batch :: "ustr list \<Rightarrow> nat \<Rightarrow> ustr \<Rightarrow> mcp_error + unit" where
  [validator_defs]: "validate_batch ids mx field =
     (if ids = [] then
        Inl (invalid_params (field @ asc '' cannot be empty (must contain between 1 and '' @ show_nat mx
               @ asc '' items)''))
      else if mx < length ids then
        Inl (invalid_params (field @ asc '' exceeds maximum batch size of '' @ show_nat mx
               @ asc '' items (got '' @ show_nat (length ids) @ asc '') (server policy)''))
      else first_error (map (\<lambda>i. ok_unit (validate_required_id i field)) ids))"

definition validate_tag :: "ustr \<Rightarrow> mcp_error + ustr" where
  [validator_defs]: "validate_tag tag =
     (let t = trim tag; n = length t in
      if t = [] then Inl (invalid_params (asc ''tag cannot be empty''))
      else if 200 < n then
        Inl (invalid_params (asc ''tag exceeds maximum length of 200 characters (got '' @ show_nat n @ asc '')''))
      else if list_ex is_control t then
        Inl (invalid_params (asc ''tag contains invalid control characters''))
      else Inr t)"

definition validate_hex :: "ustr \<Rightarrow> nat \<Rightarrow> ustr \<Rightarrow> mcp_error + ustr" where
  [validator_defs]: "validate_hex s n field =
     (let t = trim s in
      if str_len t \<noteq> n \<or> \<not> list_all is_ascii_hexdigit t then
        Inl (invalid_params (field @ asc '' must be a '' @ show_nat n
               @ asc ''-character hex string, got '' @ sq t))
      else Inr t)"

section \<open>Indicators\<close>

definition validate_url_indicator :: "'x libs_scheme \<Rightarrow> ustr \<Rightarrow> mcp_error + ustr" where
  [validator_defs]: "validate_url_indicator l s =
     (let t = trim s in
      case url_parse l t of
        Inl e \<Rightarrow> Inl (invalid_params (asc ''indicator_value must be a valid URL: '' @ e))
      | Inr (scheme, host) \<Rightarrow>
          if scheme \<noteq> asc ''http'' \<and> scheme \<noteq> asc ''https'' then
            Inl (invalid_params (asc ''indicator_value URL must use http or https scheme, got '' @ sq scheme))
          else if (case host of None \<Rightarrow> [] | Some h \<Rightarrow> h) = [] then
            Inl (invalid_params (asc ''indicator_value URL must include a host''))
          else Inr t)"

definition validate_domain_indicator :: "ustr \<Rightarrow> mcp_error + ustr" where
  [validator_defs]: "validate_domain_indicator s =
     (let t = trim s in
      if parse_ip t \<noteq> None then
        Inl (invalid_params (asc ''indicator_value for DomainName must not be an IP address, got '' @ sq t))
      else map_err (\<lambda>e. invalid_params (asc ''indicator_value: '' @ message e)) (validate_hostname t))"

fun validate_indicator_value :: "'x libs_scheme \<Rightarrow> indicator_type \<Rightarrow> ustr \<Rightarrow> mcp_error + ustr" where
  "validate_indicator_value l FileSha1 v = validate_hex v 40 (asc ''indicator_value'')"
| "validate_indicator_value l CertificateThumbprint v = validate_hex v 40 (asc ''indicator_value'')"
| "validate_indicator_value l FileSha256 v = validate_hex v 64 (asc ''indicator_value'')"
| "validate_indicator_value l FileMd5 v = validate_hex v 32 (asc ''indicator_value'')"
| "validate_indicator_value l IpAddress v =
     (let t = trim v in
      if t = [] then Inl (invalid_params (asc ''indicator_value cannot be empty''))
      else if parse_ip t = None then Inl (invalid_params (ip_message (asc ''indicator_value'') t))
      else Inr t)"
| "validate_indicator_value l DomainName v = validate_domain_indicator v"
| "validate_indicator_value l Url v = validate_url_indicator l v"

definition validate_indicator_action ::
  "indicator_type \<Rightarrow> indicator_action \<Rightarrow> bool option \<Rightarrow> mcp_error + unit" where
  "validate_indicator_action ty action generate_alert =
     (case action of
       BlockAndRemediate \<Rightarrow>
         if ty \<in> {FileSha1, FileSha256, FileMd5, CertificateThumbprint} then Inr ()
         else Inl (invalid_params (asc ''indicator_action '' @ sq (asc ''BlockAndRemediate'')
                @ asc '' is only supported for file hashes and CertificateThumbprint, got ''
                @ indicator_type_str ty))
     | Warn \<Rightarrow>
         if ty \<in> {IpAddress, DomainName, Url} then Inr ()
         else Inl (invalid_params (asc ''indicator_action '' @ sq (asc ''Warn'')
                @ asc '' is only supported for IpAddress, DomainName, and Url, got ''
                @ indicator_type_str ty))
     | Audit \<Rightarrow>
         if generate_alert = Some False then
           Inl (invalid_params (asc ''generate_alert must be true or omitted when indicator_action is Audit''))
         else Inr ()
     | _ \<Rightarrow> Inr ())"

section \<open>Timestamps and classification pairs\<close>

definition day_ns :: int where
  "day_ns = 86400000000000"

definition validate_future_rfc3339 :: "'x libs_scheme \<Rightarrow> int \<Rightarrow> ustr \<Rightarrow> ustr \<Rightarrow> mcp_error + int" where
  "validate_future_rfc3339 l now s field =
     (let t = trim s in
      case rfc3339 l t of
        Inl e \<Rightarrow> Inl (invalid_params (field @ asc '' must be a valid RFC 3339 timestamp: '' @ e))
      | Inr dt \<Rightarrow>
          if dt \<le> now then Inl (invalid_params (field @ asc '' must be in the future, got '' @ sq t))
          else Inr dt)"

definition validate_recent_timestamp :: "'x libs_scheme \<Rightarrow> int \<Rightarrow> ustr \<Rightarrow> int \<Rightarrow> mcp_error + ustr" where
  "validate_recent_timestamp l now s max_age_days =
     (let t = trim s in
      case rfc3339 l t of
        Inl e \<Rightarrow> Inl (invalid_params (asc ''timestamp must be a valid RFC 3339 timestamp: '' @ e))
      | Inr dt \<Rightarrow>
          if now < dt then Inl (invalid_params (asc ''timestamp cannot be in the future''))
          else if dt < now - max_age_days * day_ns then
            Inl (invalid_params (asc ''timestamp cannot be older than '' @ show_int max_age_days
                   @ asc '' days, got '' @ sq t))
          else Inr (utc_format l dt))"

definition validate_classification_pair ::
  "classification option \<Rightarrow> determination option \<Rightarrow> mcp_error + unit" where
  "validate_classification_pair c d =
     (case (c, d) of
       (None, Some _) \<Rightarrow> Inl (invalid_params (asc ''determination requires classification to be specified''))
     | (Some cl, Some dt) \<Rightarrow>
         if dt \<notin> set (allowed_for cl) then
           Inl (invalid_params (asc ''determination '' @ sq (determination_str dt)
             @ asc '' is not valid for classification '' @ sq (classification_str cl) @ asc ''; valid: ''
             @ join (asc '', '') (map determination_str (allowed_for cl))))
         else Inr ()
     | _ \<Rightarrow> Inr ())"


section \<open>The contract of a trimming validator\<close>

text \<open>
  A validator of this kind accepts a text exactly when its trimmed form satisfies \<open>ok\<close>, and
  returns that trimmed form. So what it returns is a fixed point: validating again changes nothing.
\<close>

locale validator =
  fixes check :: "ustr \<Rightarrow> mcp_error + ustr" and ok :: "ustr \<Rightarrow> bool"
  assumes accepts: "check s = Inr t \<longleftrightarrow> t = trim s \<and> ok (trim s)"
begin

lemma accepted_ok: "is_ok (check s) \<longleftrightarrow> ok (trim s)"
  by (auto simp: is_ok_iff accepts)

lemma result: "check s = Inr t \<Longrightarrow> t = trim s \<and> ok t"
  by (auto simp: accepts)

lemma stable: "check s = Inr t \<Longrightarrow> check t = Inr t"
  by (auto simp: accepts)

lemma unwrapped: "is_ok (check s) \<Longrightarrow> unwrap_or [] (check s) = trim s"
  using accepts [of s "trim s"] by (auto simp: accepted_ok)

lemma padding: "trim s = trim s' \<Longrightarrow> check s = Inr t \<longleftrightarrow> check s' = Inr t"
  by (simp add: accepts)

end

text \<open>The accepted texts of each validator.\<close>

definition hostname_ok :: "ustr \<Rightarrow> bool" where
  "hostname_ok t \<longleftrightarrow> t \<noteq> [] \<and> str_len t \<le> 253 \<and> 47 \<notin> set t \<and>
     (\<forall>c\<in>set t. \<not> is_control c \<and> \<not> is_whitespace c) \<and> t \<noteq> asc ''.'' \<and> \<not> sublist (asc ''..'') t"

definition no_control :: "ustr \<Rightarrow> bool" where
  "no_control t \<longleftrightarrow> (\<forall>c\<in>set t. \<not> is_control c)"

definition id_ok :: "ustr \<Rightarrow> bool" where
  "id_ok t \<longleftrightarrow> t \<noteq> [] \<and> t \<noteq> asc ''.'' \<and> t \<noteq> asc ''..'' \<and> no_control t"

definition hex_ok :: "nat \<Rightarrow> ustr \<Rightarrow> bool" where
  "hex_ok n t \<longleftrightarrow> length t = n \<and> (\<forall>c\<in>set t. is_ascii_hexdigit c)"

definition action_id_ok :: "ustr \<Rightarrow> bool" where
  "action_id_ok t \<longleftrightarrow> t \<noteq> [] \<and> length t \<le> 64 \<and> (\<forall>c\<in>set t. is_ascii_alphanumeric c \<or> c = 45)"

definition file_name_ok :: "ustr \<Rightarrow> bool" where
  "file_name_ok t \<longleftrightarrow> id_ok t \<and> 47 \<notin> set t \<and> 92 \<notin> set t"

definition text_ok :: "nat \<Rightarrow> ustr \<Rightarrow> ustr \<Rightarrow> bool" where
  "text_ok mx field t \<longleftrightarrow> t \<noteq> [] \<and> length t \<le> mx \<and>
     (if allows_newlines field then \<forall>c\<in>set t. \<not> control_but_layout c else no_control t)"

definition url_ok :: "'x libs_scheme \<Rightarrow> ustr \<Rightarrow> bool" where
  "url_ok l t \<longleftrightarrow> (\<exists>h. url_parse l t \<in> {Inr (asc ''http'', Some h), Inr (asc ''https'', Some h)} \<and> h \<noteq> [])"

lemma list_ex_set: "list_ex p s \<longleftrightarrow> (\<exists>c\<in>set s. p c)"
  by (simp add: list_ex_iff)

lemma list_all_set: "list_all p s \<longleftrightarrow> (\<forall>c\<in>set s. p c)"
  by (simp add: list_all_iff)

lemma hex_str_len: "\<forall>c\<in>set t. is_ascii_hexdigit c \<Longrightarrow> str_len t = length t"
  by (rule str_len_ascii) (auto dest: hexdigit_alphanumeric alphanumeric_ascii)

text \<open>The bytes of a text are all of an ASCII class exactly when its characters are.\<close>

lemma utf8_enc_ascii: "(\<forall>b\<in>set (utf8_enc c). b < 0x80) \<longleftrightarrow> c < 0x80"
  by (auto simp: utf8_enc_def)

lemma utf8_all_ascii:
  assumes "\<And>b. p b \<Longrightarrow> b < 0x80"
  shows "(\<forall>b\<in>set (utf8 t). p b) \<longleftrightarrow> (\<forall>c\<in>set t. p c)"
proof (induction t)
  case (Cons c t)
  have "(\<forall>b\<in>set (utf8_enc c). p b) \<longleftrightarrow> p c"
  proof (cases "c < 0x80")
    case True
    then show ?thesis by (simp add: utf8_enc_def)
  next
    case False
    with utf8_enc_ascii [of c] assms show ?thesis by blast
  qed
  with Cons show ?case by (simp add: utf8_def) blast
qed (simp add: utf8_def)

lemma action_id_bytes:
  "(\<forall>b\<in>set (utf8 t). is_ascii_alphanumeric b \<or> b = 45) \<longleftrightarrow>
   (\<forall>c\<in>set t. is_ascii_alphanumeric c \<or> c = 45)"
  by (rule utf8_all_ascii) (auto dest: alphanumeric_ascii)

lemma action_id_len: "\<forall>c\<in>set t. is_ascii_alphanumeric c \<or> c = 45 \<Longrightarrow> str_len t = length t"
  by (rule str_len_ascii) (auto dest: alphanumeric_ascii)

lemmas accepts_simps = validator_defs Let_def list_ex_set list_all_set

interpretation hostname: validator validate_hostname hostname_ok
  by unfold_locales
     (auto simp: accepts_simps hostname_ok_def contains_char_def contains_str_sublist)

interpretation required_id: validator "\<lambda>s. validate_required_id s param" id_ok for param
  by unfold_locales (auto simp: accepts_simps id_ok_def no_control_def)

interpretation ip_address: validator validate_ip_address "\<lambda>t. parse_ip t \<noteq> None"
proof
  fix s t show "validate_ip_address s = Inr t \<longleftrightarrow> t = trim s \<and> parse_ip (trim s) \<noteq> None"
    by (cases "trim s = []") (auto simp: accepts_simps)
qed

interpretation sha1: validator validate_sha1 "hex_ok 40"
  by unfold_locales (auto simp: accepts_simps hex_ok_def hex_re_def)

interpretation machine_id: validator validate_machine_id "hex_ok 40"
  by unfold_locales (auto simp: accepts_simps hex_ok_def hex_re_def)

interpretation action_id: validator validate_action_id action_id_ok
proof
  fix s t
  show "validate_action_id s = Inr t \<longleftrightarrow> t = trim s \<and> action_id_ok (trim s)"
    using action_id_len [of "trim s"]
    by (cases "\<forall>c\<in>set (trim s). is_ascii_alphanumeric c \<or> c = 45")
       (auto simp: accepts_simps action_id_ok_def action_id_bytes)
qed

interpretation comment: validator "\<lambda>s. validate_comment s field" "\<lambda>t. 10 \<le> length t" for field
  by unfold_locales (auto simp: validator_defs Let_def min_justification_len_def)

interpretation file_hash: validator validate_file_hash "\<lambda>t. hex_ok 32 t \<or> hex_ok 40 t \<or> hex_ok 64 t"
proof
  fix s t
  show "validate_file_hash s = Inr t \<longleftrightarrow>
      t = trim s \<and> (hex_ok 32 (trim s) \<or> hex_ok 40 (trim s) \<or> hex_ok 64 (trim s))"
    using hex_str_len [of "trim s"]
    by (cases "\<forall>c\<in>set (trim s). is_ascii_hexdigit c")
       (auto simp: accepts_simps hex_ok_def hex_re_def)
qed

interpretation tag_name: validator validate_tag_name "\<lambda>t. t \<noteq> [] \<and> no_control t"
  by unfold_locales (auto simp: accepts_simps no_control_def)

interpretation file_name: validator validate_file_name file_name_ok
  by unfold_locales
     (auto simp: accepts_simps file_name_ok_def id_ok_def no_control_def contains_char_def)

interpretation description: validator validate_description
  "\<lambda>t. t \<noteq> [] \<and> (\<forall>c\<in>set t. \<not> control_but_layout c)"
  by unfold_locales (auto simp: accepts_simps)

interpretation cve_id: validator "validate_cve_id l" "cve_re l" for l :: "'x libs_scheme"
  by unfold_locales (auto simp: validator_defs Let_def)

interpretation text_field: validator "\<lambda>s. validate_text s mx field" "text_ok mx field" for mx field
  by unfold_locales (auto simp: accepts_simps text_ok_def no_control_def)

interpretation tag: validator validate_tag "\<lambda>t. t \<noteq> [] \<and> length t \<le> 200 \<and> no_control t"
  by unfold_locales (auto simp: accepts_simps no_control_def)

interpretation hex: validator "\<lambda>s. validate_hex s n field" "hex_ok n" for n field
proof
  fix s t
  show "validate_hex s n field = Inr t \<longleftrightarrow> t = trim s \<and> hex_ok n (trim s)"
    using hex_str_len [of "trim s"]
    by (cases "\<forall>c\<in>set (trim s). is_ascii_hexdigit c") (auto simp: accepts_simps hex_ok_def)
qed

interpretation url_indicator: validator "validate_url_indicator l" "url_ok l" for l :: "'x libs_scheme"
  by unfold_locales
     (auto simp: validator_defs Let_def url_ok_def split: sum.splits prod.splits option.splits)

interpretation domain: validator validate_domain_indicator "\<lambda>t. parse_ip t = None \<and> hostname_ok t"
  by unfold_locales (auto simp: validate_domain_indicator_def Let_def hostname.accepts)


section \<open>Encoded path segments\<close>

lemma encode_set_percent: "path_segment_encode_set 37"
  by (simp add: path_segment_encode_set_def unreserved_def char_class)

text \<open>An accepted identifier becomes exactly one path segment, whatever it contains.\<close>

definition one_segment :: "ustr \<Rightarrow> bool" where
  "one_segment p \<longleftrightarrow> p \<noteq> [] \<and> p \<noteq> asc ''.'' \<and> p \<noteq> asc ''..'' \<and>
     (\<forall>c\<in>set p. unreserved c \<or> c = 37)"

lemma dots_fixed: "percent_encode_doc path_segment_encode_set (asc ''.'') = asc ''.''"
  "percent_encode_doc path_segment_encode_set (asc ''..'') = asc ''..''"
  "percent_encode_doc path_segment_encode_set [] = []"
  by (intro percent_doc_fixed; simp add: asc_def path_segment_encode_set_def unreserved_def)+

lemma encode_one_segment:
  assumes "percent_documented l" and "\<forall>c\<in>set t. is_scalar c"
    and "t \<noteq> []" and "t \<noteq> asc ''.''" and "t \<noteq> asc ''..''"
  shows "one_segment (encode_path_segment l t)"
proof -
  let ?e = "percent_encode_doc path_segment_encode_set"
  have enc: "encode_path_segment l t = ?e t"
    using assms(1) by (simp add: encode_path_segment_def percent_documented_def)
  have neq: "?e t \<noteq> u" if "?e u = u" "t \<noteq> u" "\<forall>c\<in>set u. is_scalar c" for u
    proof
    assume "?e t = u"
    with that(1) have "?e t = ?e u" by simp
    with percent_doc_inj [of t u path_segment_encode_set] assms(2) that(2,3) encode_set_percent
    show False by blast
  qed
  have "?e t \<noteq> []" "?e t \<noteq> asc ''.''" "?e t \<noteq> asc ''..''"
    using assms(3-5) by (intro neq dots_fixed; simp add: asc_def is_scalar_def)+
  moreover have "unreserved c \<or> c = 37" if "c \<in> set (?e t)" for c
    using percent_doc_chars [OF assms(2) that]
    by (auto simp: unreserved_def path_segment_encode_set_def)
  ultimately show ?thesis by (simp add: one_segment_def enc)
qed

section \<open>Properties\<close>

text \<open>
  What the validators of identifiers, names and hashes accept, exactly: the trimmed text is
  returned, and it is accepted just when it satisfies the stated predicate. Padding is never
  significant and nothing else is changed.
\<close>

theorem validators_accept:
  "(validate_hostname s = Inr t \<longleftrightarrow> t = trim s \<and> hostname_ok t) \<and>
   (validate_required_id s p = Inr t \<longleftrightarrow> t = trim s \<and> id_ok t) \<and>
   (validate_machine_id s = Inr t \<longleftrightarrow> t = trim s \<and> hex_ok 40 t) \<and>
   (validate_sha1 s = Inr t \<longleftrightarrow> t = trim s \<and> hex_ok 40 t) \<and>
   (validate_file_hash s = Inr t \<longleftrightarrow> t = trim s \<and> (hex_ok 32 t \<or> hex_ok 40 t \<or> hex_ok 64 t)) \<and>
   (validate_action_id s = Inr t \<longleftrightarrow> t = trim s \<and> action_id_ok t) \<and>
   (validate_file_name s = Inr t \<longleftrightarrow> t = trim s \<and> file_name_ok t) \<and>
   (validate_comment s f = Inr t \<longleftrightarrow> t = trim s \<and> 10 \<le> length t) \<and>
   (validate_text s mx f = Inr t \<longleftrightarrow> t = trim s \<and> text_ok mx f t) \<and>
   (validate_ip_address s = Inr t \<longleftrightarrow> t = trim s \<and> (\<exists>a. parse_ip t = Some a))"
  using hostname.accepts [of s t] required_id.accepts [of s p t] machine_id.accepts [of s t]
    sha1.accepts [of s t] file_hash.accepts [of s t] action_id.accepts [of s t]
    file_name.accepts [of s t] comment.accepts [of s f t] text_field.accepts [of s mx f t]
    ip_address.accepts [of s t]
  by auto

text \<open>
  An indicator value is accepted exactly when its trimmed form has the shape of its type: hex
  of the hash's length, an IP address literal, a host name that is not one, or an http(s) URL with
  a host.
\<close>

theorem indicator_values_accept:
  "validate_indicator_value l ty v = Inr t \<longleftrightarrow> t = trim v \<and>
     (case ty of
       FileSha1 \<Rightarrow> hex_ok 40 t | CertificateThumbprint \<Rightarrow> hex_ok 40 t
     | FileSha256 \<Rightarrow> hex_ok 64 t | FileMd5 \<Rightarrow> hex_ok 32 t
     | IpAddress \<Rightarrow> (\<exists>a. parse_ip t = Some a)
     | DomainName \<Rightarrow> parse_ip t = None \<and> hostname_ok t
     | Url \<Rightarrow> url_ok l t)"
proof (cases ty)
  case IpAddress
  then show ?thesis by (cases "trim v = []") (auto simp: Let_def)
qed (auto simp: hex.accepts domain.accepts url_indicator.accepts)

text \<open>
  The rules that join an indicator's type, action and alert flag: remediation only for files
  and certificates, warnings only for network indicators, and auditing never with the alert
  switched off. Every other combination is accepted.
\<close>

theorem indicator_actions_accept:
  "is_ok (validate_indicator_action ty action alert) \<longleftrightarrow>
     \<not> (action = BlockAndRemediate \<and> ty \<in> {IpAddress, DomainName, Url}) \<and>
     \<not> (action = Warn \<and> ty \<notin> {IpAddress, DomainName, Url}) \<and>
     \<not> (action = Audit \<and> alert = Some False)"
  by (cases action; cases ty) (simp_all add: validate_indicator_action_def)

text \<open>
  C36. A validated identifier, percent-encoded, is exactly one path segment of a URL: not empty, not
  a dot segment, only unreserved characters and escapes, so neither a slash nor a question mark nor
  a hash sign; and decoding it gives the identifier's bytes back.
\<close>

theorem validated_id_one_segment:
  assumes "percent_documented l" and "\<forall>c\<in>set value. is_scalar c"
    and "validate_required_id value param = Inr t"
  shows "one_segment (encode_path_segment l t) \<and>
    percent_decode (encode_path_segment l t) = utf8 t"
proof -
  have t: "t = trim value" "id_ok t" using assms(3) by (simp_all add: required_id.accepts)
  then have scalar: "\<forall>c\<in>set t. is_scalar c" using assms(2) set_trim by blast
  with t assms(1) have "one_segment (encode_path_segment l t)"
    by (intro encode_one_segment) (simp_all add: id_ok_def)
  moreover have "percent_decode (encode_path_segment l t) = utf8 t"
    using percent_decode_doc [of t path_segment_encode_set] scalar encode_set_percent assms(1)
    by (simp add: encode_path_segment_def percent_documented_def)
  ultimately show ?thesis by simp
qed

text \<open>The witness: an identifier with a slash and a non-ASCII letter.\<close>

definition doc_libs :: libs where
  "doc_libs = \<lparr>percent_encode = percent_encode_doc, nd_digit = is_ascii_digit,
     url_parse = (\<lambda>s. Inl []), rfc3339 = (\<lambda>s. Inl []), utc_format = (\<lambda>t. []), to_rfc3339 = (\<lambda>t. []),
     json_parse = (\<lambda>s. Inl []), json_text = (\<lambda>v. [])\<rparr>"

lemma doc_libs_documented [simp]: "percent_documented doc_libs"
  by (simp add: doc_libs_def percent_documented_def)

lemma validated_id_one_segment_witness:
  "one_segment (encode_path_segment doc_libs [97, 47, 233])"
proof -
  have "validate_required_id [97, 47, 233, 32] (asc ''id'') = Inr [97, 47, 233]"
    by code_simp
  then show ?thesis
    using validated_id_one_segment [of doc_libs "[97, 47, 233, 32]" "asc ''id''" "[97, 47, 233]"]
    by (simp add: is_scalar_def)
qed

text \<open>
  A classification and a determination are accepted together exactly when the determination is
  one the classification allows, and a determination is never accepted without a classification.
\<close>

theorem classification_pairs_accept:
  "is_ok (validate_classification_pair c d) \<longleftrightarrow>
     (case (c, d) of (_, None) \<Rightarrow> True | (None, Some _) \<Rightarrow> False
      | (Some cl, Some dt) \<Rightarrow> dt \<in> set (allowed_for cl))"
  by (cases c; cases d) (simp_all add: validate_classification_pair_def)

text \<open>
  The sighting timestamp of a lookup by address is accepted exactly within the last
  \<open>max_age_days\<close> days, both ends included, and is passed on in the normalized UTC form.
\<close>

theorem recent_timestamp_window:
  "validate_recent_timestamp l now s days = Inr out \<longleftrightarrow>
     (\<exists>dt. rfc3339 l (trim s) = Inr dt \<and> now - days * day_ns \<le> dt \<and> dt \<le> now \<and>
           out = utc_format l dt)"
  by (auto simp: validate_recent_timestamp_def Let_def split: sum.splits)

end
