(* ===== verification/AuditLog.thy ===== *)
theory AuditLog
  imports Cli
begin

text \<open>
  The records of \<open>src/audit.rs\<close>: phases, confirmation outcomes, rejection reasons, targets,
  results, the record itself and its one-line summary. Writing a record is an effect and is
  modelled in \<open>World\<close>.
\<close>

section \<open>Enumerations\<close>

datatype audit_phase = Intent | Outcome | Final

fun phase_str :: "audit_phase \<Rightarrow> ustr" where
  "phase_str Intent = asc ''intent''"
| "phase_str Outcome = asc ''outcome''"
| "phase_str Final = asc ''final''"

datatype confirmation_outcome = Accepted | Declined | Unavailable | TurnedOff | NotApplicable

fun confirmation_str :: "confirmation_outcome \<Rightarrow> ustr" where
  "confirmation_str Accepted = asc ''accepted''"
| "confirmation_str Declined = asc ''declined''"
| "confirmation_str Unavailable = asc ''unavailable''"
| "confirmation_str TurnedOff = asc ''turned_off''"
| "confirmation_str NotApplicable = asc ''not_applicable''"

datatype reject_reason =
    RReadOnly | RCategoryDisabled | RValidation | RConfirmationUnavailable | RNotConfirmed
  | RAuditUnavailable

fun reject_str :: "reject_reason \<Rightarrow> ustr" where
  "reject_str RReadOnly = asc ''read_only''"
| "reject_str RCategoryDisabled = asc ''category_disabled''"
| "reject_str RValidation = asc ''validation''"
| "reject_str RConfirmationUnavailable = asc ''confirmation_unavailable''"
| "reject_str RNotConfirmed = asc ''not_confirmed''"
| "reject_str RAuditUnavailable = asc ''audit_unavailable''"

section \<open>Targets\<close>

datatype target_kind =
    KMachineId | KMachineActionId | KIndicatorId | KIndicatorValue | KAlertId | KIncidentId
  | KFileName | KSha1

record audit_target =
  target_kind :: target_kind
  target_value :: ustr

definition mk_target :: "target_kind \<Rightarrow> ustr \<Rightarrow> audit_target" where
  "mk_target k v = \<lparr>target_kind = k, target_value = v\<rparr>"

section \<open>Results and records\<close>

datatype audit_result =
    Pending
  | Submitted (http_status: nat) (tracking_id: "ustr option") (upstream_status: "ustr option")
  | UpstreamError (http_status: nat) (error_message: ustr)
  | TransportError (error_message: ustr)
  | Rejected reject_reason
  | RDeclined

fun result_kind :: "audit_result \<Rightarrow> ustr" where
  "result_kind Pending = asc ''pending''"
| "result_kind (Submitted _ _ _) = asc ''submitted''"
| "result_kind (UpstreamError _ _) = asc ''upstream_error''"
| "result_kind (TransportError _) = asc ''transport_error''"
| "result_kind (Rejected _) = asc ''rejected''"
| "result_kind RDeclined = asc ''declined''"

record audit_record =
  ar_ts :: int
  ar_attempt_id :: ustr
  ar_phase :: audit_phase
  ar_tool :: ustr
  ar_action :: ustr
  ar_targets :: "audit_target list"
  ar_parameters :: json_map
  ar_justification :: "ustr option"
  ar_identity :: identity_snapshot
  ar_confirmation :: confirmation_outcome
  ar_result :: audit_result

fun status_part :: "audit_result \<Rightarrow> ustr" where
  "status_part (Submitted s _ _) = asc '' status='' @ show_nat s"
| "status_part (UpstreamError s _) = asc '' status='' @ show_nat s"
| "status_part _ = []"

fun id_part :: "audit_result \<Rightarrow> ustr" where
  "id_part (Submitted _ (Some i) _) = asc '' id='' @ i"
| "id_part _ = []"

text \<open>The line \<open>print_stderr_summary\<close> writes.\<close>

definition stderr_summary :: "'x libs_scheme \<Rightarrow> audit_record \<Rightarrow> ustr" where
  "stderr_summary l r =
     asc ''AUDIT '' @ to_rfc3339 l (ar_ts r) @ asc '' '' @ ar_tool r @ asc ''.'' @ ar_action r
     @ asc '' targets='' @ show_nat (length (ar_targets r))
     @ asc '' identity='' @ display_summary (ar_identity r)
     @ asc '' confirmation='' @ confirmation_str (ar_confirmation r)
     @ asc '' result='' @ result_kind (ar_result r)
     @ status_part (ar_result r) @ id_part (ar_result r)"

text \<open>\<open>{:02x}\<close> of each byte.\<close>

definition hex_lower :: "nat \<Rightarrow> uchar" where
  "hex_lower d = (if d < 10 then 48 + d else 87 + d)"

definition hex_bytes :: "nat list \<Rightarrow> ustr" where
  "hex_bytes bs = concat (map (\<lambda>b. [hex_lower (b div 16), hex_lower (b mod 16)]) bs)"

lemma length_hex_bytes: "length (hex_bytes bs) = 2 * length bs"
  by (induction bs) (simp_all add: hex_bytes_def)

lemma hex_lower_inj: "hex_lower a = hex_lower b \<Longrightarrow> a < 16 \<Longrightarrow> b < 16 \<Longrightarrow> a = b"
  by (simp add: hex_lower_def split: if_splits)

lemma hex_bytes_inj:
  "\<forall>b\<in>set bs. b < 256 \<Longrightarrow> \<forall>b\<in>set cs. b < 256 \<Longrightarrow> hex_bytes bs = hex_bytes cs \<Longrightarrow> bs = cs"
proof (induction bs arbitrary: cs)
  case Nil
  then show ?case by (cases cs) (simp_all add: hex_bytes_def)
next
  case (Cons b bs)
  from Cons.prems(3) obtain c cs' where cs: "cs = c # cs'"
    by (cases cs) (simp_all add: hex_bytes_def)
  with Cons.prems have hi: "hex_lower (b div 16) = hex_lower (c div 16)"
    and lo: "hex_lower (b mod 16) = hex_lower (c mod 16)"
    and rest: "hex_bytes bs = hex_bytes cs'"
    by (simp_all add: hex_bytes_def)
  have "b div 16 = c div 16" using hi
    by (rule hex_lower_inj) (use Cons.prems cs in \<open>simp_all add: less_mult_imp_div_less\<close>)
  moreover have "b mod 16 = c mod 16" using lo by (rule hex_lower_inj) simp_all
  ultimately have "b = c" by (rule divmod_eq)
  moreover have "bs = cs'" using Cons.prems cs rest by (intro Cons.IH) simp_all
  ultimately show ?case using cs by simp
qed

end
