(* ===== verification/KqlTree.thy ===== *)
theory KqlTree
  imports Prelude
begin

text \<open>
  The parse tree of \<open>src/crates/kql-parser/src/lib.rs\<close> and what the walk over it collects. The pest
  grammar \<open>kql.pest\<close> is compiled by a procedural macro, so the parser itself is outside the model:
  a tree is a node with its rule's name, its text, its span and its children. Spans count characters
  where the crate counts bytes; every span is at a character boundary.

  \<open>walk\<close> descends through the head of a pipe, which is not a child but the end of a chain of only
  children, so its recursion is justified by the size of the tree.
\<close>

section \<open>Trees\<close>

datatype kql_node =
  Node (nd_rule: string) (nd_text: ustr) (nd_start: nat) (nd_end: nat) (nd_children: "kql_node list")

type_synonym pest_parser = "ustr \<Rightarrow> (nat \<times> nat) + kql_node"

lemma size_child: "c \<in> set (nd_children p) \<Longrightarrow> size c < size p"
  by (cases p) (auto dest: size_list_estimation' [of c _ "size c" size])

text \<open>\<open>strip_prefix\<close> and \<open>strip_suffix\<close>, and \<open>unquote\<close>.\<close>

definition strip_prefix :: "ustr \<Rightarrow> ustr \<Rightarrow> ustr option" where
  "strip_prefix p s = (if take (length p) s = p then Some (drop (length p) s) else None)"

definition strip_suffix :: "ustr \<Rightarrow> ustr \<Rightarrow> ustr option" where
  "strip_suffix p s = map_option rev (strip_prefix (rev p) (rev s))"

definition unquote :: "ustr \<Rightarrow> ustr" where
  "unquote s =
     (let t = trim_start_matches (\<lambda>c. c = 64) (trim_start_matches (\<lambda>c. c = 104 \<or> c = 72) s);
          within = (\<lambda>q. Option.bind (strip_prefix q t) (strip_suffix q))
      in case within (replicate 3 96) of
           Some inner \<Rightarrow> inner
         | None \<Rightarrow> (case within (replicate 3 126) of
               Some inner \<Rightarrow> inner
             | None \<Rightarrow> butlast (drop 1 t)))"

fun name_text :: "kql_node \<Rightarrow> ustr" where
  "name_text (Node r t a b cs) =
     (if r = ''name_ref'' \<or> r = ''name_decl'' then (case cs of c # _ \<Rightarrow> name_text c | [] \<Rightarrow> [])
      else if r = ''bracket_name'' then (case cs of c # _ \<Rightarrow> unquote (nd_text c) | [] \<Rightarrow> [])
      else t)"

datatype head = HeadName ustr | HeadParen kql_node | HeadOther

text \<open>\<open>head_of\<close>: single children are followed down to a name or a parenthesized pipe.\<close>

fun head_of :: "kql_node \<Rightarrow> head" where
  "head_of (Node r t a b cs) =
     (if r = ''name_ref'' then HeadName (name_text (Node r t a b cs))
      else if r = ''paren_pipe'' then HeadParen (Node r t a b cs)
      else (case cs of [c] \<Rightarrow> head_of c | _ \<Rightarrow> HeadOther))"

fun head_of_string :: "kql_node \<Rightarrow> ustr option" where
  "head_of_string (Node r t a b cs) =
     (if r = ''string_lit'' then Some (unquote t)
      else (case cs of [c] \<Rightarrow> head_of_string c | _ \<Rightarrow> None))"

lemma head_paren: "head_of p = HeadParen pp \<Longrightarrow> size pp \<le> size p \<and> nd_rule pp = ''paren_pipe''"
proof (induction p rule: head_of.induct)
  case (1 r t a b cs)
  show ?case
  proof (cases "r = ''name_ref'' \<or> r = ''paren_pipe''")
    case True
    with "1.prems" show ?thesis by (auto split: if_splits)
  next
    case False
    with "1.prems" obtain c where c: "cs = [c]" "head_of c = HeadParen pp"
      by (auto split: list.splits)
    from "1.IH" [of c "[]"] False c have "size pp \<le> size c \<and> nd_rule pp = ''paren_pipe''" by simp
    with c size_child [of c "Node r t a b cs"] show ?thesis by simp
  qed
qed

section \<open>The analysis\<close>

text \<open>The \<open>BTreeSet\<close>s are sorted lists without repetition.\<close>

type_synonym name_set = "ustr list"

record analysis =
  an_tables :: name_set
  an_table_patterns :: name_set
  an_functions :: name_set
  an_plugins :: name_set
  an_invoked :: name_set
  an_cross_cluster :: bool
  an_external_data :: bool
  an_unscoped_search :: bool
  an_set_options :: name_set
  an_let_names :: name_set
  an_operators :: name_set
  an_names :: name_set
  an_declared :: name_set
  an_ungrouped_aggregate :: bool
  an_time_literals :: bool

definition default_analysis :: analysis where
  "default_analysis = \<lparr>an_tables = [], an_table_patterns = [], an_functions = [], an_plugins = [], an_invoked = [],
     an_cross_cluster = False, an_external_data = False, an_unscoped_search = False, an_set_options = [],
     an_let_names = [], an_operators = [], an_names = [], an_declared = [], an_ungrouped_aggregate = False,
     an_time_literals = False\<rparr>"

abbreviation add_name :: "ustr \<Rightarrow> name_set \<Rightarrow> name_set" where
  "add_name \<equiv> insort_insert"

definition expression_operators :: "string list" where
  "expression_operators = [''eq_op'', ''rel_op'', ''add_op'', ''mul_op'', ''unary_op'', ''in_op'',
     ''between_op'', ''str_op'']"

definition has_child :: "string \<Rightarrow> kql_node \<Rightarrow> bool" where
  "has_child r p = list_ex (\<lambda>c. nd_rule c = r) (nd_children p)"

text \<open>The name before \<open>(args)\<close> in a postfix chain; other callees are skipped.\<close>

definition callee_name :: "kql_node \<Rightarrow> ustr option" where
  "callee_name callee =
     (if nd_rule callee = ''name_ref'' then Some (name_text callee)
      else if nd_rule callee = ''member''
      then Some (case nd_children callee of n # _ \<Rightarrow> name_text n | [] \<Rightarrow> [])
      else None)"

definition call_fact :: "ustr \<Rightarrow> kql_node \<Rightarrow> analysis \<Rightarrow> analysis" where
  "call_fact name args a =
     (let a1 = (if name = asc ''cluster'' \<or> name = asc ''database'' then a\<lparr>an_cross_cluster := True\<rparr>
                else if name = asc ''external_table'' then a\<lparr>an_external_data := True\<rparr>
                else if name = asc ''table'' then
                  (case nd_children args of
                     [] \<Rightarrow> a
                   | c # _ \<Rightarrow> (case head_of_string c of
                         Some t \<Rightarrow> a\<lparr>an_tables := add_name t (an_tables a)\<rparr>
                       | None \<Rightarrow> a))
                else a)
      in a1\<lparr>an_functions := add_name name (an_functions a1)\<rparr>)"

definition calls_of :: "kql_node \<Rightarrow> (ustr \<times> kql_node) list" where
  "calls_of p = List.map_filter (\<lambda>(callee, part).
       if nd_rule part = ''call_args'' then map_option (\<lambda>n. (n, part)) (callee_name callee) else None)
     (zip (nd_children p) (drop 1 (nd_children p)))"

definition call_facts :: "kql_node \<Rightarrow> analysis \<Rightarrow> analysis" where
  "call_facts p a = fold (\<lambda>(n, args). call_fact n args) (calls_of p) a"

text \<open>The parts of a postfix chain but its callees, which are functions, not columns.\<close>

fun not_callees :: "kql_node list \<Rightarrow> kql_node list" where
  "not_callees [] = []"
| "not_callees [p] = [p]"
| "not_callees (p # q # ps) =
     (if nd_rule p = ''name_ref'' \<and> nd_rule q = ''call_args'' then not_callees (q # ps)
      else p # not_callees (q # ps))"

lemma not_callees_subset: "c \<in> set (not_callees ps) \<Longrightarrow> c \<in> set ps"
  by (induction ps rule: not_callees.induct) (auto split: if_splits)

text \<open>The facts of a node that is walked into like any other.\<close>

definition ends_with :: "string \<Rightarrow> string \<Rightarrow> bool" where
  "ends_with suf s \<longleftrightarrow> length suf \<le> length s \<and> drop (length s - length suf) s = suf"

definition invoked_name :: "kql_node \<Rightarrow> ustr option" where
  "invoked_name p =
     (case find (\<lambda>c. nd_rule c = ''postfix'') (nd_children p) of
       Some post \<Rightarrow> (case nd_children post of
           n # _ \<Rightarrow> if nd_rule n = ''name_ref'' then Some (name_text n) else None
         | [] \<Rightarrow> None)
     | None \<Rightarrow> None)"

definition node_facts :: "kql_node \<Rightarrow> analysis \<Rightarrow> analysis" where
  "node_facts p a =
     (let r = nd_rule p in
      if r = ''find_op'' \<or> r = ''search_op'' then (if has_child ''kw_in'' p then a else a\<lparr>an_unscoped_search := True\<rparr>)
      else if r = ''externaldata_op'' then a\<lparr>an_external_data := True\<rparr>
      else if r = ''count_op'' then a\<lparr>an_ungrouped_aggregate := True\<rparr>
      else if r = ''summarize_op'' then (if has_child ''kw_by'' p then a else a\<lparr>an_ungrouped_aggregate := True\<rparr>)
      else if r = ''plugin_call'' then
        (case nd_children p of
           n # _ \<Rightarrow> a\<lparr>an_plugins := add_name (to_ascii_lowercase (name_text n)) (an_plugins a)\<rparr>
         | [] \<Rightarrow> a)
      else if r = ''invoke_op'' then
        (case invoked_name p of Some n \<Rightarrow> a\<lparr>an_invoked := add_name n (an_invoked a)\<rparr> | None \<Rightarrow> a)
      else a)"

definition operator_fact :: "kql_node \<Rightarrow> analysis \<Rightarrow> analysis" where
  "operator_fact p a =
     (if ends_with ''_op'' (nd_rule p) \<and> nd_rule p \<notin> set expression_operators
      then a\<lparr>an_operators := add_name (asc (nd_rule p)) (an_operators a)\<rparr> else a)"

definition is_time_literal :: "ustr \<Rightarrow> bool" where
  "is_time_literal text =
     (let t = to_ascii_lowercase (trim_start_matches is_whitespace text)
      in prefix (asc ''datetime'') t \<or> prefix (asc ''date('') t \<or> prefix (asc ''date '') t)"

end
