(* ===== verification/World.thy ===== *)
theory World
  imports AuditLog KqlTree "HOL-Library.State_Monad"
begin

text \<open>
  The outside of the server and the state that changes while it runs.

  \<open>event\<close> lists what the program can be observed to do: HTTP requests, elicitation prompts, audit
  log appends (with their success), file operations, lines on stderr, the launch of a browser and
  a sleep (in nanoseconds). \<open>world\<close> holds the trace of events so far,
  the count of reads of the clock and of the random source, and the mutable state of the token
  manager and of the schema cache. \<open>env\<close> holds everything the program does not decide: the answers
  of servers, of the user, of the file system, of the clock, each as an arbitrary function of what
  was done before, and the library functions. \<open>server\<close> holds what is fixed once the server runs.

  Effectful functions of the source are values of the state monad of \<open>State_Monad\<close>.
\<close>

section \<open>Requests, replies, events\<close>

datatype http_method = GET | POST | PATCH | DELETE

record form_file =
  file_name_of :: ustr
  file_bytes :: "nat list"

datatype http_body =
    NoBody
  | JsonBody json
  | FormBody "(ustr \<times> ustr) list"
  | Multipart form_file "(ustr \<times> ustr) list"

record http_request =
  rq_method :: http_method
  rq_url :: ustr
  rq_query :: "(ustr \<times> ustr) list"
  rq_bearer :: "ustr option"
  rq_body :: http_body

text \<open>\<open>www_authenticate\<close> is the header's text when it has one; reading the body may fail.\<close>

record http_reply =
  reply_status :: nat
  www_authenticate :: "ustr option"
  reply_body :: "net_error + nat list"

text \<open>
  What the program does to the file system: when it stages an artifact (directories are created with
  mode 0700, files with mode 0600), and when it opens the audit log.
\<close>

datatype file_op =
    EnsureDir ustr
  | OpenTruncated ustr
  | WriteChunk ustr "nat list"
  | FlushFile ustr
  | RemoveFile ustr
  | Canonicalize ustr
  | CreateDirs ustr
  | SetMode ustr nat
  | OpenAppend ustr nat

datatype event =
    Sent http_request
  | Prompted ustr
  | Appended audit_record "ustr + unit"
  | Stderr ustr
  | Filed file_op
  | Launched ustr
  | Slept nat

fun sends :: "event \<Rightarrow> bool" where
  "sends (Sent r) = True"
| "sends _ = False"

text \<open>Requests that carry an access token: the calls of the Defender and Graph APIs.\<close>

fun api_call :: "event \<Rightarrow> bool" where
  "api_call (Sent r) = (rq_bearer r \<noteq> None)"
| "api_call _ = False"

lemma some_api_call: "list_ex api_call evs \<Longrightarrow> \<exists>rq. Sent rq \<in> set evs \<and> rq_bearer rq \<noteq> None"
  by (auto simp: list_ex_iff elim!: api_call.elims)

fun appends :: "event \<Rightarrow> bool" where
  "appends (Appended r ok) = True"
| "appends _ = False"

fun prompts :: "event \<Rightarrow> bool" where
  "prompts (Prompted m) = True"
| "prompts _ = False"

section \<open>The environment\<close>

datatype elicitation_mode = FormMode | UrlMode
datatype elicitation_action = Accept | Decline | Cancel

record elicit_result =
  el_action :: elicitation_action
  el_content :: "json option"

text \<open>
  \<open>args_error\<close> is the text of \<open>serde\<close>'s error when a map does not decode as a named struct; when it
  decodes is modelled where it happens.
\<close>

text \<open>Bodies of the token endpoint, as their derived decoders hand them over.\<close>

record raw_token =
  raw_access_token :: "ustr option"
  raw_refresh_token :: "ustr option"
  raw_id_token :: "ustr option"
  raw_expires_in :: "nat option"
  raw_scope :: "ustr option"

record raw_error =
  raw_error :: "ustr option"
  raw_error_description :: "ustr option"
  raw_error_codes :: "nat list option"

text \<open>
  \<open>body_chunks\<close> is the body of a reply as it streams in: finitely many chunks, then its end or an error.
  \<open>instants\<close> is the monotonic clock in nanoseconds, \<open>kql_pest\<close> the parser generated from \<open>kql.pest\<close>: the
  tree of a query, or the line and column where it stops.
\<close>

record env = libs +
  env_var :: "ustr \<Rightarrow> ustr option"
  clock :: "nat \<Rightarrow> int"
  entropy :: "nat \<Rightarrow> nat list"
  http :: "event list \<Rightarrow> http_request \<Rightarrow> net_error + http_reply"
  sink_io :: "event list \<Rightarrow> audit_record \<Rightarrow> ustr + unit"
  elicitation_modes :: "elicitation_mode set"
  elicit :: "event list \<Rightarrow> ustr \<Rightarrow> ustr + elicit_result"
  decode_text :: "nat list \<Rightarrow> ustr"
  decode_token :: "ustr \<Rightarrow> ustr + raw_token"
  decode_app_token :: "nat list \<Rightarrow> ustr + (ustr \<times> int)"
  decode_error :: "ustr \<Rightarrow> ustr + raw_error"
  net_text :: "net_error \<Rightarrow> ustr"
  error_display :: "mcp_error \<Rightarrow> ustr"
  args_error :: "string \<Rightarrow> json_map \<Rightarrow> ustr"
  file_io :: "event list \<Rightarrow> file_op \<Rightarrow> ustr + ustr"
  body_chunks :: "event list \<Rightarrow> http_reply \<Rightarrow> nat list list \<times> net_error option"
  sha256 :: "nat list \<Rightarrow> nat list"
  instants :: "nat \<Rightarrow> int"
  kql_pest :: pest_parser

text \<open>The error of \<open>call_action!\<close> when the arguments do not fit the action's input.\<close>

definition invalid_arguments :: "'x env_scheme \<Rightarrow> string \<Rightarrow> json_map \<Rightarrow> mcp_error" where
  "invalid_arguments e ty args =
     invalid_params (asc ''invalid arguments for this action: '' @ args_error e ty args)"

text \<open>\<open>required\<close>: a field the action needs.\<close>

definition required :: "ustr option \<Rightarrow> string \<Rightarrow> ustr \<Rightarrow> mcp_error + ustr" where
  "required v name action =
     (case v of
       Some t \<Rightarrow> Inr t
     | None \<Rightarrow> Inl (invalid_params (asc ''action '' @ sq action @ asc '' requires '' @ sq (asc name))))"

section \<open>The state\<close>

record cached_token =
  tok :: ustr
  expires_at :: int

datatype consent_state =
    Granted (granted_scopes: "ustr list") (consent_expires: int)
  | Missing (missing_aadsts: "nat option")

text \<open>The cached table schemas: the instant each was stored, and its answer.\<close>

type_synonym schema_map = "(ustr \<times> int \<times> json) list"

record world =
  trace :: "event list"
  reads :: nat
  cache :: "audience \<Rightarrow> cached_token option"
  refresh_token :: ustr
  consent :: "audience \<Rightarrow> consent_state option"
  reauth :: "reauth_reason option"
  schemas :: schema_map

datatype credential = ClientSecret ustr | Delegated ustr ustr

record server =
  config :: server_config
  tm_tenant :: ustr
  tm_client :: ustr
  credential :: credential
  audience_scopes :: "audience \<Rightarrow> ustr list option"
  graph_base :: ustr
  endpoint_base :: ustr
  audit_sink :: bool

type_synonym 'a io = "(world, 'a) state"

section \<open>Primitive effects\<close>

abbreviation ret :: "'a \<Rightarrow> 'a io" where
  "ret \<equiv> State_Monad.return"

definition emit :: "event \<Rightarrow> unit io" where
  "emit ev = State (\<lambda>w. ((), w\<lparr>trace := trace w @ [ev]\<rparr>))"

definition now :: "'x env_scheme \<Rightarrow> int io" where
  "now e = State (\<lambda>w. (clock e (reads w), w\<lparr>reads := Suc (reads w)\<rparr>))"

definition instant :: "'x env_scheme \<Rightarrow> int io" where
  "instant e = State (\<lambda>w. (instants e (reads w), w\<lparr>reads := Suc (reads w)\<rparr>))"

definition random_bytes :: "'x env_scheme \<Rightarrow> nat list io" where
  "random_bytes e = State (\<lambda>w. (entropy e (reads w), w\<lparr>reads := Suc (reads w)\<rparr>))"

definition send :: "'x env_scheme \<Rightarrow> http_request \<Rightarrow> (net_error + http_reply) io" where
  "send e rq = State (\<lambda>w. (http e (trace w) rq, w\<lparr>trace := trace w @ [Sent rq]\<rparr>))"

definition file_effect :: "'x env_scheme \<Rightarrow> file_op \<Rightarrow> (ustr + ustr) io" where
  "file_effect e f = State (\<lambda>w. (file_io e (trace w) f, w\<lparr>trace := trace w @ [Filed f]\<rparr>))"

definition gets :: "(world \<Rightarrow> 'a) \<Rightarrow> 'a io" where
  "gets f = State (\<lambda>w. (f w, w))"

definition modify :: "(world \<Rightarrow> world) \<Rightarrow> unit io" where
  "modify f = State (\<lambda>w. ((), f w))"

definition stderr_line :: "ustr \<Rightarrow> unit io" where
  "stderr_line m = emit (Stderr m)"

text \<open>\<open>AuditSink::append\<close>: the write and flush, then the summary when they succeeded.\<close>

definition sink_append :: "'x env_scheme \<Rightarrow> audit_record \<Rightarrow> (ustr + unit) io" where
  "sink_append e r = State (\<lambda>w.
     (case sink_io e (trace w) r of
       Inl err \<Rightarrow> (Inl err, w\<lparr>trace := trace w @ [Appended r (Inl err)]\<rparr>)
     | Inr u \<Rightarrow> (Inr (), w\<lparr>trace := trace w @ [Appended r (Inr ()), Stderr (stderr_summary e r)]\<rparr>)))"

definition new_attempt_id :: "'x env_scheme \<Rightarrow> ustr io" where
  "new_attempt_id e = do { bytes \<leftarrow> random_bytes e; ret (hex_bytes bytes) }"

lemma run_emit [simp]: "run_state (emit ev) w = ((), w\<lparr>trace := trace w @ [ev]\<rparr>)"
  by (simp add: emit_def)

lemma run_now [simp]: "run_state (now e) w = (clock e (reads w), w\<lparr>reads := Suc (reads w)\<rparr>)"
  by (simp add: now_def)

lemma run_instant [simp]: "run_state (instant e) w = (instants e (reads w), w\<lparr>reads := Suc (reads w)\<rparr>)"
  by (simp add: instant_def)

lemma run_random [simp]:
  "run_state (random_bytes e) w = (entropy e (reads w), w\<lparr>reads := Suc (reads w)\<rparr>)"
  by (simp add: random_bytes_def)

lemma run_send [simp]:
  "run_state (send e rq) w = (http e (trace w) rq, w\<lparr>trace := trace w @ [Sent rq]\<rparr>)"
  by (simp add: send_def)

lemma run_file_effect [simp]:
  "run_state (file_effect e f) w = (file_io e (trace w) f, w\<lparr>trace := trace w @ [Filed f]\<rparr>)"
  by (simp add: file_effect_def)

lemma run_gets [simp]: "run_state (gets f) w = (f w, w)"
  by (simp add: gets_def)

lemma run_modify [simp]: "run_state (modify f) w = ((), f w)"
  by (simp add: modify_def)

lemma run_new_attempt_id [simp]:
  "run_state (new_attempt_id e) w = (hex_bytes (entropy e (reads w)), w\<lparr>reads := Suc (reads w)\<rparr>)"
  by (simp add: new_attempt_id_def)

section \<open>Computations that only add events\<close>

text \<open>
  \<open>adds P m\<close>: whatever the state, running \<open>m\<close> leaves the events so far as they were and adds
  events of which all satisfy \<open>P\<close>. It composes, so a handler's contract follows from the contracts
  of the effects it uses.
\<close>

definition adds :: "(event \<Rightarrow> bool) \<Rightarrow> 'a io \<Rightarrow> bool" where
  "adds P m \<longleftrightarrow> (\<forall>w a w'. run_state m w = (a, w') \<longrightarrow>
     (\<exists>evs. trace w' = trace w @ evs \<and> list_all P evs))"

named_theorems adds_rules "computations known to add only certain events"

lemma addsI: "(\<And>w a w'. run_state m w = (a, w') \<Longrightarrow> \<exists>evs. trace w' = trace w @ evs \<and> list_all P evs) \<Longrightarrow> adds P m"
  by (simp add: adds_def)

lemma addsD: "adds P m \<Longrightarrow> run_state m w = (a, w') \<Longrightarrow> \<exists>evs. trace w' = trace w @ evs \<and> list_all P evs"
  by (simp add: adds_def)

lemma adds_ret [adds_rules]: "adds P (ret a)"
  by (simp add: adds_def)

lemma adds_emit [adds_rules]: "P ev \<Longrightarrow> adds P (emit ev)"
  by (simp add: adds_def)

lemma adds_now [adds_rules]: "adds P (now e)"
  by (simp add: adds_def)

lemma adds_send [adds_rules]: "P (Sent rq) \<Longrightarrow> adds P (send e rq)"
  by (simp add: adds_def)

lemma adds_stderr [adds_rules]: "(\<And>m. P (Stderr m)) \<Longrightarrow> adds P (stderr_line m)"
  by (simp add: adds_def stderr_line_def)

lemma adds_attempt_id [adds_rules]: "adds P (new_attempt_id e)"
  by (simp add: adds_def)

lemma adds_gets [adds_rules]: "adds P (gets f)"
  by (simp add: adds_def)

lemma adds_modify [adds_rules]: "(\<And>w. trace (f w) = trace w) \<Longrightarrow> adds P (modify f)"
  by (simp add: adds_def)

lemma adds_bind [adds_rules]:
  assumes m: "adds P m" and f: "\<And>a. adds P (f a)"
  shows "adds P (do { a \<leftarrow> m; f a })"
proof (rule addsI)
  fix w b w'' assume "run_state (do { a \<leftarrow> m; f a }) w = (b, w'')"
  then obtain a w' where 1: "run_state m w = (a, w')" and 2: "run_state (f a) w' = (b, w'')"
    by (auto split: prod.splits)
  from addsD [OF m 1] addsD [OF f 2] show "\<exists>evs. trace w'' = trace w @ evs \<and> list_all P evs"
    by auto
qed

lemma adds_append [adds_rules]:
  "(\<And>ok. P (Appended r ok)) \<Longrightarrow> (\<And>m. P (Stderr m)) \<Longrightarrow> adds P (sink_append e r)"
  by (auto simp: adds_def sink_append_def split: sum.splits)

lemma adds_mono: "adds P m \<Longrightarrow> (\<And>ev. P ev \<Longrightarrow> Q ev) \<Longrightarrow> adds Q m"
  unfolding adds_def by (metis list.pred_mono_strong)


section \<open>A concrete environment\<close>

text \<open>
  For evaluating the definitions: every request is answered by the same reply, every append
  succeeds, the user accepts every prompt, the clock stands still and no environment variable is
  set. The library functions are placeholders except the documented percent-encoding.
\<close>

definition demo_env :: "net_error + http_reply \<Rightarrow> env" where
  "demo_env answer = \<lparr>percent_encode = percent_encode_doc, nd_digit = is_ascii_digit,
     url_parse = (\<lambda>s. Inl []), rfc3339 = (\<lambda>s. Inl []), utc_format = (\<lambda>t. []), to_rfc3339 = (\<lambda>t. []),
     json_parse = (\<lambda>s. Inr (jobj [])), json_text = (\<lambda>v. []),
     env_var = (\<lambda>k. None), clock = (\<lambda>n. 0), entropy = (\<lambda>n. replicate 16 7),
     http = (\<lambda>h rq. answer), sink_io = (\<lambda>h r. Inr ()), elicitation_modes = {FormMode},
     elicit = (\<lambda>h m. Inr \<lparr>el_action = Accept, el_content = Some (jobj [(asc ''confirm'', JBool True)])\<rparr>),
     decode_text = (\<lambda>bs. bs),
     decode_token = (\<lambda>s. Inr \<lparr>raw_access_token = Some (asc ''token''), raw_refresh_token = None,
        raw_id_token = None, raw_expires_in = None, raw_scope = None\<rparr>),
     decode_app_token = (\<lambda>s. Inr (asc ''token'', 3600)),
     decode_error = (\<lambda>s. Inr \<lparr>raw_error = Some (asc ''invalid_grant''), raw_error_description = None,
        raw_error_codes = Some [50173]\<rparr>),
     net_text = (\<lambda>n. []), error_display = message, args_error = (\<lambda>ty m. []),
     file_io = (\<lambda>h f. Inr (case f of Canonicalize p \<Rightarrow> p | _ \<Rightarrow> [])),
     body_chunks = (\<lambda>h r. ([[7, 8], [9]], None)),
     sha256 = (\<lambda>bs. replicate 32 (length bs)),
     instants = (\<lambda>n. 0), kql_pest = (\<lambda>t. Inl (1, 1))\<rparr>"

definition demo_reply :: "nat \<Rightarrow> nat list \<Rightarrow> net_error + http_reply" where
  "demo_reply status body = Inr \<lparr>reply_status = status, www_authenticate = None, reply_body = Inr body\<rparr>"

definition demo_config :: server_config where
  "demo_config = \<lparr>transport = Stdio, bind_address = [], read_only = False,
     categories = \<lparr>live_response = True, device_response = True, offboarding = False,
       indicators = True, triage = True\<rparr>,
     live_response_allowed_commands = None, quarantine_dir = [], audit_log = Default [],
     confirm_destructive = True, auth = UserAuth Auto\<rparr>"

definition demo_server :: server where
  "demo_server = \<lparr>config = demo_config, tm_tenant = asc ''tenant'', tm_client = asc ''client'',
     credential = Delegated (asc ''alice'') (asc ''tenant''),
     audience_scopes = (\<lambda>a. Some []), graph_base = asc ''https://graph'',
     endpoint_base = asc ''https://endpoint'', audit_sink = True\<rparr>"

definition world0 :: world where
  "world0 = \<lparr>trace = [], reads = 0, cache = (\<lambda>a. None), refresh_token = asc ''rt'',
     consent = (\<lambda>a. None), reauth = None, schemas = []\<rparr>"

text \<open>A world whose cache holds a token of each audience that is valid when the clock reads zero.\<close>

definition world1 :: world where
  "world1 = world0\<lparr>cache := (\<lambda>a. Some \<lparr>tok = asc ''token'', expires_at = 3600\<rparr>)\<rparr>"

end
