(* ===== verification/Tokens.thy ===== *)
theory Tokens
  imports World
begin

text \<open>
  \<open>src/auth.rs\<close> and the token-endpoint half of \<open>src/auth/signin.rs\<close> and \<open>src/auth/session.rs\<close>:
  the scopes requested per audience, token-endpoint errors, the refresh-token grant, the
  client-credentials grant and \<open>get_token\<close> with its cache, its sticky re-authentication reason and
  its consent state. One call runs at a time here: between the two looks at the session and the
  cache that \<open>get_token\<close> takes, around the refresh lock, only the clock moves.
\<close>

section \<open>Scopes\<close>

fun push_new :: "ustr list \<Rightarrow> ustr list \<Rightarrow> ustr list" where
  "push_new acc [] = acc"
| "push_new acc (s # ss) = push_new (if s \<in> set acc then acc else acc @ [s]) ss"

lemma set_push_new [simp]: "set (push_new acc ss) = set acc \<union> set ss"
  by (induction acc ss rule: push_new.induct) auto

lemma distinct_push_new: "distinct acc \<Longrightarrow> distinct (push_new acc ss)"
  by (induction acc ss rule: push_new.induct) auto

definition endpoint_scopes :: "server_config \<Rightarrow> string list" where
  "endpoint_scopes c =
     [''Machine.Read'', ''Alert.Read'', ''Vulnerability.Read'', ''Software.Read'',
      ''SecurityRecommendation.Read'', ''Score.Read'', ''RemediationTasks.Read'', ''User.Read.All'']
     @ (if \<not> read_only c then
          [''Machine.ReadWrite'', ''Alert.ReadWrite'', ''Ti.ReadWrite'', ''Library.Manage''] else [])
     @ (if live_response (categories c) then
          [''Machine.LiveResponse'', ''Machine.CollectForensics'', ''Machine.StopAndQuarantine'',
           ''Library.Manage''] else [])
     @ (if device_response (categories c) then
          [''Machine.Isolate'', ''Machine.RestrictExecution'', ''Machine.Scan'',
           ''Machine.ReadWrite'', ''Alert.ReadWrite''] else [])
     @ (if offboarding (categories c) then [''Machine.Offboard''] else [])
     @ (if indicators (categories c) then [''Ti.ReadWrite''] else [])
     @ (if triage (categories c) then [''Alert.ReadWrite''] else [])"

definition graph_scopes :: "server_config \<Rightarrow> string list" where
  "graph_scopes c =
     [''ThreatHunting.Read.All'', ''ThreatIntelligence.Read.All'', ''SecurityAlert.Read.All'',
      ''SecurityIncident.Read.All'']
     @ (if triage (categories c) then
          [''SecurityAlert.ReadWrite.All'', ''SecurityIncident.ReadWrite.All''] else [])"

definition prefixed :: "string \<Rightarrow> string list \<Rightarrow> ustr list" where
  "prefixed base ss = push_new [] (map (\<lambda>s. asc base @ asc s) ss)"

fun compute_audience_scopes :: "server_config \<Rightarrow> audience \<Rightarrow> ustr list" where
  "compute_audience_scopes c Endpoint =
     prefixed ''https://api.securitycenter.microsoft.com/'' (endpoint_scopes c)"
| "compute_audience_scopes c Graph = prefixed ''https://graph.microsoft.com/'' (graph_scopes c)"

lemma set_prefixed: "set (prefixed base ss) = (\<lambda>s. asc base @ asc s) ` set ss"
  by (simp add: prefixed_def)

lemma scope_in_prefixed [simp]: "asc base @ asc s \<in> set (prefixed base ss) \<longleftrightarrow> s \<in> set ss"
  by (auto simp: set_prefixed)

section \<open>Token-endpoint errors\<close>

record token_endpoint_error =
  te_error :: ustr
  te_aadsts :: "nat option"

fun after_first :: "ustr \<Rightarrow> ustr \<Rightarrow> ustr option" where
  "after_first pat [] = (if pat = [] then Some [] else None)"
| "after_first pat (c # s) =
     (if prefix pat (c # s) then Some (drop (length pat) (c # s)) else after_first pat s)"

definition extract_aadsts_code :: "ustr \<Rightarrow> nat option" where
  "extract_aadsts_code desc =
     (case after_first (asc ''AADSTS'') desc of
       Some r \<Rightarrow> parse_unsigned 32 (takeWhile is_ascii_digit r)
     | None \<Rightarrow> None)"

definition parse_token_error :: "'x env_scheme \<Rightarrow> ustr \<Rightarrow> token_endpoint_error" where
  "parse_token_error e body =
     (case decode_error e body of
       Inr raw \<Rightarrow>
         \<lparr>te_error = (case raw_error raw of Some s \<Rightarrow> s | None \<Rightarrow> asc ''unknown_error''),
          te_aadsts =
            (case raw_error_codes raw of
              Some codes \<Rightarrow> (case codes of [] \<Rightarrow> None | c # _ \<Rightarrow> Some c)
            | None \<Rightarrow>
                (case raw_error_description raw of
                  Some desc \<Rightarrow> extract_aadsts_code desc
                | None \<Rightarrow> None))\<rparr>
     | Inl _ \<Rightarrow> \<lparr>te_error = asc ''unparseable_error_response'', te_aadsts = None\<rparr>)"

definition endpoint_error_text :: "token_endpoint_error \<Rightarrow> ustr" where
  "endpoint_error_text err =
     te_error err @ (case te_aadsts err of
       Some code \<Rightarrow> asc '' (AADSTS'' @ show_nat code @ asc '')'' | None \<Rightarrow> [])"

section \<open>The refresh-token grant\<close>

record refresh_success =
  rs_access :: ustr
  rs_expires_in :: nat
  rs_scopes :: "ustr list"
  rs_refresh :: "ustr option"

datatype refresh_error =
    REndpoint token_endpoint_error
  | RNetwork net_error
  | RInvalid ustr

fun as_endpoint_error :: "refresh_error \<Rightarrow> token_endpoint_error option" where
  "as_endpoint_error (REndpoint err) = Some err"
| "as_endpoint_error _ = None"

fun refresh_error_text :: "'x env_scheme \<Rightarrow> refresh_error \<Rightarrow> ustr" where
  "refresh_error_text e (REndpoint err) = asc ''token endpoint error: '' @ endpoint_error_text err"
| "refresh_error_text e (RNetwork n) = asc ''network error: '' @ net_text e n"
| "refresh_error_text e (RInvalid m) = asc ''invalid response: '' @ m"

definition is_success :: "nat \<Rightarrow> bool" where
  "is_success status \<longleftrightarrow> 200 \<le> status \<and> status < 300"

definition authority_base_url :: "'x env_scheme \<Rightarrow> ustr" where
  "authority_base_url e = trim_end_matches (\<lambda>c. c = 47)
     (case env_var e (asc ''DEFENDER_AUTHORITY_BASE_URL'') of
       Some v \<Rightarrow> v | None \<Rightarrow> asc ''https://login.microsoftonline.com'')"

definition token_endpoint :: "'x env_scheme \<Rightarrow> ustr \<Rightarrow> ustr" where
  "token_endpoint e tenant = authority_base_url e @ asc ''/'' @ tenant @ asc ''/oauth2/v2.0/token''"

definition form_post :: "ustr \<Rightarrow> (ustr \<times> ustr) list \<Rightarrow> http_request" where
  "form_post url params = \<lparr>rq_method = POST, rq_url = url, rq_query = [], rq_bearer = None,
     rq_body = FormBody params\<rparr>"

definition split_whitespace :: "ustr \<Rightarrow> ustr list" where
  "split_whitespace s = filter (\<lambda>w. w \<noteq> []) (split_chars is_whitespace s)"

definition refresh_reply :: "'x env_scheme \<Rightarrow> net_error + http_reply \<Rightarrow> refresh_error + refresh_success" where
  "refresh_reply e r =
     (case r of
       Inl n \<Rightarrow> Inl (RNetwork n)
     | Inr resp \<Rightarrow>
         (case reply_body resp of
           Inl n \<Rightarrow> Inl (RNetwork n)
         | Inr bytes \<Rightarrow>
             (let body = decode_text e bytes in
              if \<not> is_success (reply_status resp) then Inl (REndpoint (parse_token_error e body))
              else (case decode_token e body of
                  Inl m \<Rightarrow> Inl (RInvalid (asc ''failed to parse token response: '' @ m))
                | Inr raw \<Rightarrow>
                    (case raw_access_token raw of
                      None \<Rightarrow> Inl (RInvalid (asc ''missing access_token''))
                    | Some access \<Rightarrow>
                        Inr \<lparr>rs_access = access,
                             rs_expires_in = (case raw_expires_in raw of Some n \<Rightarrow> n | None \<Rightarrow> 3600),
                             rs_scopes = (case raw_scope raw of Some s \<Rightarrow> split_whitespace s | None \<Rightarrow> []),
                             rs_refresh = raw_refresh_token raw\<rparr>)))))"

definition refresh_token_grant ::
  "'x env_scheme \<Rightarrow> ustr \<Rightarrow> ustr \<Rightarrow> ustr \<Rightarrow> ustr list \<Rightarrow> (refresh_error + refresh_success) io" where
  "refresh_token_grant e tenant client rt scopes = do {
     r \<leftarrow> send e (form_post (token_endpoint e tenant)
       [(asc ''grant_type'', asc ''refresh_token''), (asc ''client_id'', client),
        (asc ''refresh_token'', rt), (asc ''scope'', join (asc '' '') scopes)]);
     ret (refresh_reply e r)
   }"

section \<open>The token manager\<close>

text \<open>\<open>i64\<close> arithmetic: \<open>as i64\<close> of a \<open>u64\<close>, and addition, both modulo 2 to the 64.\<close>

definition as_i64 :: "nat \<Rightarrow> int" where
  "as_i64 n = sint (word_of_nat n :: 64 word)"

definition add_i64 :: "int \<Rightarrow> int \<Rightarrow> int" where
  "add_i64 a b = sint (word_of_int (a + b) :: 64 word)"

definition timestamp :: "int \<Rightarrow> int" where
  "timestamp t = t div 1000000000"

definition is_valid :: "int \<Rightarrow> cached_token \<Rightarrow> bool" where
  "is_valid t c \<longleftrightarrow> add_i64 (timestamp t) 60 < expires_at c"

definition identity :: "server \<Rightarrow> identity_snapshot" where
  "identity s = (case credential s of
     ClientSecret _ \<Rightarrow> AppIdentity (tm_client s)
   | Delegated acct tenant \<Rightarrow> UserIdentity acct tenant)"

definition auth_kind_of :: "server \<Rightarrow> auth_kind" where
  "auth_kind_of s = (case credential s of ClientSecret _ \<Rightarrow> App | Delegated _ _ \<Rightarrow> User)"

definition is_delegated :: "server \<Rightarrow> bool" where
  "is_delegated s \<longleftrightarrow> auth_kind_of s = User"

text \<open>\<open>OnceLock::set\<close>: the first reason stays.\<close>

definition once_reauth :: "reauth_reason \<Rightarrow> world \<Rightarrow> world" where
  "once_reauth r w = (case reauth w of None \<Rightarrow> w\<lparr>reauth := Some r\<rparr> | Some _ \<Rightarrow> w)"

definition set_reauth :: "server \<Rightarrow> reauth_reason \<Rightarrow> unit io" where
  "set_reauth s r = (if is_delegated s then modify (once_reauth r) else ret ())"

definition scopes_for :: "server \<Rightarrow> audience \<Rightarrow> ustr list" where
  "scopes_for s aud = (case audience_scopes s aud of Some ss \<Rightarrow> ss | None \<Rightarrow> [])"

text \<open>The checks \<open>get_token\<close> makes before and after it takes the lock.\<close>

definition session_block :: "server \<Rightarrow> audience \<Rightarrow> world \<Rightarrow> call_tool_result option" where
  "session_block s aud w =
     (if is_delegated s then
        (case reauth w of
          Some r \<Rightarrow> Some (reauthentication_required (reauth_str r))
        | None \<Rightarrow>
            (case consent w aud of
              Some (Missing _) \<Rightarrow> Some (consent_missing (audience_str aud) (scopes_for s aud))
            | _ \<Rightarrow> None))
      else None)"

definition cached :: "'x env_scheme \<Rightarrow> audience \<Rightarrow> ustr option io" where
  "cached e aud = do {
     c \<leftarrow> gets (\<lambda>w. cache w aud);
     case c of
       None \<Rightarrow> ret None
     | Some ct \<Rightarrow> do { t \<leftarrow> now e; ret (if is_valid t ct then Some (tok ct) else None) }
   }"

definition store_token :: "audience \<Rightarrow> cached_token \<Rightarrow> unit io" where
  "store_token aud ct = modify (\<lambda>w. w\<lparr>cache := (cache w)(aud \<mapsto> ct)\<rparr>)"

definition fetch_app_token ::
  "'x env_scheme \<Rightarrow> server \<Rightarrow> audience \<Rightarrow> ustr \<Rightarrow> (mcp_error + cached_token) io" where
  "fetch_app_token e s aud secret = do {
     r \<leftarrow> send e (form_post (token_endpoint e (tm_tenant s))
       [(asc ''grant_type'', asc ''client_credentials''), (asc ''client_id'', tm_client s),
        (asc ''client_secret'', secret), (asc ''scope'', resource_url aud @ asc ''/.default'')]);
     case r of
       Inl n \<Rightarrow> ret (Inl (internal_error (asc ''token request failed: '' @ net_text e n)))
     | Inr resp \<Rightarrow>
         if \<not> is_success (reply_status resp) then
           ret (Inl (internal_error (asc ''token acquisition failed (HTTP '' @ show_nat (reply_status resp)
                  @ asc '') for audience '' @ audience_str aud)))
         else (case (case reply_body resp of Inl n \<Rightarrow> Inl (net_text e n) | Inr bytes \<Rightarrow> decode_app_token e bytes) of
             Inl m \<Rightarrow> ret (Inl (internal_error (asc ''failed to parse token response: '' @ m)))
           | Inr (access, expires_in) \<Rightarrow> do {
               t \<leftarrow> now e;
               ret (Inr \<lparr>tok = access, expires_at = add_i64 (timestamp t) expires_in\<rparr>)
             })
   }"

text \<open>The session's reaction to an error of the refresh grant.\<close>

datatype refresh_verdict = NeedReauth reauth_reason | NeedConsent | Transient

definition refresh_verdict :: "refresh_error \<Rightarrow> refresh_verdict" where
  "refresh_verdict err =
     (case as_endpoint_error err of
       None \<Rightarrow> Transient
     | Some ep \<Rightarrow>
         if te_error ep = asc ''invalid_grant'' then
           (case te_aadsts ep of
             None \<Rightarrow> NeedReauth SessionRevoked
           | Some c \<Rightarrow>
               if c = 700082 \<or> c = 70043 \<or> c = 50173 then NeedReauth SessionExpired
               else if c = 50076 \<or> c = 50079 then NeedReauth MfaRequired
               else if c = 65001 then NeedConsent
               else NeedReauth SessionRevoked)
         else if te_error ep = asc ''interaction_required'' then NeedReauth InteractionRequired
         else Transient)"

definition refresh_failed ::
  "'x env_scheme \<Rightarrow> server \<Rightarrow> audience \<Rightarrow> refresh_error \<Rightarrow> (call_tool_result + ustr) io" where
  "refresh_failed e s aud err =
     (case refresh_verdict err of
       NeedReauth r \<Rightarrow> do {
         modify (once_reauth r);
         ret (Inl (reauthentication_required (reauth_str r)))
       }
     | NeedConsent \<Rightarrow> do {
         modify (\<lambda>w. w\<lparr>consent := (consent w)(aud \<mapsto> Missing (Some 65001))\<rparr>);
         ret (Inl (consent_missing (audience_str aud) (scopes_for s aud)))
       }
     | Transient \<Rightarrow> ret (Inl (tool_error (asc ''Token refresh failed: '' @ refresh_error_text e err))))"

definition refresh_succeeded ::
  "'x env_scheme \<Rightarrow> audience \<Rightarrow> refresh_success \<Rightarrow> (call_tool_result + ustr) io" where
  "refresh_succeeded e aud ok = do {
     (case rs_refresh ok of
       Some rt \<Rightarrow> modify (\<lambda>w. w\<lparr>refresh_token := rt\<rparr>)
     | None \<Rightarrow> ret ());
     t \<leftarrow> now e;
     store_token aud \<lparr>tok = rs_access ok, expires_at = add_i64 (timestamp t) (as_i64 (rs_expires_in ok))\<rparr>;
     ret (Inr (rs_access ok))
   }"

definition renew :: "'x env_scheme \<Rightarrow> server \<Rightarrow> audience \<Rightarrow> (call_tool_result + ustr) io" where
  "renew e s aud =
     (case credential s of
       ClientSecret secret \<Rightarrow> do {
         r \<leftarrow> fetch_app_token e s aud secret;
         case r of
           Inl err \<Rightarrow> ret (Inl (tool_error (asc ''Auth error: '' @ error_display e err)))
         | Inr ct \<Rightarrow> do { store_token aud ct; ret (Inr (tok ct)) }
       }
     | Delegated _ _ \<Rightarrow> do {
         rt \<leftarrow> gets refresh_token;
         r \<leftarrow> refresh_token_grant e (tm_tenant s) (tm_client s) rt (scopes_for s aud);
         case r of
           Inr ok \<Rightarrow> refresh_succeeded e aud ok
         | Inl err \<Rightarrow> refresh_failed e s aud err
       })"

definition get_token :: "'x env_scheme \<Rightarrow> server \<Rightarrow> audience \<Rightarrow> (call_tool_result + ustr) io" where
  "get_token e s aud = do {
     blocked \<leftarrow> gets (session_block s aud);
     case blocked of
       Some err \<Rightarrow> ret (Inl err)
     | None \<Rightarrow> do {
         hit \<leftarrow> cached e aud;
         case hit of
           Some t \<Rightarrow> ret (Inr t)
         | None \<Rightarrow> do {
             blocked2 \<leftarrow> gets (session_block s aud);
             case blocked2 of
               Some err \<Rightarrow> ret (Inl err)
             | None \<Rightarrow> do {
                 hit2 \<leftarrow> cached e aud;
                 case hit2 of
                   Some t \<Rightarrow> ret (Inr t)
                 | None \<Rightarrow> renew e s aud
               }
           }
       }
   }"


section \<open>Facts\<close>

lemma session_block_reads [simp]: "session_block s aud (reads_update f w) = session_block s aud w"
  by (simp add: session_block_def split: option.splits consent_state.splits)

lemma session_block_trace [simp]: "session_block s aud (trace_update f w) = session_block s aud w"
  by (simp add: session_block_def split: option.splits consent_state.splits)

lemma reauth_once [simp]: "reauth (once_reauth r w) = Some (case reauth w of None \<Rightarrow> r | Some q \<Rightarrow> q)"
  by (simp add: once_reauth_def split: option.splits)

lemma once_reauth_others [simp]:
  "trace (once_reauth r w) = trace w" "cache (once_reauth r w) = cache w"
  "consent (once_reauth r w) = consent w" "refresh_token (once_reauth r w) = refresh_token w"
  "reads (once_reauth r w) = reads w"
  by (simp_all add: once_reauth_def split: option.splits)

lemma run_cached:
  "run_state (cached e aud) w =
     (case cache w aud of None \<Rightarrow> (None, w)
      | Some ct \<Rightarrow> (if is_valid (clock e (reads w)) ct then Some (tok ct) else None,
                    w\<lparr>reads := Suc (reads w)\<rparr>))"
  by (simp add: cached_def split: option.splits)

lemma run_store_token [simp]:
  "run_state (store_token aud ct) w = ((), w\<lparr>cache := (cache w)(aud \<mapsto> ct)\<rparr>)"
  by (simp add: store_token_def)

lemma run_set_reauth [simp]:
  "run_state (set_reauth s r) w = ((), if is_delegated s then once_reauth r w else w)"
  by (simp add: set_reauth_def)

lemma adds_set_reauth [adds_rules]: "adds P (set_reauth s r)"
  by (simp add: adds_def)

text \<open>The frame of the token functions: what one call can change, and what it returns.\<close>

definition token_call :: "server \<Rightarrow> ustr \<Rightarrow> audience \<Rightarrow> world \<Rightarrow> call_tool_result + ustr \<Rightarrow> world \<Rightarrow> bool" where
  "token_call s url aud w res w' \<longleftrightarrow>
     (\<exists>evs. trace w' = trace w @ evs \<and> length evs \<le> 1 \<and>
            (\<forall>ev\<in>set evs. \<exists>ps. ev = Sent (form_post url ps))) \<and>
     (\<forall>a. a \<noteq> aud \<longrightarrow> cache w' a = cache w a) \<and>
     (\<forall>t. res = Inr t \<longrightarrow> (\<exists>ct. cache w' aud = Some ct \<and> tok ct = t)) \<and>
     (\<forall>r. reauth w = Some r \<longrightarrow> reauth w' = Some r) \<and>
     (\<forall>r. res = Inl (reauthentication_required (reauth_str r)) \<longrightarrow>
          is_delegated s \<and> (reauth w = None \<longrightarrow> reauth w' = Some r))"

lemma jget_code_reauth: "get_str (asc ''code'') (structured_content (reauthentication_required r)) = Some (asc ''reauthentication_required'')"
  by (simp add: reauthentication_required_def get_str_def jget_jobj)

lemma jget_reason_reauth: "get_str (asc ''reason'') (structured_content (reauthentication_required r)) = Some r"
  by (simp add: reauthentication_required_def get_str_def jget_jobj)

lemma jget_code_consent: "get_str (asc ''code'') (structured_content (consent_missing a ss)) = Some (asc ''consent_missing'')"
  by (simp add: consent_missing_def get_str_def jget_jobj)

lemma jget_code_tool_error: "get_str (asc ''code'') (structured_content (tool_error m)) = None"
  by (simp add: tool_error_def get_str_def jget_jobj)

lemma reauth_required_distinct [simp]:
  "reauthentication_required r \<noteq> tool_error m" "reauthentication_required r \<noteq> consent_missing a ss"
  "tool_error m \<noteq> reauthentication_required r" "consent_missing a ss \<noteq> reauthentication_required r"
  using jget_code_reauth [of r] jget_code_consent [of a ss] jget_code_tool_error [of m] by auto

lemma reauth_required_inj [simp]:
  "reauthentication_required r = reauthentication_required q \<longleftrightarrow> r = q"
  by (metis jget_reason_reauth option.inject)

lemma reauth_str_inj [simp]: "reauth_str r = reauth_str q \<longleftrightarrow> r = q"
  by (cases r; cases q) simp_all

lemma fetch_app_token_run:
  assumes "run_state (fetch_app_token e s aud secret) w = (r, w')"
  shows "(\<exists>ps. trace w' = trace w @ [Sent (form_post (token_endpoint e (tm_tenant s)) ps)]) \<and>
     cache w' = cache w \<and> reauth w' = reauth w \<and> consent w' = consent w \<and>
     refresh_token w' = refresh_token w"
  using assms by (auto simp: fetch_app_token_def split: sum.splits prod.splits if_splits)

lemma refresh_token_grant_run:
  "run_state (refresh_token_grant e tenant client rt scopes) w = (r, w') \<Longrightarrow>
     \<exists>ps. w' = w\<lparr>trace := trace w @ [Sent (form_post (token_endpoint e tenant) ps)]\<rparr>"
  by (auto simp: refresh_token_grant_def)

lemma refresh_succeeded_run:
  "run_state (refresh_succeeded e aud ok) w = (r, w') \<Longrightarrow>
     r = Inr (rs_access ok) \<and> trace w' = trace w \<and> reauth w' = reauth w \<and> consent w' = consent w \<and>
     refresh_token w' = (case rs_refresh ok of Some rt \<Rightarrow> rt | None \<Rightarrow> refresh_token w) \<and>
     (\<exists>t. cache w' = (cache w)(aud \<mapsto> \<lparr>tok = rs_access ok,
        expires_at = add_i64 (timestamp t) (as_i64 (rs_expires_in ok))\<rparr>))"
  by (auto simp: refresh_succeeded_def split: option.splits)

lemma refresh_failed_run:
  "run_state (refresh_failed e s aud err) w = (r, w') \<Longrightarrow>
     (\<exists>x. r = Inl x) \<and> trace w' = trace w \<and> cache w' = cache w \<and> refresh_token w' = refresh_token w \<and>
     (\<forall>q. reauth w = Some q \<longrightarrow> reauth w' = Some q) \<and>
     (\<forall>q. r = Inl (reauthentication_required (reauth_str q)) \<longrightarrow> reauth w = None \<longrightarrow> reauth w' = Some q)"
  by (auto simp: refresh_failed_def split: refresh_verdict.splits)

lemma renew_call:
  assumes "run_state (renew e s aud) w = (r, w')"
  shows "token_call s (token_endpoint e (tm_tenant s)) aud w r w'"
proof (cases "credential s")
  case (ClientSecret secret)
  obtain x w1 where 1: "run_state (fetch_app_token e s aud secret) w = (x, w1)" by fastforce
  note f = fetch_app_token_run [OF 1]
  from assms ClientSecret 1 have "(\<exists>err. r = Inl (tool_error err)) \<and> w' = w1 \<or>
      (\<exists>ct. r = Inr (tok ct) \<and> w' = w1\<lparr>cache := (cache w1)(aud \<mapsto> ct)\<rparr>)"
    by (auto simp: renew_def split: sum.splits)
  then show ?thesis
  proof (elim disjE exE conjE)
    fix err assume "r = Inl (tool_error err)" and "w' = w1"
    with f show ?thesis unfolding token_call_def by auto
  next
    fix ct assume "r = Inr (tok ct)" and "w' = w1\<lparr>cache := (cache w1)(aud \<mapsto> ct)\<rparr>"
    with f show ?thesis unfolding token_call_def by auto
  qed
next
  case (Delegated acct tenant)
  then have d: "is_delegated s" by (simp add: is_delegated_def auth_kind_of_def)
  obtain x w1 where 1: "run_state (refresh_token_grant e (tm_tenant s) (tm_client s)
      (refresh_token w) (scopes_for s aud)) w = (x, w1)" by fastforce
  note g = refresh_token_grant_run [OF 1]
  show ?thesis
  proof (cases x)
    case (Inl err)
    with assms Delegated 1 have "run_state (refresh_failed e s aud err) w1 = (r, w')"
      by (simp add: renew_def)
    from refresh_failed_run [OF this] g d show ?thesis unfolding token_call_def by auto
  next
    case (Inr ok)
    with assms Delegated 1 have "run_state (refresh_succeeded e aud ok) w1 = (r, w')"
      by (simp add: renew_def)
    from refresh_succeeded_run [OF this] g d show ?thesis unfolding token_call_def by auto
  qed
qed


text \<open>\<open>get_token\<close> either answers without leaving the process, or renews.\<close>

lemma cached_cases:
  assumes "run_state (cached e aud) w = (hit, w')"
  shows "(\<exists>n. w' = w\<lparr>reads := n\<rparr>) \<and> (\<forall>t. hit = Some t \<longrightarrow> (\<exists>ct. cache w aud = Some ct \<and> tok ct = t))"
proof (cases "cache w aud")
  case None
  with assms have "hit = None" "w' = w\<lparr>reads := reads w\<rparr>" by (simp_all add: run_cached)
  then show ?thesis by blast
next
  case (Some ct)
  with assms show ?thesis by (auto simp: run_cached split: if_splits)
qed

lemma get_token_cases:
  assumes "run_state (get_token e s aud) w = (r, w')"
  obtains (blocked) err where "session_block s aud w = Some err" "r = Inl err" "w' = w"
  | (hit) ct n where "session_block s aud w = None" "cache w aud = Some ct" "r = Inr (tok ct)"
      "w' = w\<lparr>reads := n\<rparr>"
  | (renewed) n where "session_block s aud w = None"
      "run_state (renew e s aud) (w\<lparr>reads := n\<rparr>) = (r, w')"
proof (cases "session_block s aud w")
  case (Some err)
  with assms show thesis by (intro blocked) (auto simp: get_token_def)
next
  case none: None
  obtain h1 w1 where 1: "run_state (cached e aud) w = (h1, w1)" by fastforce
  from cached_cases [OF 1] obtain n where w1: "w1 = w\<lparr>reads := n\<rparr>" by blast
  show thesis
  proof (cases h1)
    case (Some t)
    with cached_cases [OF 1] obtain ct where "cache w aud = Some ct" "tok ct = t" by blast
    moreover from assms none 1 Some have "r = Inr t" "w' = w1" by (simp_all add: get_token_def)
    ultimately show thesis using none w1 by (intro hit) auto
  next
    case n1: None
    obtain h2 w2 where 2: "run_state (cached e aud) w1 = (h2, w2)" by fastforce
    from cached_cases [OF 2] w1 obtain m where w2: "w2 = w\<lparr>reads := m\<rparr>" by auto
    have b2: "session_block s aud w1 = None" using none w1 by simp
    show thesis
    proof (cases h2)
      case (Some t)
      with cached_cases [OF 2] w1 obtain ct where "cache w aud = Some ct" "tok ct = t" by auto
      moreover from assms none 1 n1 b2 2 Some have "r = Inr t" "w' = w2"
        by (simp_all add: get_token_def)
      ultimately show thesis using none w2 by (intro hit) auto
    next
      case None
      with assms none 1 n1 b2 2 have "run_state (renew e s aud) w2 = (r, w')"
        by (simp add: get_token_def)
      with none w2 show thesis by (intro renewed) auto
    qed
  qed
qed

lemma session_block_reauth:
  "session_block s aud w = Some (reauthentication_required (reauth_str r)) \<longleftrightarrow>
     is_delegated s \<and> reauth w = Some r"
  by (auto simp: session_block_def split: option.splits consent_state.splits)

lemma token_call_reads:
  "token_call s url aud (w\<lparr>reads := n\<rparr>) r w' \<longleftrightarrow> token_call s url aud w r w'"
  by (simp add: token_call_def)

lemma get_token_call:
  assumes "run_state (get_token e s aud) w = (r, w')"
  shows "token_call s (token_endpoint e (tm_tenant s)) aud w r w'"
  using assms
proof (cases rule: get_token_cases)
  case (blocked err)
  then show ?thesis by (auto simp: token_call_def session_block_reauth)
next
  case (hit ct n)
  then show ?thesis by (auto simp: token_call_def)
next
  case (renewed n)
  from renew_call [OF renewed(2)] show ?thesis by (simp add: token_call_reads)
qed

lemma form_post_no_bearer [simp]: "rq_bearer (form_post url ps) = None"
  by (simp add: form_post_def)

lemma adds_get_token [adds_rules]:
  assumes "\<And>rq. rq_bearer rq = None \<Longrightarrow> P (Sent rq)"
  shows "adds P (get_token e s aud)"
proof (rule addsI)
  fix w r w' assume "run_state (get_token e s aud) w = (r, w')"
  from get_token_call [OF this] show "\<exists>evs. trace w' = trace w @ evs \<and> list_all P evs"
    unfolding token_call_def using assms by (auto simp: list_all_iff) (metis form_post_no_bearer)
qed

section \<open>Properties\<close>

text \<open>
  Acquiring a token sends at most one request, to the tenant's token endpoint and without a
  bearer token; the token it returns is the one now cached for that audience, and what is cached
  for the other audience is untouched.
\<close>

theorem get_token_frame:
  assumes "run_state (get_token e s aud) w = (r, w')"
  shows "\<exists>evs. trace w' = trace w @ evs \<and> length evs \<le> 1 \<and>
      (\<forall>ev\<in>set evs. \<exists>ps. ev = Sent (form_post (token_endpoint e (tm_tenant s)) ps)) \<and>
      (\<forall>t. r = Inr t \<longrightarrow> (\<exists>ct. cache w' aud = Some ct \<and> tok ct = t)) \<and>
      (\<forall>a. a \<noteq> aud \<longrightarrow> cache w' a = cache w a)"
  using get_token_call [OF assms] unfolding token_call_def by blast

lemma get_token_frame_witness:
  "length (trace (snd (run_state (get_token (demo_env (demo_reply 200 [])) demo_server Graph) world0))) \<le> 1"
  using get_token_frame [OF prod.collapse [symmetric],
      of "demo_env (demo_reply 200 [])" demo_server Graph world0]
  by (auto simp: world0_def)

text \<open>
  C22. A re-authentication requirement is final: once a token acquisition has answered that the
  user must sign in again for a reason, every later acquisition, for either audience, gives the
  same answer with the same reason, without a network request and without any change of state.
\<close>

theorem reauth_is_final:
  assumes "run_state (get_token e s aud) w = (Inl (reauthentication_required (reauth_str r)), w')"
  shows "run_state (get_token e s aud') w' = (Inl (reauthentication_required (reauth_str r)), w')"
  using assms
proof (cases rule: get_token_cases)
  case (blocked err)
  then have "session_block s aud w = Some (reauthentication_required (reauth_str r))" by simp
  then have "session_block s aud' w = Some (reauthentication_required (reauth_str r))"
    by (simp only: session_block_reauth)
  with blocked(3) show ?thesis by (simp add: get_token_def)
next
  case (renewed n)
  have d: "is_delegated s" and set: "reauth w = None \<longrightarrow> reauth w' = Some r"
    using get_token_call [OF assms] by (auto simp: token_call_def)
  from renewed(1) d have "reauth w = None"
    by (auto simp: session_block_def split: option.splits)
  with d set have "session_block s aud' w' = Some (reauthentication_required (reauth_str r))"
    by (simp add: session_block_reauth)
  then show ?thesis by (simp add: get_token_def)
qed auto

lemma reauth_is_final_witness:
  "let w' = snd (run_state (get_token (demo_env (demo_reply 400 [])) demo_server Graph) world0) in
   run_state (get_token (demo_env (demo_reply 400 [])) demo_server Endpoint) w' =
     (Inl (reauthentication_required (asc ''session_expired'')), w')"
proof -
  let ?run = "run_state (get_token (demo_env (demo_reply 400 [])) demo_server Graph) world0"
  have "fst ?run = Inl (reauthentication_required (reauth_str SessionExpired))" by code_simp
  then have "?run = (Inl (reauthentication_required (reauth_str SessionExpired)), snd ?run)"
    by (metis prod.collapse)
  from reauth_is_final [OF this, of Endpoint] show ?thesis unfolding Let_def reauth_str.simps .
qed

text \<open>
  C21. The first recorded re-authentication reason is kept, by token acquisition as by the handling
  of an upstream claims challenge.
\<close>

theorem first_reauth_reason_kept:
  assumes "reauth w = Some r"
  shows "reauth (snd (run_state (get_token e s aud) w)) = Some r \<and>
         reauth (snd (run_state (set_reauth s q) w)) = Some r"
proof -
  obtain x w' where 1: "run_state (get_token e s aud) w = (x, w')" by fastforce
  from get_token_call [OF 1] assms show ?thesis by (simp add: 1 token_call_def)
qed

lemma first_reauth_reason_kept_witness:
  "reauth (snd (run_state (get_token (demo_env (demo_reply 400 [])) demo_server Graph)
     (world0\<lparr>reauth := Some MfaRequired\<rparr>))) = Some MfaRequired"
  using first_reauth_reason_kept [of "world0\<lparr>reauth := Some MfaRequired\<rparr>" MfaRequired
      "demo_env (demo_reply 400 [])" demo_server Graph SessionExpired]
  by simp

definition writable :: "server_config \<Rightarrow> bool" where
  "writable c \<longleftrightarrow> \<not> read_only c"

abbreviation endpoint_scope :: "server_config \<Rightarrow> string \<Rightarrow> bool" where
  "endpoint_scope c x \<equiv>
     asc ''https://api.securitycenter.microsoft.com/'' @ asc x \<in> set (compute_audience_scopes c Endpoint)"

abbreviation graph_scope :: "server_config \<Rightarrow> string \<Rightarrow> bool" where
  "graph_scope c x \<equiv>
     asc ''https://graph.microsoft.com/'' @ asc x \<in> set (compute_audience_scopes c Graph)"

text \<open>
  C34. Least privilege of the requested scopes: each write scope is requested exactly when its
  category is enabled (or, for the scopes that some reads need, when the server is not read-only),
  and no scope is requested twice.
\<close>

theorem scopes_least_privilege:
  "(endpoint_scope c ''Machine.Offboard'' \<longleftrightarrow> offboarding (categories c)) \<and>
   (endpoint_scope c ''Machine.LiveResponse'' \<longleftrightarrow> live_response (categories c)) \<and>
   (endpoint_scope c ''Machine.CollectForensics'' \<longleftrightarrow> live_response (categories c)) \<and>
   (endpoint_scope c ''Machine.StopAndQuarantine'' \<longleftrightarrow> live_response (categories c)) \<and>
   (endpoint_scope c ''Machine.Isolate'' \<longleftrightarrow> device_response (categories c)) \<and>
   (endpoint_scope c ''Machine.RestrictExecution'' \<longleftrightarrow> device_response (categories c)) \<and>
   (endpoint_scope c ''Machine.Scan'' \<longleftrightarrow> device_response (categories c)) \<and>
   (endpoint_scope c ''Machine.ReadWrite'' \<longleftrightarrow> writable c \<or> device_response (categories c)) \<and>
   (endpoint_scope c ''Ti.ReadWrite'' \<longleftrightarrow> writable c \<or> indicators (categories c)) \<and>
   (endpoint_scope c ''Alert.ReadWrite'' \<longleftrightarrow>
      writable c \<or> device_response (categories c) \<or> triage (categories c)) \<and>
   (endpoint_scope c ''Library.Manage'' \<longleftrightarrow> writable c \<or> live_response (categories c)) \<and>
   (graph_scope c ''SecurityAlert.ReadWrite.All'' \<longleftrightarrow> triage (categories c)) \<and>
   (graph_scope c ''SecurityIncident.ReadWrite.All'' \<longleftrightarrow> triage (categories c)) \<and>
   distinct (compute_audience_scopes c aud)"
proof (intro conjI)
  show "distinct (compute_audience_scopes c aud)"
    by (cases aud) (simp_all add: prefixed_def distinct_push_new)
qed (simp_all add: writable_def endpoint_scopes_def graph_scopes_def)

end
