(* ===== verification/Client.thy ===== *)
theory Client
  imports Tokens
begin

text \<open>
  The API clients of \<open>src/client.rs\<close>: OData query pairs, the authenticated request shared by the
  Graph and the Endpoint client, the reading of a reply, the read-only POST that explains an HTTP
  400, and the multipart upload. The locale \<open>upstream_call\<close> is what the mutation pipeline asks of a
  client operation; it is interpreted for every operation the mutating tools use.
\<close>

section \<open>Query pairs\<close>

record odata_params =
  od_top :: "int option"
  od_skip :: "int option"
  od_filter :: "ustr option"
  od_select :: "ustr option"
  od_expand :: "ustr option"
  od_search :: "ustr option"
  od_count :: "bool option"

definition nonempty_pair :: "string \<Rightarrow> ustr option \<Rightarrow> (ustr \<times> ustr) list" where
  "nonempty_pair k v = (case v of Some t \<Rightarrow> if t \<noteq> [] then [(asc k, t)] else [] | None \<Rightarrow> [])"

definition to_query_vec :: "odata_params \<Rightarrow> (ustr \<times> ustr) list" where
  "to_query_vec od =
     (case od_top od of Some n \<Rightarrow> [(asc ''$top'', show_int n)] | None \<Rightarrow> [])
     @ (case od_skip od of Some n \<Rightarrow> [(asc ''$skip'', show_int n)] | None \<Rightarrow> [])
     @ nonempty_pair ''$filter'' (od_filter od) @ nonempty_pair ''$select'' (od_select od)
     @ nonempty_pair ''$expand'' (od_expand od) @ nonempty_pair ''$search'' (od_search od)
     @ (if od_count od = Some True then [(asc ''$count'', asc ''true'')] else [])"

section \<open>Requests and replies\<close>

record mutation_response =
  mr_status :: nat
  mr_body :: json

fun base_url :: "server \<Rightarrow> audience \<Rightarrow> ustr" where
  "base_url s Endpoint = endpoint_base s"
| "base_url s Graph = graph_base s"

definition api_request ::
  "server \<Rightarrow> audience \<Rightarrow> http_method \<Rightarrow> ustr \<Rightarrow> (ustr \<times> ustr) list \<Rightarrow> http_body \<Rightarrow> ustr \<Rightarrow> http_request" where
  "api_request s aud m path query body t =
     \<lparr>rq_method = m, rq_url = base_url s aud @ path, rq_query = query, rq_bearer = Some t,
      rq_body = body\<rparr>"

definition claims_challenge :: "http_reply \<Rightarrow> bool" where
  "claims_challenge resp \<longleftrightarrow> reply_status resp = 401 \<and>
     (case www_authenticate resp of
       Some v \<Rightarrow> contains_str (asc ''error='' @ [34] @ asc ''insufficient_claims'' @ [34]) v \<or>
                 contains_str (asc ''error=insufficient_claims'') v
     | None \<Rightarrow> False)"

definition read_body :: "'x env_scheme \<Rightarrow> http_reply \<Rightarrow> ustr \<Rightarrow> call_tool_result + mutation_response" where
  "read_body e resp path =
     (if reply_status resp = 204 then Inr \<lparr>mr_status = 204, mr_body = JNull\<rparr>
      else (case reply_body resp of
          Inl n \<Rightarrow> Inl (network_error n path)
        | Inr bytes \<Rightarrow>
            if bytes = [] \<or> list_all is_ascii_whitespace bytes
            then Inr \<lparr>mr_status = reply_status resp, mr_body = JNull\<rparr>
            else (case json_parse e bytes of
                Inl m \<Rightarrow> Inl (tool_error (asc ''Invalid JSON response: '' @ m))
              | Inr v \<Rightarrow> Inr \<lparr>mr_status = reply_status resp, mr_body = v\<rparr>)))"

definition read_json ::
  "'x env_scheme \<Rightarrow> server \<Rightarrow> http_reply \<Rightarrow> ustr \<Rightarrow> permission_category
     \<Rightarrow> (call_tool_result + mutation_response) io" where
  "read_json e s resp path cat =
     (if claims_challenge resp then do {
        set_reauth s ConditionalAccess;
        ret (Inl (reauthentication_required (reauth_str ConditionalAccess)))
      }
      else if reply_status resp \<noteq> 200 \<and> reply_status resp \<noteq> 201 \<and> reply_status resp \<noteq> 204 then
        ret (Inl (http_error (reply_status resp) path (auth_kind_of s) cat))
      else ret (read_body e resp path))"

text \<open>One authenticated request: the token first, then the request, then the reply.\<close>

definition authenticated ::
  "'x env_scheme \<Rightarrow> server \<Rightarrow> audience \<Rightarrow> (ustr \<Rightarrow> http_request) \<Rightarrow> ustr
     \<Rightarrow> (http_reply \<Rightarrow> (call_tool_result + 'a) io) \<Rightarrow> (call_tool_result + 'a) io" where
  "authenticated e s aud rq path k = do {
     tk \<leftarrow> get_token e s aud;
     case tk of
       Inl err \<Rightarrow> ret (Inl err)
     | Inr t \<Rightarrow> do {
         r \<leftarrow> send e (rq t);
         case r of
           Inl n \<Rightarrow> ret (Inl (network_error n path))
         | Inr resp \<Rightarrow> k resp
       }
   }"

definition request_mutation ::
  "'x env_scheme \<Rightarrow> server \<Rightarrow> audience \<Rightarrow> http_method \<Rightarrow> ustr \<Rightarrow> (ustr \<times> ustr) list \<Rightarrow> json option
     \<Rightarrow> permission_category \<Rightarrow> (call_tool_result + mutation_response) io" where
  "request_mutation e s aud m path query body cat =
     authenticated e s aud
       (api_request s aud m path query (case body of Some b \<Rightarrow> JsonBody b | None \<Rightarrow> NoBody)) path
       (\<lambda>resp. read_json e s resp path cat)"

fun body_of :: "call_tool_result + mutation_response \<Rightarrow> call_tool_result + json" where
  "body_of (Inl err) = Inl err"
| "body_of (Inr r) = Inr (mr_body r)"

definition request ::
  "'x env_scheme \<Rightarrow> server \<Rightarrow> audience \<Rightarrow> http_method \<Rightarrow> ustr \<Rightarrow> (ustr \<times> ustr) list \<Rightarrow> json option
     \<Rightarrow> permission_category \<Rightarrow> (call_tool_result + json) io" where
  "request e s aud m path query body cat = do {
     r \<leftarrow> request_mutation e s aud m path query body cat;
     ret (body_of r)
   }"

text \<open>The message of the upstream service, at most 2000 characters of it, added to the 400 error.\<close>

definition upstream_message :: "'x env_scheme \<Rightarrow> http_reply \<Rightarrow> ustr option" where
  "upstream_message e resp =
     (case reply_body resp of
       Inl n \<Rightarrow> None
     | Inr bytes \<Rightarrow>
         (case json_parse e bytes of
           Inl m \<Rightarrow> None
         | Inr v \<Rightarrow> Option.bind (Option.bind (jget (asc ''error'') v) (jget (asc ''message''))) as_str))"

definition explained_error :: "ustr option \<Rightarrow> call_tool_result \<Rightarrow> call_tool_result" where
  "explained_error upstream base =
     (case (upstream, structured_content base) of
       (Some m, JObj flds) \<Rightarrow>
         (let msg = take 2000 m;
              err = (case get_str (asc ''error'') (JObj flds) of Some t \<Rightarrow> t | None \<Rightarrow> [])
          in StructuredError (JObj (map_insert (asc ''upstreamMessage'') (JStr msg)
               (map_insert (asc ''error'') (JStr (err @ asc '' Upstream: '' @ msg)) flds))))
     | _ \<Rightarrow> base)"

definition post_explained ::
  "'x env_scheme \<Rightarrow> server \<Rightarrow> audience \<Rightarrow> ustr \<Rightarrow> json \<Rightarrow> permission_category
     \<Rightarrow> (call_tool_result + json) io" where
  "post_explained e s aud path body cat =
     authenticated e s aud (api_request s aud POST path [] (JsonBody body)) path
       (\<lambda>resp. if reply_status resp \<noteq> 400 then do { r \<leftarrow> read_json e s resp path cat; ret (body_of r) }
               else ret (Inl (explained_error (upstream_message e resp)
                      (http_error 400 path (auth_kind_of s) cat))))"

section \<open>The two clients\<close>

definition graph_get_as ::
  "'x env_scheme \<Rightarrow> server \<Rightarrow> ustr \<Rightarrow> (ustr \<times> ustr) list \<Rightarrow> permission_category \<Rightarrow> (call_tool_result + json) io" where
  "graph_get_as e s path query cat = request e s Graph GET path query None cat"

definition graph_get ::
  "'x env_scheme \<Rightarrow> server \<Rightarrow> ustr \<Rightarrow> (ustr \<times> ustr) list \<Rightarrow> (call_tool_result + json) io" where
  "graph_get e s path query = graph_get_as e s path query ReadGraph"

definition graph_get_with_odata_as ::
  "'x env_scheme \<Rightarrow> server \<Rightarrow> ustr \<Rightarrow> odata_params \<Rightarrow> permission_category \<Rightarrow> (call_tool_result + json) io" where
  "graph_get_with_odata_as e s path od cat = request e s Graph GET path (to_query_vec od) None cat"

definition graph_get_with_odata ::
  "'x env_scheme \<Rightarrow> server \<Rightarrow> ustr \<Rightarrow> odata_params \<Rightarrow> (call_tool_result + json) io" where
  "graph_get_with_odata e s path od = graph_get_with_odata_as e s path od ReadGraph"

definition graph_post_as ::
  "'x env_scheme \<Rightarrow> server \<Rightarrow> ustr \<Rightarrow> json \<Rightarrow> permission_category \<Rightarrow> (call_tool_result + json) io" where
  "graph_post_as e s path body cat = request e s Graph POST path [] (Some body) cat"

definition graph_post ::
  "'x env_scheme \<Rightarrow> server \<Rightarrow> ustr \<Rightarrow> json \<Rightarrow> (call_tool_result + json) io" where
  "graph_post e s path body = graph_post_as e s path body ReadGraph"

definition graph_post_explained ::
  "'x env_scheme \<Rightarrow> server \<Rightarrow> ustr \<Rightarrow> json \<Rightarrow> (call_tool_result + json) io" where
  "graph_post_explained e s path body = post_explained e s Graph path body ReadGraph"

definition graph_patch_as ::
  "'x env_scheme \<Rightarrow> server \<Rightarrow> ustr \<Rightarrow> json \<Rightarrow> permission_category \<Rightarrow> (call_tool_result + mutation_response) io" where
  "graph_patch_as e s path body cat = request_mutation e s Graph PATCH path [] (Some body) cat"

definition graph_patch ::
  "'x env_scheme \<Rightarrow> server \<Rightarrow> ustr \<Rightarrow> json \<Rightarrow> (call_tool_result + mutation_response) io" where
  "graph_patch e s path body = graph_patch_as e s path body PTriage"

definition graph_delete_as ::
  "'x env_scheme \<Rightarrow> server \<Rightarrow> ustr \<Rightarrow> permission_category \<Rightarrow> (call_tool_result + mutation_response) io" where
  "graph_delete_as e s path cat = request_mutation e s Graph DELETE path [] None cat"

definition graph_delete ::
  "'x env_scheme \<Rightarrow> server \<Rightarrow> ustr \<Rightarrow> (call_tool_result + mutation_response) io" where
  "graph_delete e s path = graph_delete_as e s path PTriage"

definition endpoint_get_as ::
  "'x env_scheme \<Rightarrow> server \<Rightarrow> ustr \<Rightarrow> (ustr \<times> ustr) list \<Rightarrow> permission_category \<Rightarrow> (call_tool_result + json) io" where
  "endpoint_get_as e s path query cat = request e s Endpoint GET path query None cat"

definition endpoint_get ::
  "'x env_scheme \<Rightarrow> server \<Rightarrow> ustr \<Rightarrow> (ustr \<times> ustr) list \<Rightarrow> (call_tool_result + json) io" where
  "endpoint_get e s path query = endpoint_get_as e s path query ReadEndpoint"

definition endpoint_get_with_odata_as ::
  "'x env_scheme \<Rightarrow> server \<Rightarrow> ustr \<Rightarrow> odata_params \<Rightarrow> permission_category \<Rightarrow> (call_tool_result + json) io" where
  "endpoint_get_with_odata_as e s path od cat = request e s Endpoint GET path (to_query_vec od) None cat"

definition endpoint_get_with_odata ::
  "'x env_scheme \<Rightarrow> server \<Rightarrow> ustr \<Rightarrow> odata_params \<Rightarrow> (call_tool_result + json) io" where
  "endpoint_get_with_odata e s path od = endpoint_get_with_odata_as e s path od ReadEndpoint"

definition endpoint_post_as ::
  "'x env_scheme \<Rightarrow> server \<Rightarrow> ustr \<Rightarrow> json \<Rightarrow> permission_category \<Rightarrow> (call_tool_result + mutation_response) io" where
  "endpoint_post_as e s path body cat = request_mutation e s Endpoint POST path [] (Some body) cat"

definition endpoint_post ::
  "'x env_scheme \<Rightarrow> server \<Rightarrow> ustr \<Rightarrow> json \<Rightarrow> (call_tool_result + mutation_response) io" where
  "endpoint_post e s path body = endpoint_post_as e s path body PLiveResponse"

definition endpoint_patch_as ::
  "'x env_scheme \<Rightarrow> server \<Rightarrow> ustr \<Rightarrow> json \<Rightarrow> permission_category \<Rightarrow> (call_tool_result + mutation_response) io" where
  "endpoint_patch_as e s path body cat = request_mutation e s Endpoint PATCH path [] (Some body) cat"

definition endpoint_patch ::
  "'x env_scheme \<Rightarrow> server \<Rightarrow> ustr \<Rightarrow> json \<Rightarrow> (call_tool_result + mutation_response) io" where
  "endpoint_patch e s path body = endpoint_patch_as e s path body PTriage"

definition endpoint_delete_as ::
  "'x env_scheme \<Rightarrow> server \<Rightarrow> ustr \<Rightarrow> permission_category \<Rightarrow> (call_tool_result + mutation_response) io" where
  "endpoint_delete_as e s path cat = request_mutation e s Endpoint DELETE path [] None cat"

definition endpoint_delete ::
  "'x env_scheme \<Rightarrow> server \<Rightarrow> ustr \<Rightarrow> (call_tool_result + mutation_response) io" where
  "endpoint_delete e s path = endpoint_delete_as e s path PIndicators"

definition show_bool :: "bool \<Rightarrow> ustr" where
  "show_bool b = (if b then asc ''true'' else asc ''false'')"

definition endpoint_multipart_upload ::
  "'x env_scheme \<Rightarrow> server \<Rightarrow> ustr \<Rightarrow> ustr \<Rightarrow> nat list \<Rightarrow> ustr \<Rightarrow> ustr option \<Rightarrow> bool option
     \<Rightarrow> (call_tool_result + mutation_response) io" where
  "endpoint_multipart_upload e s path file_name content description parameters override =
     authenticated e s Endpoint
       (api_request s Endpoint POST path []
         (Multipart \<lparr>file_name_of = file_name, file_bytes = content\<rparr>
           ([(asc ''Description'', description)]
            @ (case parameters of Some pd \<Rightarrow> [(asc ''ParametersDescription'', pd)] | None \<Rightarrow> [])
            @ (case override of Some ov \<Rightarrow> [(asc ''OverrideIfExists'', show_bool ov)] | None \<Rightarrow> []))))
       path (\<lambda>resp. read_json e s resp path PLiveResponse)"

text \<open>The public calls, down to the reading and the mutation they are made of.\<close>

lemmas client_defs = graph_get_as_def graph_get_def graph_get_with_odata_as_def graph_get_with_odata_def
  graph_post_as_def graph_post_def graph_post_explained_def graph_patch_as_def graph_patch_def
  graph_delete_as_def graph_delete_def endpoint_get_as_def endpoint_get_def
  endpoint_get_with_odata_as_def endpoint_get_with_odata_def endpoint_post_as_def endpoint_post_def
  endpoint_patch_as_def endpoint_patch_def endpoint_delete_as_def endpoint_delete_def
  endpoint_multipart_upload_def


section \<open>What one authenticated call does\<close>

lemma is_error_session_block: "session_block s aud w = Some err \<Longrightarrow> is_error err"
  by (auto simp: session_block_def split: if_splits option.splits consent_state.splits)

lemma is_error_refresh_failed:
  "run_state (refresh_failed e s aud err) w = (Inl x, w') \<Longrightarrow> is_error x"
  by (auto simp: refresh_failed_def split: refresh_verdict.splits)

lemma is_error_renew:
  assumes "run_state (renew e s aud) w = (Inl err, w')"
  shows "is_error err"
proof (cases "credential s")
  case (ClientSecret secret)
  with assms show ?thesis by (auto simp: renew_def split: prod.splits sum.splits)
next
  case (Delegated a t)
  with assms show ?thesis
    by (auto simp: renew_def split: prod.splits sum.splits
        dest: is_error_refresh_failed refresh_succeeded_run)
qed

lemma is_error_get_token:
  assumes "run_state (get_token e s aud) w = (Inl err, w')"
  shows "is_error err"
  using assms by (cases rule: get_token_cases) (auto dest: is_error_session_block is_error_renew)

text \<open>
  The two ways an authenticated call goes: no token, so nothing is sent upstream; or the token of
  that audience, one request that carries it, and the reply handled.
\<close>

lemma authenticated_cases:
  assumes "run_state (authenticated e s aud rq path k) w = (r, w')"
  obtains (no_token) err where "run_state (get_token e s aud) w = (Inl err, w')" "r = Inl err"
  | (net) t w1 n where "run_state (get_token e s aud) w = (Inr t, w1)"
      "w' = w1\<lparr>trace := trace w1 @ [Sent (rq t)]\<rparr>" "r = Inl (network_error n path)"
  | (reply) t w1 resp where "run_state (get_token e s aud) w = (Inr t, w1)"
      "run_state (k resp) (w1\<lparr>trace := trace w1 @ [Sent (rq t)]\<rparr>) = (r, w')"
proof -
  obtain x w1 where 1: "run_state (get_token e s aud) w = (x, w1)" by fastforce
  show thesis
  proof (cases x)
    case (Inl err)
    with assms 1 show thesis by (intro no_token) (auto simp: authenticated_def)
  next
    case (Inr t)
    show thesis
    proof (cases "http e (trace w1) (rq t)")
      case (Inl n)
      with assms 1 Inr have "w' = w1\<lparr>trace := trace w1 @ [Sent (rq t)]\<rparr>" "r = Inl (network_error n path)"
        by (auto simp: authenticated_def)
      with 1 Inr show thesis by (intro net) auto
    next
      case (Inr resp)
      with assms 1 \<open>x = Inr t\<close> show thesis
        by (intro reply) (auto simp: authenticated_def)
    qed
  qed
qed

lemma token_events:
  assumes "run_state (get_token e s aud) w = (r, w')"
  shows "\<exists>evs. trace w' = trace w @ evs \<and> list_all sends evs \<and> filter api_call evs = []"
proof -
  from get_token_call [OF assms] obtain evs where evs: "trace w' = trace w @ evs"
      "\<forall>ev\<in>set evs. \<exists>ps. ev = Sent (form_post (token_endpoint e (tm_tenant s)) ps)"
    unfolding token_call_def by blast
  then have "list_all sends evs" "filter api_call evs = []"
    by (auto simp: list_all_iff filter_empty_conv)
  with evs show ?thesis by blast
qed

definition one_upstream :: "event list \<Rightarrow> bool" where
  "one_upstream evs \<longleftrightarrow> list_all sends evs \<and> length (filter api_call evs) \<le> 1"

lemma authenticated_one_upstream:
  assumes run: "run_state (authenticated e s aud rq path k) w = (r, w')"
    and quiet: "\<And>resp v x v'. run_state (k resp) v = (x, v') \<Longrightarrow> trace v' = trace v"
  shows "\<exists>evs. trace w' = trace w @ evs \<and> one_upstream evs"
  using run
proof (cases rule: authenticated_cases)
  case (no_token err)
  from token_events [OF no_token(1)] show ?thesis by (auto simp: one_upstream_def)
next
  case (net t w1 n)
  from token_events [OF net(1)] obtain evs where
    "trace w1 = trace w @ evs" "list_all sends evs" "filter api_call evs = []" by blast
  with net(2) show ?thesis
    by (intro exI [of _ "evs @ [Sent (rq t)]"]) (simp add: one_upstream_def)
next
  case (reply t w1 resp)
  from token_events [OF reply(1)] obtain evs where
    "trace w1 = trace w @ evs" "list_all sends evs" "filter api_call evs = []" by blast
  with quiet [OF reply(2)] show ?thesis
    by (intro exI [of _ "evs @ [Sent (rq t)]"]) (simp add: one_upstream_def)
qed

lemma read_json_quiet: "run_state (read_json e s resp path cat) w = (r, w') \<Longrightarrow> trace w' = trace w"
  by (auto simp: read_json_def split: if_splits)

lemma read_json_status:
  assumes "run_state (read_json e s resp path cat) w = (Inr m, w')"
  shows "mr_status m = reply_status resp \<and> mr_status m \<in> {200, 201, 204}"
proof -
  from assms have "read_body e resp path = Inr m" and "reply_status resp \<in> {200, 201, 204}"
    by (auto simp: read_json_def split: if_splits)
  then show ?thesis by (auto simp: read_body_def split: if_splits sum.splits)
qed

lemma read_json_error: "run_state (read_json e s resp path cat) w = (Inl err, w') \<Longrightarrow> is_error err"
  by (auto simp: read_json_def read_body_def split: if_splits sum.splits)

section \<open>The contract of an upstream call\<close>

text \<open>
  What the mutation pipeline relies on: the call adds only HTTP requests to the trace, at most one
  of them with an access token; a response it returns has a status the reader accepts; an error it
  returns is an error result.
\<close>

locale upstream_call =
  fixes call :: "(call_tool_result + mutation_response) io"
  assumes one_call: "run_state call w = (r, w') \<Longrightarrow> \<exists>evs. trace w' = trace w @ evs \<and> one_upstream evs"
    and ok_status: "run_state call w = (Inr resp, w') \<Longrightarrow> mr_status resp \<in> {200, 201, 204}"
    and err_flag: "run_state call w = (Inl err, w') \<Longrightarrow> is_error err"
begin

lemma result_flag: "run_state call w = (r, w') \<Longrightarrow> r = Inl err \<Longrightarrow> is_error err"
  using err_flag by blast

end

lemma authenticated_upstream_call:
  assumes quiet: "\<And>resp v x v'. run_state (k resp) v = (x, v') \<Longrightarrow> trace v' = trace v"
    and ok: "\<And>resp v m v'. run_state (k resp) v = (Inr m, v') \<Longrightarrow> mr_status m \<in> {200, 201, 204}"
    and err: "\<And>resp v x v'. run_state (k resp) v = (Inl x, v') \<Longrightarrow> is_error x"
  shows "upstream_call (authenticated e s aud rq path k)"
proof
  fix w r w' assume "run_state (authenticated e s aud rq path k) w = (r, w')"
  then show "\<exists>evs. trace w' = trace w @ evs \<and> one_upstream evs"
    using quiet by (rule authenticated_one_upstream)
next
  fix w resp w' assume "run_state (authenticated e s aud rq path k) w = (Inr resp, w')"
  then show "mr_status resp \<in> {200, 201, 204}"
    by (cases rule: authenticated_cases) (auto dest: ok)
next
  fix w x w' assume "run_state (authenticated e s aud rq path k) w = (Inl x, w')"
  then show "is_error x"
    by (cases rule: authenticated_cases) (auto dest: err is_error_get_token)
qed

interpretation mutation: upstream_call "request_mutation e s aud m path query body cat"
  for e :: "'x env_scheme" and s aud m path query body cat
  unfolding request_mutation_def
  by (rule authenticated_upstream_call)
     (blast dest: read_json_quiet read_json_status read_json_error)+

interpretation upload: upstream_call
  "endpoint_multipart_upload e s path fname content description parameters ov"
  for e :: "'x env_scheme" and s path fname content description parameters ov
  unfolding endpoint_multipart_upload_def
  by (rule authenticated_upstream_call)
     (blast dest: read_json_quiet read_json_status read_json_error)+


section \<open>The API calls of an operation\<close>

text \<open>Every request with an access token that a computation sends satisfies \<open>P\<close>.\<close>

definition calls_only :: "'a io \<Rightarrow> (http_request \<Rightarrow> bool) \<Rightarrow> bool" where
  "calls_only m P \<longleftrightarrow> (\<forall>w r w' evs rq. run_state m w = (r, w') \<longrightarrow> trace w' = trace w @ evs \<longrightarrow>
     Sent rq \<in> set evs \<longrightarrow> rq_bearer rq \<noteq> None \<longrightarrow> P rq)"

lemma calls_only_authenticated:
  assumes quiet: "\<And>resp v x v'. run_state (k resp) v = (x, v') \<Longrightarrow> trace v' = trace v"
    and P: "\<And>t. P (rq t)"
  shows "calls_only (authenticated e s aud rq path k) P"
  unfolding calls_only_def
proof (intro allI impI)
  fix w r w' evs q
  assume run: "run_state (authenticated e s aud rq path k) w = (r, w')"
    and evs: "trace w' = trace w @ evs" and q: "Sent q \<in> set evs" "rq_bearer q \<noteq> None"
  from run have "\<exists>ts. filter api_call ts = [] \<and> (evs = ts \<or> (\<exists>t. evs = ts @ [Sent (rq t)]))"
  proof (cases rule: authenticated_cases)
    case (no_token err)
    with token_events [OF no_token(1)] evs show ?thesis by auto
  next
    case (net t w1 n)
    with token_events [OF net(1)] evs obtain ts where "filter api_call ts = []" "evs = ts @ [Sent (rq t)]"
      by auto
    then show ?thesis by blast
  next
    case (reply t w1 resp)
    with token_events [OF reply(1)] quiet [OF reply(2)] evs
    obtain ts where "filter api_call ts = []" "evs = ts @ [Sent (rq t)]" by auto
    then show ?thesis by blast
  qed
  then obtain ts where ts: "filter api_call ts = []" "evs = ts \<or> (\<exists>t. evs = ts @ [Sent (rq t)])" by blast
  have "Sent q \<notin> set ts"
  proof
    assume "Sent q \<in> set ts"
    with ts(1) have "\<not> api_call (Sent q)" unfolding filter_empty_conv by blast
    with q(2) show False by simp
  qed
  with ts(2) q(1) P show "P q" by auto
qed

lemma calls_only_mutation:
  "calls_only (request_mutation e s aud m path query body cat)
     (\<lambda>rq. \<exists>t. rq = api_request s aud m path query (case body of Some b \<Rightarrow> JsonBody b | None \<Rightarrow> NoBody) t)"
  unfolding request_mutation_def
  by (rule calls_only_authenticated) (auto dest: read_json_quiet)


section \<open>Properties\<close>

lemma read_json_frame:
  "run_state (read_json e s resp path cat) w = (r, w') \<Longrightarrow>
     trace w' = trace w \<and> cache w' = cache w \<and> refresh_token w' = refresh_token w"
  by (auto simp: read_json_def split: if_splits)

text \<open>
  C27. An access token only ever goes where it belongs: a request that carries one is the request
  asked for, to the base URL of the audience, and the token is the one cached for that audience.
\<close>

theorem bearer_matches_audience:
  assumes "run_state (request_mutation e s aud m path query body cat) w = (r, w')"
    and "trace w' = trace w @ evs" and "Sent rq \<in> set evs" and "rq_bearer rq = Some t"
  shows "rq_method rq = m \<and> rq_url rq = base_url s aud @ path \<and> rq_query rq = query \<and>
    (\<exists>ct. cache w' aud = Some ct \<and> tok ct = t)"
proof -
  let ?rq = "api_request s aud m path query (case body of Some b \<Rightarrow> JsonBody b | None \<Rightarrow> NoBody)"
  have main: "\<exists>u ts. trace w' = trace w @ ts @ [Sent (?rq u)] \<and> filter api_call ts = [] \<and>
      (\<exists>ct. cache w' aud = Some ct \<and> tok ct = u) \<or> trace w' = trace w @ ts \<and> filter api_call ts = []"
    using assms(1) unfolding request_mutation_def
  proof (cases rule: authenticated_cases)
    case (no_token err)
    from token_events [OF no_token(1)] show ?thesis by blast
  next
    case (net u w1 n)
    from token_events [OF net(1)] net(2) get_token_call [OF net(1)] show ?thesis
      unfolding token_call_def by auto
  next
    case (reply u w1 resp)
    from token_events [OF reply(1)] read_json_frame [OF reply(2)] get_token_call [OF reply(1)]
    show ?thesis unfolding token_call_def by auto
  qed
  have call: "api_call (Sent rq)" using assms(4) by simp
  with main assms(2,3) obtain u where "rq = ?rq u" "\<exists>ct. cache w' aud = Some ct \<and> tok ct = u"
    unfolding filter_empty_conv by fastforce
  with assms(4) show ?thesis by (auto simp: api_request_def)
qed

lemma bearer_matches_audience_witness:
  "let w' = snd (run_state (request_mutation (demo_env (demo_reply 200 [])) demo_server Graph PATCH
       (asc ''/x'') [] None PTriage) world1) in
   \<exists>rq. trace w' = [Sent rq] \<and> rq_url rq = base_url demo_server Graph @ asc ''/x'' \<and>
     (\<exists>ct. cache w' Graph = Some ct \<and> tok ct = asc ''token'')"
proof -
  let ?m = "request_mutation (demo_env (demo_reply 200 [])) demo_server Graph PATCH (asc ''/x'') [] None PTriage"
  let ?w' = "snd (run_state ?m world1)"
  let ?rq = "api_request demo_server Graph PATCH (asc ''/x'') [] NoBody (asc ''token'')"
  have t: "trace ?w' = [Sent ?rq]" by code_simp
  have "rq_bearer ?rq = Some (asc ''token'')" by (simp add: api_request_def)
  then have "rq_url ?rq = base_url demo_server Graph @ asc ''/x'' \<and>
      (\<exists>ct. cache ?w' Graph = Some ct \<and> tok ct = asc ''token'')"
    using bearer_matches_audience [of "demo_env (demo_reply 200 [])" demo_server Graph PATCH "asc ''/x''" "[]"
        None PTriage world1 "fst (run_state ?m world1)" ?w' "[Sent ?rq]" ?rq "asc ''token''"] t
    by (simp add: world1_def world0_def)
  with t show ?thesis unfolding Let_def by blast
qed

text \<open>
  A claims challenge from either API ends the session: after an HTTP 401 with
  \<open>insufficient_claims\<close> in user mode, every token acquisition fails with a re-authentication
  error, without a request.
\<close>

theorem claims_challenge_ends_session:
  assumes "is_delegated s" and "claims_challenge resp"
    and "run_state (read_json e s resp path cat) w = (r, w')"
  shows "r = Inl (reauthentication_required (asc ''conditional_access'')) \<and>
    (\<exists>q. run_state (get_token e s aud) w' = (Inl (reauthentication_required (reauth_str q)), w'))"
proof -
  from assms have r: "r = Inl (reauthentication_required (asc ''conditional_access''))"
      and "w' = once_reauth ConditionalAccess w"
    by (auto simp: read_json_def)
  then obtain q where "reauth w' = Some q" by simp
  with assms(1) have "session_block s aud w' = Some (reauthentication_required (reauth_str q))"
    by (simp add: session_block_reauth)
  then have "run_state (get_token e s aud) w' = (Inl (reauthentication_required (reauth_str q)), w')"
    by (simp add: get_token_def)
  with r show ?thesis by blast
qed

lemma claims_challenge_ends_session_witness:
  "\<exists>q w'. run_state (get_token (demo_env (demo_reply 200 [])) demo_server Graph) w' =
     (Inl (reauthentication_required (reauth_str q)), w')"
proof -
  let ?resp = "\<lparr>reply_status = 401, www_authenticate = Some (asc ''error=insufficient_claims''),
    reply_body = Inr []\<rparr>"
  let ?m = "read_json (demo_env (demo_reply 200 [])) demo_server ?resp [] PTriage"
  have d: "is_delegated demo_server" by (simp add: is_delegated_def auth_kind_of_def demo_server_def)
  have c: "claims_challenge ?resp" by code_simp
  show ?thesis
    using claims_challenge_ends_session [OF d c, of "demo_env (demo_reply 200 [])" "[]" PTriage world0
        "fst (run_state ?m world0)" "snd (run_state ?m world0)" Graph]
    by (metis prod.collapse)
qed

lemma http_error_object: "\<exists>flds. structured_content (http_error st path k cat) = JObj flds"
  by (cases k) (auto simp: http_error_app_def http_error_user_def status_error_def jobj_def)

lemma explained_status: "http_status_of (explained_error up base) = http_status_of base"
proof (cases "structured_content base")
  case (JObj m)
  then show ?thesis
    by (cases up) (simp_all add: explained_error_def http_status_of_def Let_def)
qed (cases up; simp add: explained_error_def http_status_of_def)+

lemma explained_message:
  "structured_content base = JObj flds \<Longrightarrow>
     get_str (asc ''upstreamMessage'') (structured_content (explained_error (Some m) base)) = Some (take 2000 m)"
  by (simp add: explained_error_def get_str_def Let_def)

text \<open>
  An explained HTTP 400 keeps the status of the error it explains and carries at most 2000
  characters of the upstream service's message.
\<close>

theorem explained_error_keeps_status:
  "http_status_of (explained_error up (http_error 400 path k cat)) = Some 400 \<and>
   (case up of None \<Rightarrow> explained_error up (http_error 400 path k cat) = http_error 400 path k cat
    | Some m \<Rightarrow> get_str (asc ''upstreamMessage'')
        (structured_content (explained_error up (http_error 400 path k cat))) = Some (take 2000 m))"
proof -
  obtain flds where flds: "structured_content (http_error 400 path k cat) = JObj flds"
    using http_error_object by blast
  then show ?thesis
    by (cases up) (simp_all add: explained_status http_status_http_error explained_message,
        simp add: explained_error_def)
qed

end
