(* ===== verification/Confirm.thy ===== *)
theory Confirm
  imports Client Validation
begin

text \<open>
  \<open>src/confirm.rs\<close>: the text of the confirmation prompt, the reading of the answer, and the request
  for confirmation as an effect on the world.
\<close>

definition truncate_ellipsis :: "ustr \<Rightarrow> nat \<Rightarrow> ustr" where
  "truncate_ellipsis s n = (if n < length s then take n s @ [0x2026] else s)"

fun param_text :: "'x libs_scheme \<Rightarrow> json \<Rightarrow> ustr" where
  "param_text l (JStr s) = s"
| "param_text l v = json_text l v"

definition action_part :: "'x libs_scheme \<Rightarrow> ustr \<Rightarrow> json_map \<Rightarrow> ustr" where
  "action_part l action parameters =
     (if parameters = [] then action
      else action @ asc '' ('' @ join (asc '', '')
             (map (\<lambda>(k, v). k @ asc ''='' @ truncate_ellipsis (param_text l v) 200) parameters) @ asc '')'')"

definition targets_part :: "audit_target list \<Rightarrow> ustr" where
  "targets_part targets =
     (case targets of
       [] \<Rightarrow> asc ''Targets: (none)''
     | [t] \<Rightarrow> asc ''Targets: '' @ truncate_ellipsis (target_value t) 200
     | _ \<Rightarrow> join [10] (asc ''Targets:''
              # map (\<lambda>t. asc ''  '' @ truncate_ellipsis (target_value t) 200) targets))"

definition build_confirmation_message ::
  "'x libs_scheme \<Rightarrow> ustr \<Rightarrow> ustr \<Rightarrow> json_map \<Rightarrow> audit_target list \<Rightarrow> ustr \<Rightarrow> identity_snapshot \<Rightarrow> ustr" where
  "build_confirmation_message l tool action parameters targets justification ident =
     asc ''Confirm destructive Microsoft Defender action'' @ [10]
     @ asc ''Tool:    '' @ tool @ [10]
     @ asc ''Action:  '' @ action_part l action parameters @ [10]
     @ targets_part targets @ [10]
     @ asc ''Reason:  '' @ truncate_ellipsis justification 200 @ [10]
     @ asc ''Acting as: '' @ display_prompt ident @ [10]
     @ asc ''This request was generated by an AI agent. Approve only if you intended it.''"

text \<open>The timeout in milliseconds; the override exists in debug builds only.\<close>

definition elicitation_timeout :: "bool \<Rightarrow> (ustr \<Rightarrow> ustr option) \<Rightarrow> nat" where
  "elicitation_timeout debug_build var =
     (if debug_build then
        (case var (asc ''DEFENDER_TEST_ELICITATION_TIMEOUT_MS'') of
          Some v \<Rightarrow> (case parse_unsigned 64 v of Some ms \<Rightarrow> ms | None \<Rightarrow> 300000)
        | None \<Rightarrow> 300000)
      else 300000)"

fun map_elicitation_result :: "ustr + elicit_result \<Rightarrow> confirmation_outcome" where
  "map_elicitation_result (Inr res) =
     (if el_action res = Accept then
        (case el_content res of
          Some content \<Rightarrow>
            (if (case Option.bind (jget (asc ''confirm'') content) as_bool of Some b \<Rightarrow> b | None \<Rightarrow> False)
             then Accepted else Declined)
        | None \<Rightarrow> Declined)
      else Declined)"
| "map_elicitation_result (Inl err) = Declined"

definition check_elicitation_mode_supported :: "elicitation_mode set \<Rightarrow> bool" where
  "check_elicitation_mode_supported modes \<longleftrightarrow> FormMode \<in> modes"

definition ask :: "'x env_scheme \<Rightarrow> ustr \<Rightarrow> (ustr + elicit_result) io" where
  "ask e m = State (\<lambda>w. (elicit e (trace w) m, w\<lparr>trace := trace w @ [Prompted m]\<rparr>))"

definition request_confirmation ::
  "'x env_scheme \<Rightarrow> ustr \<Rightarrow> ustr \<Rightarrow> json_map \<Rightarrow> audit_target list \<Rightarrow> ustr \<Rightarrow> identity_snapshot
     \<Rightarrow> confirmation_outcome io" where
  "request_confirmation e tool action parameters targets justification ident =
     (if \<not> check_elicitation_mode_supported (elicitation_modes e) then ret Unavailable
      else do {
        r \<leftarrow> ask e (build_confirmation_message e tool action parameters targets justification ident);
        ret (map_elicitation_result r)
      })"

section \<open>Facts\<close>

lemma run_ask [simp]:
  "run_state (ask e m) w = (elicit e (trace w) m, w\<lparr>trace := trace w @ [Prompted m]\<rparr>)"
  by (simp add: ask_def)

lemma length_truncate: "length (truncate_ellipsis s n) \<le> Suc n"
  by (simp add: truncate_ellipsis_def)

lemma sublist_join: "w \<in> set ws \<Longrightarrow> sublist w (join sep ws)"
proof (induction sep ws rule: join.induct)
  case (3 sep v u ws)
  then consider "w = v" | "w \<in> set (u # ws)" by auto
  then show ?case
  proof cases
    case 1 then show ?thesis by (simp add: sublist_earlier)
  next
    case 2
    with 3 have "sublist w (join sep (u # ws))" by simp
    then show ?thesis by (simp add: sublist_later)
  qed
qed auto

lemma sublist_targets_part:
  assumes "t \<in> set targets"
  shows "sublist (truncate_ellipsis (target_value t) 200) (targets_part targets)"
proof (cases targets rule: list.exhaust)
  case (Cons u us)
  show ?thesis
  proof (cases us)
    case Nil
    with assms Cons show ?thesis by (auto simp: targets_part_def)
  next
    case (Cons v vs)
    let ?l = "\<lambda>t. asc ''  '' @ truncate_ellipsis (target_value t) 200"
    have "sublist (?l t) (join [10] (asc ''Targets:'' # map ?l targets))"
      using assms by (intro sublist_join) auto
    moreover have "sublist (truncate_ellipsis (target_value t) 200) (?l t)" by auto
    ultimately show ?thesis using \<open>targets = u # us\<close> Cons
      by (auto simp: targets_part_def intro: sublist_trans)
  qed
qed (use assms in simp)

section \<open>Properties\<close>

text \<open>
  Only an explicit yes is a confirmation: the outcome is \<open>Accepted\<close> exactly when the user
  accepted the form and its \<open>confirm\<close> field is the boolean true. A declined or cancelled form, a
  missing or non-boolean field, a timeout or any other error is a refusal.
\<close>

theorem only_yes_confirms:
  "map_elicitation_result r = Accepted \<longleftrightarrow>
     (\<exists>res content. r = Inr res \<and> el_action res = Accept \<and> el_content res = Some content \<and>
        jget (asc ''confirm'') content = Some (JBool True))"
proof (cases r)
  case (Inr res)
  have b: "as_bool v = Some b \<longleftrightarrow> v = JBool b" for v b by (cases v) auto
  show ?thesis
  proof (cases "el_content res")
    case (Some content)
    with Inr b show ?thesis
      by (cases "jget (asc ''confirm'') content")
         (auto split: option.splits)
  qed (use Inr in auto)
qed simp

text \<open>
  The prompt shows the user every target of the action (cut after 200 characters), the tool and
  the acting identity.
\<close>

theorem prompt_shows_targets:
  assumes "t \<in> set targets"
  shows "sublist (truncate_ellipsis (target_value t) 200)
       (build_confirmation_message l tool action parameters targets justification ident) \<and>
     sublist (asc ''Tool:    '' @ tool)
       (build_confirmation_message l tool action parameters targets justification ident) \<and>
     sublist (asc ''Acting as: '' @ display_prompt ident)
       (build_confirmation_message l tool action parameters targets justification ident)"
proof (intro conjI)
  let ?m = "build_confirmation_message l tool action parameters targets justification ident"
  show "sublist (truncate_ellipsis (target_value t) 200) ?m"
    unfolding build_confirmation_message_def
    by (intro sublist_later sublist_earlier [OF sublist_targets_part [OF assms]])
  show "sublist (asc ''Tool:    '' @ tool) ?m"
    unfolding build_confirmation_message_def by (intro sublist_later sublist_here)
  show "sublist (asc ''Acting as: '' @ display_prompt ident) ?m"
    unfolding build_confirmation_message_def by (intro sublist_later sublist_here)
qed

lemma prompt_shows_targets_witness:
  "sublist (asc ''m1'') (build_confirmation_message doc_libs (asc ''t'') (asc ''a'') []
     [mk_target KMachineId (asc ''m1''), mk_target KMachineId (asc ''m2'')] [] (AppIdentity []))"
  using prompt_shows_targets [of "mk_target KMachineId (asc ''m1'')"
      "[mk_target KMachineId (asc ''m1''), mk_target KMachineId (asc ''m2'')]" doc_libs
      "asc ''t''" "asc ''a''" "[]" "[]" "AppIdentity []"]
  by (simp add: mk_target_def truncate_ellipsis_def)

end
