(* ===== verification/Mutation.thy ===== *)
theory Mutation
  imports Confirm
begin

text \<open>
  The mutation pipeline of \<open>src/server.rs\<close> (\<open>execute_mutation\<close>, \<open>write_audit_record_best_effort\<close>,
  \<open>audit_validation_error\<close>): read-only barrier, category, validation and justification,
  confirmation, intent record, one upstream call, outcome record. The stages are one definition
  each, composed in the order of the source; what an execution adds to the trace is described by
  the inductive relation \<open>mutation_trace\<close>, from which the guarantees are read off.

  The text content of an error result, which \<open>rmcp\<close> derives from its structured content, is the
  JSON text of that content.
\<close>

section \<open>Requests and records\<close>

record mutation_request =
  mq_tool :: mutating_tool
  mq_action :: ustr
  mq_category :: permission_category
  mq_targets :: "audit_target list"
  mq_parameters :: json_map
  mq_justification :: "ustr option"
  mq_validation :: "call_tool_result + unit"
  mq_extract :: "mutation_response \<Rightarrow> ustr option \<times> ustr option"
  mq_upstream :: "(call_tool_result + mutation_response) io"

definition mk_record ::
  "server \<Rightarrow> mutation_request \<Rightarrow> ustr \<Rightarrow> int \<Rightarrow> audit_phase \<Rightarrow> ustr option \<Rightarrow> confirmation_outcome
     \<Rightarrow> audit_result \<Rightarrow> audit_record" where
  "mk_record s req attempt t phase just conf result =
     \<lparr>ar_ts = t, ar_attempt_id = attempt, ar_phase = phase, ar_tool = tool_name (mq_tool req),
      ar_action = mq_action req, ar_targets = mq_targets req, ar_parameters = mq_parameters req,
      ar_justification = just, ar_identity = identity s, ar_confirmation = conf, ar_result = result\<rparr>"

definition record_final ::
  "'x env_scheme \<Rightarrow> server \<Rightarrow> mutation_request \<Rightarrow> ustr \<Rightarrow> reject_reason \<Rightarrow> confirmation_outcome
     \<Rightarrow> audit_record io" where
  "record_final e s req attempt reason conf = do {
     t \<leftarrow> now e;
     ret (mk_record s req attempt t Final (mq_justification req) conf (Rejected reason))
   }"

definition write_audit_record_best_effort :: "'x env_scheme \<Rightarrow> server \<Rightarrow> audit_record \<Rightarrow> unit io" where
  "write_audit_record_best_effort e s rec =
     (if audit_sink s then do {
        r \<leftarrow> sink_append e rec;
        case r of
          Inl err \<Rightarrow> stderr_line (asc ''AUDIT ERROR: failed to append audit record: '' @ err)
        | Inr u \<Rightarrow> ret ()
      } else ret ())"

section \<open>The stages\<close>

definition min_len_text :: ustr where
  "min_len_text = show_nat min_justification_len"

text \<open>Stages 1 to 3: the rejection with its reason, or the trimmed justification.\<close>

definition gate :: "server \<Rightarrow> mutation_request \<Rightarrow> (reject_reason \<times> call_tool_result) + ustr" where
  "gate s req =
     (if read_only (config s) then Inl (RReadOnly, read_only_violation (tool_name (mq_tool req)))
      else
        let tool_on = tool_enabled (categories (config s)) (mq_tool req);
            offboarding_disabled = (mq_action req = asc ''offboard'' \<and> \<not> offboarding (categories (config s)))
        in if \<not> tool_on \<or> offboarding_disabled then
             Inl (RCategoryDisabled, category_disabled
               (if offboarding_disabled then asc ''--enable-offboarding'' else enable_flag (mq_tool req)))
           else (case mq_validation req of
               Inl err \<Rightarrow> Inl (RValidation, err)
             | Inr u \<Rightarrow>
                 (let too_short = Inl (RValidation, tool_error
                        ((if mq_tool req = Triage then asc ''justification'' else asc ''comment'')
                         @ asc '' must be at least '' @ min_len_text
                         @ asc '' characters describing the purpose''))
                  in case map_option trim (mq_justification req) of
                      Some j \<Rightarrow> if min_justification_len \<le> length j then Inr j else too_short
                    | None \<Rightarrow> too_short)))"

text \<open>Stage 4: the outcome to record, or the result of a refusal that has been recorded.\<close>

definition confirm_stage ::
  "'x env_scheme \<Rightarrow> server \<Rightarrow> mutation_request \<Rightarrow> ustr \<Rightarrow> ustr \<Rightarrow> (call_tool_result + confirmation_outcome) io" where
  "confirm_stage e s req attempt j =
     (if destructive (mq_tool req) \<and> confirm_destructive (config s) then do {
        outcome \<leftarrow> request_confirmation e (tool_name (mq_tool req)) (mq_action req) (mq_parameters req)
          (mq_targets req) j (identity s);
        case outcome of
          Accepted \<Rightarrow> ret (Inr Accepted)
        | Unavailable \<Rightarrow> do {
            rec \<leftarrow> record_final e s req attempt RConfirmationUnavailable Unavailable;
            write_audit_record_best_effort e s rec;
            ret (Inl confirmation_unavailable)
          }
        | _ \<Rightarrow> do {
            t \<leftarrow> now e;
            write_audit_record_best_effort e s
              (mk_record s req attempt t Final (Some j) Declined RDeclined);
            ret (Inl not_confirmed)
          }
      }
      else if destructive (mq_tool req) then ret (Inr TurnedOff)
      else ret (Inr NotApplicable))"

text \<open>Stage 7's reading of the upstream result: what is recorded, and what the caller gets.\<close>

definition outcome_of ::
  "'x libs_scheme \<Rightarrow> mutation_request \<Rightarrow> call_tool_result + mutation_response \<Rightarrow> audit_result \<times> call_tool_result" where
  "outcome_of l req up =
     (case up of
       Inr resp \<Rightarrow>
         (let (tracking, status) = mq_extract req resp
          in (Submitted (mr_status resp) tracking status, Structured (mr_body resp)))
     | Inl err \<Rightarrow>
         (let msg = json_text l (structured_content err)
          in (case http_status_of err of
               Some status \<Rightarrow> (UpstreamError (status mod 65536) msg, err)
             | None \<Rightarrow> (TransportError msg, err))))"

definition write_outcome :: "'x env_scheme \<Rightarrow> ustr \<Rightarrow> audit_record \<Rightarrow> unit io" where
  "write_outcome e attempt rec = do {
     r \<leftarrow> sink_append e rec;
     case r of
       Inl err \<Rightarrow> stderr_line (asc ''AUDIT ERROR: failed to write outcome audit record for attempt ''
                     @ attempt @ asc '': '' @ err)
     | Inr u \<Rightarrow> ret ()
   }"

text \<open>Stages 5 to 7.\<close>

definition submit ::
  "'x env_scheme \<Rightarrow> server \<Rightarrow> mutation_request \<Rightarrow> ustr \<Rightarrow> ustr \<Rightarrow> confirmation_outcome \<Rightarrow> call_tool_result io" where
  "submit e s req attempt j conf = do {
     t \<leftarrow> now e;
     let intent = mk_record s req attempt t Intent (Some j) conf Pending;
     if \<not> audit_sink s then do {
       rec \<leftarrow> record_final e s req attempt RAuditUnavailable conf;
       stderr_line (stderr_summary e rec);
       ret audit_unavailable
     }
     else do {
       w \<leftarrow> sink_append e intent;
       case w of
         Inl err \<Rightarrow> do {
           rec \<leftarrow> record_final e s req attempt RAuditUnavailable conf;
           write_audit_record_best_effort e s rec;
           ret audit_unavailable
         }
       | Inr u \<Rightarrow> do {
           up \<leftarrow> mq_upstream req;
           let (result, answer) = outcome_of e req up;
           t2 \<leftarrow> now e;
           write_outcome e attempt (mk_record s req attempt t2 Outcome (Some j) conf result);
           ret answer
         }
     }
   }"

definition execute_mutation :: "'x env_scheme \<Rightarrow> server \<Rightarrow> mutation_request \<Rightarrow> call_tool_result io" where
  "execute_mutation e s req = do {
     attempt \<leftarrow> new_attempt_id e;
     case gate s req of
       Inl (reason, answer) \<Rightarrow> do {
         rec \<leftarrow> record_final e s req attempt reason NotApplicable;
         write_audit_record_best_effort e s rec;
         ret answer
       }
     | Inr j \<Rightarrow> do {
         c \<leftarrow> confirm_stage e s req attempt j;
         case c of
           Inl answer \<Rightarrow> ret answer
         | Inr conf \<Rightarrow> submit e s req attempt j conf
       }
   }"

text \<open>A protocol error raised while validating a known action becomes a recorded rejection.\<close>

definition audit_validation_error ::
  "'x env_scheme \<Rightarrow> server \<Rightarrow> mutating_tool \<Rightarrow> ustr \<Rightarrow> permission_category \<Rightarrow> ustr option
     \<Rightarrow> mcp_error + call_tool_result \<Rightarrow> (mcp_error + call_tool_result) io" where
  "audit_validation_error e s tool action cat just result =
     (case result of
       Inr r \<Rightarrow> ret result
     | Inl err \<Rightarrow> do {
         r \<leftarrow> execute_mutation e s \<lparr>mq_tool = tool, mq_action = action, mq_category = cat,
           mq_targets = [], mq_parameters = [], mq_justification = just,
           mq_validation = Inl (tool_error (message err)),
           mq_extract = (\<lambda>_. (None, None)),
           mq_upstream = ret (Inl (tool_error (asc ''internal error: upstream called after a validation failure'')))\<rparr>;
         ret (Inr r)
       })"

section \<open>What an execution adds to the trace\<close>

text \<open>One write to the log: the append, and a line on stderr; nothing when there is no sink.\<close>

definition written :: "server \<Rightarrow> audit_record \<Rightarrow> event list \<Rightarrow> bool" where
  "written s rec evs \<longleftrightarrow>
     (if audit_sink s then \<exists>ok m. evs = [Appended rec ok, Stderr m] else evs = [])"

definition record_of :: "server \<Rightarrow> mutation_request \<Rightarrow> ustr \<Rightarrow> audit_record \<Rightarrow> bool" where
  "record_of s req attempt rec \<longleftrightarrow>
     ar_attempt_id rec = attempt \<and> ar_tool rec = tool_name (mq_tool req) \<and>
     ar_action rec = mq_action req \<and> ar_targets rec = mq_targets req \<and>
     ar_parameters rec = mq_parameters req \<and> ar_identity rec = identity s"

definition asks :: "server \<Rightarrow> mutation_request \<Rightarrow> bool" where
  "asks s req \<longleftrightarrow> destructive (mq_tool req) \<and> confirm_destructive (config s)"

text \<open>The prompt, when there is one, and the outcome of an accepted confirmation stage.\<close>

definition confirmed :: "'x env_scheme \<Rightarrow> server \<Rightarrow> mutation_request \<Rightarrow> ustr \<Rightarrow> event list \<Rightarrow> confirmation_outcome \<Rightarrow> bool" where
  "confirmed e s req j ps conf \<longleftrightarrow>
     (if asks s req then conf = Accepted \<and>
        ps = [Prompted (build_confirmation_message e (tool_name (mq_tool req)) (mq_action req)
          (mq_parameters req) (mq_targets req) j (identity s))]
      else ps = [] \<and> conf = (if destructive (mq_tool req) then TurnedOff else NotApplicable))"

inductive mutation_trace ::
  "'x env_scheme \<Rightarrow> server \<Rightarrow> mutation_request \<Rightarrow> ustr \<Rightarrow> event list \<Rightarrow> call_tool_result \<Rightarrow> bool"
  for e :: "'x env_scheme" and s :: server and req :: mutation_request and attempt :: ustr where
  rejected:
    "gate s req = Inl (reason, answer) \<Longrightarrow> record_of s req attempt rec \<Longrightarrow> ar_phase rec = Final \<Longrightarrow>
     ar_result rec = Rejected reason \<Longrightarrow> written s rec evs \<Longrightarrow>
     mutation_trace e s req attempt evs answer"
| refused:
    "gate s req = Inr j \<Longrightarrow> asks s req \<Longrightarrow> list_all prompts ps \<Longrightarrow>
     record_of s req attempt rec \<Longrightarrow> ar_phase rec = Final \<Longrightarrow>
     (ar_result rec, ar_confirmation rec, answer) \<in>
       {(Rejected RConfirmationUnavailable, Unavailable, confirmation_unavailable),
        (RDeclined, Declined, not_confirmed)} \<Longrightarrow>
     written s rec evs \<Longrightarrow>
     mutation_trace e s req attempt (ps @ evs) answer"
| no_sink:
    "gate s req = Inr j \<Longrightarrow> confirmed e s req j ps conf \<Longrightarrow> \<not> audit_sink s \<Longrightarrow>
     mutation_trace e s req attempt (ps @ [Stderr m]) audit_unavailable"
| intent_failed:
    "gate s req = Inr j \<Longrightarrow> confirmed e s req j ps conf \<Longrightarrow> audit_sink s \<Longrightarrow>
     record_of s req attempt intent \<Longrightarrow> ar_phase intent = Intent \<Longrightarrow>
     record_of s req attempt rec \<Longrightarrow> ar_phase rec = Final \<Longrightarrow>
     ar_result rec = Rejected RAuditUnavailable \<Longrightarrow> written s rec evs \<Longrightarrow>
     mutation_trace e s req attempt (ps @ Appended intent (Inl err) # evs) audit_unavailable"
| submitted:
    "gate s req = Inr j \<Longrightarrow> confirmed e s req j ps conf \<Longrightarrow> audit_sink s \<Longrightarrow>
     record_of s req attempt intent \<Longrightarrow> ar_phase intent = Intent \<Longrightarrow> ar_result intent = Pending \<Longrightarrow>
     ar_confirmation intent = conf \<Longrightarrow> ar_justification intent = Some j \<Longrightarrow>
     sink_io e h intent = Inr () \<Longrightarrow>
     one_upstream ups \<Longrightarrow> run_state (mq_upstream req) v = (up, v') \<Longrightarrow>
     trace v' = trace v @ ups \<Longrightarrow> outcome_of e req up = (result, answer) \<Longrightarrow>
     record_of s req attempt outcome \<Longrightarrow> ar_phase outcome = Outcome \<Longrightarrow>
     ar_result outcome = result \<Longrightarrow> written s outcome evs \<Longrightarrow>
     mutation_trace e s req attempt
       (ps @ Appended intent (Inr ()) # Stderr m # ups @ evs) answer"

inductive_cases mutation_traceE [elim]: "mutation_trace e s req attempt evs answer"

section \<open>Every execution has such a trace\<close>

lemma record_of_mk [simp]: "record_of s req attempt (mk_record s req attempt t phase just conf result)"
  by (simp add: record_of_def mk_record_def)

lemma mk_record_fields [simp]:
  "ar_phase (mk_record s req attempt t phase just conf result) = phase"
  "ar_result (mk_record s req attempt t phase just conf result) = result"
  "ar_confirmation (mk_record s req attempt t phase just conf result) = conf"
  "ar_justification (mk_record s req attempt t phase just conf result) = just"
  by (simp_all add: mk_record_def)

lemma run_record_final [simp]:
  "run_state (record_final e s req attempt reason conf) w =
     (mk_record s req attempt (clock e (reads w)) Final (mq_justification req) conf (Rejected reason),
      w\<lparr>reads := Suc (reads w)\<rparr>)"
  by (simp add: record_final_def)

lemma best_effort_written:
  "\<exists>evs. trace (snd (run_state (write_audit_record_best_effort e s rec) w)) = trace w @ evs \<and> written s rec evs"
  by (auto simp: write_audit_record_best_effort_def written_def sink_append_def stderr_line_def
      split: sum.splits)


lemma best_effortE:
  assumes "run_state (write_audit_record_best_effort e s rec) w = (u, w')"
  obtains evs where "trace w' = trace w @ evs" "written s rec evs"
  using best_effort_written [of e s rec w] assms by auto

lemma confirm_stage_passed:
  assumes "run_state (confirm_stage e s req attempt j) w = (Inr conf, w')"
  shows "\<exists>ps. trace w' = trace w @ ps \<and> confirmed e s req j ps conf"
  using assms
  by (auto simp: confirm_stage_def request_confirmation_def confirmed_def asks_def
      split: if_splits confirmation_outcome.splits prod.splits)

lemma confirm_stage_refused:
  assumes run: "run_state (confirm_stage e s req attempt j) w = (Inl answer, w')"
    and gate: "gate s req = Inr j"
  shows "\<exists>evs. trace w' = trace w @ evs \<and> mutation_trace e s req attempt evs answer"
proof -
  have asks: "asks s req" using run by (auto simp: confirm_stage_def asks_def split: if_splits)
  obtain outcome w1 where 1: "run_state (request_confirmation e (tool_name (mq_tool req)) (mq_action req)
      (mq_parameters req) (mq_targets req) j (identity s)) w = (outcome, w1)" by fastforce
  then obtain ps where ps: "trace w1 = trace w @ ps" "list_all prompts ps"
    by (auto simp: request_confirmation_def split: if_splits)
  let ?rec = "if outcome = Unavailable
     then mk_record s req attempt (clock e (reads w1)) Final (mq_justification req) Unavailable
       (Rejected RConfirmationUnavailable)
     else mk_record s req attempt (clock e (reads w1)) Final (Some j) Declined RDeclined"
  have "run_state (write_audit_record_best_effort e s ?rec) (w1\<lparr>reads := Suc (reads w1)\<rparr>) = ((), w') \<and>
      answer = (if outcome = Unavailable then confirmation_unavailable else not_confirmed)"
    using run asks 1 by (cases outcome) (simp_all add: confirm_stage_def asks_def split: prod.splits)
  then have 2: "run_state (write_audit_record_best_effort e s ?rec) (w1\<lparr>reads := Suc (reads w1)\<rparr>) = ((), w')"
    and ans: "answer = (if outcome = Unavailable then confirmation_unavailable else not_confirmed)" by auto
  have rec: "record_of s req attempt ?rec" "ar_phase ?rec = Final"
      "(ar_result ?rec, ar_confirmation ?rec, answer) \<in>
       {(Rejected RConfirmationUnavailable, Unavailable, confirmation_unavailable),
        (RDeclined, Declined, not_confirmed)}"
    using ans by simp_all
  from 2 obtain evs where evs: "trace w' = trace w1 @ evs" "written s ?rec evs"
    by (rule best_effortE) simp
  with ps have "trace w' = trace w @ (ps @ evs)" by simp
  with mutation_trace.refused [OF gate asks ps(2) rec evs(2)] show ?thesis by blast
qed

lemma write_outcome_written:
  assumes "run_state (write_outcome e attempt rec) w = (u, w')"
  obtains ok m where "trace w' = trace w @ [Appended rec ok, Stderr m]"
  using assms by (auto simp: write_outcome_def sink_append_def stderr_line_def split: sum.splits)

lemma run_sink_ok:
  "sink_io e (trace w) rec = Inr u \<Longrightarrow> run_state (sink_append e rec) w =
     (Inr (), w\<lparr>trace := trace w @ [Appended rec (Inr ()), Stderr (stderr_summary e rec)]\<rparr>)"
  by (simp add: sink_append_def)

lemma run_sink_failed:
  "sink_io e (trace w) rec = Inl err \<Longrightarrow> run_state (sink_append e rec) w =
     (Inl err, w\<lparr>trace := trace w @ [Appended rec (Inl err)]\<rparr>)"
  by (simp add: sink_append_def)

lemma submit_trace:
  assumes run: "run_state (submit e s req attempt j conf) w = (answer, w')"
    and gate: "gate s req = Inr j" and conf: "confirmed e s req j ps conf"
    and up: "\<And>v r v'. run_state (mq_upstream req) v = (r, v') \<Longrightarrow> \<exists>ups. trace v' = trace v @ ups \<and> one_upstream ups"
  shows "\<exists>evs. trace w' = trace w @ evs \<and> mutation_trace e s req attempt (ps @ evs) answer"
proof (cases "audit_sink s")
  case False
  with run have "answer = audit_unavailable" "\<exists>m. trace w' = trace w @ [Stderr m]"
    by (auto simp: submit_def Let_def stderr_line_def)
  with mutation_trace.no_sink [OF gate conf False] show ?thesis by blast
next
  case sink: True
  let ?intent = "mk_record s req attempt (clock e (reads w)) Intent (Some j) conf Pending"
  let ?w1 = "w\<lparr>reads := Suc (reads w)\<rparr>"
  show ?thesis
  proof (cases "sink_io e (trace w) ?intent")
    case (Inl err)
    let ?w2 = "?w1\<lparr>trace := trace w @ [Appended ?intent (Inl err)]\<rparr>"
    let ?rec = "mk_record s req attempt (clock e (Suc (reads w))) Final (mq_justification req) conf
      (Rejected RAuditUnavailable)"
    have 1: "run_state (write_audit_record_best_effort e s ?rec) (?w2\<lparr>reads := Suc (Suc (reads w))\<rparr>) = ((), w')"
      and ans: "answer = audit_unavailable"
      using run sink Inl by (simp_all add: submit_def Let_def run_sink_failed split: prod.splits)
    from 1 obtain evs where evs: "trace w' = trace w @ Appended ?intent (Inl err) # evs" "written s ?rec evs"
      by (rule best_effortE) simp
    have "mutation_trace e s req attempt (ps @ Appended ?intent (Inl err) # evs) audit_unavailable"
      by (rule mutation_trace.intent_failed [OF gate conf sink _ _ _ _ _ evs(2)]) simp_all
    with evs(1) ans show ?thesis by blast
  next
    case (Inr u)
    let ?m = "stderr_summary e ?intent"
    let ?w2 = "?w1\<lparr>trace := trace w @ [Appended ?intent (Inr ()), Stderr ?m]\<rparr>"
    obtain r w3 where 3: "run_state (mq_upstream req) ?w2 = (r, w3)" by fastforce
    obtain result ans where o: "outcome_of e req r = (result, ans)" by fastforce
    from up [OF 3] obtain ups where ups: "trace w3 = trace ?w2 @ ups" "one_upstream ups" by blast
    let ?out = "mk_record s req attempt (clock e (reads w3)) Outcome (Some j) conf result"
    have ans: "answer = ans" and
      4: "run_state (write_outcome e attempt ?out) (w3\<lparr>reads := Suc (reads w3)\<rparr>) = ((), w')"
      using run sink Inr 3 o by (simp_all add: submit_def Let_def run_sink_ok split: prod.splits)
    from 4 obtain ok m' where tr: "trace w' = trace w3 @ [Appended ?out ok, Stderr m']"
      by (rule write_outcome_written) simp
    have wr: "written s ?out [Appended ?out ok, Stderr m']" using sink by (simp add: written_def)
    have "mutation_trace e s req attempt
        (ps @ Appended ?intent (Inr ()) # Stderr ?m # ups @ [Appended ?out ok, Stderr m']) ans"
      by (rule mutation_trace.submitted [OF gate conf sink _ _ _ _ _ _ ups(2) 3 ups(1) o _ _ _ wr, where h = "trace w"])
        (use Inr in simp_all)
    with ans tr ups(1) show ?thesis by (intro exI conjI) simp_all
  qed
qed

lemma execute_mutation_trace:
  assumes run: "run_state (execute_mutation e s req) w = (answer, w')"
    and up: "\<And>v r v'. run_state (mq_upstream req) v = (r, v') \<Longrightarrow> \<exists>ups. trace v' = trace v @ ups \<and> one_upstream ups"
  shows "\<exists>evs. trace w' = trace w @ evs \<and>
    mutation_trace e s req (hex_bytes (entropy e (reads w))) evs answer"
proof -
  let ?a = "hex_bytes (entropy e (reads w))"
  let ?w = "w\<lparr>reads := Suc (reads w)\<rparr>"
  show ?thesis
  proof (cases "gate s req")
    case (Inl p)
    obtain reason ans where p: "p = (reason, ans)" by fastforce
    let ?rec = "mk_record s req ?a (clock e (Suc (reads w))) Final (mq_justification req) NotApplicable (Rejected reason)"
    have 1: "run_state (write_audit_record_best_effort e s ?rec) (?w\<lparr>reads := Suc (Suc (reads w))\<rparr>) = ((), w')"
      and ans: "answer = ans"
      using run Inl p by (auto simp: execute_mutation_def split: prod.splits)
    from 1 obtain evs where evs: "trace w' = trace w @ evs" "written s ?rec evs" by (rule best_effortE) simp
    have "mutation_trace e s req ?a evs ans"
      by (rule mutation_trace.rejected [OF Inl [unfolded p] _ _ _ evs(2)]) simp_all
    with evs(1) ans show ?thesis by blast
  next
    case gate: (Inr j)
    obtain c w1 where 1: "run_state (confirm_stage e s req ?a j) ?w = (c, w1)" by fastforce
    show ?thesis
    proof (cases c)
      case (Inl ans)
      with run gate 1 have "answer = ans" "w' = w1" by (simp_all add: execute_mutation_def)
      with confirm_stage_refused [OF 1 [unfolded Inl] gate] show ?thesis by simp
    next
      case (Inr conf)
      from confirm_stage_passed [OF 1 [unfolded Inr]] obtain ps where
        ps: "trace w1 = trace w @ ps" "confirmed e s req j ps conf" by auto
      from run gate 1 Inr have "run_state (submit e s req ?a j conf) w1 = (answer, w')"
        by (simp add: execute_mutation_def)
      then have "\<exists>evs. trace w' = trace w1 @ evs \<and> mutation_trace e s req ?a (ps @ evs) answer"
        by (rule submit_trace [OF _ gate ps(2)]) (rule up)
      then obtain evs where "trace w' = trace w1 @ evs" "mutation_trace e s req ?a (ps @ evs) answer" by blast
      with ps(1) show ?thesis by (intro exI [of _ "ps @ evs"]) simp
    qed
  qed
qed


section \<open>The pipeline over any upstream call\<close>

definition authorised :: "server \<Rightarrow> mutation_request \<Rightarrow> bool" where
  "authorised s req \<longleftrightarrow>
     \<not> read_only (config s) \<and> tool_enabled (categories (config s)) (mq_tool req) \<and>
     (mq_action req = asc ''offboard'' \<longrightarrow> offboarding (categories (config s))) \<and>
     is_ok (mq_validation req) \<and>
     (\<exists>j. mq_justification req = Some j \<and> 10 \<le> length (trim j))"

lemma gate_passes: "gate s req = Inr j \<longleftrightarrow>
    authorised s req \<and> map_option trim (mq_justification req) = Some j"
  by (auto simp: gate_def authorised_def Let_def min_justification_len_def is_ok_iff
      split: sum.splits option.splits if_splits)

lemma gate_authorised: "gate s req = Inr j \<Longrightarrow> authorised s req"
  by (simp add: gate_passes)

text \<open>Every API call of an attempt is one the request's own upstream call makes.\<close>

context upstream_call
begin

lemma pipeline_trace:
  assumes "mq_upstream req = call" and "run_state (execute_mutation e s req) w = (answer, w')"
  shows "\<exists>evs. trace w' = trace w @ evs \<and>
    mutation_trace e s req (hex_bytes (entropy e (reads w))) evs answer"
  using assms(2) by (rule execute_mutation_trace) (use one_call assms(1) in blast)

end

definition audit_writes :: "event list \<Rightarrow> audit_record list" where
  "audit_writes evs = concat (map (\<lambda>ev. case ev of Appended r ok \<Rightarrow> [r] | _ \<Rightarrow> []) evs)"

lemma audit_writes_simps [simp]:
  "audit_writes [] = []" "audit_writes (Appended r ok # evs) = r # audit_writes evs"
  "audit_writes (Stderr m # evs) = audit_writes evs" "audit_writes (Prompted p # evs) = audit_writes evs"
  "audit_writes (Sent rq # evs) = audit_writes evs"
  "audit_writes (evs @ evs') = audit_writes evs @ audit_writes evs'"
  by (simp_all add: audit_writes_def)

lemma audit_writes_sends: "list_all sends evs \<Longrightarrow> audit_writes evs = []"
  by (induction evs rule: list.induct) (auto simp: audit_writes_def elim!: sends.elims)

lemma audit_writes_prompts: "list_all prompts evs \<Longrightarrow> audit_writes evs = []"
  by (induction evs rule: list.induct) (auto simp: audit_writes_def elim!: prompts.elims)

lemma confirmed_prompts: "confirmed e s req j ps conf \<Longrightarrow> list_all prompts ps"
  by (auto simp: confirmed_def split: if_splits)

lemma written_no_sends: "written s rec evs \<Longrightarrow> ev \<in> set evs \<Longrightarrow> \<not> sends ev"
  by (auto simp: written_def split: if_splits)

lemma written_no_calls: "written s rec evs \<Longrightarrow> filter api_call evs = []"
  by (auto simp: written_def split: if_splits)

lemma prompts_no_sends: "list_all prompts ps \<Longrightarrow> ev \<in> set ps \<Longrightarrow> \<not> sends ev"
  by (induction ps) (auto elim!: prompts.elims)

lemma prompts_no_calls: "list_all prompts ps \<Longrightarrow> filter api_call ps = []"
  by (induction ps) (auto elim!: prompts.elims)

text \<open>Only the submitted case reaches the network, and only after its intent record.\<close>

lemma mutation_trace_sends:
  assumes "mutation_trace e s req attempt evs answer" and "ev \<in> set evs" and "sends ev"
  obtains j ps conf intent m ups rest up h v v' where
    "gate s req = Inr j" "confirmed e s req j ps conf" "audit_sink s" "record_of s req attempt intent"
    "ar_phase intent = Intent" "ar_confirmation intent = conf" "sink_io e h intent = Inr ()"
    "evs = ps @ Appended intent (Inr ()) # Stderr m # ups @ rest" "ev \<in> set ups"
    "run_state (mq_upstream req) v = (up, v')" "trace v' = trace v @ ups"
  using assms(1)
proof cases
  case (submitted j ps conf intent h ups v up v' result outcome rest m)
  have "ev \<in> set ups"
    using assms(2,3) submitted confirmed_prompts [of e s req j ps conf] prompts_no_sends [of ps ev]
      written_no_sends [of s outcome rest ev] by auto
  with submitted show thesis by (intro that) auto
qed (use assms(2,3) written_no_sends prompts_no_sends confirmed_prompts in fastforce)+

lemma split_before:
  assumes "xs @ ys = pre @ ev # post" and "ev \<notin> set xs"
  shows "\<exists>zs. pre = xs @ zs"
proof -
  consider us where "pre = xs @ us" | us where "xs = pre @ us" "us @ ys = ev # post"
    using assms(1) by (auto simp: append_eq_append_conv2)
  then show ?thesis
  proof cases
    case 2
    with assms(2) have "us = []" by (cases us) auto
    with 2 show ?thesis by simp
  qed blast
qed


lemma pipeline_authorised:
  assumes "upstream_call (mq_upstream req)"
    and "run_state (execute_mutation e s req) w = (answer, w')" and "trace w' = trace w @ evs"
    and "Sent rq \<in> set evs"
  shows "authorised s req"
proof -
  from upstream_call.pipeline_trace [OF assms(1) refl assms(2)] assms(3)
  have "mutation_trace e s req (hex_bytes (entropy e (reads w))) evs answer" by simp
  then show ?thesis
    by (rule mutation_trace_sends [where ev = "Sent rq"]) (use assms(4) gate_authorised in auto)
qed

lemma pipeline_one_call:
  assumes "upstream_call (mq_upstream req)"
    and "run_state (execute_mutation e s req) w = (answer, w')" and "trace w' = trace w @ evs"
  shows "length (filter api_call evs) \<le> 1"
proof -
  from upstream_call.pipeline_trace [OF assms(1) refl assms(2)] assms(3)
  have "mutation_trace e s req (hex_bytes (entropy e (reads w))) evs answer" by simp
  then show ?thesis
    by cases (auto simp: one_upstream_def dest!: confirmed_prompts prompts_no_calls written_no_calls)
qed

text \<open>A recorded validation error: one final record, no prompt and no request.\<close>

lemma audit_error_trace:
  assumes "run_state (audit_validation_error e s tool action cat just (Inl err)) w = (res, w')"
    and "trace w' = trace w @ evs"
  shows "(\<exists>answer. res = Inr answer) \<and> (\<exists>r. written s r evs \<and> ar_phase r = Final \<and>
     ar_action r = action \<and> ar_tool r = tool_name tool)"
proof -
  let ?up = "ret (Inl (tool_error (asc ''internal error: upstream called after a validation failure'')))
    :: (call_tool_result + mutation_response) io"
  let ?req = "\<lparr>mq_tool = tool, mq_action = action, mq_category = cat, mq_targets = [],
    mq_parameters = [], mq_justification = just, mq_validation = Inl (tool_error (message err)),
    mq_extract = (\<lambda>_. (None, None)), mq_upstream = ?up\<rparr>"
  have up: "upstream_call (mq_upstream ?req)"
    by unfold_locales (auto simp: one_upstream_def)
  obtain answer where 1: "run_state (execute_mutation e s ?req) w = (answer, w')" and res: "res = Inr answer"
    using assms(1) by (auto simp: audit_validation_error_def split: prod.splits)
  have no: "gate s ?req \<noteq> Inr j" for j by (simp add: gate_passes authorised_def)
  from upstream_call.pipeline_trace [OF up refl 1] assms(2)
  have "mutation_trace e s ?req (hex_bytes (entropy e (reads w))) evs answer" by simp
  then show ?thesis
  proof cases
    case (rejected reason rec)
    with res show ?thesis by (auto simp: record_of_def)
  qed (use no in blast)+
qed

lemma audit_error_no_sends:
  assumes "run_state (audit_validation_error e s tool action cat just (Inl err)) w = (res, w')"
    and "trace w' = trace w @ evs"
  shows "filter sends evs = []"
  using audit_error_trace [OF assms] by (auto simp: written_def split: if_splits)

lemma pipeline_calls_only:
  assumes "upstream_call (mq_upstream req)" and "calls_only (mq_upstream req) P"
    and "run_state (execute_mutation e s req) w = (answer, w')" and "trace w' = trace w @ evs"
    and "Sent rq \<in> set evs" and "rq_bearer rq \<noteq> None"
  shows "P rq \<and> authorised s req"
proof -
  from upstream_call.pipeline_trace [OF assms(1) refl assms(3)] assms(4)
  have "mutation_trace e s req (hex_bytes (entropy e (reads w))) evs answer" by simp
  then show ?thesis
    by (rule mutation_trace_sends [where ev = "Sent rq"])
       (use assms(2,5,6) gate_authorised in \<open>auto simp: calls_only_def\<close>)
qed

text \<open>The result of an upstream call, transformed when it succeeded.\<close>

definition map_ok_io :: "('a \<Rightarrow> 'b) \<Rightarrow> (call_tool_result + 'a) io \<Rightarrow> (call_tool_result + 'b) io" where
  "map_ok_io f m = do {
     r \<leftarrow> m;
     ret (case r of Inl err \<Rightarrow> Inl err | Inr x \<Rightarrow> Inr (f x))
   }"

lemma map_ok_ioE:
  assumes "run_state (map_ok_io f m) w = (r', w')"
  obtains (err) err where "run_state m w = (Inl err, w')" "r' = Inl err"
  | (ok) x where "run_state m w = (Inr x, w')" "r' = Inr (f x)"
proof -
  obtain r v where "run_state m w = (r, v)" by fastforce
  with assms that show thesis by (cases r) (auto simp: map_ok_io_def)
qed

lemma upstream_map_ok:
  assumes "upstream_call m" and "\<And>x. mr_status x \<in> {200, 201, 204} \<Longrightarrow> mr_status (f x) \<in> {200, 201, 204}"
  shows "upstream_call (map_ok_io f m)"
proof
  fix w r w' assume "run_state (map_ok_io f m) w = (r, w')"
  then show "\<exists>evs. trace w' = trace w @ evs \<and> one_upstream evs"
    by (cases rule: map_ok_ioE) (auto dest: upstream_call.one_call [OF assms(1)])
next
  fix w resp w' assume "run_state (map_ok_io f m) w = (Inr resp, w')"
  then show "mr_status resp \<in> {200, 201, 204}"
  proof (cases rule: map_ok_ioE)
    case (ok x)
    with assms(2) [OF upstream_call.ok_status [OF assms(1) ok(1)]] show ?thesis by simp
  qed simp
next
  fix w err w' assume "run_state (map_ok_io f m) w = (Inl err, w')"
  then show "is_error err"
    by (cases rule: map_ok_ioE) (auto dest: upstream_call.err_flag [OF assms(1)])
qed

lemma calls_only_map_ok: "calls_only m P \<Longrightarrow> calls_only (map_ok_io f m) P"
  unfolding calls_only_def by (auto elim!: map_ok_ioE)

lemma calls_only_upload:
  "calls_only (endpoint_multipart_upload e s path fname content description parameters ov)
     (\<lambda>rq. rq_method rq = POST \<and> rq_url rq = endpoint_base s @ path \<and>
        (\<exists>flds. rq_body rq = Multipart \<lparr>file_name_of = fname, file_bytes = content\<rparr> flds))"
  unfolding endpoint_multipart_upload_def
  by (rule calls_only_authenticated) (auto dest: read_json_quiet simp: api_request_def)

section \<open>Properties\<close>

text \<open>A request with a working upstream call, used by the witnesses.\<close>

definition demo_mutation :: mutation_request where
  "demo_mutation = \<lparr>mq_tool = DeviceResponse, mq_action = asc ''isolate'', mq_category = PDeviceResponse,
     mq_targets = [mk_target KMachineId (asc ''m'')], mq_parameters = [],
     mq_justification = Some (asc ''because of the incident''), mq_validation = Inr (),
     mq_extract = (\<lambda>_. (None, None)),
     mq_upstream = request_mutation (demo_env (demo_reply 200 [])) demo_server Endpoint POST
       (asc ''/api/machines/m/isolate'') [] (Some (jobj [])) PDeviceResponse\<rparr>"

abbreviation demo_run :: "call_tool_result \<times> world" where
  "demo_run \<equiv> run_state (execute_mutation (demo_env (demo_reply 200 [])) demo_server demo_mutation) world1"

lemma demo_upstream: "upstream_call (mq_upstream demo_mutation)"
  unfolding demo_mutation_def mutation_request.simps by (rule mutation.upstream_call_axioms)

lemma demo_trace0: "trace (snd demo_run) = trace world1 @ trace (snd demo_run)"
  by (simp add: world1_def world0_def)

lemma demo_events:
  "\<exists>p i m rq o' m2. trace (snd demo_run) = [Prompted p, Appended i (Inr ()), Stderr m, Sent rq,
     Appended o' (Inr ()), Stderr m2]"
proof -
  have "case trace (snd demo_run) of
      [Prompted p, Appended i (Inr _), Stderr m, Sent rq, Appended o' (Inr _), Stderr m2] \<Rightarrow> True
    | _ \<Rightarrow> False" by code_simp
  then show ?thesis by (simp split: list.splits event.splits sum.splits)
qed

text \<open>What holds before anything is sent: the guards, the intent record, the accepted prompt.\<close>

lemma pipeline_guarded:
  assumes "upstream_call (mq_upstream req)"
    and "run_state (execute_mutation e s req) w = (answer, w')"
    and "trace w' = trace w @ pre @ ev # post" and "sends ev"
  shows "authorised s req \<and>
    (\<exists>intent. Appended intent (Inr ()) \<in> set pre \<and> ar_phase intent = Intent \<and>
       record_of s req (hex_bytes (entropy e (reads w))) intent \<and>
       (asks s req \<longrightarrow> ar_confirmation intent = Accepted \<and> (\<exists>m. Prompted m \<in> set pre)))"
proof -
  from upstream_call.pipeline_trace [OF assms(1) refl assms(2)] assms(3)
  have "mutation_trace e s req (hex_bytes (entropy e (reads w))) (pre @ ev # post) answer" by simp
  then show ?thesis
  proof (rule mutation_trace_sends [where ev = ev])
    fix j ps conf intent m ups rest up h v v'
    assume gate: "gate s req = Inr j" and conf: "confirmed e s req j ps conf"
      and intent: "record_of s req (hex_bytes (entropy e (reads w))) intent" "ar_phase intent = Intent"
        "ar_confirmation intent = conf"
      and evs: "pre @ ev # post = ps @ Appended intent (Inr ()) # Stderr m # ups @ rest"
    let ?xs = "ps @ [Appended intent (Inr ())]"
    have "ev \<notin> set ?xs"
      using assms(4) prompts_no_sends [OF confirmed_prompts [OF conf]] by auto
    with evs split_before [of ?xs "Stderr m # ups @ rest" pre ev post] obtain zs where "pre = ?xs @ zs"
      by auto
    then have "Appended intent (Inr ()) \<in> set pre" and "set ps \<subseteq> set pre" by auto
    moreover have "asks s req \<longrightarrow> conf = Accepted \<and> (\<exists>m. Prompted m \<in> set ps)"
      using conf by (simp add: confirmed_def split: if_splits)
    ultimately show ?thesis using gate_authorised [OF gate] intent by blast
  qed (use assms(4) in simp_all)
qed



text \<open>
  One attempt makes at most one call of a Defender or Graph API, whatever the services and the
  user answer: there is no retry.
\<close>

theorem mutation_at_most_one_call:
  assumes "upstream_call (mq_upstream req)"
    and "run_state (execute_mutation e s req) w = (answer, w')" and "trace w' = trace w @ evs"
  shows "length (filter api_call evs) \<le> 1"
  by (rule pipeline_one_call [OF assms])

lemma mutation_at_most_one_call_witness: "length (filter api_call (trace (snd demo_run))) \<le> 1"
  by (rule mutation_at_most_one_call [OF demo_upstream prod.collapse [symmetric] demo_trace0])



text \<open>
  C6. The pipeline fails closed: when there is no audit log, or no intent record can be written to
  it, no request is sent, and an attempt that passed the checks ends in an error of the audit log
  or of the confirmation.
\<close>

theorem mutation_fails_closed:
  assumes "upstream_call (mq_upstream req)"
    and "run_state (execute_mutation e s req) w = (answer, w')" and "trace w' = trace w @ evs"
    and "audit_sink s \<Longrightarrow> \<forall>h r. ar_phase r = Intent \<longrightarrow> sink_io e h r \<noteq> Inr ()"
  shows "filter sends evs = [] \<and>
    (authorised s req \<longrightarrow> answer \<in> {audit_unavailable, confirmation_unavailable, not_confirmed})"
proof -
  from upstream_call.pipeline_trace [OF assms(1) refl assms(2)] assms(3)
  have tr: "mutation_trace e s req (hex_bytes (entropy e (reads w))) evs answer" by simp
  have "\<not> sends ev" if ev: "ev \<in> set evs" for ev
  proof
    assume "sends ev"
    with tr ev show False
      by (rule mutation_trace_sends) (use assms(4) in blast)
  qed
  moreover have "answer \<in> {audit_unavailable, confirmation_unavailable, not_confirmed}"
    if auth: "authorised s req"
    using tr
  proof cases
    case (rejected reason rec)
    have "\<exists>j. gate s req = Inr j" using auth by (auto simp: gate_passes authorised_def)
    with rejected show ?thesis by simp
  next
    case (submitted j ps conf intent h ups v up v' result outcome evs' m)
    with assms(4) show ?thesis by blast
  qed auto
  ultimately show ?thesis by (auto simp: filter_empty_conv)
qed


lemma mutation_fails_closed_witness:
  "let run = run_state (execute_mutation (demo_env (demo_reply 200 [])) (demo_server\<lparr>audit_sink := False\<rparr>)
     demo_mutation) world1
   in filter sends (trace (snd run)) = []"
proof -
  let ?s = "demo_server\<lparr>audit_sink := False\<rparr>"
  let ?run = "run_state (execute_mutation (demo_env (demo_reply 200 [])) ?s demo_mutation) world1"
  have "trace (snd ?run) = trace world1 @ trace (snd ?run)" by (simp add: world1_def world0_def)
  from mutation_fails_closed [OF demo_upstream prod.collapse [symmetric] this]
  show ?thesis unfolding Let_def by simp
qed

text \<open>
  C28. The order of the checks, and what each of them answers: read-only comes first, then the
  category and offboarding flags, then the input, then the justification; a request that fails one
  of them is answered with that check's error and causes neither a prompt nor a request.
\<close>

theorem rejection_order:
  assumes "upstream_call (mq_upstream req)"
    and "run_state (execute_mutation e s req) w = (answer, w')" and "trace w' = trace w @ evs"
    and "\<not> authorised s req"
  shows "filter sends evs = [] \<and> filter prompts evs = [] \<and>
    answer =
      (if read_only (config s) then read_only_violation (tool_name (mq_tool req))
       else if mq_action req = asc ''offboard'' \<and> \<not> offboarding (categories (config s))
         then category_disabled (asc ''--enable-offboarding'')
       else if \<not> tool_enabled (categories (config s)) (mq_tool req)
         then category_disabled (enable_flag (mq_tool req))
       else (case mq_validation req of
           Inl err \<Rightarrow> err
         | Inr u \<Rightarrow> tool_error ((if mq_tool req = Triage then asc ''justification'' else asc ''comment'')
             @ asc '' must be at least 10 characters describing the purpose'')))"
proof -
  from upstream_call.pipeline_trace [OF assms(1) refl assms(2)] assms(3)
  have tr: "mutation_trace e s req (hex_bytes (entropy e (reads w))) evs answer" by simp
  have ten: "min_len_text = asc ''10''" by code_simp
  show ?thesis
    using tr
  proof cases
    case (rejected reason rec)
    then have "filter sends evs = [] \<and> filter prompts evs = []"
      by (auto simp: written_def split: if_splits)
    moreover have "snd (projl (gate s req)) =
      (if read_only (config s) then read_only_violation (tool_name (mq_tool req))
       else if mq_action req = asc ''offboard'' \<and> \<not> offboarding (categories (config s))
         then category_disabled (asc ''--enable-offboarding'')
       else if \<not> tool_enabled (categories (config s)) (mq_tool req)
         then category_disabled (enable_flag (mq_tool req))
       else (case mq_validation req of
           Inl err \<Rightarrow> err
         | Inr u \<Rightarrow> tool_error ((if mq_tool req = Triage then asc ''justification'' else asc ''comment'')
             @ asc '' must be at least 10 characters describing the purpose'')))"
      using assms(4)
      by (auto simp: gate_def authorised_def Let_def min_justification_len_def ten asc_def
          split: sum.splits option.splits)
    ultimately show ?thesis using rejected(1) by simp
  qed (use assms(4) gate_authorised in blast)+
qed

lemma rejection_order_witness:
  "fst (run_state (execute_mutation (demo_env (demo_reply 200 [])) demo_server
     (demo_mutation\<lparr>mq_justification := Some (asc ''short'')\<rparr>)) world1) =
   tool_error (asc ''comment must be at least 10 characters describing the purpose'')"
proof -
  let ?r = "demo_mutation\<lparr>mq_justification := Some (asc ''short'')\<rparr>"
  let ?run = "run_state (execute_mutation (demo_env (demo_reply 200 [])) demo_server ?r) world1"
  have up: "upstream_call (mq_upstream ?r)" using demo_upstream by simp
  have t: "trace (snd ?run) = trace world1 @ trace (snd ?run)" by (simp add: world1_def world0_def)
  have "\<not> authorised demo_server ?r"
    using length_trim [of "asc ''short''"] by (simp add: authorised_def)
  from rejection_order [OF up prod.collapse [symmetric] t this]
  show ?thesis by (simp add: demo_mutation_def demo_server_def demo_config_def asc_def)
qed

definition outcome_tells :: "mutation_request \<Rightarrow> audit_result \<Rightarrow> call_tool_result \<Rightarrow> bool" where
  "outcome_tells req result answer \<longleftrightarrow>
     (case result of
       Submitted st tracking status \<Rightarrow> (\<exists>resp. answer = Structured (mr_body resp) \<and>
         mr_status resp = st \<and> mq_extract req resp = (tracking, status))
     | UpstreamError st m \<Rightarrow> (\<exists>n. http_status_of answer = Some n \<and> st = n mod 65536)
     | TransportError m \<Rightarrow> http_status_of answer = None
     | _ \<Rightarrow> False)"



text \<open>
  A protocol error raised for a known mutating action is turned into a tool error: the caller
  never sees a protocol error, nothing is sent, and with an audit log exactly one final record of
  the action is attempted.
\<close>

theorem validation_error_audited:
  assumes "run_state (audit_validation_error e s tool action cat just (Inl err)) w = (res, w')"
    and "trace w' = trace w @ evs"
  shows "(\<exists>answer. res = Inr answer) \<and> filter sends evs = [] \<and> filter prompts evs = [] \<and>
    (if audit_sink s then \<exists>r. audit_writes evs = [r] \<and> ar_phase r = Final \<and> ar_action r = action \<and>
       ar_tool r = tool_name tool else audit_writes evs = [])"
  using audit_error_trace [OF assms] by (auto simp: written_def split: if_splits)

lemma validation_error_audited_witness:
  "filter sends (trace (snd (run_state (audit_validation_error (demo_env (demo_reply 200 [])) demo_server
     Triage (asc ''alert_update'') PTriage None (Inl (invalid_params (asc ''missing'')))) world1))) = []"
proof -
  let ?run = "run_state (audit_validation_error (demo_env (demo_reply 200 [])) demo_server
     Triage (asc ''alert_update'') PTriage None (Inl (invalid_params (asc ''missing'')))) world1"
  have "trace (snd ?run) = trace world1 @ trace (snd ?run)" by (simp add: world1_def world0_def)
  from validation_error_audited [OF prod.collapse [symmetric] this] show ?thesis by blast
qed

end
