(* ===== verification/ActionBase.thy ===== *)
theory ActionBase
  imports Mutation
begin

text \<open>
  What the four mutating tools of \<open>src/server.rs\<close> share: required fields, the refusal of unused
  ones, the wrapping of upstream responses, and the running of a prepared request. Everything a
  handler does before the mutation pipeline is pure, so each handler is a function from its input
  to a protocol error or a mutation request; \<open>run_tool\<close> executes it the way the dispatchers do.
\<close>

section \<open>Fields\<close>

text \<open>The first field that is present and not used by the action.\<close>

fun first_present :: "(string \<times> bool) list \<Rightarrow> string option" where
  "first_present [] = None"
| "first_present ((f, present) # fs) = (if present then Some f else first_present fs)"

definition as_tool_error :: "mcp_error + 'a \<Rightarrow> call_tool_result + unit" where
  "as_tool_error r = ok_unit (map_err (\<lambda>e. tool_error (message e)) r)"

lemma as_tool_error_ok [simp]: "is_ok (as_tool_error r) = is_ok r"
  by (simp add: as_tool_error_def)

definition id_targets :: "target_kind \<Rightarrow> ustr \<Rightarrow> audit_target list" where
  "id_targets k v = (if v \<noteq> [] then [mk_target k v] else [])"

definition opt_str :: "string \<Rightarrow> ustr option \<Rightarrow> (ustr \<times> json) list" where
  "opt_str k v = (case v of Some t \<Rightarrow> [(asc k, JStr t)] | None \<Rightarrow> [])"

text \<open>\<open>for g in values { validate_text(g, max, field)?; }\<close>: the first bad one is reported.\<close>

definition all_texts :: "nat \<Rightarrow> ustr \<Rightarrow> ustr list option \<Rightarrow> mcp_error + unit" where
  "all_texts mx field vs =
     (case vs of Some gs \<Rightarrow> first_error (map (\<lambda>g. ok_unit (validate_text g mx field)) gs) | None \<Rightarrow> Inr ())"

lemma all_texts_ok:
  "is_ok (all_texts mx field vs) \<longleftrightarrow> (\<forall>gs. vs = Some gs \<longrightarrow> (\<forall>g\<in>set gs. text_ok mx field (trim g)))"
  by (cases vs) (auto simp: all_texts_def text_field.accepted_ok)

lemma batch_ok:
  "is_ok (validate_batch ids mx field) \<longleftrightarrow>
     1 \<le> length ids \<and> length ids \<le> mx \<and> list_all (\<lambda>v. id_ok (trim v)) ids"
  by (auto simp: validate_batch_def required_id.accepted_ok list_all_iff Suc_le_eq)

section \<open>Wrapping upstream responses\<close>

definition str_or_empty :: "ustr \<Rightarrow> json \<Rightarrow> ustr" where
  "str_or_empty k v = (case get_str k v of Some t \<Rightarrow> t | None \<Rightarrow> [])"

definition poll_with :: "string \<Rightarrow> string \<Rightarrow> ustr \<Rightarrow> json" where
  "poll_with action key i = jobj
     [(asc ''tool'', JStr (asc ''defender_forensics'')), (asc ''action'', JStr (asc action)),
      (asc key, JStr i)]"

definition wrap_machine_action :: "string option \<Rightarrow> mutation_response \<Rightarrow> mutation_response" where
  "wrap_machine_action warning resp =
     \<lparr>mr_status = mr_status resp,
      mr_body = JObj (let m = map_insert (asc ''poll_with'')
             (poll_with ''machine_action_get_status'' ''action_id'' (str_or_empty (asc ''id'') (mr_body resp)))
             (map_insert (asc ''machineAction'') (mr_body resp) [])
        in case warning of Some w \<Rightarrow> map_insert (asc ''warning'') (JStr (asc w)) m | None \<Rightarrow> m)\<rparr>"

definition wrap_investigation :: "mutation_response \<Rightarrow> mutation_response" where
  "wrap_investigation resp =
     \<lparr>mr_status = mr_status resp,
      mr_body = JObj (map_insert (asc ''poll_with'')
             (poll_with ''investigation_get'' ''investigation_id'' (str_or_empty (asc ''id'') (mr_body resp)))
             (map_insert (asc ''investigation'') (mr_body resp) []))\<rparr>"

section \<open>Running a prepared request\<close>

definition run_request ::
  "'x env_scheme \<Rightarrow> server \<Rightarrow> mcp_error + mutation_request \<Rightarrow> (mcp_error + call_tool_result) io" where
  "run_request e s r =
     (case r of
       Inl err \<Rightarrow> ret (Inl err)
     | Inr req \<Rightarrow> do { answer \<leftarrow> execute_mutation e s req; ret (Inr answer) })"

text \<open>
  A dispatcher: the action handler first; for a known action a protocol error is recorded and
  becomes a tool error.
\<close>

definition run_tool ::
  "'x env_scheme \<Rightarrow> server \<Rightarrow> mutating_tool \<Rightarrow> ustr \<Rightarrow> bool \<Rightarrow> permission_category \<Rightarrow> ustr option
     \<Rightarrow> mcp_error + mutation_request \<Rightarrow> (mcp_error + call_tool_result) io" where
  "run_tool e s tool action known cat just r = do {
     result \<leftarrow> run_request e s r;
     if \<not> known then ret result else audit_validation_error e s tool action cat just result
   }"

text \<open>A closure that is never called, because the request is invalid: \<open>unreachable!()\<close>.\<close>

definition unreachable_upstream :: "(call_tool_result + mutation_response) io" where
  "unreachable_upstream = ret (Inl (tool_error (asc ''unreachable'')))"

lemma unreachable_upstream_call: "upstream_call unreachable_upstream"
  by unfold_locales (auto simp: unreachable_upstream_def one_upstream_def)

lemma unreachable_calls: "calls_only unreachable_upstream P"
  by (auto simp: calls_only_def unreachable_upstream_def)

text \<open>What a tool does: the pipeline on the prepared request, or a recorded rejection.\<close>

lemma run_toolE:
  assumes "run_state (run_tool e s tool action known cat just r) w = (res, w')"
  obtains (protocol) err where "r = Inl err" "\<not> known" "res = Inl err" "w' = w"
  | (audited) err where "r = Inl err" "known"
      "run_state (audit_validation_error e s tool action cat just (Inl err)) w = (res, w')"
  | (executed) req answer where "r = Inr req" "res = Inr answer"
      "run_state (execute_mutation e s req) w = (answer, w')"
proof (cases r)
  case (Inl err)
  with assms protocol audited show thesis
    by (cases known) (auto simp: run_tool_def run_request_def)
next
  case (Inr req)
  obtain answer v where "run_state (execute_mutation e s req) w = (answer, v)" by fastforce
  with assms Inr executed show thesis
    by (auto simp: run_tool_def run_request_def audit_validation_error_def split: if_splits)
qed

text \<open>
  The contract of a tool handler: the requests it prepares are for its tool, carry an upstream call
  that keeps the pipeline's contract, and all API calls of that call satisfy \<open>P\<close>.
\<close>

locale tool_handler =
  fixes tool :: mutating_tool and prepared :: "mcp_error + mutation_request"
    and P :: "http_request \<Rightarrow> bool"
  assumes for_tool: "prepared = Inr req \<Longrightarrow> mq_tool req = tool"
    and upstream: "prepared = Inr req \<Longrightarrow> upstream_call (mq_upstream req)"
    and calls: "prepared = Inr req \<Longrightarrow> authorised s req \<Longrightarrow> calls_only (mq_upstream req) P"
begin

lemma tool_calls:
  assumes "run_state (run_tool e s tool action known cat just prepared) w = (res, w')"
    and "trace w' = trace w @ evs" and "Sent rq \<in> set evs" and "rq_bearer rq \<noteq> None"
  shows "\<exists>req. prepared = Inr req \<and> authorised s req \<and> P rq"
  using assms(1)
proof (cases rule: run_toolE)
  case (protocol err)
  with assms(2,3) show ?thesis by simp
next
  case (audited err)
  from audit_error_no_sends [OF audited(3) assms(2)] assms(3) show ?thesis
    by (auto simp: filter_empty_conv)
next
  case (executed req answer)
  have "authorised s req"
    by (rule pipeline_authorised [OF upstream [OF executed(1)] executed(3) assms(2,3)])
  with pipeline_calls_only [OF upstream [OF executed(1)] calls [OF executed(1)] executed(3) assms(2,3,4)]
    executed(1) show ?thesis by blast
qed

text \<open>What is true of each API call, and before it.\<close>

lemma guarded_call:
  assumes "run_state (run_tool e s t action known cat just prepared) w = (res, w')"
    and "trace w' = trace w @ pre @ Sent rq # post" and "rq_bearer rq \<noteq> None" and "t = tool"
  shows "P rq \<and> \<not> read_only (config s) \<and> tool_enabled (categories (config s)) tool \<and>
    (\<exists>intent. Appended intent (Inr ()) \<in> set pre \<and> ar_phase intent = Intent \<and> ar_tool intent = tool_name tool \<and>
       (destructive tool \<and> confirm_destructive (config s) \<longrightarrow> (\<exists>m. Prompted m \<in> set pre)))"
  using assms(1)
proof (cases rule: run_toolE)
  case (protocol err)
  with assms(2) show ?thesis by simp
next
  case (audited err)
  from audit_error_no_sends [OF audited(3) assms(2)] show ?thesis by simp
next
  case (executed req answer)
  note up = upstream [OF executed(1)]
  have "P rq"
    using pipeline_calls_only [OF up calls [OF executed(1)] executed(3) assms(2)]
      pipeline_authorised [OF up executed(3) assms(2), of rq] assms(3) by simp
  moreover have "sends (Sent rq)" by simp
  from pipeline_guarded [OF up executed(3) assms(2) this] obtain intent where
    "authorised s req" "Appended intent (Inr ()) \<in> set pre" "ar_phase intent = Intent"
    "record_of s req (hex_bytes (entropy e (reads w))) intent"
    "asks s req \<longrightarrow> (\<exists>m. Prompted m \<in> set pre)" by blast
  moreover have "mq_tool req = tool" by (rule for_tool [OF executed(1)])
  ultimately show ?thesis by (auto simp: authorised_def record_of_def asks_def)
qed

text \<open>On a read-only server the pipeline rejects: one record, no prompt and no request.\<close>

lemma read_only_silent:
  assumes "run_state (run_tool e s t action known cat just prepared) w = (res, w')"
    and "trace w' = trace w @ evs" and "read_only (config s)"
  shows "filter sends evs = [] \<and> filter prompts evs = []"
  using assms(1)
proof (cases rule: run_toolE)
  case (protocol err)
  with assms(2) show ?thesis by simp
next
  case (audited err)
  from audit_error_trace [OF audited(3) assms(2)] show ?thesis by (auto simp: written_def split: if_splits)
next
  case (executed req answer)
  have no: "gate s req \<noteq> Inr j" for j using assms(3) by (simp add: gate_def)
  from upstream_call.pipeline_trace [OF upstream [OF executed(1)] refl executed(3)] assms(2)
  have "mutation_trace e s req (hex_bytes (entropy e (reads w))) evs answer" by simp
  then show ?thesis
  proof cases
    case (rejected reason rec)
    then show ?thesis by (auto simp: written_def split: if_splits)
  qed (use no in blast)+
qed

lemma one_tool_call:
  assumes "run_state (run_tool e s tool action known cat just prepared) w = (res, w')"
    and "trace w' = trace w @ evs"
  shows "length (filter api_call evs) \<le> 1"
  using assms(1)
proof (cases rule: run_toolE)
  case (protocol err)
  with assms(2) show ?thesis by simp
next
  case (audited err)
  from audit_error_no_sends [OF audited(3) assms(2)] have "filter api_call evs = []"
    by (auto simp: filter_empty_conv) (metis api_call.elims(2) sends.simps(1))
  then show ?thesis by simp
next
  case (executed req answer)
  from pipeline_one_call [OF upstream [OF executed(1)] executed(3) assms(2)] show ?thesis .
qed

end


section \<open>Prepared requests\<close>

definition prepared_ok :: "mutating_tool \<Rightarrow> (http_request \<Rightarrow> bool) \<Rightarrow> mutation_request \<Rightarrow> bool" where
  "prepared_ok tool P req \<longleftrightarrow> mq_tool req = tool \<and> upstream_call (mq_upstream req) \<and>
     (is_ok (mq_validation req) \<longrightarrow> calls_only (mq_upstream req) P)"

lemma prepared_handler:
  assumes "\<And>req. prepared = Inr req \<Longrightarrow> prepared_ok tool P req"
  shows "tool_handler tool prepared P"
  by (rule tool_handler.intro) (use assms in \<open>auto simp: prepared_ok_def authorised_def\<close>)

lemma calls_only_mono: "calls_only m P \<Longrightarrow> (\<And>rq. P rq \<Longrightarrow> Q rq) \<Longrightarrow> calls_only m Q"
  unfolding calls_only_def by blast

lemma prepared_mutation:
  assumes "mq_tool req = tool" and "mq_upstream req = request_mutation e s aud m path q body cat"
    and "\<And>t. is_ok (mq_validation req) \<Longrightarrow>
       P (api_request s aud m path q (case body of Some b \<Rightarrow> JsonBody b | None \<Rightarrow> NoBody) t)"
  shows "prepared_ok tool P req"
  unfolding prepared_ok_def assms(1,2)
  using calls_only_mono [OF calls_only_mutation [of e s aud m path q body cat], of P] assms(3)
    mutation.upstream_call_axioms by blast

lemma prepared_mapped:
  assumes "mq_tool req = tool" and "mq_upstream req = map_ok_io f (request_mutation e s aud m path q body cat)"
    and "\<And>x. mr_status x \<in> {200, 201, 204} \<Longrightarrow> mr_status (f x) \<in> {200, 201, 204}"
    and "\<And>t. is_ok (mq_validation req) \<Longrightarrow>
       P (api_request s aud m path q (case body of Some b \<Rightarrow> JsonBody b | None \<Rightarrow> NoBody) t)"
  shows "prepared_ok tool P req"
proof -
  have "upstream_call (map_ok_io f (request_mutation e s aud m path q body cat))"
    by (rule upstream_map_ok [OF mutation.upstream_call_axioms]) (rule assms(3))
  moreover have "calls_only (map_ok_io f (request_mutation e s aud m path q body cat)) P"
    if "is_ok (mq_validation req)"
    by (rule calls_only_map_ok, rule calls_only_mono [OF calls_only_mutation]) (use assms(4) that in blast)
  ultimately show ?thesis unfolding prepared_ok_def assms(1,2) by blast
qed

end
