(* ===== verification/ResponseActions.thy ===== *)
theory ResponseActions
  imports ActionBase
begin

text \<open>
  \<open>defender_response\<close> of \<open>src/server.rs\<close>: package collection, stop and quarantine, Live Response,
  library upload and deletion. One definition per action, from the input to the prepared request.
  The two actions that decode their arguments into a struct of their own do so by \<open>run_input\<close> and
  \<open>upload_input\<close>: exactly the struct's fields may be present, the required ones must be.
\<close>

section \<open>Input\<close>

record response_input =
  ri_action :: ustr
  ri_machine_id :: "ustr option"
  ri_comment :: "ustr option"
  ri_commands :: "live_response_command list option"
  ri_file_name :: "ustr option"
  ri_file_content :: "ustr option"
  ri_description :: "ustr option"
  ri_parameters_description :: "ustr option"
  ri_override :: "bool option"
  ri_sha1 :: "ustr option"

definition response_actions :: "ustr list" where
  "response_actions = map asc
     [''collect_investigation_package'', ''live_response_run'', ''upload_library_file'',
      ''stop_and_quarantine_file'', ''library_file_delete'']"

definition opt_field :: "string \<Rightarrow> ('a \<Rightarrow> json) \<Rightarrow> 'a option \<Rightarrow> (ustr \<times> json) list" where
  "opt_field k f v = (case v of Some a \<Rightarrow> [(asc k, f a)] | None \<Rightarrow> [])"

text \<open>\<open>action_args\<close>: the fields that are present, without \<open>action\<close>.\<close>

definition action_args :: "response_input \<Rightarrow> json_map" where
  "action_args i = obj_of
     (opt_field ''machine_id'' JStr (ri_machine_id i) @ opt_field ''comment'' JStr (ri_comment i)
      @ opt_field ''commands'' (\<lambda>cs. JArr (map command_json cs)) (ri_commands i)
      @ opt_field ''file_name'' JStr (ri_file_name i) @ opt_field ''file_content'' JStr (ri_file_content i)
      @ opt_field ''description'' JStr (ri_description i)
      @ opt_field ''parameters_description'' JStr (ri_parameters_description i)
      @ opt_field ''override_if_exists'' JBool (ri_override i) @ opt_field ''sha1'' JStr (ri_sha1 i))"

definition comment_or_empty :: "response_input \<Rightarrow> ustr" where
  "comment_or_empty i = (case ri_comment i of Some c \<Rightarrow> c | None \<Rightarrow> [])"

definition id_and_status :: "mutation_response \<Rightarrow> ustr option \<times> ustr option" where
  "id_and_status resp = (get_str (asc ''id'') (mr_body resp), get_str (asc ''status'') (mr_body resp))"

definition response_mutation ::
  "string \<Rightarrow> audit_target list \<Rightarrow> json_map \<Rightarrow> ustr option \<Rightarrow> call_tool_result + unit
     \<Rightarrow> (mutation_response \<Rightarrow> ustr option \<times> ustr option) \<Rightarrow> (call_tool_result + mutation_response) io
     \<Rightarrow> mutation_request" where
  "response_mutation action targets params just valid extract up =
     \<lparr>mq_tool = Response, mq_action = asc action, mq_category = PLiveResponse, mq_targets = targets,
      mq_parameters = params, mq_justification = just, mq_validation = valid, mq_extract = extract,
      mq_upstream = up\<rparr>"

section \<open>The actions\<close>

definition collect_request :: "'x env_scheme \<Rightarrow> server \<Rightarrow> response_input \<Rightarrow> mcp_error + mutation_request" where
  "collect_request e s i =
     (case required (ri_machine_id i) ''machine_id'' (ri_action i) of
       Inl err \<Rightarrow> Inl err
     | Inr v \<Rightarrow>
         (let res = validate_machine_id v; machine = unwrap_or [] res; comment = comment_or_empty i
          in Inr (response_mutation ''collect_investigation_package''
               (if is_ok res then [mk_target KMachineId machine] else []) [] (Some comment)
               (as_tool_error res) id_and_status
               (endpoint_post_as e s
                 (asc ''/api/machines/'' @ encode_path_segment e machine @ asc ''/collectInvestigationPackage'')
                 (jobj [(asc ''Comment'', JStr comment)]) PLiveResponse))))"

definition stop_quarantine_request ::
  "'x env_scheme \<Rightarrow> server \<Rightarrow> response_input \<Rightarrow> mcp_error + mutation_request" where
  "stop_quarantine_request e s i =
     (case required (ri_machine_id i) ''machine_id'' (ri_action i) of
       Inl err \<Rightarrow> Inl err
     | Inr v \<Rightarrow>
         (case required (ri_sha1 i) ''sha1'' (ri_action i) of
           Inl err \<Rightarrow> Inl err
         | Inr h \<Rightarrow>
             (let res = validate_machine_id v; sha_res = validate_sha1 h;
                  machine = unwrap_or [] res; sha = unwrap_or [] sha_res; comment = comment_or_empty i
              in Inr (response_mutation ''stop_and_quarantine_file''
                   ((if is_ok res then [mk_target KMachineId machine] else [])
                    @ (if is_ok sha_res then [mk_target KSha1 sha] else [])) [] (Some comment)
                   (first_error [as_tool_error res, as_tool_error sha_res]) id_and_status
                   (endpoint_post_as e s
                     (asc ''/api/machines/'' @ encode_path_segment e machine @ asc ''/StopAndQuarantineFile'')
                     (jobj [(asc ''Comment'', JStr comment), (asc ''Sha1'', JStr sha)]) PLiveResponse)))))"

text \<open>The derived decoder of \<open>LiveResponseRunInput\<close>: its three fields, and no others.\<close>

definition run_input :: "response_input \<Rightarrow> (ustr \<times> live_response_command list \<times> ustr) option" where
  "run_input i =
     (if ri_file_name i = None \<and> ri_file_content i = None \<and> ri_description i = None \<and>
         ri_parameters_description i = None \<and> ri_override i = None \<and> ri_sha1 i = None
      then (case (ri_machine_id i, ri_commands i, ri_comment i) of
          (Some m, Some cs, Some c) \<Rightarrow> Some (m, cs, c) | _ \<Rightarrow> None)
      else None)"

definition live_response_request ::
  "'x env_scheme \<Rightarrow> server \<Rightarrow> response_input \<Rightarrow> mcp_error + mutation_request" where
  "live_response_request e s i =
     (case run_input i of
       None \<Rightarrow> Inl (invalid_arguments e ''LiveResponseRunInput'' (action_args i))
     | Some (m, cs, comment) \<Rightarrow>
         (let res = validate_required_id m (asc ''machine_id'');
              cmd_res = validate_live_response_commands cs (live_response_allowed_commands (config s));
              machine = unwrap_or [] res;
              valid = first_error [as_tool_error res, as_tool_error cmd_res]
          in Inr (response_mutation ''live_response_run''
               (if is_ok valid then [mk_target KMachineId machine] else [])
               (map_insert (asc ''commands'') (JArr (map (\<lambda>c. JStr (command_type_str (cmd_type c))) cs)) [])
               (Some comment) valid id_and_status
               (endpoint_post_as e s
                 (asc ''/api/machines/'' @ encode_path_segment e machine @ asc ''/runliveresponse'')
                 (jobj [(asc ''Commands'', JArr (map command_json cs)), (asc ''Comment'', JStr comment)])
                 PLiveResponse))))"

text \<open>The derived decoder of \<open>LiveResponseLibraryUploadInput\<close>.\<close>

definition upload_input :: "response_input \<Rightarrow> (ustr \<times> ustr \<times> ustr) option" where
  "upload_input i =
     (if ri_machine_id i = None \<and> ri_commands i = None \<and> ri_sha1 i = None
      then (case (ri_file_name i, ri_file_content i, ri_description i) of
          (Some f, Some c, Some d) \<Rightarrow> Some (f, c, d) | _ \<Rightarrow> None)
      else None)"

definition max_library_file_size :: nat where
  "max_library_file_size = 20971520"

definition content_check :: "nat list \<Rightarrow> call_tool_result + unit" where
  "content_check content =
     (if content = [] then Inl (tool_error (asc ''file_content cannot be empty''))
      else if max_library_file_size < length content then
        Inl (tool_error (asc ''File size '' @ show_nat (length content) @ asc '' bytes exceeds maximum of ''
               @ show_nat max_library_file_size @ asc '' bytes (20 MB)''))
      else Inr ())"

definition upload_request :: "'x env_scheme \<Rightarrow> server \<Rightarrow> response_input \<Rightarrow> mcp_error + mutation_request" where
  "upload_request e s i =
     (case upload_input i of
       None \<Rightarrow> Inl (invalid_arguments e ''LiveResponseLibraryUploadInput''
                  (map_remove (asc ''comment'') (action_args i)))
     | Some (fname, text, desc) \<Rightarrow>
         (let name_res = validate_file_name fname; desc_res = validate_description desc;
              content = utf8 text;
              valid = first_error [as_tool_error name_res, as_tool_error desc_res, content_check content];
              file = unwrap_or [] name_res; description = unwrap_or [] desc_res;
              params = (case ri_parameters_description i of
                  Some pd \<Rightarrow> map_insert (asc ''parameters_description'') (JStr pd) [] | None \<Rightarrow> []);
              params = (case ri_override i of
                  Some ov \<Rightarrow> map_insert (asc ''override_if_exists'') (JBool ov) params | None \<Rightarrow> params)
          in Inr (response_mutation ''upload_library_file''
               (if is_ok valid then [mk_target KFileName file] else []) params
               (case ri_comment i of Some c \<Rightarrow> Some c | None \<Rightarrow> Some description)
               valid (\<lambda>resp. (get_str (asc ''id'') (mr_body resp), None))
               (endpoint_multipart_upload e s (asc ''/api/libraryfiles'') file content description
                 (ri_parameters_description i) (ri_override i)))))"

definition library_unused :: "response_input \<Rightarrow> string option" where
  "library_unused i = first_present
     [(''machine_id'', ri_machine_id i \<noteq> None), (''sha1'', ri_sha1 i \<noteq> None),
      (''commands'', ri_commands i \<noteq> None), (''file_content'', ri_file_content i \<noteq> None),
      (''description'', ri_description i \<noteq> None),
      (''parameters_description'', ri_parameters_description i \<noteq> None),
      (''override_if_exists'', ri_override i \<noteq> None)]"

definition library_delete_request ::
  "'x env_scheme \<Rightarrow> server \<Rightarrow> response_input \<Rightarrow> mcp_error + mutation_request" where
  "library_delete_request e s i =
     (case library_unused i of
       Some f \<Rightarrow> Inl (invalid_params (asc ''field '' @ sq (asc f) @ asc '' is not used by action ''
                   @ sq (asc ''library_file_delete'')))
     | None \<Rightarrow>
         (case required (ri_file_name i) ''file_name'' (ri_action i) of
           Inl err \<Rightarrow> Inl err
         | Inr v \<Rightarrow>
             (let res = validate_file_name v; file = unwrap_or [] res; valid = as_tool_error res
              in Inr (response_mutation ''library_file_delete''
                   (if is_ok valid then [mk_target KFileName file] else []) []
                   (Some (comment_or_empty i)) valid (\<lambda>_. (None, None))
                   (map_ok_io (\<lambda>_. \<lparr>mr_status = 204, mr_body = jobj
                        [(asc ''status'', JStr (asc ''deleted'')), (asc ''file_name'', JStr file)]\<rparr>)
                     (endpoint_delete_as e s (asc ''/api/libraryfiles/'' @ encode_path_segment e file)
                       PLiveResponse))))))"

section \<open>The dispatcher\<close>

definition response_unknown :: "ustr \<Rightarrow> mcp_error" where
  "response_unknown a = unknown_action_error (asc ''defender_response'') a response_actions"

definition response_request :: "'x env_scheme \<Rightarrow> server \<Rightarrow> response_input \<Rightarrow> mcp_error + mutation_request" where
  "response_request e s i =
     (let a = ri_action i in
      if a = asc ''collect_investigation_package'' then collect_request e s i
      else if a = asc ''stop_and_quarantine_file'' then stop_quarantine_request e s i
      else if a = asc ''live_response_run'' then live_response_request e s i
      else if a = asc ''upload_library_file'' then upload_request e s i
      else if a = asc ''library_file_delete'' then library_delete_request e s i
      else Inl (response_unknown a))"

definition defender_response ::
  "'x env_scheme \<Rightarrow> server \<Rightarrow> response_input \<Rightarrow> (mcp_error + call_tool_result) io" where
  "defender_response e s i =
     run_tool e s Response (ri_action i) (ri_action i \<in> set response_actions) PLiveResponse
       (if ri_action i = asc ''upload_library_file'' then ri_description i else ri_comment i)
       (response_request e s i)"

section \<open>The handler's contract\<close>

text \<open>What an API call of the tool may be, action by action.\<close>

definition response_call :: "'x env_scheme \<Rightarrow> server \<Rightarrow> response_input \<Rightarrow> http_request \<Rightarrow> bool" where
  "response_call e s i rq \<longleftrightarrow>
     (let a = ri_action i; comment = JStr (comment_or_empty i);
          machine_post = (\<lambda>ok op body. \<exists>m t. ri_machine_id i = Some m \<and> ok (trim m) \<and>
             rq = api_request s Endpoint POST
               (asc ''/api/machines/'' @ encode_path_segment e (trim m) @ asc op) []
               (JsonBody body) t)
      in if a = asc ''collect_investigation_package'' then
           machine_post (hex_ok 40) ''/collectInvestigationPackage'' (jobj [(asc ''Comment'', comment)])
         else if a = asc ''stop_and_quarantine_file'' then
           \<exists>h. ri_sha1 i = Some h \<and> hex_ok 40 (trim h) \<and>
             machine_post (hex_ok 40) ''/StopAndQuarantineFile''
               (jobj [(asc ''Comment'', comment), (asc ''Sha1'', JStr (trim h))])
         else if a = asc ''live_response_run'' then
           \<exists>cs. ri_commands i = Some cs \<and> 1 \<le> length cs \<and> length cs \<le> 20 \<and>
             (\<forall>allowed. live_response_allowed_commands (config s) = Some allowed \<longrightarrow>
                (\<forall>c. c \<in> set cs \<longrightarrow> command_type_str (cmd_type c) \<in> set allowed)) \<and>
             machine_post id_ok ''/runliveresponse''
               (jobj [(asc ''Commands'', JArr (map command_json cs)), (asc ''Comment'', comment)])
         else if a = asc ''upload_library_file'' then
           \<exists>f c flds. ri_file_name i = Some f \<and> file_name_ok (trim f) \<and> ri_file_content i = Some c \<and>
             1 \<le> str_len c \<and> str_len c \<le> 20971520 \<and> rq_method rq = POST \<and>
             rq_url rq = endpoint_base s @ asc ''/api/libraryfiles'' \<and>
             rq_body rq = Multipart \<lparr>file_name_of = trim f, file_bytes = utf8 c\<rparr> flds
         else a = asc ''library_file_delete'' \<and>
           (\<exists>f t. ri_file_name i = Some f \<and> file_name_ok (trim f) \<and>
             rq = api_request s Endpoint DELETE
               (asc ''/api/libraryfiles/'' @ encode_path_segment e (trim f)) [] NoBody t))"


lemma response_mutation_sel [simp]:
  "mq_tool (response_mutation a ts ps j v x u) = Response"
  "mq_action (response_mutation a ts ps j v x u) = asc a"
  "mq_validation (response_mutation a ts ps j v x u) = v"
  "mq_justification (response_mutation a ts ps j v x u) = j"
  "mq_upstream (response_mutation a ts ps j v x u) = u"
  by (simp_all add: response_mutation_def)

lemma collect_prepared:
  assumes "collect_request e s i = Inr req" and "ri_action i = asc ''collect_investigation_package''"
  shows "prepared_ok Response (response_call e s i) req \<and> mq_action req = ri_action i"
proof -
  from assms obtain v where v: "ri_machine_id i = Some v"
    by (cases "ri_machine_id i") (auto simp: collect_request_def required_def)
  show ?thesis
    using assms v
    by (auto simp: collect_request_def required_def Let_def endpoint_post_as_def response_call_def
        machine_id.accepted_ok machine_id.unwrapped intro!: prepared_mutation)
qed

lemma stop_quarantine_prepared:
  assumes "stop_quarantine_request e s i = Inr req" and "ri_action i = asc ''stop_and_quarantine_file''"
  shows "prepared_ok Response (response_call e s i) req \<and> mq_action req = ri_action i"
proof -
  from assms obtain v h where "ri_machine_id i = Some v" "ri_sha1 i = Some h"
    by (cases "ri_machine_id i"; cases "ri_sha1 i") (auto simp: stop_quarantine_request_def required_def)
  then show ?thesis
    using assms
    by (auto simp: stop_quarantine_request_def required_def Let_def endpoint_post_as_def
        response_call_def machine_id.accepted_ok machine_id.unwrapped sha1.accepted_ok sha1.unwrapped
        intro!: prepared_mutation)
qed

lemma command_allowed_ok: "is_ok (command_allowed a cs) \<longleftrightarrow> (\<forall>c\<in>set cs. command_type_str (cmd_type c) \<in> set a)"
  by (induction a cs rule: command_allowed.induct) (auto simp: Let_def)

lemma commands_ok: "is_ok (validate_live_response_commands cs allowed) \<longleftrightarrow>
    cs \<noteq> [] \<and> length cs \<le> 20 \<and>
    (\<forall>a. allowed = Some a \<longrightarrow> (\<forall>c\<in>set cs. command_type_str (cmd_type c) \<in> set a))"
  by (auto simp: validate_live_response_commands_def command_allowed_ok split: option.splits)

lemma live_response_prepared:
  assumes "live_response_request e s i = Inr req" and "ri_action i = asc ''live_response_run''"
  shows "prepared_ok Response (response_call e s i) req \<and> mq_action req = ri_action i"
proof -
  from assms obtain m cs c where run: "run_input i = Some (m, cs, c)"
    by (auto simp: live_response_request_def split: option.splits)
  then have "ri_machine_id i = Some m" "ri_commands i = Some cs" "ri_comment i = Some c"
    by (auto simp: run_input_def split: if_splits option.splits)
  with run assms show ?thesis
    by (auto simp: live_response_request_def Let_def endpoint_post_as_def response_call_def
        comment_or_empty_def required_id.accepted_ok required_id.unwrapped commands_ok Suc_le_eq
        intro!: prepared_mutation)
qed

lemma content_ok: "is_ok (content_check bs) \<longleftrightarrow> 1 \<le> length bs \<and> length bs \<le> 20971520"
  by (auto simp: content_check_def max_library_file_size_def Suc_le_eq)

lemma upload_prepared:
  assumes "upload_request e s i = Inr req" and "ri_action i = asc ''upload_library_file''"
  shows "prepared_ok Response (response_call e s i) req \<and> mq_action req = ri_action i"
proof -
  from assms obtain f c d where up: "upload_input i = Some (f, c, d)"
    by (auto simp: upload_request_def split: option.splits)
  then have ins: "ri_file_name i = Some f" "ri_file_content i = Some c" "ri_description i = Some d"
    by (auto simp: upload_input_def split: if_splits option.splits)
  have valid: "is_ok (mq_validation req) \<longleftrightarrow> is_ok (validate_file_name f) \<and> is_ok (validate_description d) \<and>
      1 \<le> str_len c \<and> str_len c \<le> 20971520"
    using assms up by (auto simp: upload_request_def Let_def content_ok length_utf8)
  have req: "mq_tool req = Response" "mq_action req = ri_action i" "mq_upstream req =
      endpoint_multipart_upload e s (asc ''/api/libraryfiles'') (unwrap_or [] (validate_file_name f))
        (utf8 c) (unwrap_or [] (validate_description d)) (ri_parameters_description i) (ri_override i)"
    using assms up by (auto simp: upload_request_def Let_def)
  have "calls_only (mq_upstream req) (response_call e s i)" if "is_ok (mq_validation req)"
    unfolding req(3)
  proof (rule calls_only_mono [OF calls_only_upload])
    fix rq :: http_request
    assume "rq_method rq = POST \<and> rq_url rq = endpoint_base s @ asc ''/api/libraryfiles'' \<and>
        (\<exists>flds. rq_body rq = Multipart \<lparr>file_name_of = unwrap_or [] (validate_file_name f),
          file_bytes = utf8 c\<rparr> flds)"
    with that valid ins assms(2) show "response_call e s i rq"
      by (auto simp: response_call_def file_name.accepted_ok file_name.unwrapped)
  qed
  with req(1,2) show ?thesis
    unfolding prepared_ok_def req(3) using upload.upstream_call_axioms by blast
qed

lemma library_delete_prepared:
  assumes "library_delete_request e s i = Inr req" and "ri_action i = asc ''library_file_delete''"
  shows "prepared_ok Response (response_call e s i) req \<and> mq_action req = ri_action i"
proof -
  from assms obtain v where v: "ri_file_name i = Some v"
    by (cases "ri_file_name i") (auto simp: library_delete_request_def required_def split: option.splits)
  show ?thesis
    using assms v
    by (auto simp: library_delete_request_def required_def Let_def endpoint_delete_as_def response_call_def
        file_name.accepted_ok file_name.unwrapped intro!: prepared_mapped split: option.splits)
qed

lemma response_prepared:
  assumes "response_request e s i = Inr req"
  shows "prepared_ok Response (response_call e s i) req \<and> mq_action req = ri_action i"
  using assms collect_prepared [of e s i req] stop_quarantine_prepared [of e s i req]
    live_response_prepared [of e s i req] upload_prepared [of e s i req]
    library_delete_prepared [of e s i req]
  by (auto simp: response_request_def Let_def split: if_splits)

interpretation response: tool_handler Response "response_request e s i" "response_call e s i"
  for e :: "'x env_scheme" and s i
  by (rule prepared_handler) (use response_prepared in blast)

section \<open>Properties\<close>

text \<open>
  C31. Every API call of \<open>defender_response\<close> is the documented call of its action: machine actions
  go to the path of a valid machine identifier with the comment and hash given; Live Response
  sends between one and twenty commands, each of an allowed type when there is an allowlist;
  uploads carry a plain file name and between one byte and 20 MiB; and no attempt makes two calls.
\<close>

theorem response_calls_as_documented:
  assumes "run_state (defender_response e s i) w = (res, w')" and "trace w' = trace w @ evs"
  shows "length (filter api_call evs) \<le> 1 \<and>
    (\<forall>rq. Sent rq \<in> set evs \<longrightarrow> rq_bearer rq \<noteq> None \<longrightarrow>
       response_call e s i rq \<and> \<not> read_only (config s) \<and> live_response (categories (config s)))"
proof -
  note run = assms(1) [unfolded defender_response_def]
  have "response_call e s i rq \<and> \<not> read_only (config s) \<and> live_response (categories (config s))"
    if rq: "Sent rq \<in> set evs" "rq_bearer rq \<noteq> None" for rq
  proof -
    from response.tool_calls [OF run assms(2) rq] obtain req where
      req: "response_request e s i = Inr req" "authorised s req" "response_call e s i rq" by blast
    with response_prepared [OF req(1)] show ?thesis by (simp add: authorised_def prepared_ok_def)
  qed
  with response.one_tool_call [OF run assms(2)] show ?thesis by blast
qed

definition demo_response :: response_input where
  "demo_response = \<lparr>ri_action = asc ''upload_library_file'', ri_machine_id = None, ri_comment = None,
     ri_commands = None, ri_file_name = Some (asc ''collect.ps1''), ri_file_content = Some (asc ''ls''),
     ri_description = Some (asc ''collect evidence''), ri_parameters_description = None,
     ri_override = None, ri_sha1 = None\<rparr>"

lemma response_calls_as_documented_witness:
  "\<exists>rq. response_call (demo_env (demo_reply 200 [])) demo_server demo_response rq"
proof -
  let ?run = "run_state (defender_response (demo_env (demo_reply 200 [])) demo_server demo_response) world1"
  have t: "trace (snd ?run) = trace world1 @ trace (snd ?run)" by (simp add: world1_def world0_def)
  have "list_ex api_call (trace (snd ?run))" by code_simp
  then obtain rq where "Sent rq \<in> set (trace (snd ?run))" "rq_bearer rq \<noteq> None"
    using some_api_call by blast
  with response_calls_as_documented [OF prod.collapse [symmetric] t] show ?thesis by blast
qed

end
