(* ===== verification/DeviceActions.thy ===== *)
theory DeviceActions
  imports ActionBase
begin

text \<open>
  \<open>defender_device_response\<close> of \<open>src/server.rs\<close>: the action catalog, the fields each action refuses,
  the audit target, path, body and recorded parameters of each action, and the
  dispatcher. Everything before the mutation pipeline is pure, so the handler is
  a function from the input to a mutation request (\<open>device_request\<close>), then executed.
\<close>

section \<open>Input and catalog\<close>

record device_input =
  di_action :: ustr
  di_machine_id :: "ustr option"
  di_action_id :: "ustr option"
  di_comment :: "ustr option"
  di_isolation_type :: "isolation_type option"
  di_scan_type :: "scan_type option"
  di_tag :: "ustr option"
  di_device_value :: "device_value option"

definition device_actions_base :: "ustr list" where
  "device_actions_base = map asc
     [''isolate'', ''unisolate'', ''restrict_app_execution'', ''unrestrict_app_execution'',
      ''run_av_scan'', ''start_investigation'', ''cancel_machine_action'', ''tag_add'',
      ''tag_remove'', ''set_device_value'']"

definition device_actions :: "bool \<Rightarrow> ustr list" where
  "device_actions offboard_on =
     (if offboard_on then device_actions_base @ [asc ''offboard''] else device_actions_base)"

definition device_unknown_action :: "bool \<Rightarrow> ustr \<Rightarrow> mcp_error" where
  "device_unknown_action offboard_on action =
     (let err = unknown_action_error (asc ''defender_device_response'') action (device_actions offboard_on)
      in if action = asc ''offboard'' \<and> \<not> offboard_on
         then InvalidParams (message err @ asc ''. offboard requires --enable-offboarding'') else err)"

definition unused_field :: "device_input \<Rightarrow> string option" where
  "unused_field i =
     (let a = di_action i;
          machine_id = (''machine_id'', di_machine_id i \<noteq> None);
          action_id = (''action_id'', di_action_id i \<noteq> None);
          isolation = (''isolation_type'', di_isolation_type i \<noteq> None);
          scan = (''scan_type'', di_scan_type i \<noteq> None);
          tagf = (''tag'', di_tag i \<noteq> None);
          dvalue = (''device_value'', di_device_value i \<noteq> None)
      in if a = asc ''isolate'' then first_present [action_id, scan, tagf, dvalue]
         else if a \<in> {asc ''unisolate'', asc ''restrict_app_execution'', asc ''unrestrict_app_execution'',
              asc ''start_investigation'', asc ''offboard''}
           then first_present [action_id, isolation, scan, tagf, dvalue]
         else if a = asc ''run_av_scan'' then first_present [action_id, isolation, tagf, dvalue]
         else if a = asc ''cancel_machine_action''
           then first_present [machine_id, isolation, scan, tagf, dvalue]
         else if a \<in> {asc ''tag_add'', asc ''tag_remove''}
           then first_present [action_id, isolation, scan, dvalue]
         else if a = asc ''set_device_value'' then first_present [action_id, isolation, scan, tagf]
         else None)"

definition device_category :: "ustr \<Rightarrow> permission_category" where
  "device_category action = (if action = asc ''offboard'' then POffboarding else PDeviceResponse)"

section \<open>The plan of an action\<close>

record device_plan =
  dp_targets :: "audit_target list"
  dp_validation :: "call_tool_result + unit"
  dp_path :: ustr
  dp_body :: json
  dp_params :: json_map

definition comment_body :: "ustr \<Rightarrow> (ustr \<times> json) list \<Rightarrow> json" where
  "comment_body comment extra = jobj ((asc ''Comment'', JStr comment) # extra)"

definition cancel_plan :: "'x libs_scheme \<Rightarrow> device_input \<Rightarrow> ustr \<Rightarrow> mcp_error + device_plan" where
  "cancel_plan l i comment =
     (case required (di_action_id i) ''action_id'' (di_action i) of
       Inl e \<Rightarrow> Inl e
     | Inr v \<Rightarrow>
         (let res = validate_action_id v; aid = unwrap_or [] res
          in Inr \<lparr>dp_targets = id_targets KMachineActionId aid,
               dp_validation = as_tool_error res,
               dp_path = asc ''/api/machineactions/'' @ encode_path_segment l aid @ asc ''/cancel'',
               dp_body = comment_body comment [], dp_params = []\<rparr>))"

definition machine_path :: "ustr \<Rightarrow> string \<Rightarrow> ustr" where
  "machine_path enc op = asc ''/api/machines/'' @ enc @ asc ''/'' @ asc op"

definition machine_plan :: "'x libs_scheme \<Rightarrow> device_input \<Rightarrow> ustr \<Rightarrow> mcp_error + device_plan" where
  "machine_plan l i comment =
     (case required (di_machine_id i) ''machine_id'' (di_action i) of
       Inl e \<Rightarrow> Inl e
     | Inr v \<Rightarrow>
         (let a = di_action i;
              mid_res = validate_machine_id v; mid = unwrap_or [] mid_res;
              enc = encode_path_segment l mid;
              plan = (\<lambda>valid op body params. Inr \<lparr>dp_targets = id_targets KMachineId mid,
                 dp_validation = valid, dp_path = machine_path enc op, dp_body = body,
                 dp_params = params\<rparr>);
              v_mid = as_tool_error mid_res
          in if a = asc ''isolate'' then
               (let iso = (case di_isolation_type i of Some t \<Rightarrow> t | None \<Rightarrow> IsoFull)
                in plan v_mid ''isolate''
                     (comment_body comment [(asc ''IsolationType'', JStr (isolation_str iso))])
                     (map_insert (asc ''isolation_type'') (JStr (isolation_str iso)) []))
             else if a = asc ''unisolate'' then plan v_mid ''unisolate'' (comment_body comment []) []
             else if a = asc ''restrict_app_execution'' then
               plan v_mid ''restrictCodeExecution'' (comment_body comment []) []
             else if a = asc ''unrestrict_app_execution'' then
               plan v_mid ''unrestrictCodeExecution'' (comment_body comment []) []
             else if a = asc ''run_av_scan'' then
               (case di_scan_type i of
                 None \<Rightarrow> Inl (invalid_params (asc ''action '' @ sq (asc ''run_av_scan'')
                           @ asc '' requires '' @ sq (asc ''scan_type'')))
               | Some scan \<Rightarrow>
                   plan v_mid ''runAntiVirusScan''
                     (comment_body comment [(asc ''ScanType'', JStr (scan_str scan))])
                     (map_insert (asc ''scan_type'') (JStr (scan_str scan)) []))
             else if a = asc ''start_investigation'' then
               plan v_mid ''startInvestigation'' (comment_body comment []) []
             else if a \<in> {asc ''tag_add'', asc ''tag_remove''} then
               (case required (di_tag i) ''tag'' a of
                 Inl e \<Rightarrow> Inl e
               | Inr tv \<Rightarrow>
                   (let tag_res = validate_tag tv; tag = unwrap_or [] tag_res
                    in plan (first_error [as_tool_error mid_res, as_tool_error tag_res]) ''tags''
                         (jobj [(asc ''Value'', JStr tag),
                                (asc ''Action'', JStr (asc (if a = asc ''tag_add'' then ''Add'' else ''Remove'')))])
                         (map_insert (asc ''tag'') (JStr tag) [])))
             else if a = asc ''set_device_value'' then
               (case di_device_value i of
                 None \<Rightarrow> Inl (invalid_params (asc ''action '' @ sq (asc ''set_device_value'')
                           @ asc '' requires '' @ sq (asc ''device_value'')))
               | Some dv \<Rightarrow>
                   plan v_mid ''setDeviceValue'' (jobj [(asc ''DeviceValue'', JStr (device_value_str dv))])
                     (map_insert (asc ''device_value'') (JStr (device_value_str dv)) []))
             else plan v_mid ''offboard'' (comment_body comment []) []))"


section \<open>The prepared request and the dispatcher\<close>

definition or_else :: "json option \<Rightarrow> json option \<Rightarrow> json option" where
  "or_else a b = (case a of Some v \<Rightarrow> Some v | None \<Rightarrow> b)"

definition nested :: "string \<Rightarrow> string \<Rightarrow> json \<Rightarrow> json option" where
  "nested outer inner v = Option.bind (jget (asc outer) v) (jget (asc inner))"

definition device_tracking :: "mutation_response \<Rightarrow> ustr option \<times> ustr option" where
  "device_tracking resp =
     (let v = mr_body resp in
      (Option.bind (or_else (jget (asc ''id'') v)
         (or_else (nested ''machineAction'' ''id'' v) (nested ''investigation'' ''id'' v))) as_str,
       Option.bind (or_else (jget (asc ''status'') v)
         (or_else (nested ''machineAction'' ''status'' v) (nested ''investigation'' ''state'' v))) as_str))"

definition offboard_warning :: string where
  "offboard_warning = ''Offboarding cannot be undone remotely; the device stops reporting until re-onboarded. On Windows the API stops the sensor service but does not remove onboarding registry data.''"

definition device_wrap :: "ustr \<Rightarrow> mutation_response \<Rightarrow> mutation_response" where
  "device_wrap action =
     (if action \<in> {asc ''isolate'', asc ''unisolate'', asc ''restrict_app_execution'',
          asc ''unrestrict_app_execution'', asc ''run_av_scan'', asc ''cancel_machine_action''}
      then wrap_machine_action None
      else if action = asc ''start_investigation'' then wrap_investigation
      else if action = asc ''offboard'' then wrap_machine_action (Some offboard_warning)
      else (\<lambda>resp. resp))"

definition device_invalid :: "device_input \<Rightarrow> string \<Rightarrow> mutation_request" where
  "device_invalid i f =
     \<lparr>mq_tool = DeviceResponse, mq_action = di_action i, mq_category = device_category (di_action i),
      mq_targets = [], mq_parameters = [], mq_justification = di_comment i,
      mq_validation = Inl (tool_error (asc ''field '' @ sq (asc f) @ asc '' is not used by action ''
        @ sq (di_action i))),
      mq_extract = (\<lambda>_. (None, None)), mq_upstream = unreachable_upstream\<rparr>"

definition device_request ::
  "'x env_scheme \<Rightarrow> server \<Rightarrow> device_input \<Rightarrow> mcp_error + mutation_request" where
  "device_request e s i =
     (let a = di_action i; ob = offboarding (categories (config s)) in
      if a \<notin> set (device_actions ob) then Inl (device_unknown_action ob a)
      else (case unused_field i of
          Some f \<Rightarrow> Inr (device_invalid i f)
        | None \<Rightarrow>
            (let comment = (case di_comment i of Some c \<Rightarrow> c | None \<Rightarrow> []);
                 cat = device_category a
             in (case (if a = asc ''cancel_machine_action'' then cancel_plan e i comment
                       else machine_plan e i comment) of
                  Inl err \<Rightarrow> Inl err
                | Inr p \<Rightarrow> Inr
                    \<lparr>mq_tool = DeviceResponse, mq_action = a, mq_category = cat,
                     mq_targets = dp_targets p, mq_parameters = dp_params p,
                     mq_justification = Some comment, mq_validation = dp_validation p,
                     mq_extract = device_tracking,
                     mq_upstream = map_ok_io (device_wrap a)
                       (endpoint_post_as e s (dp_path p) (dp_body p) cat)\<rparr>))))"

definition device_response_action ::
  "'x env_scheme \<Rightarrow> server \<Rightarrow> device_input \<Rightarrow> (mcp_error + call_tool_result) io" where
  "device_response_action e s i = run_request e s (device_request e s i)"

definition defender_device_response ::
  "'x env_scheme \<Rightarrow> server \<Rightarrow> device_input \<Rightarrow> (mcp_error + call_tool_result) io" where
  "defender_device_response e s i =
     run_tool e s DeviceResponse (di_action i)
       (di_action i \<in> set (device_actions (offboarding (categories (config s)))))
       (device_category (di_action i)) (di_comment i) (device_request e s i)"

section \<open>The plan, action by action\<close>

text \<open>The specification: operation and body of every action of the API, with its id field.\<close>

definition device_table :: "device_input \<Rightarrow> (string \<times> json) option" where
  "device_table i =
     (let a = di_action i; comment = JStr (case di_comment i of Some c \<Rightarrow> c | None \<Rightarrow> []);
          only_comment = jobj [(asc ''Comment'', comment)]
      in map_of
       [(asc ''isolate'', (''isolate'', jobj [(asc ''Comment'', comment), (asc ''IsolationType'',
           JStr (isolation_str (case di_isolation_type i of Some t \<Rightarrow> t | None \<Rightarrow> IsoFull)))])),
        (asc ''unisolate'', (''unisolate'', only_comment)),
        (asc ''restrict_app_execution'', (''restrictCodeExecution'', only_comment)),
        (asc ''unrestrict_app_execution'', (''unrestrictCodeExecution'', only_comment)),
        (asc ''run_av_scan'', (''runAntiVirusScan'', jobj [(asc ''Comment'', comment), (asc ''ScanType'',
           JStr (scan_str (the (di_scan_type i))))])),
        (asc ''start_investigation'', (''startInvestigation'', only_comment)),
        (asc ''tag_add'', (''tags'', jobj [(asc ''Value'', JStr (trim (the (di_tag i)))),
           (asc ''Action'', JStr (asc ''Add''))])),
        (asc ''tag_remove'', (''tags'', jobj [(asc ''Value'', JStr (trim (the (di_tag i)))),
           (asc ''Action'', JStr (asc ''Remove''))])),
        (asc ''set_device_value'', (''setDeviceValue'', jobj [(asc ''DeviceValue'',
           JStr (device_value_str (the (di_device_value i))))])),
        (asc ''offboard'', (''offboard'', only_comment))] a)"

lemma machine_ok:
  assumes "is_ok (validate_machine_id m)"
  shows "unwrap_or [] (validate_machine_id m) = trim m" "hex_ok 40 (trim m)" "trim m \<noteq> []"
  using assms machine_id.unwrapped [OF assms] by (auto simp: machine_id.accepted_ok hex_ok_def)

lemma valid_machine_plan:
  assumes plan: "machine_plan l i comment = Inr p" and ok: "is_ok (dp_validation p)"
    and act: "di_action i \<in> set (device_actions True)" "di_action i \<noteq> asc ''cancel_machine_action''"
    and comment: "comment = (case di_comment i of Some c \<Rightarrow> c | None \<Rightarrow> [])"
  shows "\<exists>m op. di_machine_id i = Some m \<and> hex_ok 40 (trim m) \<and>
    dp_targets p = [mk_target KMachineId (trim m)] \<and>
    device_table i = Some (op, dp_body p) \<and>
    dp_path p = machine_path (encode_path_segment l (trim m)) op"
proof -
  from plan obtain m where m: "di_machine_id i = Some m"
    by (cases "di_machine_id i") (auto simp: machine_plan_def required_def)
  have valid: "is_ok (validate_machine_id m)"
    using plan ok m
    by (auto simp: machine_plan_def required_def Let_def split: if_splits option.splits)
  note mid = machine_ok [OF valid]
  from act have "\<exists>op. device_table i = Some (op, dp_body p) \<and>
      dp_path p = machine_path (encode_path_segment l (trim m)) op"
    unfolding device_actions_def device_actions_base_def
    apply simp
    apply (elim disjE)
    using plan ok m mid tag.unwrapped comment
    by (auto simp: machine_plan_def required_def device_table_def comment_body_def Let_def
        split: option.splits)
  moreover have "dp_targets p = [mk_target KMachineId (trim m)]"
    using plan m mid
    by (auto simp: machine_plan_def required_def id_targets_def Let_def split: if_splits option.splits)
  ultimately show ?thesis using m mid by blast
qed

lemma valid_cancel_plan:
  assumes "cancel_plan l i comment = Inr p" and "is_ok (dp_validation p)"
  shows "\<exists>aid. di_action_id i = Some aid \<and> action_id_ok (trim aid) \<and>
    dp_targets p = [mk_target KMachineActionId (trim aid)] \<and>
    dp_path p = asc ''/api/machineactions/'' @ encode_path_segment l (trim aid) @ asc ''/cancel'' \<and>
    dp_body p = jobj [(asc ''Comment'', JStr comment)]"
  using assms
  by (auto simp: cancel_plan_def required_def Let_def comment_body_def id_targets_def action_id_ok_def
      action_id.unwrapped action_id.accepted_ok split: option.splits)

section \<open>The handler's contract\<close>

definition device_call :: "'x env_scheme \<Rightarrow> server \<Rightarrow> device_input \<Rightarrow> http_request \<Rightarrow> bool" where
  "device_call e s i rq \<longleftrightarrow>
     unused_field i = None \<and>
     (if di_action i = asc ''cancel_machine_action''
      then \<exists>aid t. di_action_id i = Some aid \<and> action_id_ok (trim aid) \<and>
        rq = api_request s Endpoint POST
          (asc ''/api/machineactions/'' @ encode_path_segment e (trim aid) @ asc ''/cancel'') []
          (JsonBody (jobj [(asc ''Comment'', JStr (case di_comment i of Some c \<Rightarrow> c | None \<Rightarrow> []))])) t
      else \<exists>m op body t. di_machine_id i = Some m \<and> hex_ok 40 (trim m) \<and>
        device_table i = Some (op, body) \<and>
        rq = api_request s Endpoint POST (machine_path (encode_path_segment e (trim m)) op) []
          (JsonBody body) t)"

lemma device_requestE:
  assumes "device_request e s i = Inr req"
  obtains (invalid) f where "unused_field i = Some f" "req = device_invalid i f"
  | (planned) comment p where "unused_field i = None" "di_action i \<in> set (device_actions True)"
      "comment = (case di_comment i of Some c \<Rightarrow> c | None \<Rightarrow> [])"
      "(if di_action i = asc ''cancel_machine_action'' then cancel_plan e i comment
        else machine_plan e i comment) = Inr p"
      "mq_tool req = DeviceResponse" "mq_action req = di_action i" "mq_targets req = dp_targets p"
      "mq_validation req = dp_validation p" "mq_justification req = Some comment"
      "mq_upstream req = map_ok_io (device_wrap (di_action i))
         (endpoint_post_as e s (dp_path p) (dp_body p) (device_category (di_action i)))"
proof (cases "unused_field i")
  case (Some f)
  with assms invalid show thesis by (auto simp: device_request_def Let_def split: if_splits)
next
  case None
  have "di_action i \<in> set (device_actions (offboarding (categories (config s))))"
    using assms by (auto simp: device_request_def Let_def split: if_splits)
  then have "di_action i \<in> set (device_actions True)"
    by (auto simp: device_actions_def split: if_splits)
  with assms None planned show thesis
    by (fastforce simp: device_request_def Let_def split: if_splits sum.splits)
qed

lemma device_wrap_status [simp]: "mr_status (device_wrap a resp) = mr_status resp"
  by (simp add: device_wrap_def wrap_machine_action_def wrap_investigation_def)

interpretation device: tool_handler DeviceResponse "device_request e s i" "device_call e s i"
  for e :: "'x env_scheme" and s i
proof (rule tool_handler.intro)
  fix req assume req: "device_request e s i = Inr req"
  show "mq_tool req = DeviceResponse"
    using req by (cases rule: device_requestE) (auto simp: device_invalid_def)
  show "upstream_call (mq_upstream req)"
    using req
  proof (cases rule: device_requestE)
    case (planned comment p)
    show ?thesis unfolding planned(10) endpoint_post_as_def
      by (rule upstream_map_ok) (simp_all add: mutation.upstream_call_axioms)
  qed (simp add: device_invalid_def unreachable_upstream_call)
next
  fix req s' assume req: "device_request e s i = Inr req" and auth: "authorised s' req"
  show "calls_only (mq_upstream req) (device_call e s i)"
    using req
  proof (cases rule: device_requestE)
    case (planned comment p)
    have ok: "is_ok (dp_validation p)" using auth planned by (simp add: authorised_def)
    have "device_call e s i rq"
      if "\<exists>t. rq = api_request s Endpoint POST (dp_path p) [] (JsonBody (dp_body p)) t" for rq
    proof (cases "di_action i = asc ''cancel_machine_action''")
      case True
      with planned ok valid_cancel_plan [of e i comment p] that show ?thesis
        by (auto simp: device_call_def)
    next
      case False
      with planned ok valid_machine_plan [of e i comment p] that show ?thesis
        by (auto simp: device_call_def)
    qed
    then show ?thesis unfolding planned(10) endpoint_post_as_def
      using calls_only_mutation [of e s Endpoint POST "dp_path p" "[]" "Some (dp_body p)"
          "device_category (di_action i)"]
      by (intro calls_only_map_ok) (auto simp: calls_only_def)
  qed (use auth in \<open>simp add: device_invalid_def authorised_def\<close>)
qed

section \<open>Properties\<close>

text \<open>
  C30. Every API call of \<open>defender_device_response\<close> is the one its table names for the action: the
  path of the machine (40 hexadecimal digits) or machine action, the operation and the body, with
  no field left over that the action does not use; and there is at most one.
\<close>

theorem device_calls_as_documented:
  assumes "run_state (defender_device_response e s i) w = (res, w')"
    and "trace w' = trace w @ evs"
  shows "length (filter api_call evs) \<le> 1 \<and>
    (\<forall>rq. Sent rq \<in> set evs \<longrightarrow> rq_bearer rq \<noteq> None \<longrightarrow>
       device_call e s i rq \<and> \<not> read_only (config s) \<and> device_response (categories (config s)) \<and>
       (di_action i = asc ''offboard'' \<longrightarrow> offboarding (categories (config s))))"
proof -
  note run = assms(1) [unfolded defender_device_response_def]
  have "device_call e s i rq \<and> \<not> read_only (config s) \<and> device_response (categories (config s)) \<and>
       (di_action i = asc ''offboard'' \<longrightarrow> offboarding (categories (config s)))"
    if rq: "Sent rq \<in> set evs" "rq_bearer rq \<noteq> None" for rq
  proof -
    from device.tool_calls [OF run assms(2) rq] obtain req where
      req: "device_request e s i = Inr req" "authorised s req" "device_call e s i rq" by blast
    moreover have "mq_tool req = DeviceResponse" "mq_action req = di_action i"
      using req(1) by (auto simp: device_invalid_def elim!: device_requestE)
    ultimately show ?thesis by (simp add: authorised_def)
  qed
  with device.one_tool_call [OF run assms(2)] show ?thesis by blast
qed

definition demo_device :: device_input where
  "demo_device = \<lparr>di_action = asc ''isolate'', di_machine_id = Some (replicate 40 97),
     di_action_id = None, di_comment = Some (asc ''because of the incident''),
     di_isolation_type = None, di_scan_type = None, di_tag = None, di_device_value = None\<rparr>"

lemma device_calls_as_documented_witness:
  "\<exists>rq. device_call (demo_env (demo_reply 200 [])) demo_server demo_device rq"
proof -
  let ?run = "run_state (defender_device_response (demo_env (demo_reply 200 [])) demo_server demo_device) world1"
  have t: "trace (snd ?run) = trace world1 @ trace (snd ?run)" by (simp add: world1_def world0_def)
  have "list_ex api_call (trace (snd ?run))" by code_simp
  then obtain rq where "Sent rq \<in> set (trace (snd ?run))" "rq_bearer rq \<noteq> None"
    using some_api_call by blast
  with device_calls_as_documented [OF prod.collapse [symmetric] t] show ?thesis by blast
qed

text \<open>
  \<open>offboard\<close> is not even an action of the tool unless the server was started with its own flag:
  the call ends in a protocol error that names the flag, before anything is recorded, asked or sent.
\<close>

theorem offboard_needs_its_flag:
  assumes "\<not> offboarding (categories (config s))" and "di_action i = asc ''offboard''"
  shows "\<exists>err. run_state (defender_device_response e s i) w = (Inl err, w) \<and>
    suffix (asc ''. offboard requires --enable-offboarding'') (message err)"
  using assms
  by (auto simp: defender_device_response_def run_tool_def run_request_def device_request_def Let_def
      device_actions_def device_actions_base_def device_unknown_action_def suffix_def)

lemma offboard_needs_its_flag_witness:
  "\<exists>err. run_state (defender_device_response (demo_env (demo_reply 200 [])) demo_server
     (demo_device\<lparr>di_action := asc ''offboard''\<rparr>)) world1 = (Inl err, world1) \<and>
     suffix (asc ''. offboard requires --enable-offboarding'') (message err)"
  by (rule offboard_needs_its_flag) (simp_all add: demo_server_def demo_config_def)

end
