(* ===== verification/IndicatorActions.thy ===== *)
theory IndicatorActions
  imports ActionBase
begin

text \<open>
  \<open>defender_indicators\<close> of \<open>src/server.rs\<close>: submission, deletion and batch deletion of custom
  indicators. The handler is pure but for one reading of the clock, made only by a submission that
  has an expiration time and reaches its check (\<open>reads_clock\<close>); the time is an argument here.
\<close>

section \<open>Input\<close>

record indicator_input =
  ii_action :: ustr
  ii_comment :: "ustr option"
  ii_value :: "ustr option"
  ii_type :: "indicator_type option"
  ii_indicator_action :: "indicator_action option"
  ii_title :: "ustr option"
  ii_description :: "ustr option"
  ii_severity :: "indicator_severity option"
  ii_expiration :: "ustr option"
  ii_rbac :: "ustr list option"
  ii_recommended :: "ustr option"
  ii_generate_alert :: "bool option"
  ii_id :: "ustr option"
  ii_ids :: "ustr list option"

definition indicators_actions :: "ustr list" where
  "indicators_actions = map asc [''submit'', ''delete'', ''batch_delete'']"

text \<open>The fields only a submission uses, in the order the two deletions refuse them.\<close>

definition submit_fields :: "indicator_input \<Rightarrow> (string \<times> bool) list" where
  "submit_fields i =
     [(''indicator_value'', ii_value i \<noteq> None), (''indicator_type'', ii_type i \<noteq> None),
      (''indicator_action'', ii_indicator_action i \<noteq> None), (''title'', ii_title i \<noteq> None),
      (''description'', ii_description i \<noteq> None), (''severity'', ii_severity i \<noteq> None),
      (''expiration_time'', ii_expiration i \<noteq> None), (''rbac_group_names'', ii_rbac i \<noteq> None),
      (''recommended_actions'', ii_recommended i \<noteq> None),
      (''generate_alert'', ii_generate_alert i \<noteq> None)]"

definition indicator_unused :: "indicator_input \<Rightarrow> string option" where
  "indicator_unused i =
     (let one = (''indicator_id'', ii_id i \<noteq> None); many = (''indicator_ids'', ii_ids i \<noteq> None)
      in if ii_action i = asc ''submit'' then first_present [one, many]
         else if ii_action i = asc ''delete'' then first_present (submit_fields i @ [many])
         else if ii_action i = asc ''batch_delete'' then first_present (one # submit_fields i)
         else None)"

definition indicator_mutation ::
  "indicator_input \<Rightarrow> audit_target list \<Rightarrow> json_map \<Rightarrow> ustr option \<Rightarrow> call_tool_result + unit
     \<Rightarrow> (mutation_response \<Rightarrow> ustr option \<times> ustr option) \<Rightarrow> (call_tool_result + mutation_response) io
     \<Rightarrow> mutation_request" where
  "indicator_mutation i targets params just valid extract up =
     \<lparr>mq_tool = Indicators, mq_action = ii_action i, mq_category = PIndicators, mq_targets = targets,
      mq_parameters = params, mq_justification = just, mq_validation = valid, mq_extract = extract,
      mq_upstream = up\<rparr>"

definition indicator_invalid :: "indicator_input \<Rightarrow> string \<Rightarrow> mutation_request" where
  "indicator_invalid i f = indicator_mutation i [] [] (ii_comment i)
     (Inl (tool_error (asc ''field '' @ sq (asc f) @ asc '' is not used by action '' @ sq (ii_action i))))
     (\<lambda>_. (None, None)) unreachable_upstream"

definition indicator_comment :: "indicator_input \<Rightarrow> ustr" where
  "indicator_comment i = (case ii_comment i of Some c \<Rightarrow> c | None \<Rightarrow> [])"

section \<open>Submission\<close>

definition alert_field :: "indicator_action \<Rightarrow> bool option \<Rightarrow> (ustr \<times> json) list" where
  "alert_field act alert =
     (if act = Audit then [(asc ''generateAlert'', JBool True)]
      else case alert of Some ga \<Rightarrow> [(asc ''generateAlert'', JBool ga)] | None \<Rightarrow> [])"

definition submit_body ::
  "indicator_input \<Rightarrow> ustr \<Rightarrow> ustr \<Rightarrow> ustr \<Rightarrow> indicator_type \<Rightarrow> indicator_action \<Rightarrow> json" where
  "submit_body i title desc val ty act = jobj
     ([(asc ''indicatorValue'', JStr val), (asc ''indicatorType'', JStr (indicator_type_str ty)),
       (asc ''action'', JStr (indicator_action_str act)), (asc ''title'', JStr title),
       (asc ''description'', JStr desc)]
      @ alert_field act (ii_generate_alert i)
      @ opt_str ''severity'' (map_option severity_str (ii_severity i))
      @ opt_str ''expirationTime'' (ii_expiration i)
      @ opt_str ''recommendedActions'' (ii_recommended i)
      @ (case ii_rbac i of
          Some gs \<Rightarrow> [(asc ''rbacGroupNames'', JArr (map JStr gs))] | None \<Rightarrow> []))"

definition submit_params :: "indicator_input \<Rightarrow> indicator_type \<Rightarrow> indicator_action \<Rightarrow> json_map" where
  "submit_params i ty act = obj_of
     ([(asc ''indicator_type'', JStr (indicator_type_str ty)),
       (asc ''indicator_action'', JStr (indicator_action_str act))]
      @ opt_str ''severity'' (map_option severity_str (ii_severity i)))"

definition submit_valid ::
  "'x libs_scheme \<Rightarrow> int \<Rightarrow> indicator_input \<Rightarrow> ustr \<Rightarrow> ustr \<Rightarrow> ustr \<Rightarrow> indicator_type \<Rightarrow> indicator_action
     \<Rightarrow> call_tool_result + unit" where
  "submit_valid l t i title desc val ty act = first_error
     [as_tool_error (validate_text title 256 (asc ''title'')),
      as_tool_error (validate_description desc),
      as_tool_error (validate_indicator_value l ty val),
      as_tool_error (validate_indicator_action ty act (ii_generate_alert i)),
      as_tool_error (checked (\<lambda>x. validate_future_rfc3339 l t x (asc ''expiration_time'')) (ii_expiration i)),
      as_tool_error (all_texts 128 (asc ''rbac_group_names'') (ii_rbac i))]"

definition submit_request ::
  "'x env_scheme \<Rightarrow> server \<Rightarrow> int \<Rightarrow> indicator_input \<Rightarrow> mcp_error + mutation_request" where
  "submit_request e s t i =
     (let a = ii_action i in
      case required (ii_title i) ''title'' a of Inl err \<Rightarrow> Inl err | Inr title \<Rightarrow>
      (case required (ii_description i) ''description'' a of Inl err \<Rightarrow> Inl err | Inr desc \<Rightarrow>
      (case required (ii_value i) ''indicator_value'' a of Inl err \<Rightarrow> Inl err | Inr val \<Rightarrow>
      (case ii_type i of
        None \<Rightarrow> Inl (invalid_params (asc ''action '' @ sq (asc ''submit'') @ asc '' requires '' @ sq (asc ''indicator_type'')))
      | Some ty \<Rightarrow>
      (case ii_indicator_action i of
        None \<Rightarrow> Inl (invalid_params (asc ''action '' @ sq (asc ''submit'') @ asc '' requires '' @ sq (asc ''indicator_action'')))
      | Some act \<Rightarrow>
          Inr (indicator_mutation i
            (if is_ok (validate_indicator_value e ty val) then [mk_target KIndicatorValue val] else [])
            (submit_params i ty act) (Some (indicator_comment i))
            (submit_valid e t i title desc val ty act)
            (\<lambda>resp. (get_str (asc ''id'') (mr_body resp), None))
            (endpoint_post_as e s (asc ''/api/indicators'')
              (submit_body i title desc val ty act) PIndicators)))))))"

section \<open>Deletions\<close>

definition delete_request ::
  "'x env_scheme \<Rightarrow> server \<Rightarrow> indicator_input \<Rightarrow> mcp_error + mutation_request" where
  "delete_request e s i =
     (case required (ii_id i) ''indicator_id'' (ii_action i) of
       Inl err \<Rightarrow> Inl err
     | Inr v \<Rightarrow>
         (let res = validate_required_id v (asc ''indicator_id''); idv = unwrap_or [] res
          in Inr (indicator_mutation i (id_targets KIndicatorId idv) [] (Some (indicator_comment i))
               (as_tool_error res) (\<lambda>_. (None, None))
               (map_ok_io (\<lambda>_. \<lparr>mr_status = 204, mr_body = jobj
                    [(asc ''status'', JStr (asc ''deleted'')), (asc ''indicator_id'', JStr idv)]\<rparr>)
                 (endpoint_delete_as e s (asc ''/api/indicators/'' @ encode_path_segment e idv) PIndicators)))))"

definition max_indicator_batch :: nat where
  "max_indicator_batch = 500"

definition batch_delete_request ::
  "'x env_scheme \<Rightarrow> server \<Rightarrow> indicator_input \<Rightarrow> mcp_error + mutation_request" where
  "batch_delete_request e s i =
     (case ii_ids i of
       None \<Rightarrow> Inl (invalid_params (asc ''action '' @ sq (asc ''batch_delete'') @ asc '' requires '' @ sq (asc ''indicator_ids'')))
     | Some ids \<Rightarrow>
         Inr (indicator_mutation i (map (mk_target KIndicatorId) ids)
           [(asc ''count'', JNum (int (length ids)))] (Some (indicator_comment i))
           (as_tool_error (validate_batch ids max_indicator_batch (asc ''indicator_ids'')))
           (\<lambda>_. (None, None))
           (map_ok_io (\<lambda>_. \<lparr>mr_status = 204, mr_body = jobj
                [(asc ''status'', JStr (asc ''deleted'')), (asc ''count'', JNum (int (length ids)))]\<rparr>)
             (endpoint_post_as e s (asc ''/api/indicators/BatchDelete'')
               (jobj [(asc ''IndicatorIds'', JArr (map JStr ids))]) PIndicators))))"

section \<open>The dispatcher\<close>

definition indicators_request ::
  "'x env_scheme \<Rightarrow> server \<Rightarrow> int \<Rightarrow> indicator_input \<Rightarrow> mcp_error + mutation_request" where
  "indicators_request e s t i =
     (let a = ii_action i in
      if a \<notin> set indicators_actions then
        Inl (unknown_action_error (asc ''defender_indicators'') a indicators_actions)
      else (case indicator_unused i of
          Some f \<Rightarrow> Inr (indicator_invalid i f)
        | None \<Rightarrow>
            if a = asc ''submit'' then submit_request e s t i
            else if a = asc ''delete'' then delete_request e s i
            else batch_delete_request e s i))"

definition reads_clock :: "indicator_input \<Rightarrow> bool" where
  "reads_clock i \<longleftrightarrow> ii_action i = asc ''submit'' \<and> indicator_unused i = None \<and> ii_title i \<noteq> None \<and>
     ii_description i \<noteq> None \<and> ii_value i \<noteq> None \<and> ii_type i \<noteq> None \<and>
     ii_indicator_action i \<noteq> None \<and> ii_expiration i \<noteq> None"

definition defender_indicators ::
  "'x env_scheme \<Rightarrow> server \<Rightarrow> indicator_input \<Rightarrow> (mcp_error + call_tool_result) io" where
  "defender_indicators e s i = do {
     t \<leftarrow> (if reads_clock i then now e else ret 0);
     run_tool e s Indicators (ii_action i) (ii_action i \<in> set indicators_actions) PIndicators
       (ii_comment i) (indicators_request e s t i)
   }"

section \<open>The handler's contract\<close>

text \<open>What an API call of the tool may be, action by action.\<close>

definition indicator_call :: "'x env_scheme \<Rightarrow> server \<Rightarrow> indicator_input \<Rightarrow> http_request \<Rightarrow> bool" where
  "indicator_call e s i rq \<longleftrightarrow> indicator_unused i = None \<and>
     (if ii_action i = asc ''submit'' then
        \<exists>title desc val ty act tk. ii_title i = Some title \<and> ii_description i = Some desc \<and>
          ii_value i = Some val \<and> ii_type i = Some ty \<and> ii_indicator_action i = Some act \<and>
          text_ok 256 (asc ''title'') (trim title) \<and> trim desc \<noteq> [] \<and>
          validate_indicator_value e ty val = Inr (trim val) \<and>
          (act = BlockAndRemediate \<longrightarrow> ty \<notin> {IpAddress, DomainName, Url}) \<and>
          (act = Warn \<longrightarrow> ty \<in> {IpAddress, DomainName, Url}) \<and>
          rq = api_request s Endpoint POST (asc ''/api/indicators'') []
            (JsonBody (submit_body i title desc val ty act)) tk
      else if ii_action i = asc ''delete'' then
        \<exists>v tk. ii_id i = Some v \<and> id_ok (trim v) \<and>
          rq = api_request s Endpoint DELETE
            (asc ''/api/indicators/'' @ encode_path_segment e (trim v)) [] NoBody tk
      else
        \<exists>ids tk. ii_ids i = Some ids \<and> 1 \<le> length ids \<and> length ids \<le> 500 \<and>
          list_all (\<lambda>v. id_ok (trim v)) ids \<and>
          rq = api_request s Endpoint POST (asc ''/api/indicators/BatchDelete'') []
            (JsonBody (jobj [(asc ''IndicatorIds'', JArr (map JStr ids))])) tk)"

lemma indicator_value_ok:
  "is_ok (validate_indicator_value e ty val) \<Longrightarrow> validate_indicator_value e ty val = Inr (trim val)"
proof (cases ty)
  case IpAddress
  then show "is_ok (validate_indicator_value e ty val) \<Longrightarrow> ?thesis"
    by (auto simp: Let_def split: if_splits)
qed (auto simp: is_ok_iff hex.accepts domain.accepts url_indicator.accepts)

lemma submit_prepared:
  assumes "submit_request e s t i = Inr req" and "ii_action i = asc ''submit''" and "indicator_unused i = None"
  shows "prepared_ok Indicators (indicator_call e s i) req"
proof -
  from assms(1) obtain title desc val ty act where
    ins: "ii_title i = Some title" "ii_description i = Some desc" "ii_value i = Some val"
      "ii_type i = Some ty" "ii_indicator_action i = Some act"
    by (auto simp: submit_request_def required_def Let_def split: option.splits)
  have req: "mq_tool req = Indicators" "mq_validation req = submit_valid e t i title desc val ty act"
    "mq_upstream req = request_mutation e s Endpoint POST (asc ''/api/indicators'') []
       (Some (submit_body i title desc val ty act)) PIndicators"
    using assms(1) ins
    by (auto simp: submit_request_def required_def Let_def indicator_mutation_def endpoint_post_as_def)
  show ?thesis
  proof (rule prepared_mutation [OF req(1,3)])
    fix tk assume "is_ok (mq_validation req)"
    then have "text_ok 256 (asc ''title'') (trim title)" "trim desc \<noteq> []"
      "validate_indicator_value e ty val = Inr (trim val)"
      "is_ok (validate_indicator_action ty act (ii_generate_alert i))"
      unfolding req(2) submit_valid_def
      by (auto simp: text_field.accepted_ok description.accepted_ok indicator_value_ok)
    then show "indicator_call e s i (api_request s Endpoint POST (asc ''/api/indicators'') []
        (case Some (submit_body i title desc val ty act) of Some b \<Rightarrow> JsonBody b | None \<Rightarrow> NoBody) tk)"
      unfolding indicator_call_def using assms(2,3) ins
      by (cases act; cases ty) (auto simp: validate_indicator_action_def)
  qed
qed

lemma delete_prepared:
  assumes "delete_request e s i = Inr req" and "ii_action i = asc ''delete''" and "indicator_unused i = None"
  shows "prepared_ok Indicators (indicator_call e s i) req"
proof -
  from assms obtain v where v: "ii_id i = Some v"
    by (cases "ii_id i") (auto simp: delete_request_def required_def)
  show ?thesis
    using assms v
    by (auto simp: delete_request_def required_def Let_def indicator_mutation_def endpoint_delete_as_def
        indicator_call_def required_id.accepted_ok required_id.unwrapped intro!: prepared_mapped)
qed

lemma batch_delete_prepared:
  assumes "batch_delete_request e s i = Inr req" and "ii_action i = asc ''batch_delete''"
    and "indicator_unused i = None"
  shows "prepared_ok Indicators (indicator_call e s i) req"
proof -
  from assms obtain ids where v: "ii_ids i = Some ids"
    by (cases "ii_ids i") (auto simp: batch_delete_request_def)
  show ?thesis
    using assms v
    by (auto simp: batch_delete_request_def indicator_mutation_def endpoint_post_as_def
        indicator_call_def batch_ok max_indicator_batch_def intro!: prepared_mapped)
qed

lemma indicators_prepared:
  assumes "indicators_request e s t i = Inr req"
  shows "prepared_ok Indicators (indicator_call e s i) req"
proof (cases "indicator_unused i")
  case None
  with assms submit_prepared [of e s t i req] delete_prepared [of e s i req]
    batch_delete_prepared [of e s i req]
  show ?thesis
    by (auto simp: indicators_request_def indicators_actions_def Let_def split: if_splits)
next
  case (Some f)
  with assms have "req = indicator_invalid i f"
    by (auto simp: indicators_request_def Let_def split: if_splits)
  then show ?thesis
    by (simp add: indicator_invalid_def indicator_mutation_def prepared_ok_def unreachable_upstream_call)
qed

interpretation indicators: tool_handler Indicators "indicators_request e s t i" "indicator_call e s i"
  for e :: "'x env_scheme" and s t i
  by (rule prepared_handler) (use indicators_prepared in blast)

text \<open>The clock is read at most once and nothing else happens before the shared dispatcher.\<close>

lemma indicators_runE:
  assumes "run_state (defender_indicators e s i) w = (res, w')"
  obtains t w1 where "trace w1 = trace w" "run_state (run_tool e s Indicators (ii_action i)
    (ii_action i \<in> set indicators_actions) PIndicators (ii_comment i) (indicators_request e s t i)) w1 = (res, w')"
proof (cases "reads_clock i")
  case True
  with assms that [of "w\<lparr>reads := Suc (reads w)\<rparr>"] show thesis by (auto simp: defender_indicators_def)
next
  case False
  with assms that [of w] show thesis by (auto simp: defender_indicators_def)
qed

section \<open>Properties\<close>

text \<open>
  C32. Every API call of \<open>defender_indicators\<close> is the documented call of its action: a submission has
  a title, a description, a value of its type's shape and an action allowed for the type; a deletion
  names a valid identifier; a batch holds between one and 500 of them. There is at most one call, and
  none unless indicators are enabled and the server is not read-only.
\<close>

theorem indicator_calls_as_documented:
  assumes "run_state (defender_indicators e s i) w = (res, w')" and "trace w' = trace w @ evs"
  shows "length (filter api_call evs) \<le> 1 \<and>
    (\<forall>rq. Sent rq \<in> set evs \<longrightarrow> rq_bearer rq \<noteq> None \<longrightarrow>
       indicator_call e s i rq \<and> \<not> read_only (config s) \<and> indicators (categories (config s)))"
  using assms(1)
proof (cases rule: indicators_runE)
  case (1 t w1)
  with assms(2) have tr: "trace w' = trace w1 @ evs" by simp
  have "indicator_call e s i rq \<and> \<not> read_only (config s) \<and> indicators (categories (config s))"
    if rq: "Sent rq \<in> set evs" "rq_bearer rq \<noteq> None" for rq
  proof -
    from indicators.tool_calls [OF 1(2) tr rq] obtain req where
      "indicators_request e s t i = Inr req" "authorised s req" "indicator_call e s i rq" by blast
    with indicators_prepared [of e s t i req] show ?thesis by (simp add: authorised_def prepared_ok_def)
  qed
  with indicators.one_tool_call [OF 1(2) tr] show ?thesis by blast
qed

definition demo_indicator :: indicator_input where
  "demo_indicator = \<lparr>ii_action = asc ''submit'', ii_comment = Some (asc ''seen in the incident''),
     ii_value = Some (replicate 40 97), ii_type = Some FileSha1, ii_indicator_action = Some Audit,
     ii_title = Some (asc ''dropper''), ii_description = Some (asc ''first stage''), ii_severity = None,
     ii_expiration = None, ii_rbac = None, ii_recommended = None, ii_generate_alert = None,
     ii_id = None, ii_ids = None\<rparr>"

lemma demo_indicator_call:
  "\<exists>rq. Sent rq \<in> set (trace (snd (run_state (defender_indicators (demo_env (demo_reply 200 []))
     demo_server demo_indicator) world1))) \<and> rq_bearer rq \<noteq> None"
proof -
  have "list_ex api_call (trace (snd (run_state (defender_indicators (demo_env (demo_reply 200 []))
     demo_server demo_indicator) world1)))" by code_simp
  then show ?thesis using some_api_call by blast
qed

lemma indicator_calls_as_documented_witness:
  "\<exists>rq. indicator_call (demo_env (demo_reply 200 [])) demo_server demo_indicator rq"
proof -
  let ?run = "run_state (defender_indicators (demo_env (demo_reply 200 [])) demo_server demo_indicator) world1"
  have t: "trace (snd ?run) = trace world1 @ trace (snd ?run)" by (simp add: world1_def world0_def)
  from demo_indicator_call indicator_calls_as_documented [OF prod.collapse [symmetric] t]
  show ?thesis by blast
qed

lemma submit_body_alert:
  "act = Audit \<Longrightarrow> jget (asc ''generateAlert'') (submit_body i title desc val ty act) = Some (JBool True)"
  by (cases "ii_rbac i"; cases "ii_recommended i"; cases "ii_expiration i"; cases "ii_severity i")
     (simp_all add: submit_body_def jobj_def map_of_obj_of alert_field_def opt_str_def)

text \<open>
  An indicator that only audits always alerts: whatever \<open>generate_alert\<close> said, the body of a
  submission with action \<open>Audit\<close> that reaches the API carries \<open>generateAlert: true\<close>.
\<close>

theorem audit_indicators_alert:
  assumes "run_state (defender_indicators e s i) w = (res, w')" and "trace w' = trace w @ evs"
    and "Sent rq \<in> set evs" and "rq_bearer rq \<noteq> None"
    and "ii_action i = asc ''submit''" and "ii_indicator_action i = Some Audit"
  shows "\<exists>body. rq_body rq = JsonBody body \<and> jget (asc ''generateAlert'') body = Some (JBool True)"
  using assms(1)
proof (cases rule: indicators_runE)
  case (1 t w1)
  with assms(2) have tr: "trace w' = trace w1 @ evs" by simp
  from indicators.tool_calls [OF 1(2) tr assms(3,4)] have "indicator_call e s i rq" by blast
  with assms(5,6) show ?thesis
    by (auto simp: indicator_call_def api_request_def submit_body_alert)
qed

lemma audit_indicators_alert_witness:
  "\<exists>(rq :: http_request) body. rq_body rq = JsonBody body \<and> jget (asc ''generateAlert'') body = Some (JBool True)"
proof -
  let ?run = "run_state (defender_indicators (demo_env (demo_reply 200 [])) demo_server demo_indicator) world1"
  have t: "trace (snd ?run) = trace world1 @ trace (snd ?run)" by (simp add: world1_def world0_def)
  have "ii_action demo_indicator = asc ''submit''" "ii_indicator_action demo_indicator = Some Audit"
    by (simp_all add: demo_indicator_def)
  with demo_indicator_call audit_indicators_alert [OF prod.collapse [symmetric] t] show ?thesis by blast
qed

end
