(* ===== verification/TriageActions.thy ===== *)
theory TriageActions
  imports ActionBase
begin

text \<open>
  \<open>defender_triage\<close> of \<open>src/server.rs\<close>: status, assignment, classification, tags and comments of
  Defender for Endpoint alerts and of XDR alerts and incidents. The spelling of status,
  classification and determination depends on the API (\<open>triage_target\<close>).
\<close>

section \<open>Input\<close>

record triage_input =
  ti_action :: ustr
  ti_justification :: "ustr option"
  ti_id :: "ustr option"
  ti_ids :: "ustr list option"
  ti_status :: "triage_status option"
  ti_assigned :: "ustr option"
  ti_classification :: "classification option"
  ti_determination :: "determination option"
  ti_tags :: "ustr list option"
  ti_comment :: "ustr option"

definition triage_actions :: "ustr list" where
  "triage_actions = map asc
     [''endpoint_alert_update'', ''endpoint_alert_batch_update'', ''endpoint_alert_comment'',
      ''xdr_alert_update'', ''xdr_alert_comment'', ''xdr_incident_update'', ''xdr_incident_comment'']"

definition triage_unused :: "triage_input \<Rightarrow> string option" where
  "triage_unused i =
     (let a = ti_action i;
          one = (''id'', ti_id i \<noteq> None); many = (''ids'', ti_ids i \<noteq> None);
          tagf = (''tags'', ti_tags i \<noteq> None); commentf = (''comment'', ti_comment i \<noteq> None)
      in if a = asc ''endpoint_alert_batch_update'' then first_present [one, tagf]
         else if a = asc ''endpoint_alert_update'' then first_present [many, tagf]
         else if a \<in> {asc ''endpoint_alert_comment'', asc ''xdr_alert_comment'', asc ''xdr_incident_comment''}
           then first_present [many, (''status'', ti_status i \<noteq> None),
             (''assigned_to'', ti_assigned i \<noteq> None), (''classification'', ti_classification i \<noteq> None),
             (''determination'', ti_determination i \<noteq> None), tagf]
         else if a = asc ''xdr_alert_update'' then first_present [many, tagf, commentf]
         else if a = asc ''xdr_incident_update'' then first_present [many, commentf]
         else None)"

definition has_change :: "triage_input \<Rightarrow> bool" where
  "has_change i =
     (let a = ti_action i;
          base = ti_status i \<noteq> None \<or> ti_assigned i \<noteq> None \<or> ti_classification i \<noteq> None
      in if a \<in> {asc ''endpoint_alert_update'', asc ''endpoint_alert_batch_update''}
           then base \<or> ti_comment i \<noteq> None
         else if a = asc ''xdr_alert_update'' then base
         else if a = asc ''xdr_incident_update'' then base \<or> ti_tags i \<noteq> None
         else True)"

definition triage_mutation ::
  "triage_input \<Rightarrow> audit_target list \<Rightarrow> json_map \<Rightarrow> call_tool_result + unit
     \<Rightarrow> (mutation_response \<Rightarrow> ustr option \<times> ustr option) \<Rightarrow> (call_tool_result + mutation_response) io
     \<Rightarrow> mutation_request" where
  "triage_mutation i targets params valid extract up =
     \<lparr>mq_tool = Triage, mq_action = ti_action i, mq_category = PTriage, mq_targets = targets,
      mq_parameters = params, mq_justification = ti_justification i, mq_validation = valid,
      mq_extract = extract, mq_upstream = up\<rparr>"

definition triage_invalid :: "triage_input \<Rightarrow> ustr \<Rightarrow> mutation_request" where
  "triage_invalid i msg =
     triage_mutation i [] [] (Inl (tool_error msg)) (\<lambda>_. (None, None)) unreachable_upstream"

section \<open>Checks, parameters and fields shared by the actions\<close>

definition triage_target_of :: "ustr \<Rightarrow> triage_target" where
  "triage_target_of a =
     (if a = asc ''endpoint_alert_batch_update'' then MdeAlertBatch
      else if a \<in> {asc ''endpoint_alert_update'', asc ''endpoint_alert_comment''} then MdeAlertPatch
      else if a \<in> {asc ''xdr_alert_update'', asc ''xdr_alert_comment''} then XdrAlert
      else XdrIncident)"

text \<open>A comment action without a comment is a protocol error; the inner result is its check.\<close>

definition triage_comment :: "triage_input \<Rightarrow> mcp_error + (mcp_error + unit)" where
  "triage_comment i =
     (let a = ti_action i; ok = (\<lambda>c. ok_unit (validate_text c 1000 (asc ''comment''))) in
      if a \<in> {asc ''endpoint_alert_comment'', asc ''xdr_alert_comment'', asc ''xdr_incident_comment''}
      then (case required (ti_comment i) ''comment'' a of Inl err \<Rightarrow> Inl err | Inr c \<Rightarrow> Inr (ok c))
      else if a \<in> {asc ''endpoint_alert_update'', asc ''endpoint_alert_batch_update''}
      then Inr (case ti_comment i of Some c \<Rightarrow> ok c | None \<Rightarrow> Inr ())
      else Inr (Inr ()))"

definition triage_status_wire :: "triage_input \<Rightarrow> mcp_error + ustr option" where
  "triage_status_wire i = checked (\<lambda>st. status_wire st (triage_target_of (ti_action i))) (ti_status i)"

definition triage_params :: "triage_input \<Rightarrow> json_map" where
  "triage_params i = obj_of
     (opt_str ''status'' (map_option status_str (ti_status i))
      @ opt_str ''assigned_to'' (ti_assigned i)
      @ opt_str ''classification'' (map_option classification_str (ti_classification i))
      @ opt_str ''determination'' (map_option determination_str (ti_determination i)))"

definition triage_valid :: "triage_input \<Rightarrow> mcp_error + unit \<Rightarrow> call_tool_result + unit" where
  "triage_valid i comment_res = first_error
     [as_tool_error (validate_classification_pair (ti_classification i) (ti_determination i)),
      as_tool_error (checked (\<lambda>a. validate_text a 256 (asc ''assigned_to'')) (ti_assigned i)),
      as_tool_error comment_res,
      as_tool_error (all_texts 128 (asc ''tags'') (ti_tags i)),
      as_tool_error (triage_status_wire i)]"

text \<open>The fields every update body shares, in the spelling of the API it goes to.\<close>

definition triage_fields :: "triage_input \<Rightarrow> (ustr \<times> json) list" where
  "triage_fields i =
     (let target = triage_target_of (ti_action i) in
      opt_str ''status'' (case triage_status_wire i of Inr st \<Rightarrow> st | Inl err \<Rightarrow> None)
      @ opt_str ''assignedTo'' (ti_assigned i)
      @ opt_str ''classification'' (map_option (\<lambda>c. classification_wire c target) (ti_classification i))
      @ opt_str ''determination'' (map_option (\<lambda>d. determination_wire d target) (ti_determination i))
      @ opt_str ''comment'' (ti_comment i))"

section \<open>The requests\<close>

definition max_alert_batch :: nat where
  "max_alert_batch = 500"

definition batch_body :: "triage_input \<Rightarrow> ustr list \<Rightarrow> json" where
  "batch_body i ids = jobj ((asc ''alertIds'', JArr (map JStr ids)) # triage_fields i)"

definition batch_update_request ::
  "'x env_scheme \<Rightarrow> server \<Rightarrow> triage_input \<Rightarrow> mcp_error + unit \<Rightarrow> mcp_error + mutation_request" where
  "batch_update_request e s i comment_res =
     (case ti_ids i of
       None \<Rightarrow> Inl (invalid_params (asc ''action '' @ sq (asc ''endpoint_alert_batch_update'')
                 @ asc '' requires '' @ sq (asc ''ids'')))
     | Some ids \<Rightarrow>
         Inr (triage_mutation i (map (mk_target KAlertId) ids) (triage_params i)
           (first_error [triage_valid i comment_res,
              as_tool_error (validate_batch ids max_alert_batch (asc ''ids''))])
           (\<lambda>_. (None, None))
           (map_ok_io (\<lambda>_. \<lparr>mr_status = 200, mr_body = jobj
                [(asc ''status'', JStr (asc ''ok'')), (asc ''count'', JNum (int (length ids)))]\<rparr>)
             (endpoint_post_as e s (asc ''/api/alerts/batchUpdate'') (batch_body i ids) PTriage))))"

definition single_body :: "triage_input \<Rightarrow> json" where
  "single_body i = jobj
     (triage_fields i
      @ (case ti_tags i of Some ts \<Rightarrow> [(asc ''customTags'', JArr (map JStr ts))] | None \<Rightarrow> [])
      @ (if ti_action i \<in> {asc ''xdr_alert_comment'', asc ''xdr_incident_comment''}
         then [(asc ''@odata.type'', JStr (asc ''microsoft.graph.security.alertComment''))] else []))"

definition created :: "json \<Rightarrow> mutation_response" where
  "created v = \<lparr>mr_status = 201, mr_body = v\<rparr>"

definition single_upstream ::
  "'x env_scheme \<Rightarrow> server \<Rightarrow> triage_input \<Rightarrow> ustr \<Rightarrow> (call_tool_result + mutation_response) io" where
  "single_upstream e s i enc =
     (let a = ti_action i; body = single_body i in
      if a \<in> {asc ''endpoint_alert_update'', asc ''endpoint_alert_comment''} then
        endpoint_patch_as e s (asc ''/api/alerts/'' @ enc) body PTriage
      else if a = asc ''xdr_alert_update'' then
        graph_patch_as e s (asc ''/security/alerts_v2/'' @ enc) body PTriage
      else if a = asc ''xdr_alert_comment'' then
        map_ok_io created
          (graph_post_as e s (asc ''/security/alerts_v2/'' @ enc @ asc ''/comments'') body PTriage)
      else if a = asc ''xdr_incident_update'' then
        graph_patch_as e s (asc ''/security/incidents/'' @ enc) body PTriage
      else
        map_ok_io created
          (graph_post_as e s (asc ''/security/incidents/'' @ enc @ asc ''/comments'') body PTriage))"

definition is_incident :: "ustr \<Rightarrow> bool" where
  "is_incident a \<longleftrightarrow> prefix (asc ''xdr_incident'') a"

definition single_request ::
  "'x env_scheme \<Rightarrow> server \<Rightarrow> triage_input \<Rightarrow> mcp_error + unit \<Rightarrow> mcp_error + mutation_request" where
  "single_request e s i comment_res =
     (case required (ti_id i) ''id'' (ti_action i) of
       Inl err \<Rightarrow> Inl err
     | Inr v \<Rightarrow>
         (let res = validate_required_id v (asc ''id''); idv = unwrap_or [] res
          in Inr (triage_mutation i
               (id_targets (if is_incident (ti_action i) then KIncidentId else KAlertId) idv)
               (triage_params i) (first_error [triage_valid i comment_res, as_tool_error res])
               (\<lambda>_. (Some idv, None)) (single_upstream e s i (encode_path_segment e idv)))))"

section \<open>The dispatcher\<close>

definition triage_request :: "'x env_scheme \<Rightarrow> server \<Rightarrow> triage_input \<Rightarrow> mcp_error + mutation_request" where
  "triage_request e s i =
     (let a = ti_action i in
      if a \<notin> set triage_actions then
        Inl (unknown_action_error (asc ''defender_triage'') a triage_actions)
      else (case triage_unused i of
          Some f \<Rightarrow> Inr (triage_invalid i
            (asc ''field '' @ sq (asc f) @ asc '' is not used by action '' @ sq a))
        | None \<Rightarrow>
            if \<not> has_change i then
              Inr (triage_invalid i (asc ''at least one update field must be specified''))
            else (case triage_comment i of
                Inl err \<Rightarrow> Inl err
              | Inr comment_res \<Rightarrow>
                  if a = asc ''endpoint_alert_batch_update'' then batch_update_request e s i comment_res
                  else single_request e s i comment_res)))"

definition defender_triage ::
  "'x env_scheme \<Rightarrow> server \<Rightarrow> triage_input \<Rightarrow> (mcp_error + call_tool_result) io" where
  "defender_triage e s i =
     run_tool e s Triage (ti_action i) (ti_action i \<in> set triage_actions) PTriage
       (ti_justification i) (triage_request e s i)"

section \<open>The handler's contract\<close>

text \<open>Audience, method, path before and path after the identifier, for an action on one object.\<close>

definition triage_route :: "ustr \<Rightarrow> audience \<times> http_method \<times> string \<times> string" where
  "triage_route a =
     (if a = asc ''xdr_alert_update'' then (Graph, PATCH, ''/security/alerts_v2/'', [])
      else if a = asc ''xdr_alert_comment'' then (Graph, POST, ''/security/alerts_v2/'', ''/comments'')
      else if a = asc ''xdr_incident_update'' then (Graph, PATCH, ''/security/incidents/'', [])
      else if a = asc ''xdr_incident_comment'' then (Graph, POST, ''/security/incidents/'', ''/comments'')
      else (Endpoint, PATCH, ''/api/alerts/'', []))"

text \<open>What the checks leave through.\<close>

definition triage_checked :: "triage_input \<Rightarrow> bool" where
  "triage_checked i \<longleftrightarrow> triage_unused i = None \<and> has_change i \<and>
     is_ok (validate_classification_pair (ti_classification i) (ti_determination i)) \<and>
     (\<forall>a. ti_assigned i = Some a \<longrightarrow> text_ok 256 (asc ''assigned_to'') (trim a)) \<and>
     (\<forall>c. ti_comment i = Some c \<longrightarrow> text_ok 1000 (asc ''comment'') (trim c)) \<and>
     is_ok (triage_status_wire i)"

definition triage_call :: "'x env_scheme \<Rightarrow> server \<Rightarrow> triage_input \<Rightarrow> http_request \<Rightarrow> bool" where
  "triage_call e s i rq \<longleftrightarrow> triage_checked i \<and>
     (if ti_action i = asc ''endpoint_alert_batch_update'' then
        \<exists>ids tk. ti_ids i = Some ids \<and> 1 \<le> length ids \<and> length ids \<le> 500 \<and>
          list_all (\<lambda>v. id_ok (trim v)) ids \<and>
          rq = api_request s Endpoint POST (asc ''/api/alerts/batchUpdate'') [] (JsonBody (batch_body i ids)) tk
      else
        \<exists>v tk. ti_id i = Some v \<and> id_ok (trim v) \<and>
          (case triage_route (ti_action i) of (aud, m, pre, post) \<Rightarrow>
             rq = api_request s aud m (asc pre @ encode_path_segment e (trim v) @ asc post) []
               (JsonBody (single_body i)) tk))"

lemma triage_checkedI:
  assumes "triage_comment i = Inr cr" and "is_ok (triage_valid i cr)"
    and "triage_unused i = None" and "has_change i" and "ti_action i \<in> set triage_actions"
  shows "triage_checked i"
proof -
  have comment: "ti_comment i = Some c \<Longrightarrow> text_ok 1000 (asc ''comment'') (trim c)" for c
    using assms
    by (auto simp: triage_valid_def triage_comment_def triage_unused_def triage_actions_def required_def
        Let_def text_field.accepted_ok split: if_splits)
  with assms show ?thesis
    by (auto simp: triage_checked_def triage_valid_def is_ok_checked text_field.accepted_ok)
qed

lemma map_ok_request:
  "map_ok_io f (request e s aud m path query body cat) =
   map_ok_io (\<lambda>r. f (mr_body r)) (request_mutation e s aud m path query body cat)"
proof -
  have "run_state (map_ok_io f (request e s aud m path query body cat)) w =
      run_state (map_ok_io (\<lambda>r. f (mr_body r)) (request_mutation e s aud m path query body cat)) w" for w
  proof -
    obtain r v where "run_state (request_mutation e s aud m path query body cat) w = (r, v)" by fastforce
    then show ?thesis by (cases r) (auto simp: map_ok_io_def request_def)
  qed
  then show ?thesis by (blast intro: State_Monad.state_ext)
qed

lemmas wrapper_defs = graph_patch_as_def endpoint_patch_as_def graph_post_as_def endpoint_post_as_def

lemma batch_prepared:
  assumes "batch_update_request e s i cr = Inr req" and "ti_action i = asc ''endpoint_alert_batch_update''"
    and "is_ok (triage_valid i cr) \<Longrightarrow> triage_checked i"
  shows "prepared_ok Triage (triage_call e s i) req"
proof -
  from assms(1) obtain ids where v: "ti_ids i = Some ids"
    by (cases "ti_ids i") (auto simp: batch_update_request_def)
  show ?thesis
    using assms v
    by (auto simp: batch_update_request_def triage_mutation_def wrapper_defs
        triage_call_def batch_ok max_alert_batch_def intro!: prepared_mapped)
qed

lemma single_prepared:
  assumes "single_request e s i cr = Inr req" and "ti_action i \<in> set triage_actions"
    and "ti_action i \<noteq> asc ''endpoint_alert_batch_update''"
    and "is_ok (triage_valid i cr) \<Longrightarrow> triage_checked i"
  shows "prepared_ok Triage (triage_call e s i) req"
proof -
  from assms(1) obtain v where v: "ti_id i = Some v"
    by (cases "ti_id i") (auto simp: single_request_def required_def)
  let ?enc = "encode_path_segment e (unwrap_or [] (validate_required_id v (asc ''id'')))"
  have req: "mq_tool req = Triage" "mq_upstream req = single_upstream e s i ?enc"
    "mq_validation req = first_error [triage_valid i cr, as_tool_error (validate_required_id v (asc ''id''))]"
    using assms(1) v by (auto simp: single_request_def required_def Let_def triage_mutation_def)
  have ok: "triage_checked i \<and> id_ok (trim v) \<and> ?enc = encode_path_segment e (trim v)"
    if "is_ok (mq_validation req)"
    using that assms(4) unfolding req(3) by (auto simp: required_id.accepted_ok required_id.unwrapped)
  from assms(2,3) req(2) consider
    (patch) aud pre where "triage_route (ti_action i) = (aud, PATCH, pre, [])"
      "mq_upstream req = request_mutation e s aud PATCH (asc pre @ ?enc) [] (Some (single_body i)) PTriage"
  | (post) pre where "triage_route (ti_action i) = (Graph, POST, pre, ''/comments'')"
      "mq_upstream req = map_ok_io (\<lambda>r. created (mr_body r))
         (request_mutation e s Graph POST (asc pre @ ?enc @ asc ''/comments'') [] (Some (single_body i)) PTriage)"
    unfolding triage_actions_def single_upstream_def triage_route_def wrapper_defs map_ok_request
    by (auto simp: Let_def split: if_splits)
  then show ?thesis
  proof cases
    case patch
    show ?thesis
      by (rule prepared_mutation [OF req(1) patch(2)])
         (use ok v assms(3) patch(1) in \<open>auto simp: triage_call_def\<close>)
  next
    case post
    show ?thesis
      by (rule prepared_mapped [OF req(1) post(2)])
         (use ok v assms(3) post(1) in \<open>auto simp: triage_call_def created_def\<close>)
  qed
qed

lemma triage_prepared:
  assumes "triage_request e s i = Inr req"
  shows "prepared_ok Triage (triage_call e s i) req"
proof (cases "triage_unused i = None \<and> has_change i")
  case True
  with assms obtain cr where act: "ti_action i \<in> set triage_actions" and cr: "triage_comment i = Inr cr"
    and r: "(if ti_action i = asc ''endpoint_alert_batch_update'' then batch_update_request e s i cr
      else single_request e s i cr) = Inr req"
    by (auto simp: triage_request_def Let_def split: if_splits sum.splits)
  have "is_ok (triage_valid i cr) \<Longrightarrow> triage_checked i"
    by (rule triage_checkedI [OF cr]) (use True act in auto)
  with r act batch_prepared [of e s i cr req] single_prepared [of e s i cr req]
  show ?thesis by (auto split: if_splits)
next
  case False
  with assms have "\<exists>msg. req = triage_invalid i msg"
    by (auto simp: triage_request_def Let_def split: if_splits option.splits sum.splits)
  then show ?thesis
    by (auto simp: triage_invalid_def triage_mutation_def prepared_ok_def unreachable_upstream_call)
qed

interpretation triage: tool_handler Triage "triage_request e s i" "triage_call e s i"
  for e :: "'x env_scheme" and s i
  by (rule prepared_handler) (rule triage_prepared)

section \<open>Properties\<close>

text \<open>
  C33. Every API call of \<open>defender_triage\<close> is the documented call of its action, on one valid
  identifier or between one and 500 of them; the fields are those the action uses, at least one
  changes something, and the classification allows the determination. There is at most one call,
  and none unless triage is enabled and the server is not read-only.
\<close>

theorem triage_calls_as_documented:
  assumes "run_state (defender_triage e s i) w = (res, w')" and "trace w' = trace w @ evs"
  shows "length (filter api_call evs) \<le> 1 \<and>
    (\<forall>rq. Sent rq \<in> set evs \<longrightarrow> rq_bearer rq \<noteq> None \<longrightarrow>
       triage_call e s i rq \<and> \<not> read_only (config s) \<and> triage (categories (config s)))"
proof -
  note run = assms(1) [unfolded defender_triage_def]
  have "triage_call e s i rq \<and> \<not> read_only (config s) \<and> triage (categories (config s))"
    if rq: "Sent rq \<in> set evs" "rq_bearer rq \<noteq> None" for rq
  proof -
    from triage.tool_calls [OF run assms(2) rq] obtain req where
      "triage_request e s i = Inr req" "authorised s req" "triage_call e s i rq" by blast
    with triage_prepared [of e s i req] show ?thesis by (simp add: authorised_def prepared_ok_def)
  qed
  with triage.one_tool_call [OF run assms(2)] show ?thesis by blast
qed

definition demo_triage :: triage_input where
  "demo_triage = \<lparr>ti_action = asc ''xdr_incident_update'', ti_justification = Some (asc ''confirmed by the analyst''),
     ti_id = Some (asc ''77''), ti_ids = None, ti_status = Some Active, ti_assigned = None,
     ti_classification = None, ti_determination = None, ti_tags = None, ti_comment = None\<rparr>"

lemma demo_triage_call:
  "\<exists>rq. Sent rq \<in> set (trace (snd (run_state (defender_triage (demo_env (demo_reply 200 []))
     demo_server demo_triage) world1))) \<and> rq_bearer rq \<noteq> None"
proof -
  have "list_ex api_call (trace (snd (run_state (defender_triage (demo_env (demo_reply 200 []))
     demo_server demo_triage) world1)))" by code_simp
  then show ?thesis using some_api_call by blast
qed

lemma triage_calls_as_documented_witness:
  "\<exists>rq. triage_call (demo_env (demo_reply 200 [])) demo_server demo_triage rq"
proof -
  let ?run = "run_state (defender_triage (demo_env (demo_reply 200 [])) demo_server demo_triage) world1"
  have t: "trace (snd ?run) = trace world1 @ trace (snd ?run)" by (simp add: world1_def world0_def)
  from demo_triage_call triage_calls_as_documented [OF prod.collapse [symmetric] t]
  show ?thesis by blast
qed

text \<open>The fields of a body, one by one: the spelling of the API, and no \<open>justification\<close>.\<close>

lemma map_of_opt_str: "map_of (rev (opt_str k v)) x = (if x = asc k then map_option JStr v else None)"
  by (cases v) (simp_all add: opt_str_def)

definition in_wire_spelling :: "triage_input \<Rightarrow> json \<Rightarrow> bool" where
  "in_wire_spelling i body \<longleftrightarrow>
     (let target = triage_target_of (ti_action i) in
      (case ti_status i of
         None \<Rightarrow> jget (asc ''status'') body = None
       | Some st \<Rightarrow> \<exists>t. status_wire st target = Inr t \<and> jget (asc ''status'') body = Some (JStr t)) \<and>
      jget (asc ''classification'') body =
        map_option (\<lambda>c. JStr (classification_wire c target)) (ti_classification i) \<and>
      jget (asc ''determination'') body =
        map_option (\<lambda>d. JStr (determination_wire d target)) (ti_determination i) \<and>
      jget (asc ''justification'') body = None)"

lemma jget_triage_fields:
  assumes "fst ` set ks \<inter> {asc ''status'', asc ''classification'', asc ''determination'', asc ''justification''} = {}"
    and "fst ` set ls \<inter> {asc ''status'', asc ''classification'', asc ''determination'', asc ''justification''} = {}"
    and "is_ok (triage_status_wire i)"
  shows "in_wire_spelling i (jobj (ks @ triage_fields i @ ls))"
proof -
  have none: "map_of (rev ks) x = None" "map_of (rev ls) x = None"
    if "x \<in> {asc ''status'', asc ''classification'', asc ''determination'', asc ''justification''}" for x
    using assms(1,2) that unfolding map_of_eq_None_iff set_rev by blast+
  have st: "(case ti_status i of None \<Rightarrow> triage_status_wire i = Inr None
     | Some st \<Rightarrow> \<exists>t. status_wire st (triage_target_of (ti_action i)) = Inr t \<and> triage_status_wire i = Inr (Some t))"
    using assms(3) by (auto simp: triage_status_wire_def checked_def split: option.splits sum.splits)
  then show ?thesis
    by (auto simp: in_wire_spelling_def Let_def jobj_def map_of_obj_of triage_fields_def map_of_opt_str
        map_add_def none option.map_comp o_def split: option.splits)
qed

text \<open>
  Each API gets the spelling it documents: the status of a call is one the API supports and is
  written its way, as are classification and determination, absent fields stay absent, and the
  caller's justification, which is for the audit log, is never part of a body.
\<close>

theorem triage_body_spelling:
  assumes "run_state (defender_triage e s i) w = (res, w')" and "trace w' = trace w @ evs"
    and "Sent rq \<in> set evs" and "rq_bearer rq \<noteq> None"
  shows "\<exists>body. rq_body rq = JsonBody body \<and> in_wire_spelling i body"
proof -
  from triage.tool_calls [OF assms(1) [unfolded defender_triage_def] assms(2-4)]
  have call: "triage_call e s i rq" by blast
  then have ok: "is_ok (triage_status_wire i)" by (simp add: triage_call_def triage_checked_def)
  have batch: "in_wire_spelling i (batch_body i ids)" for ids
    using jget_triage_fields [of "[(asc ''alertIds'', JArr (map JStr ids))]" "[]" i] ok
    by (simp add: batch_body_def)
  have single: "in_wire_spelling i (single_body i)"
    unfolding single_body_def
    by (rule jget_triage_fields [of "[]", simplified]) (use ok in \<open>auto split: option.splits if_splits\<close>)
  from call batch single show ?thesis
    by (cases "triage_route (ti_action i)")
       (auto simp: triage_call_def api_request_def split: if_splits)
qed

lemma triage_body_spelling_witness:
  "\<exists>body. in_wire_spelling demo_triage body"
proof -
  let ?run = "run_state (defender_triage (demo_env (demo_reply 200 [])) demo_server demo_triage) world1"
  have t: "trace (snd ?run) = trace world1 @ trace (snd ?run)" by (simp add: world1_def world0_def)
  from demo_triage_call triage_body_spelling [OF prod.collapse [symmetric] t] show ?thesis by blast
qed

end
