(* ===== verification/ReadBase.thy ===== *)
theory ReadBase
  imports Client Validation
begin

text \<open>
  What the read-only tools of \<open>src/server.rs\<close> share: the per-action argument decoding that serde
  derives for the input structs, the field renaming of the dispatchers, the GET helpers, the refusal
  of reads whose write-named scope was not requested, and the contract of a read: at most one
  call of an API, a GET without a body, to a path no argument can turn into another one.
\<close>

section \<open>Arguments\<close>

text \<open>
  A field of an input struct: its name, its serde aliases and whether it must be present. The
  dispatchers pass the fields that are present, with the types they were decoded with, so what can
  go wrong is an unknown field, a field given twice (by name and alias) and a missing one.
\<close>

type_synonym arg_field = "string \<times> string list \<times> bool"

definition field_names :: "arg_field \<Rightarrow> ustr list" where
  "field_names f = (case f of (n, aliases, _) \<Rightarrow> map asc (n # aliases))"

definition given :: "arg_field \<Rightarrow> json_map \<Rightarrow> (ustr \<times> json) list" where
  "given f args = filter (\<lambda>(k, _). k \<in> set (field_names f)) args"

definition decodes :: "arg_field list \<Rightarrow> json_map \<Rightarrow> bool" where
  "decodes fs args \<longleftrightarrow>
     list_all (\<lambda>(k, _). list_ex (\<lambda>f. k \<in> set (field_names f)) fs) args \<and>
     list_all (\<lambda>f. case f of (_, _, req) \<Rightarrow>
       length (given f args) \<le> 1 \<and> (req \<longrightarrow> given f args \<noteq> [])) fs"

definition field_value :: "arg_field list \<Rightarrow> json_map \<Rightarrow> string \<Rightarrow> json option" where
  "field_value fs args n =
     (case find (\<lambda>(m, _). m = n) fs of
       Some f \<Rightarrow> (case given f args of [] \<Rightarrow> None | (_, v) # _ \<Rightarrow> Some v)
     | None \<Rightarrow> None)"

type_synonym params = "string \<Rightarrow> json option"

definition p_str :: "params \<Rightarrow> string \<Rightarrow> ustr" where
  "p_str p n = (case p n of Some (JStr t) \<Rightarrow> t | _ \<Rightarrow> [])"

definition p_opt_str :: "params \<Rightarrow> string \<Rightarrow> ustr option" where
  "p_opt_str p n = Option.bind (p n) as_str"

definition p_opt_bool :: "params \<Rightarrow> string \<Rightarrow> bool option" where
  "p_opt_bool p n = Option.bind (p n) as_bool"

definition p_opt_int :: "params \<Rightarrow> string \<Rightarrow> int option" where
  "p_opt_int p n = (case p n of Some (JNum i) \<Rightarrow> Some i | _ \<Rightarrow> None)"

definition p_int :: "params \<Rightarrow> string \<Rightarrow> int \<Rightarrow> int" where
  "p_int p n d = (case p_opt_int p n of Some i \<Rightarrow> i | None \<Rightarrow> d)"

definition default_top :: int where
  "default_top = 50"

definition p_top :: "params \<Rightarrow> int" where
  "p_top p = p_int p ''top'' default_top"

definition p_skip :: "params \<Rightarrow> int" where
  "p_skip p = p_int p ''skip'' 0"

text \<open>The \<open>let x = o.unwrap_or(d)\<close> of the optional paging fields of a dispatcher.\<close>

abbreviation top_or_default :: "int option \<Rightarrow> int" where
  "top_or_default tp \<equiv> (case tp of Some n \<Rightarrow> n | None \<Rightarrow> default_top)"

abbreviation skip_or_default :: "int option \<Rightarrow> int" where
  "skip_or_default skip \<equiv> (case skip of Some n \<Rightarrow> n | None \<Rightarrow> 0)"

text \<open>\<open>rename_arg\<close>: \<open>from\<close> becomes \<open>to\<close>, unless \<open>to\<close> is there already.\<close>

definition rename_arg :: "string \<Rightarrow> string \<Rightarrow> json_map \<Rightarrow> json_map" where
  "rename_arg frm to args =
     (if asc to \<in> fst ` set args then args
      else (case map_of args (asc frm) of
          Some v \<Rightarrow> map_insert (asc to) v (map_remove (asc frm) args)
        | None \<Rightarrow> args))"

definition opt_arg :: "string \<Rightarrow> ('a \<Rightarrow> json) \<Rightarrow> 'a option \<Rightarrow> (ustr \<times> json) list" where
  "opt_arg k f v = (case v of Some a \<Rightarrow> [(asc k, f a)] | None \<Rightarrow> [])"

section \<open>Handlers\<close>

type_synonym read_io = "(mcp_error + call_tool_result) io"

text \<open>\<open>?\<close> on a validation result, and \<open>call_action!\<close>.\<close>

definition valid_then :: "mcp_error + 'a \<Rightarrow> ('a \<Rightarrow> read_io) \<Rightarrow> read_io" where
  "valid_then r k = (case r of Inl err \<Rightarrow> ret (Inl err) | Inr v \<Rightarrow> k v)"

definition call_action ::
  "'x env_scheme \<Rightarrow> string \<Rightarrow> arg_field list \<Rightarrow> (params \<Rightarrow> read_io) \<Rightarrow> json_map \<Rightarrow> read_io" where
  "call_action e ty fs handler args =
     (if decodes fs args then handler (field_value fs args)
      else ret (Inl (invalid_arguments e ty args)))"

fun tool_result :: "call_tool_result + json \<Rightarrow> call_tool_result" where
  "tool_result (Inl err) = err"
| "tool_result (Inr v) = Structured v"

definition answered :: "(call_tool_result + json) io \<Rightarrow> read_io" where
  "answered m = do { r \<leftarrow> m; ret (Inr (tool_result r)) }"

definition simple_get :: "'x env_scheme \<Rightarrow> server \<Rightarrow> ustr \<Rightarrow> read_io" where
  "simple_get e s path = answered (graph_get e s path [])"

definition odata_get :: "'x env_scheme \<Rightarrow> server \<Rightarrow> ustr \<Rightarrow> odata_params \<Rightarrow> read_io" where
  "odata_get e s path od = answered (graph_get_with_odata e s path od)"

definition ep_simple_get :: "'x env_scheme \<Rightarrow> server \<Rightarrow> ustr \<Rightarrow> read_io" where
  "ep_simple_get e s path = answered (endpoint_get e s path [])"

definition ep_odata_get :: "'x env_scheme \<Rightarrow> server \<Rightarrow> ustr \<Rightarrow> odata_params \<Rightarrow> read_io" where
  "ep_odata_get e s path od = answered (endpoint_get_with_odata e s path od)"

definition ep_simple_get_as :: "'x env_scheme \<Rightarrow> server \<Rightarrow> ustr \<Rightarrow> permission_category \<Rightarrow> read_io" where
  "ep_simple_get_as e s path cat = answered (endpoint_get_as e s path [] cat)"

definition ep_odata_get_as ::
  "'x env_scheme \<Rightarrow> server \<Rightarrow> ustr \<Rightarrow> odata_params \<Rightarrow> permission_category \<Rightarrow> read_io" where
  "ep_odata_get_as e s path od cat = answered (endpoint_get_with_odata_as e s path od cat)"

definition no_odata :: odata_params where
  "no_odata = \<lparr>od_top = None, od_skip = None, od_filter = None, od_select = None, od_expand = None,
     od_search = None, od_count = None\<rparr>"

definition ep_odata :: "ustr option \<Rightarrow> int \<Rightarrow> int \<Rightarrow> odata_params" where
  "ep_odata filter_expr tp skip = no_odata\<lparr>od_top := Some tp, od_skip := Some skip, od_filter := filter_expr\<rparr>"

definition from_odata_list :: "params \<Rightarrow> odata_params" where
  "from_odata_list p = \<lparr>od_top = Some (p_top p), od_skip = Some (p_skip p),
     od_filter = p_opt_str p ''filter'', od_select = p_opt_str p ''select'',
     od_expand = p_opt_str p ''expand'', od_search = p_opt_str p ''search'',
     od_count = p_opt_bool p ''count''\<rparr>"

definition from_hostname_odata :: "params \<Rightarrow> odata_params" where
  "from_hostname_odata p = no_odata\<lparr>od_top := Some (p_top p), od_skip := Some (p_skip p),
     od_filter := p_opt_str p ''filter'', od_select := p_opt_str p ''select'',
     od_expand := p_opt_str p ''expand'', od_count := p_opt_bool p ''count''\<rparr>"

definition from_intel_profile_odata :: "params \<Rightarrow> odata_params" where
  "from_intel_profile_odata p = no_odata\<lparr>od_top := Some (p_top p), od_skip := Some (p_skip p),
     od_filter := p_opt_str p ''filter'', od_select := p_opt_str p ''select'',
     od_expand := p_opt_str p ''expand''\<rparr>"

definition from_article_odata :: "params \<Rightarrow> odata_params" where
  "from_article_odata p = no_odata\<lparr>od_top := Some (p_top p), od_skip := Some (p_skip p),
     od_select := p_opt_str p ''select''\<rparr>"

definition from_cert_related_odata :: "params \<Rightarrow> odata_params" where
  "from_cert_related_odata p = no_odata\<lparr>od_top := Some (p_top p), od_skip := Some (p_skip p),
     od_count := p_opt_bool p ''count''\<rparr>"

definition look_back_query :: "int option \<Rightarrow> (ustr \<times> ustr) list" where
  "look_back_query h = [(asc ''lookBackHours'', show_int (case h of Some n \<Rightarrow> n | None \<Rightarrow> 720))]"

type_synonym 'x read_handler = "'x env_scheme \<Rightarrow> server \<Rightarrow> params \<Rightarrow> read_io"

named_theorems handlers "definitions of the read handlers"

text \<open>The inputs several actions share, and the \<open>match\<close> of a dispatcher on its action.\<close>

definition odata_list_input :: "arg_field list" where
  "odata_list_input = [(''top'', [], False), (''skip'', [], False), (''filter'', [], False),
     (''select'', [], False), (''expand'', [], False), (''search'', [], False), (''count'', [], False)]"

definition endpoint_odata_input :: "arg_field list" where
  "endpoint_odata_input = [(''filter'', [], False), (''top'', [], False), (''skip'', [], False)]"

fun match_action :: "(string \<times> 'a) list \<Rightarrow> 'a \<Rightarrow> ustr \<Rightarrow> 'a" where
  "match_action [] other a = other"
| "match_action ((n, h) # rows) other a = (if a = asc n then h else match_action rows other a)"

section \<open>Write-named reads\<close>

text \<open>Under delegated \<open>--read-only\<close> the scopes some reads need were not requested.\<close>

definition write_named_scope :: "ustr \<Rightarrow> string option" where
  "write_named_scope action =
     (if action \<in> set (map asc [''domain_related_machines'', ''file_related_machines'',
           ''user_related_machines'', ''find_by_ip'', ''download_quarantined_file'',
           ''download_live_response_result'', ''live_response_get_result''])
        then Some ''Machine.ReadWrite''
      else if action \<in> set (map asc [''file_related_alerts'', ''machine_alerts'',
           ''get_investigation_package_sas_url'', ''download_investigation_package'',
           ''investigation_list'', ''investigation_get''])
        then Some ''Alert.ReadWrite''
      else if action = asc ''custom_indicator_list'' then Some ''Ti.ReadWrite''
      else if action = asc ''library_file_list'' then Some ''Library.Manage''
      else None)"

definition user_auth :: "server_config \<Rightarrow> bool" where
  "user_auth c = (case auth c of UserAuth _ \<Rightarrow> True | AppAuth \<Rightarrow> False)"

definition check_scope_not_requested :: "server \<Rightarrow> ustr \<Rightarrow> call_tool_result option" where
  "check_scope_not_requested s action =
     (if user_auth (config s) \<and> read_only (config s)
      then map_option (\<lambda>sc. scope_not_requested action (asc sc)) (write_named_scope action)
      else None)"

definition unless_blocked :: "server \<Rightarrow> ustr \<Rightarrow> read_io \<Rightarrow> read_io" where
  "unless_blocked s action m =
     (case check_scope_not_requested s action of Some blocked \<Rightarrow> ret (Inr blocked) | None \<Rightarrow> m)"

text \<open>Fields of the dispatcher input that an action refuses itself, in order.\<close>

fun refusing :: "ustr \<Rightarrow> (string \<times> bool) list \<Rightarrow> read_io \<Rightarrow> read_io" where
  "refusing action [] m = m"
| "refusing action ((f, present) # fs) m =
     (if present then ret (Inl (invalid_params
        (asc ''field '' @ sq (asc f) @ asc '' is not used by action '' @ sq action)))
      else refusing action fs m)"

section \<open>Paths\<close>

text \<open>
  A path is safe when every segment is non-empty, is no dot segment and holds only characters that
  cannot end the path or the segment.
\<close>

definition plain :: "uchar \<Rightarrow> bool" where
  "plain c \<longleftrightarrow> unreserved c \<or> c \<in> set (asc ''%()=,:+'') \<or> c = 39"

definition seg_ok :: "ustr \<Rightarrow> bool" where
  "seg_ok t \<longleftrightarrow> t \<noteq> [] \<and> t \<noteq> asc ''.'' \<and> t \<noteq> asc ''..'' \<and> list_all plain t"

fun safe_path :: "ustr \<Rightarrow> bool" where
  "safe_path [] = False"
| "safe_path (c # r) = (c = 47 \<and> list_all seg_ok (split_chars (\<lambda>c. c = 47) r))"

text \<open>A path up to a slash, and what may follow a segment.\<close>

fun open_path :: "ustr \<Rightarrow> bool" where
  "open_path [] = False"
| "open_path (c # r) =
     (c = 47 \<and> r \<noteq> [] \<and> last r = 47 \<and> list_all seg_ok (split_chars (\<lambda>c. c = 47) (butlast r)))"

definition tail_path :: "ustr \<Rightarrow> bool" where
  "tail_path q \<longleftrightarrow> q = [] \<or> safe_path q"

lemma seg_free: "seg_ok t \<Longrightarrow> \<forall>c\<in>set t. c \<noteq> 47"
  by (auto simp: seg_ok_def list_all_iff plain_def unreserved_def asc_def char_class)

lemma open_path_split: "open_path a \<Longrightarrow> \<exists>r. a = 47 # r @ [47] \<and> list_all seg_ok (split_chars (\<lambda>c. c = 47) r)"
  by (cases a) (auto intro!: exI [of _ "butlast (tl a)"], metis append_butlast_last_id)

lemma safe_join:
  assumes "open_path a" and "seg_ok t" and "tail_path q"
  shows "safe_path (a @ t @ q)"
proof -
  from open_path_split [OF assms(1)] obtain r where
    r: "a = 47 # r @ [47]" "list_all seg_ok (split_chars (\<lambda>c. c = 47) r)" by blast
  from assms(3) consider "q = []" | q' where "q = 47 # q'" "list_all seg_ok (split_chars (\<lambda>c. c = 47) q')"
    unfolding tail_path_def by (cases q) auto
  then show ?thesis
    using r assms(2) seg_free [OF assms(2)]
    by cases (auto simp: split_chars_sep split_chars_single)
qed

lemma safe_end: "open_path a \<Longrightarrow> seg_ok t \<Longrightarrow> safe_path (a @ t)"
  using safe_join [of a t "[]"] by (simp add: tail_path_def)

lemma tail_join: "open_path a \<Longrightarrow> seg_ok t \<Longrightarrow> tail_path (a @ t)"
  by (simp add: tail_path_def safe_end)

text \<open>Validated identifiers, encoded, are segments.\<close>

definition scalars :: "ustr \<Rightarrow> bool" where
  "scalars t \<longleftrightarrow> list_all is_scalar t"

lemma scalars_trim: "scalars t \<Longrightarrow> scalars (trim t)"
  using set_trim by (auto simp: scalars_def list_all_iff)

lemma seg_encoded:
  assumes "percent_documented l" and "scalars t" and "t \<noteq> []" "t \<noteq> asc ''.''" "t \<noteq> asc ''..''"
  shows "seg_ok (encode_path_segment l t)"
  using encode_one_segment [OF assms(1) _ assms(3-5)] assms(2)
  by (auto simp: one_segment_def seg_ok_def scalars_def list_all_iff plain_def asc_def char_class)

named_theorems segments

lemma seg_id [segments]:
  "percent_documented l \<Longrightarrow> scalars v \<Longrightarrow> validate_required_id v f = Inr t \<Longrightarrow> seg_ok (encode_path_segment l t)"
  by (intro seg_encoded) (auto simp: required_id.accepts id_ok_def scalars_trim)

lemma seg_hostname [segments]:
  "percent_documented l \<Longrightarrow> scalars v \<Longrightarrow> validate_hostname v = Inr t \<Longrightarrow> seg_ok (encode_path_segment l t)"
  by (intro seg_encoded) (auto simp: hostname.accepts hostname_ok_def scalars_trim)

lemma seg_cve [segments]:
  "percent_documented l \<Longrightarrow> scalars v \<Longrightarrow> validate_cve_id l v = Inr t \<Longrightarrow> seg_ok (encode_path_segment l t)"
  by (intro seg_encoded) (auto simp: cve_id.accepts cve_re_def scalars_trim)

lemma hexdigit_scalar: "is_ascii_hexdigit c \<Longrightarrow> is_scalar c"
  by (auto simp: is_scalar_def char_class)

lemma hex_scalars: "hex_ok n t \<Longrightarrow> scalars t"
  by (auto simp: hex_ok_def scalars_def list_all_iff hexdigit_scalar)

lemma hex_plain: "hex_ok n t \<Longrightarrow> 0 < n \<Longrightarrow> t \<noteq> [] \<and> t \<noteq> asc ''.'' \<and> t \<noteq> asc ''..''"
  by (auto simp: hex_ok_def asc_def is_ascii_hexdigit_def is_ascii_digit_def)

lemma seg_hex:
  "percent_documented l \<Longrightarrow> hex_ok n t \<Longrightarrow> 0 < n \<Longrightarrow> seg_ok (encode_path_segment l t)"
  using hex_plain [of n t] by (intro seg_encoded) (auto simp: hex_scalars)

lemma seg_sha1 [segments]:
  "percent_documented l \<Longrightarrow> validate_sha1 v = Inr t \<Longrightarrow> seg_ok (encode_path_segment l t)"
  by (rule seg_hex [of l 40]) (auto simp: sha1.accepts)

lemma seg_machine [segments]:
  "percent_documented l \<Longrightarrow> validate_machine_id v = Inr t \<Longrightarrow> seg_ok (encode_path_segment l t)"
  by (rule seg_hex [of l 40]) (auto simp: machine_id.accepts)

lemma seg_file_hash [segments]:
  "percent_documented l \<Longrightarrow> validate_file_hash v = Inr t \<Longrightarrow> seg_ok (encode_path_segment l t)"
  by (auto simp: file_hash.accepts intro: seg_hex)

lemma ip_scalar: "ip_char c \<Longrightarrow> is_scalar c"
  by (auto simp: ip_char_def hexdigit_scalar) (auto simp: is_scalar_def)

lemma parse_ip_dots: "parse_ip (asc ''.'') = None" "parse_ip (asc ''..'') = None"
  by code_simp+

lemma seg_ip [segments]:
  "percent_documented l \<Longrightarrow> validate_ip_address v = Inr t \<Longrightarrow> seg_ok (encode_path_segment l t)"
proof (rule seg_encoded)
  assume "validate_ip_address v = Inr t"
  then obtain a where a: "parse_ip t = Some a" by (auto simp: ip_address.accepts)
  then show "scalars t" using parse_ip_chars ip_scalar by (auto simp: scalars_def list_all_iff)
  show "t \<noteq> []" "t \<noteq> asc ''.''" "t \<noteq> asc ''..''" using a parse_ip_dots by auto
qed

lemma seg_action [segments]:
  "percent_documented l \<Longrightarrow> validate_action_id v = Inr t \<Longrightarrow> seg_ok (encode_path_segment l t)"
  by (intro seg_encoded)
     (auto simp: action_id.accepts action_id_ok_def scalars_def list_all_iff is_scalar_def asc_def
       is_ascii_alphanumeric_def is_ascii_digit_def is_ascii_alphabetic_def dest: alphanumeric_ascii)

section \<open>The contract of a read\<close>

text \<open>
  \<open>within n E m\<close>: running \<open>m\<close> adds only events of \<open>E\<close>, at most \<open>n\<close> of them requests with an access
  token. \<open>reading n P m\<close>: the events are requests, those with an access token satisfy \<open>P\<close>: no prompt,
  no audit record, no file. Both compose along the handlers' combinators.
\<close>

definition within :: "nat \<Rightarrow> (event \<Rightarrow> bool) \<Rightarrow> 'a io \<Rightarrow> bool" where
  "within n E m \<longleftrightarrow> (\<forall>w r w'. run_state m w = (r, w') \<longrightarrow>
     (\<exists>evs. trace w' = trace w @ evs \<and> list_all E evs \<and> length (filter api_call evs) \<le> n))"

fun read_event :: "(http_request \<Rightarrow> bool) \<Rightarrow> event \<Rightarrow> bool" where
  "read_event P (Sent rq) = (rq_bearer rq = None \<or> P rq)"
| "read_event P _ = False"

abbreviation reading :: "nat \<Rightarrow> (http_request \<Rightarrow> bool) \<Rightarrow> 'a io \<Rightarrow> bool" where
  "reading n P \<equiv> within n (read_event P)"

named_theorems reading_rules "the contract of the handlers' combinators and of the handlers"

lemma withinD:
  assumes "within n E m" and "run_state m w = (r, w')" and "trace w' = trace w @ evs"
  shows "list_all E evs \<and> length (filter api_call evs) \<le> n"
  using assms unfolding within_def by (metis same_append_eq)

lemma read_event_sends: "read_event P ev \<Longrightarrow> sends ev"
  by (cases ev) auto

lemma readingD:
  assumes "reading n P m" and "run_state m w = (r, w')" and "trace w' = trace w @ evs"
  shows "list_all sends evs \<and> length (filter api_call evs) \<le> n \<and>
    (\<forall>rq. Sent rq \<in> set evs \<longrightarrow> rq_bearer rq \<noteq> None \<longrightarrow> P rq)"
proof -
  from withinD [OF assms] have E: "list_all (read_event P) evs" "length (filter api_call evs) \<le> n" by auto
  from E(1) have "list_all sends evs" by (rule list.pred_mono_strong) (rule read_event_sends)
  moreover have "P rq" if "Sent rq \<in> set evs" "rq_bearer rq \<noteq> None" for rq
    using E(1) that by (auto simp: list_all_iff dest!: bspec)
  ultimately show ?thesis using E(2) by blast
qed

lemma reading_ret: "within n E (ret a)"
  by (simp add: within_def)

lemma reading_bind:
  assumes m: "within n E m" and f: "\<And>a. within k E (f a)"
  shows "within (n + k) E (do { a \<leftarrow> m; f a })"
  unfolding within_def
proof (intro allI impI)
  fix w b w'' assume "run_state (do { a \<leftarrow> m; f a }) w = (b, w'')"
  then obtain a w' where 1: "run_state m w = (a, w')" and 2: "run_state (f a) w' = (b, w'')"
    by (auto split: prod.splits)
  from m 1 obtain xs where xs: "trace w' = trace w @ xs" unfolding within_def by blast
  from f [of a] 2 obtain ys where ys: "trace w'' = trace w' @ ys" unfolding within_def by blast
  from withinD [OF m 1 xs] withinD [OF f 2 ys] xs ys
  show "\<exists>evs. trace w'' = trace w @ evs \<and> list_all E evs \<and> length (filter api_call evs) \<le> n + k"
    by (intro exI [of _ "xs @ ys"]) auto
qed

lemma reading_then_ret: "within n E m \<Longrightarrow> within n E (do { a \<leftarrow> m; ret (f a) })"
  using reading_bind [of n E m 0 "\<lambda>a. ret (f a)"] by (simp add: reading_ret)

lemma within_mono: "within n E m \<Longrightarrow> n \<le> k \<Longrightarrow> (\<And>ev. E ev \<Longrightarrow> F ev) \<Longrightarrow> within k F m"
  unfolding within_def by (meson le_trans list.pred_mono_strong)

lemma reading_if: "(c \<Longrightarrow> within n E a) \<Longrightarrow> (\<not> c \<Longrightarrow> within n E b) \<Longrightarrow> within n E (if c then a else b)"
  by simp

lemma reading_valid_then:
  "(\<And>v. r = Inr v \<Longrightarrow> within n E (k v)) \<Longrightarrow> within n E (valid_then r k)"
  by (cases r) (simp_all add: valid_then_def reading_ret)

lemma reading_unless_blocked: "within n E m \<Longrightarrow> within n E (unless_blocked s a m)"
  by (simp add: unless_blocked_def reading_ret split: option.split)

lemma reading_refusing: "within n E m \<Longrightarrow> within n E (refusing a fs m)"
  by (induction a fs m rule: refusing.induct) (simp_all add: reading_ret)

lemma reading_authenticated:
  assumes quiet: "\<And>resp v x v'. run_state (k resp) v = (x, v') \<Longrightarrow> trace v' = trace v"
    and P: "\<And>t. P (rq t)"
  shows "reading 1 P (authenticated e s aud rq path k)"
  unfolding within_def
proof (intro allI impI)
  fix w r w' assume run: "run_state (authenticated e s aud rq path k) w = (r, w')"
  have "\<exists>evs. trace w' = trace w @ evs \<and> one_upstream evs"
    using run quiet by (rule authenticated_one_upstream)
  then obtain evs where
    evs: "trace w' = trace w @ evs" "list_all sends evs" "length (filter api_call evs) \<le> 1"
    unfolding one_upstream_def by blast
  have "read_event P ev" if ev: "ev \<in> set evs" for ev
  proof (cases ev)
    case (Sent q)
    have "calls_only (authenticated e s aud rq path k) P" using quiet P by (rule calls_only_authenticated)
    with run evs(1) ev Sent show ?thesis unfolding calls_only_def by (cases "rq_bearer q = None") (simp, metis read_event.simps(1))
  qed (use evs(2) ev in \<open>auto simp: list_all_iff\<close>)
  with evs show "\<exists>evs. trace w' = trace w @ evs \<and> list_all (read_event P) evs \<and>
      length (filter api_call evs) \<le> 1"
    by (auto simp: list_all_iff)
qed

lemma reading_request:
  assumes "\<And>t. P (api_request s aud m path query (case body of Some b \<Rightarrow> JsonBody b | None \<Rightarrow> NoBody) t)"
  shows "reading 1 P (request e s aud m path query body cat)"
  unfolding request_def request_mutation_def
  by (intro reading_then_ret reading_authenticated) (use assms in \<open>auto dest: read_json_quiet\<close>)

lemma reading_post_explained:
  assumes "\<And>t. P (api_request s aud POST path [] (JsonBody body) t)"
  shows "reading 1 P (post_explained e s aud path body cat)"
  unfolding post_explained_def
  by (intro reading_authenticated) (use assms in \<open>auto split: if_splits prod.splits dest: read_json_quiet\<close>)

section \<open>Where reads go\<close>

definition max_top :: "audience \<Rightarrow> int" where
  "max_top aud = (case aud of Graph \<Rightarrow> 1000 | Endpoint \<Rightarrow> 10000)"

definition bounded_query :: "audience \<Rightarrow> (ustr \<times> ustr) list \<Rightarrow> bool" where
  "bounded_query aud = list_all (\<lambda>(k, v).
     (k = asc ''$top'' \<longrightarrow> v \<in> show_int ` {1..max_top aud}) \<and>
     (k = asc ''$skip'' \<longrightarrow> v \<in> show_int ` {0..100000}) \<and>
     (k = asc ''lookBackHours'' \<longrightarrow> v \<in> show_int ` {1..720}))"

text \<open>
  A read of one of the resources \<open>roots\<close>: a GET without a body to a safe path under a root of that
  API, with its paging within bounds.
\<close>

definition under :: "(audience \<times> string) list \<Rightarrow> audience \<Rightarrow> ustr \<Rightarrow> bool" where
  "under roots aud path \<longleftrightarrow> list_ex (\<lambda>(a, root). a = aud \<and> prefix (asc root) path) roots"

definition reads_from :: "server \<Rightarrow> (audience \<times> string) list \<Rightarrow> http_request \<Rightarrow> bool" where
  "reads_from s roots rq \<longleftrightarrow> rq_method rq = GET \<and> rq_body rq = NoBody \<and>
     (\<exists>aud path. rq_url rq = base_url s aud @ path \<and> safe_path path \<and> under roots aud path \<and>
        bounded_query aud (rq_query rq))"

definition fixed_path :: "(audience \<times> string) list \<Rightarrow> audience \<Rightarrow> ustr \<Rightarrow> bool" where
  "fixed_path roots aud p \<longleftrightarrow> safe_path p \<and> under roots aud p"

definition rooted :: "(audience \<times> string) list \<Rightarrow> audience \<Rightarrow> ustr \<Rightarrow> bool" where
  "rooted roots aud a \<longleftrightarrow> open_path a \<and> under roots aud a"

lemma under_append: "under roots aud a \<Longrightarrow> under roots aud (a @ b)"
  unfolding under_def by (induction roots) auto

lemma fixed_segment: "rooted roots aud a \<Longrightarrow> seg_ok t \<Longrightarrow> fixed_path roots aud (a @ t)"
  by (simp add: rooted_def fixed_path_def under_append safe_end)

lemma fixed_inner:
  "rooted roots aud a \<Longrightarrow> seg_ok t \<Longrightarrow> tail_path q \<Longrightarrow> fixed_path roots aud (a @ t @ q)"
  by (simp add: rooted_def fixed_path_def under_append safe_join)

lemmas path_rules = fixed_inner fixed_segment

lemma reads_fromI:
  "fixed_path roots aud path \<Longrightarrow> bounded_query aud q \<Longrightarrow>
     reads_from s roots (api_request s aud GET path q NoBody t)"
  by (auto simp: reads_from_def fixed_path_def api_request_def)

lemma bounded_Nil: "bounded_query aud []"
  by (simp add: bounded_query_def)

text \<open>Paging parameters that a validator has accepted.\<close>

definition paged :: "audience \<Rightarrow> odata_params \<Rightarrow> bool" where
  "paged aud od \<longleftrightarrow>
     (case od_top od of Some n \<Rightarrow> 1 \<le> n \<and> n \<le> max_top aud | None \<Rightarrow> True) \<and>
     (case od_skip od of Some n \<Rightarrow> 0 \<le> n \<and> n \<le> 100000 | None \<Rightarrow> True)"

lemma dollar_neq:
  "asc ''$filter'' \<noteq> asc ''$top''" "asc ''$select'' \<noteq> asc ''$top''" "asc ''$expand'' \<noteq> asc ''$top''"
  "asc ''$search'' \<noteq> asc ''$top''" "asc ''$count'' \<noteq> asc ''$top''" "asc ''$skip'' \<noteq> asc ''$top''"
  "asc ''$filter'' \<noteq> asc ''$skip''" "asc ''$select'' \<noteq> asc ''$skip''" "asc ''$expand'' \<noteq> asc ''$skip''"
  "asc ''$search'' \<noteq> asc ''$skip''" "asc ''$count'' \<noteq> asc ''$skip''" "asc ''$top'' \<noteq> asc ''$skip''"
  "asc ''$filter'' \<noteq> asc ''lookBackHours''" "asc ''$select'' \<noteq> asc ''lookBackHours''"
  "asc ''$expand'' \<noteq> asc ''lookBackHours''" "asc ''$search'' \<noteq> asc ''lookBackHours''"
  "asc ''$count'' \<noteq> asc ''lookBackHours''" "asc ''$skip'' \<noteq> asc ''lookBackHours''"
  "asc ''$top'' \<noteq> asc ''lookBackHours''"
  by code_simp+

lemma bounded_append: "bounded_query aud (a @ b) \<longleftrightarrow> bounded_query aud a \<and> bounded_query aud b"
  by (simp add: bounded_query_def)

lemma bounded_nonempty:
  "asc k \<noteq> asc ''$top'' \<Longrightarrow> asc k \<noteq> asc ''$skip'' \<Longrightarrow> asc k \<noteq> asc ''lookBackHours'' \<Longrightarrow>
     bounded_query aud (nonempty_pair k v)"
  by (simp add: bounded_query_def nonempty_pair_def split: option.split)

lemma bounded_top: "1 \<le> n \<Longrightarrow> n \<le> max_top aud \<Longrightarrow> bounded_query aud [(asc ''$top'', show_int n)]"
  using dollar_neq by (simp add: bounded_query_def)

lemma bounded_skip: "0 \<le> n \<Longrightarrow> n \<le> 100000 \<Longrightarrow> bounded_query aud [(asc ''$skip'', show_int n)]"
  using dollar_neq by (simp add: bounded_query_def)

lemma bounded_count: "bounded_query aud [(asc ''$count'', v)]"
  using dollar_neq by (simp add: bounded_query_def)

lemma bounded_paged: "paged aud od \<Longrightarrow> bounded_query aud (to_query_vec od)"
  unfolding to_query_vec_def bounded_append paged_def
  by (intro conjI bounded_nonempty dollar_neq)
     (auto simp: bounded_Nil intro: bounded_top bounded_skip bounded_count split: option.splits)

lemma paged_graph:
  "validate_odata_params (Some tp) (Some skip) = Inr u \<Longrightarrow>
     od_top od \<in> {None, Some tp} \<Longrightarrow> od_skip od \<in> {None, Some skip} \<Longrightarrow> paged Graph od"
  by (auto simp: validator_defs paged_def max_top_def split: if_splits option.splits sum.splits)

lemma paged_endpoint:
  "validate_endpoint_odata_params (Some tp) (Some skip) = Inr u \<Longrightarrow>
     od_top od \<in> {None, Some tp} \<Longrightarrow> od_skip od \<in> {None, Some skip} \<Longrightarrow> paged Endpoint od"
  by (auto simp: validator_defs paged_def max_top_def split: if_splits option.splits sum.splits)

lemmas odata_defs = from_odata_list_def from_hostname_odata_def from_intel_profile_odata_def
  from_article_odata_def from_cert_related_odata_def no_odata_def ep_odata_def

lemma paged_forms [reading_rules]:
  "validate_odata_params (Some (p_top p)) (Some (p_skip p)) = Inr u \<Longrightarrow> paged Graph (from_odata_list p)"
  "validate_odata_params (Some (p_top p)) (Some (p_skip p)) = Inr u \<Longrightarrow> paged Graph (from_hostname_odata p)"
  "validate_odata_params (Some (p_top p)) (Some (p_skip p)) = Inr u \<Longrightarrow> paged Graph (from_intel_profile_odata p)"
  "validate_odata_params (Some (p_top p)) (Some (p_skip p)) = Inr u \<Longrightarrow> paged Graph (from_article_odata p)"
  "validate_odata_params (Some (p_top p)) (Some (p_skip p)) = Inr u \<Longrightarrow> paged Graph (from_cert_related_odata p)"
  "validate_endpoint_odata_params (Some (p_top p)) (Some (p_skip p)) = Inr u \<Longrightarrow>
     paged Endpoint (ep_odata f (p_top p) (p_skip p))"
  by (erule paged_graph paged_endpoint, simp add: odata_defs, simp add: odata_defs)+

lemma paged_select [reading_rules]:
  "validate_odata_params (Some (p_top p)) (Some (p_skip p)) = Inr u \<Longrightarrow>
     paged Graph (no_odata\<lparr>od_top := Some (p_top p), od_skip := Some (p_skip p), od_select := v\<rparr>)"
  by (erule paged_graph, simp add: odata_defs, simp add: odata_defs)

lemma paged_expand [reading_rules]: "paged aud (no_odata\<lparr>od_expand := v\<rparr>)"
  by (simp add: paged_def no_odata_def)

lemma tag_neq:
  "asc ''tag'' \<noteq> asc ''$top''" "asc ''tag'' \<noteq> asc ''$skip''" "asc ''tag'' \<noteq> asc ''lookBackHours''"
  "asc ''useStartsWithFilter'' \<noteq> asc ''$top''" "asc ''useStartsWithFilter'' \<noteq> asc ''$skip''"
  "asc ''useStartsWithFilter'' \<noteq> asc ''lookBackHours''"
  by code_simp+

lemma bounded_tag [reading_rules]:
  "bounded_query aud [(asc ''tag'', t), (asc ''useStartsWithFilter'', b)]"
  by (simp add: bounded_query_def tag_neq)

lemma paged_endpoint_default:
  "validate_endpoint_odata_params tp skip = Inr u \<Longrightarrow>
     paged Endpoint (ep_odata f (top_or_default tp) (skip_or_default skip))"
  by (auto simp: validator_defs paged_def max_top_def ep_odata_def no_odata_def default_top_def
      split: if_splits option.splits sum.splits)

lemma bounded_look_back:
  "validate_look_back_hours h = Inr u \<Longrightarrow>
     bounded_query aud (look_back_query h)"
  using dollar_neq(18,19)
  by (auto simp: validator_defs bounded_query_def look_back_query_def split: if_splits option.splits)

text \<open>The GET helpers keep the contract on a fixed path with a bounded query.\<close>

lemma reading_simple_get [reading_rules]:
  "fixed_path roots Graph path \<Longrightarrow> reading 1 (reads_from s roots) (simple_get e s path)"
  unfolding simple_get_def answered_def graph_get_def graph_get_as_def
  by (intro reading_then_ret reading_request) (simp add: reads_fromI bounded_Nil)

lemma reading_odata_get [reading_rules]:
  "fixed_path roots Graph path \<Longrightarrow> paged Graph od \<Longrightarrow> reading 1 (reads_from s roots) (odata_get e s path od)"
  unfolding odata_get_def answered_def graph_get_with_odata_def graph_get_with_odata_as_def
  by (intro reading_then_ret reading_request) (simp add: reads_fromI bounded_paged)

lemma reading_endpoint_get [reading_rules]:
  "fixed_path roots Endpoint path \<Longrightarrow> bounded_query Endpoint q \<Longrightarrow>
     reading 1 (reads_from s roots) (endpoint_get_as e s path q cat)"
  unfolding endpoint_get_as_def by (intro reading_request) (simp add: reads_fromI)

lemma reading_endpoint_query [reading_rules]:
  "fixed_path roots Endpoint path \<Longrightarrow> bounded_query Endpoint q \<Longrightarrow>
     reading 1 (reads_from s roots) (answered (endpoint_get e s path q))"
  unfolding answered_def endpoint_get_def by (intro reading_then_ret reading_endpoint_get)

lemma reading_ep_simple_get_as [reading_rules]:
  "fixed_path roots Endpoint path \<Longrightarrow> reading 1 (reads_from s roots) (ep_simple_get_as e s path cat)"
  unfolding ep_simple_get_as_def answered_def
  by (intro reading_then_ret reading_endpoint_get bounded_Nil)

lemma reading_ep_simple_get [reading_rules]:
  "fixed_path roots Endpoint path \<Longrightarrow> reading 1 (reads_from s roots) (ep_simple_get e s path)"
  unfolding ep_simple_get_def by (intro reading_endpoint_query bounded_Nil)

lemma reading_ep_odata_get_as [reading_rules]:
  "fixed_path roots Endpoint path \<Longrightarrow> paged Endpoint od \<Longrightarrow>
     reading 1 (reads_from s roots) (ep_odata_get_as e s path od cat)"
  unfolding ep_odata_get_as_def answered_def endpoint_get_with_odata_as_def
  by (intro reading_then_ret reading_request) (simp add: reads_fromI bounded_paged)

lemma reading_ep_odata_get [reading_rules]:
  "fixed_path roots Endpoint path \<Longrightarrow> paged Endpoint od \<Longrightarrow>
     reading 1 (reads_from s roots) (ep_odata_get e s path od)"
  unfolding ep_odata_get_def answered_def endpoint_get_with_odata_def endpoint_get_with_odata_as_def
  by (intro reading_then_ret reading_request) (simp add: reads_fromI bounded_paged)

declare reading_valid_then [reading_rules] reading_ret [reading_rules] tail_join [reading_rules]
  bounded_look_back [reading_rules] paged_endpoint_default [reading_rules]

lemma reading_now: "within 0 E (now e)"
  by (simp add: within_def)

lemma reading_clock:
  "(\<And>t. within n E (f t)) \<Longrightarrow> within n E (do { t \<leftarrow> (if c then now e else ret 0); f t })"
  using reading_bind [of 0 E "if c then now e else ret 0" n f] by (simp add: reading_ret reading_now)

section \<open>Arguments of a read\<close>

text \<open>The strings among the arguments are texts: sequences of Unicode scalar values.\<close>

definition text_args :: "json_map \<Rightarrow> bool" where
  "text_args args \<longleftrightarrow> list_all (\<lambda>(k, v). case v of JStr t \<Rightarrow> scalars t | _ \<Rightarrow> True) args"

definition text_params :: "params \<Rightarrow> bool" where
  "text_params p \<longleftrightarrow> (\<forall>n. scalars (p_str p n))"

lemma text_paramsD [reading_rules]: "text_params p \<Longrightarrow> scalars (p_str p n)"
  by (simp add: text_params_def)

lemma text_fields: "text_args args \<Longrightarrow> text_params (field_value fs args)"
proof (unfold text_params_def, intro allI)
  fix n assume t: "text_args args"
  show "scalars (p_str (field_value fs args) n)"
  proof (cases "\<exists>f v r. find (\<lambda>(m, _). m = n) fs = Some f \<and> given f args = v # r")
    case True
    then obtain f k v r where f: "find (\<lambda>(m, _). m = n) fs = Some f" "given f args = (k, v) # r" by fastforce
    then have "(k, v) \<in> set (given f args)" by simp
    then have "(k, v) \<in> set args" by (auto simp: given_def)
    with t f show ?thesis
      by (auto simp: text_args_def list_all_iff p_str_def field_value_def scalars_def split: json.splits)
  next
    case False
    then have "field_value fs args n = None"
      by (auto simp: field_value_def split: option.splits list.splits)
    then show ?thesis by (simp add: p_str_def scalars_def)
  qed
qed

lemma reading_call_action [reading_rules]:
  "text_args args \<Longrightarrow> (\<And>p. text_params p \<Longrightarrow> within n E (h p)) \<Longrightarrow> within n E (call_action e ty fs h args)"
  by (simp add: call_action_def reading_ret text_fields)

lemma set_map_insert: "set (map_insert k v m) \<subseteq> insert (k, v) (set m)"
  by (induction k v m rule: map_insert.induct) auto

lemma set_obj_of: "set (obj_of kvs) \<subseteq> set kvs"
proof (induction kvs rule: obj_of.induct)
  case (2 k v kvs)
  then show ?case using set_map_insert [of k v "obj_of kvs"] by auto
qed simp

lemma text_subset: "text_args m \<Longrightarrow> set m' \<subseteq> set m \<Longrightarrow> text_args m'"
  by (auto simp: text_args_def list_all_iff)

lemma text_obj_of: "text_args kvs \<Longrightarrow> text_args (obj_of kvs)"
  by (rule text_subset [OF _ set_obj_of])

lemma text_rename: "text_args args \<Longrightarrow> text_args (rename_arg frm to args)"
proof -
  assume t: "text_args args"
  show ?thesis
  proof (cases "asc to \<in> fst ` set args")
    case False
    have "set (map_insert (asc to) v (map_remove (asc frm) args)) \<subseteq> insert (asc to, v) (set args)" for v
      using set_map_insert [of "asc to" v "map_remove (asc frm) args"] by (auto simp: map_remove_def)
    with t False show ?thesis
      unfolding rename_arg_def text_args_def list_all_iff
      by (auto split: option.splits dest!: map_of_SomeD) blast+
  qed (use t in \<open>simp add: rename_arg_def\<close>)
qed

lemma text_opt_arg: "text_args (opt_arg k JStr v) \<longleftrightarrow> (\<forall>t. v = Some t \<longrightarrow> scalars t)"
  "text_args (opt_arg k JNum n)" "text_args (opt_arg k JBool b)"
  by (auto simp: text_args_def opt_arg_def split: option.splits)

lemma text_append: "text_args (a @ b) \<longleftrightarrow> text_args a \<and> text_args b"
  by (simp add: text_args_def)

text \<open>Renaming a field that is given is giving the field under the other name.\<close>

lemma map_of_obj_Cons: "k \<notin> fst ` set R \<Longrightarrow> map_of (obj_of ((k, v) # R)) = (map_of (obj_of R))(k \<mapsto> v)"
  by simp

lemma rename_arg_given:
  assumes "asc frm \<notin> fst ` set R" and "asc to \<notin> fst ` set R" and "asc frm \<noteq> asc to"
  shows "rename_arg frm to (obj_of ((asc frm, v) # R)) = obj_of ((asc to, v) # R)"
proof (rule map_ok_ext)
  have "map_of (obj_of ((asc frm, v) # R)) (asc frm) = Some v" using assms(1) by simp
  moreover have "asc to \<notin> fst ` set (obj_of ((asc frm, v) # R))"
    using assms(2,3) by (metis fst_conv image_insert insertE keys_obj_of list.simps(15))
  ultimately have r: "rename_arg frm to (obj_of ((asc frm, v) # R)) =
      map_insert (asc to) v (map_remove (asc frm) (obj_of ((asc frm, v) # R)))"
    by (simp add: rename_arg_def)
  show "map_ok (rename_arg frm to (obj_of ((asc frm, v) # R)))"
    unfolding r by (intro map_ok_insert map_ok_remove map_ok_obj_of)
  have "map_of (obj_of R) (asc frm) = None"
    using assms(1) keys_obj_of [of R] by (auto simp: map_of_eq_None_iff)
  then show "map_of (rename_arg frm to (obj_of ((asc frm, v) # R))) = map_of (obj_of ((asc to, v) # R))"
    unfolding r using assms by (auto simp: fun_eq_iff)
qed (rule map_ok_obj_of)

definition opt_texts :: "ustr option list \<Rightarrow> bool" where
  "opt_texts = list_all (\<lambda>v. case v of Some t \<Rightarrow> scalars t | None \<Rightarrow> True)"

lemma text_opt: "text_args (opt_arg k JStr v) \<longleftrightarrow> opt_texts [v]"
  by (simp add: text_args_def opt_texts_def opt_arg_def split: option.split)

lemma reading_match:
  "list_all (\<lambda>(n, m). within k E m) rows \<Longrightarrow> within k E other \<Longrightarrow> within k E (match_action rows other a)"
  by (induction rows other a rule: match_action.induct) auto

lemma row_rules:
  "list_all Q []" "within k E m \<Longrightarrow> list_all (\<lambda>(n, m). within k E m) rows \<Longrightarrow>
     list_all (\<lambda>(n, m). within k E m) ((n, m) # rows)"
  by simp_all

lemma match_action_other:
  "a \<notin> set (map (asc \<circ> fst) rows) \<Longrightarrow> match_action rows other a = other"
  by (induction rows other a rule: match_action.induct) auto

lemma match_action_cong:
  "list_all2 (\<lambda>(n, m) (n', m'). n = n' \<and> (a = asc n \<longrightarrow> m = m')) rows rows' \<Longrightarrow>
     match_action rows other a = match_action rows' other a"
  by (induction rule: list_all2_induct) auto

lemma match_action_row:
  "distinct (map (asc \<circ> fst) rows) \<Longrightarrow> (n, m) \<in> set rows \<Longrightarrow> match_action rows other (asc n) = m"
  by (induction rows other "asc n" rule: match_action.induct) (auto simp: image_iff)

section \<open>The contract of a read-only tool\<close>

text \<open>
  What the read-only dispatchers share: whatever the input, a call is a bounded read of the tool's
  roots, at most one. \<open>scoped_read_tool\<close> adds the refusal of reads whose scope was not requested.
\<close>

locale read_tool =
  fixes tool :: "'i \<Rightarrow> read_io" and texts :: "'i \<Rightarrow> bool" and s :: server
    and roots :: "(audience \<times> string) list"
  assumes contract: "texts i \<Longrightarrow> reading 1 (reads_from s roots) (tool i)"
begin

lemma read_calls:
  assumes "texts i" and "run_state (tool i) w = (r, w')" and "trace w' = trace w @ evs"
  shows "list_all sends evs \<and> length (filter api_call evs) \<le> 1 \<and>
    (\<forall>rq. Sent rq \<in> set evs \<and> rq_bearer rq \<noteq> None \<longrightarrow> reads_from s roots rq)"
  using readingD [OF contract [OF assms(1)] assms(2,3)] by blast

lemma read_call:
  assumes "texts i" and "run_state (tool i) w = (r, w')" and "trace w' = trace w @ evs"
    and "Sent rq \<in> set evs" and "rq_bearer rq \<noteq> None"
  shows "reads_from s roots rq \<and> length (filter api_call evs) \<le> 1 \<and> list_all sends evs"
  using read_calls [OF assms(1-3)] assms(4,5) by blast

end

locale scoped_read_tool = read_tool tool texts s roots
  for tool :: "'i \<Rightarrow> read_io" and texts s roots +
  fixes action_of :: "'i \<Rightarrow> ustr"
  assumes blocked: "check_scope_not_requested s (action_of i) = Some b \<Longrightarrow> tool i = ret (Inr b)"
begin

lemma blocked_silent:
  "check_scope_not_requested s (action_of i) = Some b \<Longrightarrow> run_state (tool i) w = (Inr b, w)"
  by (simp add: blocked)

end

end
