(* ===== verification/ReadTI.thy ===== *)
theory ReadTI
  imports ReadBase
begin

text \<open>
  The tool \<open>defender_ti\<close> of \<open>src/server.rs\<close>: the inputs of its actions, its forty handlers, and the
  dispatcher, which decodes the fields that are present as the action's input.
\<close>

section \<open>Inputs\<close>

definition intel_profile_id_input :: "arg_field list" where
  "intel_profile_id_input =
    [(''intel_profile_id'', [''id''], True)]"

definition intel_profile_id_odata_input :: "arg_field list" where
  "intel_profile_id_odata_input =
    [(''intel_profile_id'', [''id''], True), (''top'', [], False), (''skip'', [], False),
     (''filter'', [], False), (''select'', [], False), (''expand'', [], False)]"

definition intel_profile_indicator_id_input :: "arg_field list" where
  "intel_profile_indicator_id_input =
    [(''indicator_id'', [''id''], True)]"

definition article_id_input :: "arg_field list" where
  "article_id_input =
    [(''article_id'', [''id''], True)]"

definition article_id_odata_input :: "arg_field list" where
  "article_id_odata_input =
    [(''article_id'', [''id''], True), (''top'', [], False), (''skip'', [], False),
     (''select'', [], False)]"

definition article_indicator_id_input :: "arg_field list" where
  "article_indicator_id_input =
    [(''indicator_id'', [''id''], True)]"

definition hostname_input :: "arg_field list" where
  "hostname_input =
    [(''hostname'', [], True)]"

definition hostname_odata_input :: "arg_field list" where
  "hostname_odata_input =
    [(''hostname'', [], True), (''top'', [], False), (''skip'', [], False),
     (''filter'', [], False), (''select'', [], False), (''expand'', [], False),
     (''count'', [], False)]"

definition host_component_id_input :: "arg_field list" where
  "host_component_id_input =
    [(''component_id'', [''id''], True)]"

definition host_cookie_id_input :: "arg_field list" where
  "host_cookie_id_input =
    [(''cookie_id'', [''id''], True)]"

definition host_port_id_input :: "arg_field list" where
  "host_port_id_input =
    [(''port_id'', [''id''], True)]"

definition host_tracker_id_input :: "arg_field list" where
  "host_tracker_id_input =
    [(''tracker_id'', [''id''], True)]"

definition host_pair_id_input :: "arg_field list" where
  "host_pair_id_input =
    [(''pair_id'', [''id''], True)]"

definition ssl_cert_id_input :: "arg_field list" where
  "ssl_cert_id_input =
    [(''certificate_id'', [''id''], True)]"

definition cert_related_hosts_input :: "arg_field list" where
  "cert_related_hosts_input =
    [(''certificate_id'', [''id''], True), (''top'', [], False), (''skip'', [], False),
     (''count'', [], False)]"

definition whois_record_id_input :: "arg_field list" where
  "whois_record_id_input =
    [(''record_id'', [''id''], True)]"

definition passive_dns_record_id_input :: "arg_field list" where
  "passive_dns_record_id_input =
    [(''record_id'', [''id''], True)]"

definition vulnerability_id_input :: "arg_field list" where
  "vulnerability_id_input =
    [(''vulnerability_id'', [], True)]"

definition vulnerability_odata_input :: "arg_field list" where
  "vulnerability_odata_input =
    [(''vulnerability_id'', [], True), (''top'', [], False), (''skip'', [], False),
     (''select'', [], False)]"

definition vuln_component_get_input :: "arg_field list" where
  "vuln_component_get_input =
    [(''vulnerability_id'', [], True), (''component_id'', [], True)]"

section \<open>Handlers\<close>

definition defender_ti_intel_profiles_list :: "'x read_handler" where
  [handlers]: "defender_ti_intel_profiles_list e s p =
     valid_then (validate_odata_params (Some (p_top p)) (Some (p_skip p))) (\<lambda>u.
       odata_get e s (asc ''/security/threatIntelligence/intelProfiles'') (from_odata_list p))"

definition defender_ti_intel_profile_get :: "'x read_handler" where
  [handlers]: "defender_ti_intel_profile_get e s p =
     valid_then (validate_required_id (p_str p ''intel_profile_id'') (asc ''intel_profile_id'')) (\<lambda>i.
       simple_get e s (asc ''/security/threatIntelligence/intelProfiles/'' @ encode_path_segment e i))"

definition defender_ti_intel_profile_indicators_list :: "'x read_handler" where
  [handlers]: "defender_ti_intel_profile_indicators_list e s p =
     valid_then (validate_required_id (p_str p ''intel_profile_id'') (asc ''intel_profile_id'')) (\<lambda>i.
       valid_then (validate_odata_params (Some (p_top p)) (Some (p_skip p))) (\<lambda>u.
       odata_get e s (asc ''/security/threatIntelligence/intelProfiles/'' @
             encode_path_segment e i @ asc ''/indicators'')
          (from_intel_profile_odata p)))"

definition defender_ti_intel_profile_indicator_get :: "'x read_handler" where
  [handlers]: "defender_ti_intel_profile_indicator_get e s p =
     valid_then (validate_required_id (p_str p ''indicator_id'') (asc ''indicator_id'')) (\<lambda>i.
       simple_get e s (asc ''/security/threatIntelligence/intelProfileIndicators/'' @
             encode_path_segment e i))"

definition defender_ti_intel_profile_indicators_global_list :: "'x read_handler" where
  [handlers]: "defender_ti_intel_profile_indicators_global_list e s p =
     valid_then (validate_odata_params (Some (p_top p)) (Some (p_skip p))) (\<lambda>u.
       odata_get e s (asc ''/security/threatIntelligence/intelProfileIndicators'')
          (from_odata_list p))"

definition defender_ti_articles_list :: "'x read_handler" where
  [handlers]: "defender_ti_articles_list e s p =
     valid_then (validate_odata_params (Some (p_top p)) (Some (p_skip p))) (\<lambda>u.
       odata_get e s (asc ''/security/threatIntelligence/articles'') (from_odata_list p))"

definition defender_ti_article_get :: "'x read_handler" where
  [handlers]: "defender_ti_article_get e s p =
     valid_then (validate_required_id (p_str p ''article_id'') (asc ''article_id'')) (\<lambda>i.
       simple_get e s (asc ''/security/threatIntelligence/articles/'' @ encode_path_segment e i))"

definition defender_ti_article_indicators_list :: "'x read_handler" where
  [handlers]: "defender_ti_article_indicators_list e s p =
     valid_then (validate_required_id (p_str p ''article_id'') (asc ''article_id'')) (\<lambda>i.
       valid_then (validate_odata_params (Some (p_top p)) (Some (p_skip p))) (\<lambda>u.
       odata_get e s (asc ''/security/threatIntelligence/articles/'' @
             encode_path_segment e i @ asc ''/indicators'')
          (from_article_odata p)))"

definition defender_ti_article_indicator_get :: "'x read_handler" where
  [handlers]: "defender_ti_article_indicator_get e s p =
     valid_then (validate_required_id (p_str p ''indicator_id'') (asc ''indicator_id'')) (\<lambda>i.
       simple_get e s (asc ''/security/threatIntelligence/articleIndicators/'' @ encode_path_segment e i))"

definition defender_ti_article_indicators_global_list :: "'x read_handler" where
  [handlers]: "defender_ti_article_indicators_global_list e s p =
     valid_then (validate_odata_params (Some (p_top p)) (Some (p_skip p))) (\<lambda>u.
       odata_get e s (asc ''/security/threatIntelligence/articleIndicators'') (from_odata_list p))"

definition defender_ti_host_get :: "'x read_handler" where
  [handlers]: "defender_ti_host_get e s p =
     valid_then (validate_hostname (p_str p ''hostname'')) (\<lambda>host.
       simple_get e s (asc ''/security/threatIntelligence/hosts/'' @ encode_path_segment e host))"

definition defender_ti_host_reputation_get :: "'x read_handler" where
  [handlers]: "defender_ti_host_reputation_get e s p =
     valid_then (validate_hostname (p_str p ''hostname'')) (\<lambda>host.
       simple_get e s (asc ''/security/threatIntelligence/hosts/'' @
             encode_path_segment e host @ asc ''/reputation''))"

definition defender_ti_host_components_list :: "'x read_handler" where
  [handlers]: "defender_ti_host_components_list e s p =
     valid_then (validate_hostname (p_str p ''hostname'')) (\<lambda>host.
       valid_then (validate_odata_params (Some (p_top p)) (Some (p_skip p))) (\<lambda>u.
       odata_get e s (asc ''/security/threatIntelligence/hosts/'' @
             encode_path_segment e host @ asc ''/components'')
          (from_hostname_odata p)))"

definition defender_ti_host_component_get :: "'x read_handler" where
  [handlers]: "defender_ti_host_component_get e s p =
     valid_then (validate_required_id (p_str p ''component_id'') (asc ''component_id'')) (\<lambda>c.
       simple_get e s (asc ''/security/threatIntelligence/hostComponents/'' @ encode_path_segment e c))"

definition defender_ti_host_cookies_list :: "'x read_handler" where
  [handlers]: "defender_ti_host_cookies_list e s p =
     valid_then (validate_hostname (p_str p ''hostname'')) (\<lambda>host.
       valid_then (validate_odata_params (Some (p_top p)) (Some (p_skip p))) (\<lambda>u.
       odata_get e s (asc ''/security/threatIntelligence/hosts/'' @
             encode_path_segment e host @ asc ''/cookies'')
          (from_hostname_odata p)))"

definition defender_ti_host_cookie_get :: "'x read_handler" where
  [handlers]: "defender_ti_host_cookie_get e s p =
     valid_then (validate_required_id (p_str p ''cookie_id'') (asc ''cookie_id'')) (\<lambda>i.
       simple_get e s (asc ''/security/threatIntelligence/hostCookies/'' @ encode_path_segment e i))"

definition defender_ti_host_ports_list :: "'x read_handler" where
  [handlers]: "defender_ti_host_ports_list e s p =
     valid_then (validate_hostname (p_str p ''hostname'')) (\<lambda>host.
       valid_then (validate_odata_params (Some (p_top p)) (Some (p_skip p))) (\<lambda>u.
       odata_get e s (asc ''/security/threatIntelligence/hosts/'' @
             encode_path_segment e host @ asc ''/ports'')
          (from_hostname_odata p)))"

definition defender_ti_host_port_get :: "'x read_handler" where
  [handlers]: "defender_ti_host_port_get e s p =
     valid_then (validate_required_id (p_str p ''port_id'') (asc ''port_id'')) (\<lambda>i.
       simple_get e s (asc ''/security/threatIntelligence/hostPorts/'' @ encode_path_segment e i))"

definition defender_ti_host_trackers_list :: "'x read_handler" where
  [handlers]: "defender_ti_host_trackers_list e s p =
     valid_then (validate_hostname (p_str p ''hostname'')) (\<lambda>host.
       valid_then (validate_odata_params (Some (p_top p)) (Some (p_skip p))) (\<lambda>u.
       odata_get e s (asc ''/security/threatIntelligence/hosts/'' @
             encode_path_segment e host @ asc ''/trackers'')
          (from_hostname_odata p)))"

definition defender_ti_host_tracker_get :: "'x read_handler" where
  [handlers]: "defender_ti_host_tracker_get e s p =
     valid_then (validate_required_id (p_str p ''tracker_id'') (asc ''tracker_id'')) (\<lambda>i.
       simple_get e s (asc ''/security/threatIntelligence/hostTrackers/'' @ encode_path_segment e i))"

definition defender_ti_host_subdomains_list :: "'x read_handler" where
  [handlers]: "defender_ti_host_subdomains_list e s p =
     valid_then (validate_hostname (p_str p ''hostname'')) (\<lambda>host.
       valid_then (validate_odata_params (Some (p_top p)) (Some (p_skip p))) (\<lambda>u.
       odata_get e s (asc ''/security/threatIntelligence/hosts/'' @
             encode_path_segment e host @ asc ''/subdomains'')
          (from_hostname_odata p)))"

definition defender_ti_host_ssl_certs_list :: "'x read_handler" where
  [handlers]: "defender_ti_host_ssl_certs_list e s p =
     valid_then (validate_hostname (p_str p ''hostname'')) (\<lambda>host.
       valid_then (validate_odata_params (Some (p_top p)) (Some (p_skip p))) (\<lambda>u.
       odata_get e s (asc ''/security/threatIntelligence/hosts/'' @
             encode_path_segment e host @ asc ''/sslCertificates'')
          (from_hostname_odata p)))"

definition defender_ti_host_whois_get :: "'x read_handler" where
  [handlers]: "defender_ti_host_whois_get e s p =
     valid_then (validate_hostname (p_str p ''hostname'')) (\<lambda>host.
       simple_get e s (asc ''/security/threatIntelligence/hosts/'' @
             encode_path_segment e host @ asc ''/whois''))"

definition defender_ti_host_whois_history_list :: "'x read_handler" where
  [handlers]: "defender_ti_host_whois_history_list e s p =
     valid_then (validate_hostname (p_str p ''hostname'')) (\<lambda>host.
       valid_then (validate_odata_params (Some (p_top p)) (Some (p_skip p))) (\<lambda>u.
       odata_get e s (asc ''/security/threatIntelligence/hosts/'' @
             encode_path_segment e host @ asc ''/whoisHistoryRecords'')
          (from_hostname_odata p)))"

definition defender_ti_host_pairs_list :: "'x read_handler" where
  [handlers]: "defender_ti_host_pairs_list e s p =
     valid_then (validate_hostname (p_str p ''hostname'')) (\<lambda>host.
       valid_then (validate_odata_params (Some (p_top p)) (Some (p_skip p))) (\<lambda>u.
       odata_get e s (asc ''/security/threatIntelligence/hosts/'' @
             encode_path_segment e host @ asc ''/hostPairs'')
          (from_hostname_odata p)))"

definition defender_ti_host_pair_get :: "'x read_handler" where
  [handlers]: "defender_ti_host_pair_get e s p =
     valid_then (validate_required_id (p_str p ''pair_id'') (asc ''pair_id'')) (\<lambda>i.
       simple_get e s (asc ''/security/threatIntelligence/hostPairs/'' @ encode_path_segment e i))"

definition defender_ti_host_child_pairs_list :: "'x read_handler" where
  [handlers]: "defender_ti_host_child_pairs_list e s p =
     valid_then (validate_hostname (p_str p ''hostname'')) (\<lambda>host.
       valid_then (validate_odata_params (Some (p_top p)) (Some (p_skip p))) (\<lambda>u.
       odata_get e s (asc ''/security/threatIntelligence/hosts/'' @
             encode_path_segment e host @ asc ''/childHostPairs'')
          (from_hostname_odata p)))"

definition defender_ti_host_parent_pairs_list :: "'x read_handler" where
  [handlers]: "defender_ti_host_parent_pairs_list e s p =
     valid_then (validate_hostname (p_str p ''hostname'')) (\<lambda>host.
       valid_then (validate_odata_params (Some (p_top p)) (Some (p_skip p))) (\<lambda>u.
       odata_get e s (asc ''/security/threatIntelligence/hosts/'' @
             encode_path_segment e host @ asc ''/parentHostPairs'')
          (from_hostname_odata p)))"

definition defender_ti_host_passive_dns_list :: "'x read_handler" where
  [handlers]: "defender_ti_host_passive_dns_list e s p =
     valid_then (validate_hostname (p_str p ''hostname'')) (\<lambda>host.
       valid_then (validate_odata_params (Some (p_top p)) (Some (p_skip p))) (\<lambda>u.
       odata_get e s (asc ''/security/threatIntelligence/hosts/'' @
             encode_path_segment e host @ asc ''/passiveDns'')
          (from_hostname_odata p)))"

definition defender_ti_host_passive_dns_reverse_list :: "'x read_handler" where
  [handlers]: "defender_ti_host_passive_dns_reverse_list e s p =
     valid_then (validate_hostname (p_str p ''hostname'')) (\<lambda>host.
       valid_then (validate_odata_params (Some (p_top p)) (Some (p_skip p))) (\<lambda>u.
       odata_get e s (asc ''/security/threatIntelligence/hosts/'' @
             encode_path_segment e host @ asc ''/passiveDnsReverse'')
          (from_hostname_odata p)))"

definition defender_ti_ssl_certs_list :: "'x read_handler" where
  [handlers]: "defender_ti_ssl_certs_list e s p =
     valid_then (validate_odata_params (Some (p_top p)) (Some (p_skip p))) (\<lambda>u.
       odata_get e s (asc ''/security/threatIntelligence/sslCertificates'') (from_odata_list p))"

definition defender_ti_ssl_cert_get :: "'x read_handler" where
  [handlers]: "defender_ti_ssl_cert_get e s p =
     valid_then (validate_required_id (p_str p ''certificate_id'') (asc ''certificate_id'')) (\<lambda>i.
       simple_get e s (asc ''/security/threatIntelligence/sslCertificates/'' @ encode_path_segment e i))"

definition defender_ti_ssl_cert_related_hosts_list :: "'x read_handler" where
  [handlers]: "defender_ti_ssl_cert_related_hosts_list e s p =
     valid_then (validate_required_id (p_str p ''certificate_id'') (asc ''certificate_id'')) (\<lambda>i.
       valid_then (validate_odata_params (Some (p_top p)) (Some (p_skip p))) (\<lambda>u.
       odata_get e s (asc ''/security/threatIntelligence/sslCertificates/'' @
             encode_path_segment e i @ asc ''/relatedHosts'')
          (from_cert_related_odata p)))"

definition defender_ti_whois_records_list :: "'x read_handler" where
  [handlers]: "defender_ti_whois_records_list e s p =
     valid_then (validate_odata_params (Some (p_top p)) (Some (p_skip p))) (\<lambda>u.
       odata_get e s (asc ''/security/threatIntelligence/whoisRecords'') (from_odata_list p))"

definition defender_ti_whois_record_get :: "'x read_handler" where
  [handlers]: "defender_ti_whois_record_get e s p =
     valid_then (validate_required_id (p_str p ''record_id'') (asc ''record_id'')) (\<lambda>i.
       simple_get e s (asc ''/security/threatIntelligence/whoisRecords/'' @ encode_path_segment e i))"

definition defender_ti_passive_dns_get :: "'x read_handler" where
  [handlers]: "defender_ti_passive_dns_get e s p =
     valid_then (validate_required_id (p_str p ''record_id'') (asc ''record_id'')) (\<lambda>i.
       simple_get e s (asc ''/security/threatIntelligence/passiveDnsRecords/'' @ encode_path_segment e i))"

definition defender_ti_vulnerability_get :: "'x read_handler" where
  [handlers]: "defender_ti_vulnerability_get e s p =
     valid_then (validate_cve_id e (p_str p ''vulnerability_id'')) (\<lambda>i.
       simple_get e s (asc ''/security/threatIntelligence/vulnerabilities/'' @ encode_path_segment e i))"

definition defender_ti_vulnerability_components_list :: "'x read_handler" where
  [handlers]: "defender_ti_vulnerability_components_list e s p =
     valid_then (validate_cve_id e (p_str p ''vulnerability_id'')) (\<lambda>i.
       valid_then (validate_odata_params (Some (p_top p)) (Some (p_skip p))) (\<lambda>u.
       odata_get e s (asc ''/security/threatIntelligence/vulnerabilities/'' @
             encode_path_segment e i @ asc ''/components'')
          (no_odata\<lparr>od_top := Some (p_top p), od_skip := Some (p_skip p), od_select := p_opt_str p ''select''\<rparr>)))"

definition defender_ti_vulnerability_component_get :: "'x read_handler" where
  [handlers]: "defender_ti_vulnerability_component_get e s p =
     valid_then (validate_cve_id e (p_str p ''vulnerability_id'')) (\<lambda>i.
       valid_then (validate_required_id (p_str p ''component_id'') (asc ''component_id'')) (\<lambda>c.
       simple_get e s (asc ''/security/threatIntelligence/vulnerabilities/'' @
             encode_path_segment e i @ asc ''/components/'' @ encode_path_segment e c)))"

section \<open>The dispatcher\<close>

record threat_intel_input =
  ti_action :: ustr
  ti_id :: "ustr option"
  ti_hostname :: "ustr option"
  ti_component_id :: "ustr option"
  ti_top :: "int option"
  ti_skip :: "int option"
  ti_filter :: "ustr option"
  ti_select :: "ustr option"
  ti_expand :: "ustr option"
  ti_search :: "ustr option"
  ti_count :: "bool option"

definition ti_action_args :: "threat_intel_input \<Rightarrow> json_map" where
  "ti_action_args i = obj_of
     (opt_arg ''id'' JStr (ti_id i) @ opt_arg ''hostname'' JStr (ti_hostname i)
      @ opt_arg ''component_id'' JStr (ti_component_id i) @ opt_arg ''top'' JNum (ti_top i)
      @ opt_arg ''skip'' JNum (ti_skip i) @ opt_arg ''filter'' JStr (ti_filter i)
      @ opt_arg ''select'' JStr (ti_select i) @ opt_arg ''expand'' JStr (ti_expand i)
      @ opt_arg ''search'' JStr (ti_search i) @ opt_arg ''count'' JBool (ti_count i))"

definition host_by_name :: "ustr \<Rightarrow> bool" where
  "host_by_name action \<longleftrightarrow> prefix (asc ''host_'') action \<and>
     action \<notin> set (map asc [''host_component_get'', ''host_cookie_get'', ''host_port_get'',
       ''host_tracker_get'', ''host_pair_get''])"

definition ti_args :: "threat_intel_input \<Rightarrow> json_map" where
  "ti_args i =
     (let args = ti_action_args i;
          named = (if host_by_name (ti_action i) then rename_arg ''id'' ''hostname'' args else args)
      in if prefix (asc ''vulnerability_'') (ti_action i)
         then rename_arg ''id'' ''vulnerability_id'' named else named)"

definition custom_indicator_list :: "'x env_scheme \<Rightarrow> server \<Rightarrow> threat_intel_input \<Rightarrow> read_io" where
  "custom_indicator_list e s i =
     refusing (asc ''custom_indicator_list'')
       [(''id'', ti_id i \<noteq> None), (''hostname'', ti_hostname i \<noteq> None),
        (''component_id'', ti_component_id i \<noteq> None), (''select'', ti_select i \<noteq> None),
        (''expand'', ti_expand i \<noteq> None), (''search'', ti_search i \<noteq> None), (''count'', ti_count i \<noteq> None)]
       (valid_then (validate_endpoint_odata_params (ti_top i) (ti_skip i)) (\<lambda>u.
          ep_odata_get_as e s (asc ''/api/indicators'')
            (ep_odata (ti_filter i) (top_or_default (ti_top i)) (skip_or_default (ti_skip i))) PIndicators))"

definition ti_actions :: "string list" where
  "ti_actions =
    [''intel_profiles_list'', ''intel_profile_get'', ''intel_profile_indicators_list'',
     ''intel_profile_indicator_get'', ''intel_profile_indicators_global_list'',
     ''articles_list'', ''article_get'', ''article_indicators_list'', ''article_indicator_get'',
     ''article_indicators_global_list'', ''host_get'', ''host_reputation_get'',
     ''host_components_list'', ''host_component_get'', ''host_cookies_list'',
     ''host_cookie_get'', ''host_ports_list'', ''host_port_get'', ''host_trackers_list'',
     ''host_tracker_get'', ''host_subdomains_list'', ''host_ssl_certs_list'', ''host_whois_get'',
     ''host_whois_history_list'', ''host_pairs_list'', ''host_pair_get'',
     ''host_child_pairs_list'', ''host_parent_pairs_list'', ''host_passive_dns_list'',
     ''host_passive_dns_reverse_list'', ''ssl_certs_list'', ''ssl_cert_get'',
     ''ssl_cert_related_hosts_list'', ''whois_records_list'', ''whois_record_get'',
     ''passive_dns_get'', ''vulnerability_get'', ''vulnerability_components_list'',
     ''vulnerability_component_get'', ''custom_indicator_list'']"

definition ti_routes :: "'x env_scheme \<Rightarrow> server \<Rightarrow> threat_intel_input \<Rightarrow> json_map
     \<Rightarrow> (string \<times> read_io) list" where
  "ti_routes e s i args =
    [(''intel_profiles_list'', call_action e ''ODataListInput'' odata_list_input
        (defender_ti_intel_profiles_list e s) args),
     (''intel_profile_get'', call_action e ''IntelProfileIdInput'' intel_profile_id_input
        (defender_ti_intel_profile_get e s) args),
     (''intel_profile_indicators_list'', call_action e ''IntelProfileIdODataInput'' intel_profile_id_odata_input
        (defender_ti_intel_profile_indicators_list e s) args),
     (''intel_profile_indicator_get'', call_action e ''IntelProfileIndicatorIdInput'' intel_profile_indicator_id_input
        (defender_ti_intel_profile_indicator_get e s) args),
     (''intel_profile_indicators_global_list'', call_action e ''ODataListInput'' odata_list_input
        (defender_ti_intel_profile_indicators_global_list e s) args),
     (''articles_list'', call_action e ''ODataListInput'' odata_list_input
        (defender_ti_articles_list e s) args),
     (''article_get'', call_action e ''ArticleIdInput'' article_id_input
        (defender_ti_article_get e s) args),
     (''article_indicators_list'', call_action e ''ArticleIdODataInput'' article_id_odata_input
        (defender_ti_article_indicators_list e s) args),
     (''article_indicator_get'', call_action e ''ArticleIndicatorIdInput'' article_indicator_id_input
        (defender_ti_article_indicator_get e s) args),
     (''article_indicators_global_list'', call_action e ''ODataListInput'' odata_list_input
        (defender_ti_article_indicators_global_list e s) args),
     (''host_get'', call_action e ''HostnameInput'' hostname_input
        (defender_ti_host_get e s) args),
     (''host_reputation_get'', call_action e ''HostnameInput'' hostname_input
        (defender_ti_host_reputation_get e s) args),
     (''host_components_list'', call_action e ''HostnameODataInput'' hostname_odata_input
        (defender_ti_host_components_list e s) args),
     (''host_component_get'', call_action e ''HostComponentIdInput'' host_component_id_input
        (defender_ti_host_component_get e s) args),
     (''host_cookies_list'', call_action e ''HostnameODataInput'' hostname_odata_input
        (defender_ti_host_cookies_list e s) args),
     (''host_cookie_get'', call_action e ''HostCookieIdInput'' host_cookie_id_input
        (defender_ti_host_cookie_get e s) args),
     (''host_ports_list'', call_action e ''HostnameODataInput'' hostname_odata_input
        (defender_ti_host_ports_list e s) args),
     (''host_port_get'', call_action e ''HostPortIdInput'' host_port_id_input
        (defender_ti_host_port_get e s) args),
     (''host_trackers_list'', call_action e ''HostnameODataInput'' hostname_odata_input
        (defender_ti_host_trackers_list e s) args),
     (''host_tracker_get'', call_action e ''HostTrackerIdInput'' host_tracker_id_input
        (defender_ti_host_tracker_get e s) args),
     (''host_subdomains_list'', call_action e ''HostnameODataInput'' hostname_odata_input
        (defender_ti_host_subdomains_list e s) args),
     (''host_ssl_certs_list'', call_action e ''HostnameODataInput'' hostname_odata_input
        (defender_ti_host_ssl_certs_list e s) args),
     (''host_whois_get'', call_action e ''HostnameInput'' hostname_input
        (defender_ti_host_whois_get e s) args),
     (''host_whois_history_list'', call_action e ''HostnameODataInput'' hostname_odata_input
        (defender_ti_host_whois_history_list e s) args),
     (''host_pairs_list'', call_action e ''HostnameODataInput'' hostname_odata_input
        (defender_ti_host_pairs_list e s) args),
     (''host_pair_get'', call_action e ''HostPairIdInput'' host_pair_id_input
        (defender_ti_host_pair_get e s) args),
     (''host_child_pairs_list'', call_action e ''HostnameODataInput'' hostname_odata_input
        (defender_ti_host_child_pairs_list e s) args),
     (''host_parent_pairs_list'', call_action e ''HostnameODataInput'' hostname_odata_input
        (defender_ti_host_parent_pairs_list e s) args),
     (''host_passive_dns_list'', call_action e ''HostnameODataInput'' hostname_odata_input
        (defender_ti_host_passive_dns_list e s) args),
     (''host_passive_dns_reverse_list'', call_action e ''HostnameODataInput'' hostname_odata_input
        (defender_ti_host_passive_dns_reverse_list e s) args),
     (''ssl_certs_list'', call_action e ''ODataListInput'' odata_list_input
        (defender_ti_ssl_certs_list e s) args),
     (''ssl_cert_get'', call_action e ''SslCertIdInput'' ssl_cert_id_input
        (defender_ti_ssl_cert_get e s) args),
     (''ssl_cert_related_hosts_list'', call_action e ''CertRelatedHostsInput'' cert_related_hosts_input
        (defender_ti_ssl_cert_related_hosts_list e s) args),
     (''whois_records_list'', call_action e ''ODataListInput'' odata_list_input
        (defender_ti_whois_records_list e s) args),
     (''whois_record_get'', call_action e ''WhoisRecordIdInput'' whois_record_id_input
        (defender_ti_whois_record_get e s) args),
     (''passive_dns_get'', call_action e ''PassiveDnsRecordIdInput'' passive_dns_record_id_input
        (defender_ti_passive_dns_get e s) args),
     (''vulnerability_get'', call_action e ''VulnerabilityIdInput'' vulnerability_id_input
        (defender_ti_vulnerability_get e s) args),
     (''vulnerability_components_list'', call_action e ''VulnerabilityODataInput'' vulnerability_odata_input
        (defender_ti_vulnerability_components_list e s) args),
     (''vulnerability_component_get'', call_action e ''VulnComponentGetInput'' vuln_component_get_input
        (defender_ti_vulnerability_component_get e s) args),
     (''custom_indicator_list'', custom_indicator_list e s i)]"

definition defender_ti :: "'x env_scheme \<Rightarrow> server \<Rightarrow> threat_intel_input \<Rightarrow> read_io" where
  "defender_ti e s i =
     unless_blocked s (ti_action i)
       (match_action (ti_routes e s i (ti_args i))
          (ret (Inl (unknown_action_error (asc ''defender_ti'') (ti_action i) (map asc ti_actions))))
          (ti_action i))"

section \<open>The contract\<close>

definition ti_roots :: "(audience \<times> string) list" where
  "ti_roots = [(Graph, ''/security/threatIntelligence/''), (Endpoint, ''/api/indicators'')]"

lemma reading_ti_handlers [reading_rules]:
  assumes "percent_documented e" and "text_params p"
  shows
    "reading 1 (reads_from s ti_roots) (defender_ti_intel_profiles_list e s p)"
    "reading 1 (reads_from s ti_roots) (defender_ti_intel_profile_get e s p)"
    "reading 1 (reads_from s ti_roots) (defender_ti_intel_profile_indicators_list e s p)"
    "reading 1 (reads_from s ti_roots) (defender_ti_intel_profile_indicator_get e s p)"
    "reading 1 (reads_from s ti_roots) (defender_ti_intel_profile_indicators_global_list e s p)"
    "reading 1 (reads_from s ti_roots) (defender_ti_articles_list e s p)"
    "reading 1 (reads_from s ti_roots) (defender_ti_article_get e s p)"
    "reading 1 (reads_from s ti_roots) (defender_ti_article_indicators_list e s p)"
    "reading 1 (reads_from s ti_roots) (defender_ti_article_indicator_get e s p)"
    "reading 1 (reads_from s ti_roots) (defender_ti_article_indicators_global_list e s p)"
    "reading 1 (reads_from s ti_roots) (defender_ti_host_get e s p)"
    "reading 1 (reads_from s ti_roots) (defender_ti_host_reputation_get e s p)"
    "reading 1 (reads_from s ti_roots) (defender_ti_host_components_list e s p)"
    "reading 1 (reads_from s ti_roots) (defender_ti_host_component_get e s p)"
    "reading 1 (reads_from s ti_roots) (defender_ti_host_cookies_list e s p)"
    "reading 1 (reads_from s ti_roots) (defender_ti_host_cookie_get e s p)"
    "reading 1 (reads_from s ti_roots) (defender_ti_host_ports_list e s p)"
    "reading 1 (reads_from s ti_roots) (defender_ti_host_port_get e s p)"
    "reading 1 (reads_from s ti_roots) (defender_ti_host_trackers_list e s p)"
    "reading 1 (reads_from s ti_roots) (defender_ti_host_tracker_get e s p)"
    "reading 1 (reads_from s ti_roots) (defender_ti_host_subdomains_list e s p)"
    "reading 1 (reads_from s ti_roots) (defender_ti_host_ssl_certs_list e s p)"
    "reading 1 (reads_from s ti_roots) (defender_ti_host_whois_get e s p)"
    "reading 1 (reads_from s ti_roots) (defender_ti_host_whois_history_list e s p)"
    "reading 1 (reads_from s ti_roots) (defender_ti_host_pairs_list e s p)"
    "reading 1 (reads_from s ti_roots) (defender_ti_host_pair_get e s p)"
    "reading 1 (reads_from s ti_roots) (defender_ti_host_child_pairs_list e s p)"
    "reading 1 (reads_from s ti_roots) (defender_ti_host_parent_pairs_list e s p)"
    "reading 1 (reads_from s ti_roots) (defender_ti_host_passive_dns_list e s p)"
    "reading 1 (reads_from s ti_roots) (defender_ti_host_passive_dns_reverse_list e s p)"
    "reading 1 (reads_from s ti_roots) (defender_ti_ssl_certs_list e s p)"
    "reading 1 (reads_from s ti_roots) (defender_ti_ssl_cert_get e s p)"
    "reading 1 (reads_from s ti_roots) (defender_ti_ssl_cert_related_hosts_list e s p)"
    "reading 1 (reads_from s ti_roots) (defender_ti_whois_records_list e s p)"
    "reading 1 (reads_from s ti_roots) (defender_ti_whois_record_get e s p)"
    "reading 1 (reads_from s ti_roots) (defender_ti_passive_dns_get e s p)"
    "reading 1 (reads_from s ti_roots) (defender_ti_vulnerability_get e s p)"
    "reading 1 (reads_from s ti_roots) (defender_ti_vulnerability_components_list e s p)"
    "reading 1 (reads_from s ti_roots) (defender_ti_vulnerability_component_get e s p)"
  unfolding handlers
  by (rule path_rules reading_rules segments assms | assumption | code_simp)+

section \<open>Properties of the tool\<close>

definition ti_texts :: "threat_intel_input \<Rightarrow> bool" where
  "ti_texts i \<longleftrightarrow> opt_texts [ti_id i, ti_hostname i, ti_component_id i, ti_filter i, ti_select i, ti_expand i, ti_search i]"

lemma reading_custom_indicators [reading_rules]: "reading 1 (reads_from s ti_roots) (custom_indicator_list e s i)"
  unfolding custom_indicator_list_def
  by (rule reading_refusing reading_rules | assumption | code_simp)+

lemma text_ti_args: "ti_texts i \<Longrightarrow> text_args (ti_args i)"
  unfolding ti_args_def ti_action_args_def Let_def
  by (auto simp: ti_texts_def opt_texts_def text_append text_opt text_opt_arg intro!: text_obj_of text_rename)

lemma reading_ti_routes:
  assumes "percent_documented e" and "text_args args" and "ti_texts i"
  shows "list_all (\<lambda>(n, m). reading 1 (reads_from s ti_roots) m) (ti_routes e s i args)"
  unfolding ti_routes_def
  by (rule row_rules  reading_rules text_rename assms | assumption)+

lemma ti_catalogue: "map fst (ti_routes e s i args) = ti_actions"
  by (simp add: ti_routes_def ti_actions_def)

text \<open>For the host actions that take a name, \<open>id\<close> stands for \<open>hostname\<close>.\<close>

lemma ti_other_rows:
  "a \<noteq> asc ''custom_indicator_list'' \<Longrightarrow>
     match_action (ti_routes e s i args) other a = match_action (ti_routes e s j args) other a"
  unfolding ti_routes_def by (rule match_action_cong) simp

lemma ti_args_named:
  assumes "host_by_name (ti_action i)" and "ti_hostname i = None" and "ti_id i = Some h"
  shows "ti_args (i\<lparr>ti_id := None, ti_hostname := Some h\<rparr>) = ti_args i"
proof -
  define R where "R = opt_arg ''component_id'' JStr (ti_component_id i) @ opt_arg ''top'' JNum (ti_top i)
      @ opt_arg ''skip'' JNum (ti_skip i) @ opt_arg ''filter'' JStr (ti_filter i)
      @ opt_arg ''select'' JStr (ti_select i) @ opt_arg ''expand'' JStr (ti_expand i)
      @ opt_arg ''search'' JStr (ti_search i) @ opt_arg ''count'' JBool (ti_count i)"
  have act: "ti_action (i\<lparr>ti_id := None, ti_hostname := Some h\<rparr>) = ti_action i" by simp
  have neq: "asc ''id'' \<notin> fst ` set R" "asc ''hostname'' \<notin> fst ` set R"
    by (auto simp: R_def opt_arg_def asc_def split: option.splits)
  have ne: "asc ''id'' \<noteq> asc ''hostname''" by code_simp
  have i: "ti_action_args i = obj_of ((asc ''id'', JStr h) # R)"
    unfolding ti_action_args_def R_def using assms(2,3) by (simp add: opt_arg_def)
  have j: "ti_action_args (i\<lparr>ti_id := None, ti_hostname := Some h\<rparr>) = obj_of ((asc ''hostname'', JStr h) # R)"
    unfolding ti_action_args_def R_def by (simp add: opt_arg_def)
  have "asc ''hostname'' \<in> fst ` set (obj_of ((asc ''hostname'', JStr h) # R))"
    using keys_obj_of [of "(asc ''hostname'', JStr h) # R"] by simp
  then have same: "rename_arg ''id'' ''hostname'' (obj_of ((asc ''hostname'', JStr h) # R)) =
      obj_of ((asc ''hostname'', JStr h) # R)"
    unfolding rename_arg_def by argo
  show ?thesis
    unfolding ti_args_def i j act Let_def using assms(1) by (simp only: same rename_arg_given [OF neq ne] if_True)
qed


lemma reading_defender_ti:
  "percent_documented e \<and> ti_texts i \<Longrightarrow> reading 1 (reads_from s ti_roots) (defender_ti e s i)"
  unfolding defender_ti_def
  by (intro reading_unless_blocked reading_match reading_ti_routes text_ti_args reading_ret) auto

interpretation ti_tool: scoped_read_tool "defender_ti e s" "\<lambda>i. percent_documented e \<and> ti_texts i" s ti_roots ti_action
  for e :: "'x env_scheme" and s
proof (rule scoped_read_tool.intro)
  show "read_tool (defender_ti e s) (\<lambda>i. percent_documented e \<and> ti_texts i) s ti_roots"
    by (rule read_tool.intro) (rule reading_defender_ti)
  show "scoped_read_tool_axioms (defender_ti e s) s ti_action"
    by (rule scoped_read_tool_axioms.intro) (simp add: defender_ti_def unless_blocked_def)
qed

end
