(* ===== verification/ReadAlerts.thy ===== *)
theory ReadAlerts
  imports ReadBase
begin

text \<open>
  The tool \<open>defender_incidents_alerts\<close> of \<open>src/server.rs\<close>: Defender XDR incidents and alerts from
  Graph, Defender for Endpoint alerts, and the alerts related to an IP address, a domain, a file or a user.
\<close>

section \<open>Inputs\<close>

definition ip_input :: "arg_field list" where
  "ip_input =
    [(''ip_address'', [], True)]"

definition domain_input :: "arg_field list" where
  "domain_input =
    [(''domain_name'', [], True)]"

definition file_sha1_input :: "arg_field list" where
  "file_sha1_input =
    [(''file_sha1'', [], True)]"

definition user_id_input :: "arg_field list" where
  "user_id_input =
    [(''user_id'', [], True)]"

definition alert_id_input :: "arg_field list" where
  "alert_id_input =
    [(''alert_id'', [''id''], True)]"

definition xdr_alert_id_input :: "arg_field list" where
  "xdr_alert_id_input =
    [(''alert_id'', [''id''], True)]"

definition xdr_incident_id_input :: "arg_field list" where
  "xdr_incident_id_input =
    [(''incident_id'', [''id''], True), (''expand'', [], False)]"

section \<open>Handlers\<close>

definition defender_endpoint_ip_related_alerts :: "'x read_handler" where
  [handlers]: "defender_endpoint_ip_related_alerts e s p =
     valid_then (validate_ip_address (p_str p ''ip_address'')) (\<lambda>i.
       ep_simple_get e s (asc ''/api/ips/'' @ encode_path_segment e i @ asc ''/alerts''))"

definition defender_endpoint_domain_related_alerts :: "'x read_handler" where
  [handlers]: "defender_endpoint_domain_related_alerts e s p =
     valid_then (validate_hostname (p_str p ''domain_name'')) (\<lambda>i.
       ep_simple_get e s (asc ''/api/domains/'' @ encode_path_segment e i @ asc ''/alerts''))"

definition defender_endpoint_file_related_alerts :: "'x read_handler" where
  [handlers]: "defender_endpoint_file_related_alerts e s p =
     valid_then (validate_sha1 (p_str p ''file_sha1'')) (\<lambda>i.
       ep_simple_get e s (asc ''/api/files/'' @ encode_path_segment e i @ asc ''/alerts''))"

definition defender_endpoint_user_related_alerts :: "'x read_handler" where
  [handlers]: "defender_endpoint_user_related_alerts e s p =
     valid_then (validate_required_id (p_str p ''user_id'') (asc ''user_id'')) (\<lambda>i.
       ep_simple_get e s (asc ''/api/users/'' @ encode_path_segment e i @ asc ''/alerts''))"

definition defender_endpoint_alert_list :: "'x read_handler" where
  [handlers]: "defender_endpoint_alert_list e s p =
     valid_then (validate_endpoint_odata_params (Some (p_top p)) (Some (p_skip p))) (\<lambda>u.
       ep_odata_get e s (asc ''/api/alerts'')
          (ep_odata (p_opt_str p ''filter'') (p_top p) (p_skip p)))"

definition defender_endpoint_alert_get :: "'x read_handler" where
  [handlers]: "defender_endpoint_alert_get e s p =
     valid_then (validate_required_id (p_str p ''alert_id'') (asc ''alert_id'')) (\<lambda>i.
       ep_simple_get e s (asc ''/api/alerts/'' @ encode_path_segment e i))"

definition defender_xdr_alert_list :: "'x read_handler" where
  [handlers]: "defender_xdr_alert_list e s p =
     valid_then (validate_odata_params (Some (p_top p)) (Some (p_skip p))) (\<lambda>u.
       odata_get e s (asc ''/security/alerts_v2'') (from_odata_list p))"

definition defender_xdr_alert_get :: "'x read_handler" where
  [handlers]: "defender_xdr_alert_get e s p =
     valid_then (validate_required_id (p_str p ''alert_id'') (asc ''alert_id'')) (\<lambda>i.
       simple_get e s (asc ''/security/alerts_v2/'' @ encode_path_segment e i))"

definition defender_xdr_incident_list :: "'x read_handler" where
  [handlers]: "defender_xdr_incident_list e s p =
     valid_then (validate_odata_params (Some (p_top p)) (Some (p_skip p))) (\<lambda>u.
       odata_get e s (asc ''/security/incidents'') (from_odata_list p))"

definition defender_xdr_incident_get :: "'x read_handler" where
  [handlers]: "defender_xdr_incident_get e s p =
     valid_then (validate_required_id (p_str p ''incident_id'') (asc ''incident_id'')) (\<lambda>i.
       odata_get e s (asc ''/security/incidents/'' @ encode_path_segment e i)
          (no_odata\<lparr>od_expand := p_opt_str p ''expand''\<rparr>))"

section \<open>The dispatcher\<close>

record incidents_alerts_input =
  ia_action :: ustr
  ia_id :: "ustr option"
  ia_top :: "int option"
  ia_skip :: "int option"
  ia_filter :: "ustr option"
  ia_select :: "ustr option"
  ia_expand :: "ustr option"
  ia_search :: "ustr option"
  ia_count :: "bool option"

definition ia_args :: "incidents_alerts_input \<Rightarrow> json_map" where
  "ia_args i = obj_of
     (opt_arg ''id'' JStr (ia_id i) @ opt_arg ''top'' JNum (ia_top i) @
      opt_arg ''skip'' JNum (ia_skip i) @ opt_arg ''filter'' JStr (ia_filter i) @
      opt_arg ''select'' JStr (ia_select i) @ opt_arg ''expand'' JStr (ia_expand i) @
      opt_arg ''search'' JStr (ia_search i) @ opt_arg ''count'' JBool (ia_count i))"


definition ia_actions :: "string list" where
  "ia_actions =
    [''xdr_alert_list'', ''xdr_alert_get'', ''xdr_incident_list'', ''xdr_incident_get'',
     ''endpoint_alert_list'', ''endpoint_alert_get'', ''ip_related_alerts'',
     ''domain_related_alerts'', ''file_related_alerts'', ''user_related_alerts'']"

definition ia_routes :: "'x env_scheme \<Rightarrow> server \<Rightarrow> incidents_alerts_input \<Rightarrow> json_map
     \<Rightarrow> (string \<times> read_io) list" where
  "ia_routes e s i args =
    [(''xdr_alert_list'', call_action e ''ODataListInput'' odata_list_input
        (defender_xdr_alert_list e s) args),
     (''xdr_alert_get'', call_action e ''XdrAlertIdInput'' xdr_alert_id_input
        (defender_xdr_alert_get e s) args),
     (''xdr_incident_list'', call_action e ''ODataListInput'' odata_list_input
        (defender_xdr_incident_list e s) args),
     (''xdr_incident_get'', call_action e ''XdrIncidentIdInput'' xdr_incident_id_input
        (defender_xdr_incident_get e s) args),
     (''endpoint_alert_list'', call_action e ''EndpointODataInput'' endpoint_odata_input
        (defender_endpoint_alert_list e s) args),
     (''endpoint_alert_get'', call_action e ''AlertIdInput'' alert_id_input
        (defender_endpoint_alert_get e s) args),
     (''ip_related_alerts'', call_action e ''IpInput'' ip_input
        (defender_endpoint_ip_related_alerts e s) (rename_arg ''id'' ''ip_address'' args)),
     (''domain_related_alerts'', call_action e ''DomainInput'' domain_input
        (defender_endpoint_domain_related_alerts e s) (rename_arg ''id'' ''domain_name'' args)),
     (''file_related_alerts'', call_action e ''FileSha1Input'' file_sha1_input
        (defender_endpoint_file_related_alerts e s) (rename_arg ''id'' ''file_sha1'' args)),
     (''user_related_alerts'', call_action e ''UserIdInput'' user_id_input
        (defender_endpoint_user_related_alerts e s) (rename_arg ''id'' ''user_id'' args))]"

definition defender_incidents_alerts :: "'x env_scheme \<Rightarrow> server \<Rightarrow> incidents_alerts_input \<Rightarrow> read_io" where
  "defender_incidents_alerts e s i =
     unless_blocked s (ia_action i)
       (match_action (ia_routes e s i (ia_args i))
          (ret (Inl (unknown_action_error (asc ''defender_incidents_alerts'') (ia_action i) (map asc ia_actions))))
          (ia_action i))"

section \<open>The contract\<close>

definition ia_roots :: "(audience \<times> string) list" where
  "ia_roots = [(Graph, ''/security/alerts_v2''), (Graph, ''/security/incidents''), (Endpoint, ''/api/alerts''),
     (Endpoint, ''/api/ips/''), (Endpoint, ''/api/domains/''), (Endpoint, ''/api/files/''),
     (Endpoint, ''/api/users/'')]"

lemma reading_ia_handlers [reading_rules]:
  assumes "percent_documented e" and "text_params p"
  shows
    "reading 1 (reads_from s ia_roots) (defender_endpoint_ip_related_alerts e s p)"
    "reading 1 (reads_from s ia_roots) (defender_endpoint_domain_related_alerts e s p)"
    "reading 1 (reads_from s ia_roots) (defender_endpoint_file_related_alerts e s p)"
    "reading 1 (reads_from s ia_roots) (defender_endpoint_user_related_alerts e s p)"
    "reading 1 (reads_from s ia_roots) (defender_endpoint_alert_list e s p)"
    "reading 1 (reads_from s ia_roots) (defender_endpoint_alert_get e s p)"
    "reading 1 (reads_from s ia_roots) (defender_xdr_alert_list e s p)"
    "reading 1 (reads_from s ia_roots) (defender_xdr_alert_get e s p)"
    "reading 1 (reads_from s ia_roots) (defender_xdr_incident_list e s p)"
    "reading 1 (reads_from s ia_roots) (defender_xdr_incident_get e s p)"
  unfolding handlers
  by (rule path_rules reading_rules segments assms | assumption | code_simp)+

section \<open>Properties of the tool\<close>

definition ia_texts :: "incidents_alerts_input \<Rightarrow> bool" where
  "ia_texts i \<longleftrightarrow> opt_texts [ia_id i, ia_filter i, ia_select i, ia_expand i, ia_search i]"

lemma text_ia_args: "ia_texts i \<Longrightarrow> text_args (ia_args i)"
  unfolding ia_args_def Let_def
  by (auto simp: ia_texts_def opt_texts_def text_append text_opt text_opt_arg intro!: text_obj_of text_rename)

lemma reading_ia_routes:
  assumes "percent_documented e" and "text_args args" and "ia_texts i"
  shows "list_all (\<lambda>(n, m). reading 1 (reads_from s ia_roots) m) (ia_routes e s i args)"
  unfolding ia_routes_def
  by (rule row_rules  reading_rules text_rename assms | assumption)+

lemma ia_catalogue: "map fst (ia_routes e s i args) = ia_actions"
  by (simp add: ia_routes_def ia_actions_def)


lemma reading_defender_incidents_alerts:
  "percent_documented e \<and> ia_texts i \<Longrightarrow> reading 1 (reads_from s ia_roots) (defender_incidents_alerts e s i)"
  unfolding defender_incidents_alerts_def
  by (intro reading_unless_blocked reading_match reading_ia_routes text_ia_args reading_ret) auto

interpretation ia_tool: scoped_read_tool "defender_incidents_alerts e s" "\<lambda>i. percent_documented e \<and> ia_texts i" s ia_roots ia_action
  for e :: "'x env_scheme" and s
proof (rule scoped_read_tool.intro)
  show "read_tool (defender_incidents_alerts e s) (\<lambda>i. percent_documented e \<and> ia_texts i) s ia_roots"
    by (rule read_tool.intro) (rule reading_defender_incidents_alerts)
  show "scoped_read_tool_axioms (defender_incidents_alerts e s) s ia_action"
    by (rule scoped_read_tool_axioms.intro) (simp add: defender_incidents_alerts_def unless_blocked_def)
qed

end
