(* ===== verification/ReadMachines.thy ===== *)
theory ReadMachines
  imports ReadBase
begin

text \<open>
  The tool \<open>defender_machines\<close> of \<open>src/server.rs\<close>: device inventory, the machines, statistics and
  files behind an indicator, and the four actions whose input the dispatcher reads itself.
\<close>

section \<open>Inputs\<close>

definition machine_id_input :: "arg_field list" where
  "machine_id_input =
    [(''machine_id'', [''id''], True)]"

definition find_by_tag_input :: "arg_field list" where
  "find_by_tag_input =
    [(''tag_name'', [], True), (''use_starts_with'', [], False)]"

definition ip_stats_input :: "arg_field list" where
  "ip_stats_input =
    [(''ip_address'', [], True), (''look_back_hours'', [], False)]"

definition domain_stats_input :: "arg_field list" where
  "domain_stats_input =
    [(''domain_name'', [], True), (''look_back_hours'', [], False)]"

definition domain_input :: "arg_field list" where
  "domain_input =
    [(''domain_name'', [], True)]"

definition file_id_input :: "arg_field list" where
  "file_id_input =
    [(''file_id'', [], True)]"

definition file_stats_input :: "arg_field list" where
  "file_stats_input =
    [(''file_sha1'', [], True), (''look_back_hours'', [], False)]"

definition file_sha1_input :: "arg_field list" where
  "file_sha1_input =
    [(''file_sha1'', [], True)]"

definition user_id_input :: "arg_field list" where
  "user_id_input =
    [(''user_id'', [], True)]"

section \<open>Handlers\<close>

definition defender_endpoint_machine_list :: "'x read_handler" where
  [handlers]: "defender_endpoint_machine_list e s p =
     valid_then (validate_endpoint_odata_params (Some (p_top p)) (Some (p_skip p))) (\<lambda>u.
       ep_odata_get e s (asc ''/api/machines'')
          (ep_odata (p_opt_str p ''filter'') (p_top p) (p_skip p)))"

definition defender_endpoint_machine_get :: "'x read_handler" where
  [handlers]: "defender_endpoint_machine_get e s p =
     valid_then (validate_required_id (p_str p ''machine_id'') (asc ''machine_id'')) (\<lambda>i.
       ep_simple_get e s (asc ''/api/machines/'' @ encode_path_segment e i))"

definition defender_endpoint_machine_logged_on_users :: "'x read_handler" where
  [handlers]: "defender_endpoint_machine_logged_on_users e s p =
     valid_then (validate_required_id (p_str p ''machine_id'') (asc ''machine_id'')) (\<lambda>i.
       ep_simple_get e s (asc ''/api/machines/'' @ encode_path_segment e i @ asc ''/logonusers''))"

definition defender_endpoint_machine_find_by_tag :: "'x read_handler" where
  [handlers]: "defender_endpoint_machine_find_by_tag e s p =
     valid_then (validate_tag_name (p_str p ''tag_name'')) (\<lambda>tag_name.
       answered (endpoint_get e s (asc ''/api/machines/findByTag'')
           [(asc ''tag'', tag_name),
            (asc ''useStartsWithFilter'', show_bool (p_opt_bool p ''use_starts_with'' = Some True))]))"

definition defender_endpoint_machine_list_software :: "'x read_handler" where
  [handlers]: "defender_endpoint_machine_list_software e s p =
     valid_then (validate_required_id (p_str p ''machine_id'') (asc ''machine_id'')) (\<lambda>i.
       ep_simple_get e s (asc ''/api/machines/'' @ encode_path_segment e i @ asc ''/software''))"

definition defender_endpoint_machine_security_recommendations :: "'x read_handler" where
  [handlers]: "defender_endpoint_machine_security_recommendations e s p =
     valid_then (validate_required_id (p_str p ''machine_id'') (asc ''machine_id'')) (\<lambda>i.
       ep_simple_get e s (asc ''/api/machines/'' @ encode_path_segment e i @ asc ''/recommendations''))"

definition defender_endpoint_ip_statistics :: "'x read_handler" where
  [handlers]: "defender_endpoint_ip_statistics e s p =
     valid_then (validate_ip_address (p_str p ''ip_address'')) (\<lambda>i.
       valid_then (validate_look_back_hours (p_opt_int p ''look_back_hours'')) (\<lambda>u.
       answered (endpoint_get e s (asc ''/api/ips/'' @ encode_path_segment e i @ asc ''/stats'') (look_back_query (p_opt_int p ''look_back_hours'')))))"

definition defender_endpoint_domain_statistics :: "'x read_handler" where
  [handlers]: "defender_endpoint_domain_statistics e s p =
     valid_then (validate_hostname (p_str p ''domain_name'')) (\<lambda>i.
       valid_then (validate_look_back_hours (p_opt_int p ''look_back_hours'')) (\<lambda>u.
       answered (endpoint_get e s (asc ''/api/domains/'' @ encode_path_segment e i @ asc ''/stats'') (look_back_query (p_opt_int p ''look_back_hours'')))))"

definition defender_endpoint_domain_related_machines :: "'x read_handler" where
  [handlers]: "defender_endpoint_domain_related_machines e s p =
     valid_then (validate_hostname (p_str p ''domain_name'')) (\<lambda>i.
       ep_simple_get e s (asc ''/api/domains/'' @ encode_path_segment e i @ asc ''/machines''))"

definition defender_endpoint_file_get :: "'x read_handler" where
  [handlers]: "defender_endpoint_file_get e s p =
     valid_then (validate_file_hash (p_str p ''file_id'')) (\<lambda>i.
       ep_simple_get e s (asc ''/api/files/'' @ encode_path_segment e i))"

definition defender_endpoint_file_statistics :: "'x read_handler" where
  [handlers]: "defender_endpoint_file_statistics e s p =
     valid_then (validate_sha1 (p_str p ''file_sha1'')) (\<lambda>i.
       valid_then (validate_look_back_hours (p_opt_int p ''look_back_hours'')) (\<lambda>u.
       answered (endpoint_get e s (asc ''/api/files/'' @ encode_path_segment e i @ asc ''/stats'') (look_back_query (p_opt_int p ''look_back_hours'')))))"

definition defender_endpoint_file_related_machines :: "'x read_handler" where
  [handlers]: "defender_endpoint_file_related_machines e s p =
     valid_then (validate_sha1 (p_str p ''file_sha1'')) (\<lambda>i.
       ep_simple_get e s (asc ''/api/files/'' @ encode_path_segment e i @ asc ''/machines''))"

definition defender_endpoint_user_related_machines :: "'x read_handler" where
  [handlers]: "defender_endpoint_user_related_machines e s p =
     valid_then (validate_required_id (p_str p ''user_id'') (asc ''user_id'')) (\<lambda>i.
       ep_simple_get e s (asc ''/api/users/'' @ encode_path_segment e i @ asc ''/machines''))"

section \<open>The dispatcher\<close>

record machines_input =
  mi_action :: ustr
  mi_machine_id :: "ustr option"
  mi_id :: "ustr option"
  mi_tag_name :: "ustr option"
  mi_use_starts_with :: "bool option"
  mi_look_back_hours :: "int option"
  mi_top :: "int option"
  mi_skip :: "int option"
  mi_filter :: "ustr option"
  mi_timestamp :: "ustr option"

definition mi_args :: "machines_input \<Rightarrow> json_map" where
  "mi_args i = obj_of
     (opt_arg ''machine_id'' JStr (mi_machine_id i) @ opt_arg ''id'' JStr (mi_id i) @
      opt_arg ''tag_name'' JStr (mi_tag_name i) @
      opt_arg ''use_starts_with'' JBool (mi_use_starts_with i) @
      opt_arg ''look_back_hours'' JNum (mi_look_back_hours i) @ opt_arg ''top'' JNum (mi_top i) @
      opt_arg ''skip'' JNum (mi_skip i) @ opt_arg ''filter'' JStr (mi_filter i) @
      opt_arg ''timestamp'' JStr (mi_timestamp i))"

definition find_by_ip_path :: "ustr \<Rightarrow> ustr \<Rightarrow> ustr" where
  "find_by_ip_path ip ts =
     asc ''/api/machines/'' @ (asc ''findbyip(ip='' @ sq ip @ asc '',timestamp='' @ ts @ asc '')'')"

text \<open>The clock is read only once the timestamp has parsed.\<close>

definition find_by_ip :: "'x env_scheme \<Rightarrow> server \<Rightarrow> machines_input \<Rightarrow> read_io" where
  "find_by_ip e s i =
     refusing (asc ''find_by_ip'')
       [(''machine_id'', mi_machine_id i \<noteq> None),
        (''tag_name'', mi_tag_name i \<noteq> None),
        (''use_starts_with'', mi_use_starts_with i \<noteq> None),
        (''look_back_hours'', mi_look_back_hours i \<noteq> None),
        (''top'', mi_top i \<noteq> None), (''skip'', mi_skip i \<noteq> None),
        (''filter'', mi_filter i \<noteq> None)]
       (valid_then (required (mi_id i) ''id'' (mi_action i)) (\<lambda>ip.
        valid_then (validate_ip_address ip) (\<lambda>validated_ip.
        valid_then (required (mi_timestamp i) ''timestamp'' (mi_action i)) (\<lambda>ts. do {
          t \<leftarrow> (if is_ok (rfc3339 e (trim ts)) then now e else ret 0);
          valid_then (validate_recent_timestamp e t ts 30) (\<lambda>normalized_ts.
            ep_simple_get_as e s (find_by_ip_path validated_ip normalized_ts) ReadWriteNamed)
        }))))"

definition machine_of :: "machines_input \<Rightarrow> string \<Rightarrow> mcp_error + ustr" where
  "machine_of i action =
     (case mi_machine_id i of
       Some m \<Rightarrow> Inr m
     | None \<Rightarrow> (case mi_id i of
           Some m \<Rightarrow> Inr m
         | None \<Rightarrow> Inl (invalid_params (asc ''action '' @ sq (asc action) @ asc '' requires '' @ sq (asc ''machine_id'')))))"

definition machine_alerts :: "'x env_scheme \<Rightarrow> server \<Rightarrow> machines_input \<Rightarrow> read_io" where
  "machine_alerts e s i =
     refusing (asc ''machine_alerts'')
       [(''timestamp'', mi_timestamp i \<noteq> None),
        (''tag_name'', mi_tag_name i \<noteq> None),
        (''use_starts_with'', mi_use_starts_with i \<noteq> None),
        (''look_back_hours'', mi_look_back_hours i \<noteq> None)]
       (valid_then (machine_of i ''machine_alerts'') (\<lambda>m.
        valid_then (validate_machine_id m) (\<lambda>v.
        valid_then (validate_endpoint_odata_params (mi_top i) (mi_skip i)) (\<lambda>u.
          ep_odata_get_as e s (asc ''/api/machines/'' @ encode_path_segment e v @ asc ''/alerts'')
            (ep_odata (mi_filter i) (top_or_default (mi_top i)) (skip_or_default (mi_skip i)))
            ReadWriteNamed))))"

definition machine_vulnerabilities :: "'x env_scheme \<Rightarrow> server \<Rightarrow> machines_input \<Rightarrow> read_io" where
  "machine_vulnerabilities e s i =
     refusing (asc ''machine_vulnerabilities'')
       [(''timestamp'', mi_timestamp i \<noteq> None),
        (''tag_name'', mi_tag_name i \<noteq> None),
        (''use_starts_with'', mi_use_starts_with i \<noteq> None),
        (''look_back_hours'', mi_look_back_hours i \<noteq> None)]
       (valid_then (machine_of i ''machine_vulnerabilities'') (\<lambda>m.
        valid_then (validate_machine_id m) (\<lambda>v.
        valid_then (validate_endpoint_odata_params (mi_top i) (mi_skip i)) (\<lambda>u.
          ep_odata_get_as e s (asc ''/api/machines/'' @ encode_path_segment e v @ asc ''/vulnerabilities'')
            (ep_odata (mi_filter i) (top_or_default (mi_top i)) (skip_or_default (mi_skip i)))
            ReadEndpoint))))"

definition machine_missing_kbs :: "'x env_scheme \<Rightarrow> server \<Rightarrow> machines_input \<Rightarrow> read_io" where
  "machine_missing_kbs e s i =
     refusing (asc ''machine_missing_kbs'')
       [(''timestamp'', mi_timestamp i \<noteq> None),
        (''tag_name'', mi_tag_name i \<noteq> None),
        (''use_starts_with'', mi_use_starts_with i \<noteq> None),
        (''look_back_hours'', mi_look_back_hours i \<noteq> None),
        (''top'', mi_top i \<noteq> None), (''skip'', mi_skip i \<noteq> None),
        (''filter'', mi_filter i \<noteq> None)]
       (valid_then (machine_of i ''machine_missing_kbs'') (\<lambda>m.
        valid_then (validate_machine_id m) (\<lambda>v.
          ep_simple_get_as e s (asc ''/api/machines/'' @ encode_path_segment e v @ asc ''/getmissingkbs'') ReadEndpoint)))"


definition mi_actions :: "string list" where
  "mi_actions =
    [''machine_list'', ''machine_get'', ''logged_on_users'', ''find_by_tag'',
     ''installed_software'', ''security_recommendations'', ''ip_statistics'',
     ''domain_statistics'', ''domain_related_machines'', ''file_get'', ''file_statistics'',
     ''file_related_machines'', ''user_related_machines'', ''find_by_ip'', ''machine_alerts'',
     ''machine_vulnerabilities'', ''machine_missing_kbs'']"

definition mi_routes :: "'x env_scheme \<Rightarrow> server \<Rightarrow> machines_input \<Rightarrow> json_map
     \<Rightarrow> (string \<times> read_io) list" where
  "mi_routes e s i args =
    [(''machine_list'', call_action e ''EndpointODataInput'' endpoint_odata_input
        (defender_endpoint_machine_list e s) args),
     (''machine_get'', call_action e ''MachineIdInput'' machine_id_input
        (defender_endpoint_machine_get e s) args),
     (''logged_on_users'', call_action e ''MachineIdInput'' machine_id_input
        (defender_endpoint_machine_logged_on_users e s) args),
     (''find_by_tag'', call_action e ''FindByTagInput'' find_by_tag_input
        (defender_endpoint_machine_find_by_tag e s) (rename_arg ''id'' ''tag_name'' args)),
     (''installed_software'', call_action e ''MachineIdInput'' machine_id_input
        (defender_endpoint_machine_list_software e s) args),
     (''security_recommendations'', call_action e ''MachineIdInput'' machine_id_input
        (defender_endpoint_machine_security_recommendations e s) args),
     (''ip_statistics'', call_action e ''IpStatsInput'' ip_stats_input
        (defender_endpoint_ip_statistics e s) (rename_arg ''id'' ''ip_address'' args)),
     (''domain_statistics'', call_action e ''DomainStatsInput'' domain_stats_input
        (defender_endpoint_domain_statistics e s) (rename_arg ''id'' ''domain_name'' args)),
     (''domain_related_machines'', call_action e ''DomainInput'' domain_input
        (defender_endpoint_domain_related_machines e s) (rename_arg ''id'' ''domain_name'' args)),
     (''file_get'', call_action e ''FileIdInput'' file_id_input
        (defender_endpoint_file_get e s) (rename_arg ''id'' ''file_id'' args)),
     (''file_statistics'', call_action e ''FileStatsInput'' file_stats_input
        (defender_endpoint_file_statistics e s) (rename_arg ''id'' ''file_sha1'' args)),
     (''file_related_machines'', call_action e ''FileSha1Input'' file_sha1_input
        (defender_endpoint_file_related_machines e s) (rename_arg ''id'' ''file_sha1'' args)),
     (''user_related_machines'', call_action e ''UserIdInput'' user_id_input
        (defender_endpoint_user_related_machines e s) (rename_arg ''id'' ''user_id'' args)),
     (''find_by_ip'', find_by_ip e s i),
     (''machine_alerts'', machine_alerts e s i),
     (''machine_vulnerabilities'', machine_vulnerabilities e s i),
     (''machine_missing_kbs'', machine_missing_kbs e s i)]"

definition defender_machines :: "'x env_scheme \<Rightarrow> server \<Rightarrow> machines_input \<Rightarrow> read_io" where
  "defender_machines e s i =
     unless_blocked s (mi_action i)
       (match_action (mi_routes e s i (mi_args i))
          (ret (Inl (unknown_action_error (asc ''defender_machines'') (mi_action i) (map asc mi_actions))))
          (mi_action i))"

section \<open>The contract\<close>

definition mi_roots :: "(audience \<times> string) list" where
  "mi_roots = [(Endpoint, ''/api/machines''), (Endpoint, ''/api/ips/''), (Endpoint, ''/api/domains/''),
     (Endpoint, ''/api/files/''), (Endpoint, ''/api/users/'')]"

lemma reading_mi_handlers [reading_rules]:
  assumes "percent_documented e" and "text_params p"
  shows
    "reading 1 (reads_from s mi_roots) (defender_endpoint_machine_list e s p)"
    "reading 1 (reads_from s mi_roots) (defender_endpoint_machine_get e s p)"
    "reading 1 (reads_from s mi_roots) (defender_endpoint_machine_logged_on_users e s p)"
    "reading 1 (reads_from s mi_roots) (defender_endpoint_machine_find_by_tag e s p)"
    "reading 1 (reads_from s mi_roots) (defender_endpoint_machine_list_software e s p)"
    "reading 1 (reads_from s mi_roots) (defender_endpoint_machine_security_recommendations e s p)"
    "reading 1 (reads_from s mi_roots) (defender_endpoint_ip_statistics e s p)"
    "reading 1 (reads_from s mi_roots) (defender_endpoint_domain_statistics e s p)"
    "reading 1 (reads_from s mi_roots) (defender_endpoint_domain_related_machines e s p)"
    "reading 1 (reads_from s mi_roots) (defender_endpoint_file_get e s p)"
    "reading 1 (reads_from s mi_roots) (defender_endpoint_file_statistics e s p)"
    "reading 1 (reads_from s mi_roots) (defender_endpoint_file_related_machines e s p)"
    "reading 1 (reads_from s mi_roots) (defender_endpoint_user_related_machines e s p)"
  unfolding handlers
  by (rule path_rules reading_rules segments assms | assumption | code_simp)+

section \<open>Properties of the tool\<close>

definition mi_texts :: "machines_input \<Rightarrow> bool" where
  "mi_texts i \<longleftrightarrow> opt_texts [mi_machine_id i, mi_id i, mi_tag_name i, mi_filter i, mi_timestamp i]"

text \<open>The documented shape of the timestamps chrono prints with \<open>%Y-%m-%dT%H:%M:%SZ\<close>.\<close>

definition plain_timestamps :: "'x env_scheme \<Rightarrow> bool" where
  "plain_timestamps e \<longleftrightarrow> (\<forall>t. list_all (\<lambda>c. is_ascii_digit c \<or> c \<in> set (asc ''-+:TZ'')) (utc_format e t))"

lemma plain_alphanumeric: "is_ascii_alphanumeric c \<Longrightarrow> plain c"
  by (simp add: plain_def unreserved_def)

lemma plain_ip: "validate_ip_address v = Inr ip \<Longrightarrow> list_all plain ip"
proof -
  assume "validate_ip_address v = Inr ip"
  then obtain a where "parse_ip ip = Some a" by (auto simp: ip_address.accepts)
  moreover have "plain 46" "plain 58" by code_simp+
  then have "plain c" if "ip_char c" for c
    using that plain_alphanumeric hexdigit_alphanumeric by (auto simp: ip_char_def)
  ultimately show ?thesis using parse_ip_chars by (auto simp: list_all_iff)
qed

lemma plain_timestamp:
  assumes "plain_timestamps e" and "validate_recent_timestamp e t v d = Inr ts"
  shows "list_all plain ts"
proof -
  from assms(2) obtain dt where "ts = utc_format e dt"
    by (auto simp: validate_recent_timestamp_def Let_def split: sum.splits if_splits)
  moreover have "plain c" if "is_ascii_digit c \<or> c \<in> set (asc ''-+:TZ'')" for c
    using that by (auto simp: plain_def unreserved_def char_class asc_def)
  ultimately show ?thesis using assms(1) by (auto simp: plain_timestamps_def list_all_iff)
qed

lemma find_by_ip_segment:
  assumes "list_all plain ip" and "list_all plain ts"
  shows "seg_ok (asc ''findbyip(ip='' @ sq ip @ asc '',timestamp='' @ ts @ asc '')'')"
proof -
  have "list_all plain (asc ''findbyip(ip='')" "list_all plain (asc '',timestamp='')"
      "list_all plain (asc '')'')" "plain 39"
    by code_simp+
  with assms have "list_all plain (asc ''findbyip(ip='' @ sq ip @ asc '',timestamp='' @ ts @ asc '')'')"
    by (simp add: sq_def)
  then show ?thesis unfolding seg_ok_def by (simp add: asc_def)
qed

lemma reading_find_by_ip [reading_rules]:
  assumes "plain_timestamps e"
  shows "reading 1 (reads_from s mi_roots) (find_by_ip e s i)"
  unfolding find_by_ip_def find_by_ip_path_def
  by (rule reading_refusing reading_clock reading_valid_then reading_ep_simple_get_as fixed_segment
      find_by_ip_segment plain_ip plain_timestamp assms | assumption | code_simp)+

lemma reading_machine_actions [reading_rules]:
  assumes "percent_documented e"
  shows "reading 1 (reads_from s mi_roots) (machine_alerts e s i)"
    "reading 1 (reads_from s mi_roots) (machine_vulnerabilities e s i)"
    "reading 1 (reads_from s mi_roots) (machine_missing_kbs e s i)"
  unfolding machine_alerts_def machine_vulnerabilities_def machine_missing_kbs_def
  by (rule reading_refusing path_rules reading_rules seg_machine assms | assumption | code_simp)+

lemma text_mi_args: "mi_texts i \<Longrightarrow> text_args (mi_args i)"
  unfolding mi_args_def Let_def
  by (auto simp: mi_texts_def opt_texts_def text_append text_opt text_opt_arg intro!: text_obj_of text_rename)

lemma reading_mi_routes:
  assumes "percent_documented e" and "plain_timestamps e" and "text_args args" and "mi_texts i"
  shows "list_all (\<lambda>(n, m). reading 1 (reads_from s mi_roots) m) (mi_routes e s i args)"
  unfolding mi_routes_def
  by (rule row_rules  reading_rules text_rename assms | assumption)+

lemma mi_catalogue: "map fst (mi_routes e s i args) = mi_actions"
  by (simp add: mi_routes_def mi_actions_def)


lemma reading_defender_machines:
  "(percent_documented e \<and> plain_timestamps e) \<and> mi_texts i \<Longrightarrow> reading 1 (reads_from s mi_roots) (defender_machines e s i)"
  unfolding defender_machines_def
  by (intro reading_unless_blocked reading_match reading_mi_routes text_mi_args reading_ret) auto

interpretation mi_tool: scoped_read_tool "defender_machines e s" "\<lambda>i. (percent_documented e \<and> plain_timestamps e) \<and> mi_texts i" s mi_roots mi_action
  for e :: "'x env_scheme" and s
proof (rule scoped_read_tool.intro)
  show "read_tool (defender_machines e s) (\<lambda>i. (percent_documented e \<and> plain_timestamps e) \<and> mi_texts i) s mi_roots"
    by (rule read_tool.intro) (rule reading_defender_machines)
  show "scoped_read_tool_axioms (defender_machines e s) s mi_action"
    by (rule scoped_read_tool_axioms.intro) (simp add: defender_machines_def unless_blocked_def)
qed

end
