(* ===== verification/ReadVulnerabilities.thy ===== *)
theory ReadVulnerabilities
  imports ReadBase
begin

text \<open>
  The tool \<open>defender_vulnerabilities\<close> of \<open>src/server.rs\<close>: software inventory, vulnerabilities,
  recommendations, remediation tasks and the exposure score.
\<close>

section \<open>Inputs\<close>

definition software_id_input :: "arg_field list" where
  "software_id_input =
    [(''software_id'', [''id''], True)]"

definition software_odata_input :: "arg_field list" where
  "software_odata_input =
    [(''software_id'', [''id''], True), (''filter'', [], False), (''top'', [], False),
     (''skip'', [], False)]"

definition cve_id_input :: "arg_field list" where
  "cve_id_input =
    [(''cve_id'', [''id''], True)]"

definition cve_odata_input :: "arg_field list" where
  "cve_odata_input =
    [(''cve_id'', [], True), (''filter'', [], False), (''top'', [], False),
     (''skip'', [], False)]"

definition recommendation_id_input :: "arg_field list" where
  "recommendation_id_input =
    [(''recommendation_id'', [''id''], True)]"

definition remediation_id_input :: "arg_field list" where
  "remediation_id_input =
    [(''remediation_id'', [''id''], True)]"

definition remediation_odata_input :: "arg_field list" where
  "remediation_odata_input =
    [(''remediation_id'', [''id''], True), (''filter'', [], False), (''top'', [], False),
     (''skip'', [], False)]"

section \<open>Handlers\<close>

definition defender_endpoint_software_list :: "'x read_handler" where
  [handlers]: "defender_endpoint_software_list e s p =
     valid_then (validate_endpoint_odata_params (Some (p_top p)) (Some (p_skip p))) (\<lambda>u.
       ep_odata_get e s (asc ''/api/Software'')
          (ep_odata (p_opt_str p ''filter'') (p_top p) (p_skip p)))"

definition defender_endpoint_software_get :: "'x read_handler" where
  [handlers]: "defender_endpoint_software_get e s p =
     valid_then (validate_required_id (p_str p ''software_id'') (asc ''software_id'')) (\<lambda>i.
       ep_simple_get e s (asc ''/api/Software/'' @ encode_path_segment e i))"

definition defender_endpoint_software_machines :: "'x read_handler" where
  [handlers]: "defender_endpoint_software_machines e s p =
     valid_then (validate_required_id (p_str p ''software_id'') (asc ''software_id'')) (\<lambda>i.
       valid_then (validate_endpoint_odata_params (Some (p_top p)) (Some (p_skip p))) (\<lambda>u.
       ep_odata_get e s (asc ''/api/Software/'' @ encode_path_segment e i @ asc ''/machineReferences'')
          (ep_odata (p_opt_str p ''filter'') (p_top p) (p_skip p))))"

definition defender_endpoint_software_vulnerabilities :: "'x read_handler" where
  [handlers]: "defender_endpoint_software_vulnerabilities e s p =
     valid_then (validate_required_id (p_str p ''software_id'') (asc ''software_id'')) (\<lambda>i.
       ep_simple_get e s (asc ''/api/Software/'' @ encode_path_segment e i @ asc ''/vulnerabilities''))"

definition defender_endpoint_software_missing_kbs :: "'x read_handler" where
  [handlers]: "defender_endpoint_software_missing_kbs e s p =
     valid_then (validate_required_id (p_str p ''software_id'') (asc ''software_id'')) (\<lambda>i.
       ep_simple_get e s (asc ''/api/Software/'' @ encode_path_segment e i @ asc ''/getmissingkbs''))"

definition defender_endpoint_software_distribution :: "'x read_handler" where
  [handlers]: "defender_endpoint_software_distribution e s p =
     valid_then (validate_required_id (p_str p ''software_id'') (asc ''software_id'')) (\<lambda>i.
       ep_simple_get e s (asc ''/api/Software/'' @ encode_path_segment e i @ asc ''/distributions''))"

definition defender_endpoint_vulnerability_list :: "'x read_handler" where
  [handlers]: "defender_endpoint_vulnerability_list e s p =
     valid_then (validate_endpoint_odata_params (Some (p_top p)) (Some (p_skip p))) (\<lambda>u.
       ep_odata_get e s (asc ''/api/vulnerabilities'')
          (ep_odata (p_opt_str p ''filter'') (p_top p) (p_skip p)))"

definition defender_endpoint_vulnerability_get_by_cve :: "'x read_handler" where
  [handlers]: "defender_endpoint_vulnerability_get_by_cve e s p =
     valid_then (validate_cve_id e (p_str p ''cve_id'')) (\<lambda>i.
       ep_simple_get e s (asc ''/api/vulnerabilities/'' @ encode_path_segment e i))"

definition defender_endpoint_vulnerability_get_machines :: "'x read_handler" where
  [handlers]: "defender_endpoint_vulnerability_get_machines e s p =
     valid_then (validate_cve_id e (p_str p ''cve_id'')) (\<lambda>i.
       valid_then (validate_endpoint_odata_params (Some (p_top p)) (Some (p_skip p))) (\<lambda>u.
       ep_odata_get e s (asc ''/api/vulnerabilities/'' @ encode_path_segment e i @ asc ''/machineReferences'')
          (ep_odata (p_opt_str p ''filter'') (p_top p) (p_skip p))))"

definition defender_endpoint_vulnerability_get_by_machine_software :: "'x read_handler" where
  [handlers]: "defender_endpoint_vulnerability_get_by_machine_software e s p =
     valid_then (validate_endpoint_odata_params (Some (p_top p)) (Some (p_skip p))) (\<lambda>u.
       ep_odata_get e s (asc ''/api/vulnerabilities/machinesVulnerabilities'')
          (ep_odata (p_opt_str p ''filter'') (p_top p) (p_skip p)))"

definition defender_endpoint_recommendation_list :: "'x read_handler" where
  [handlers]: "defender_endpoint_recommendation_list e s p =
     valid_then (validate_endpoint_odata_params (Some (p_top p)) (Some (p_skip p))) (\<lambda>u.
       ep_odata_get e s (asc ''/api/recommendations'')
          (ep_odata (p_opt_str p ''filter'') (p_top p) (p_skip p)))"

definition defender_endpoint_recommendation_get :: "'x read_handler" where
  [handlers]: "defender_endpoint_recommendation_get e s p =
     valid_then (validate_required_id (p_str p ''recommendation_id'') (asc ''recommendation_id'')) (\<lambda>i.
       ep_simple_get e s (asc ''/api/recommendations/'' @ encode_path_segment e i))"

definition defender_endpoint_recommendation_machines :: "'x read_handler" where
  [handlers]: "defender_endpoint_recommendation_machines e s p =
     valid_then (validate_required_id (p_str p ''recommendation_id'') (asc ''recommendation_id'')) (\<lambda>i.
       ep_simple_get e s (asc ''/api/recommendations/'' @ encode_path_segment e i @ asc ''/machineReferences''))"

definition defender_endpoint_recommendation_vulnerabilities :: "'x read_handler" where
  [handlers]: "defender_endpoint_recommendation_vulnerabilities e s p =
     valid_then (validate_required_id (p_str p ''recommendation_id'') (asc ''recommendation_id'')) (\<lambda>i.
       ep_simple_get e s (asc ''/api/recommendations/'' @ encode_path_segment e i @ asc ''/vulnerabilities''))"

definition defender_endpoint_recommendation_by_software :: "'x read_handler" where
  [handlers]: "defender_endpoint_recommendation_by_software e s p =
     valid_then (validate_required_id (p_str p ''recommendation_id'') (asc ''recommendation_id'')) (\<lambda>i.
       ep_simple_get e s (asc ''/api/recommendations/'' @ encode_path_segment e i @ asc ''/software''))"

definition defender_endpoint_remediation_list :: "'x read_handler" where
  [handlers]: "defender_endpoint_remediation_list e s p =
     valid_then (validate_endpoint_odata_params (Some (p_top p)) (Some (p_skip p))) (\<lambda>u.
       ep_odata_get e s (asc ''/api/remediationTasks'')
          (ep_odata (p_opt_str p ''filter'') (p_top p) (p_skip p)))"

definition defender_endpoint_remediation_get :: "'x read_handler" where
  [handlers]: "defender_endpoint_remediation_get e s p =
     valid_then (validate_required_id (p_str p ''remediation_id'') (asc ''remediation_id'')) (\<lambda>i.
       ep_simple_get e s (asc ''/api/remediationTasks/'' @ encode_path_segment e i))"

definition defender_endpoint_remediation_exposed_devices :: "'x read_handler" where
  [handlers]: "defender_endpoint_remediation_exposed_devices e s p =
     valid_then (validate_required_id (p_str p ''remediation_id'') (asc ''remediation_id'')) (\<lambda>i.
       valid_then (validate_endpoint_odata_params (Some (p_top p)) (Some (p_skip p))) (\<lambda>u.
       ep_odata_get e s (asc ''/api/remediationTasks/'' @ encode_path_segment e i @ asc ''/machinereferences'')
          (ep_odata (p_opt_str p ''filter'') (p_top p) (p_skip p))))"

definition defender_endpoint_exposure_score :: "'x env_scheme \<Rightarrow> server \<Rightarrow> read_io" where
  [handlers]: "defender_endpoint_exposure_score e s =
     ep_simple_get e s (asc ''/api/exposureScore'')"

definition defender_endpoint_exposure_score_by_machine_groups :: "'x env_scheme \<Rightarrow> server \<Rightarrow> read_io" where
  [handlers]: "defender_endpoint_exposure_score_by_machine_groups e s =
     ep_simple_get e s (asc ''/api/exposureScore/ByMachineGroups'')"

section \<open>The dispatcher\<close>

record vulnerabilities_input =
  vi_action :: ustr
  vi_id :: "ustr option"
  vi_cve_id :: "ustr option"
  vi_software_id :: "ustr option"
  vi_top :: "int option"
  vi_skip :: "int option"
  vi_filter :: "ustr option"

definition vi_action_args :: "vulnerabilities_input \<Rightarrow> json_map" where
  "vi_action_args i = obj_of
     (opt_arg ''id'' JStr (vi_id i) @ opt_arg ''cve_id'' JStr (vi_cve_id i) @
      opt_arg ''software_id'' JStr (vi_software_id i) @ opt_arg ''top'' JNum (vi_top i) @
      opt_arg ''skip'' JNum (vi_skip i) @ opt_arg ''filter'' JStr (vi_filter i))"

definition vi_args :: "vulnerabilities_input \<Rightarrow> json_map" where
  "vi_args i =
     (let args = vi_action_args i;
          soft = (if prefix (asc ''software_'') (vi_action i) then rename_arg ''id'' ''software_id'' args else args)
      in if prefix (asc ''vulnerability_get'') (vi_action i)
         then rename_arg ''id'' ''cve_id'' soft else soft)"

definition exposure_action ::
  "'x env_scheme \<Rightarrow> server \<Rightarrow> string \<Rightarrow> json_map \<Rightarrow> ('x env_scheme \<Rightarrow> server \<Rightarrow> read_io) \<Rightarrow> read_io" where
  "exposure_action e s action args handler =
     (if args \<noteq> [] then ret (Inl (invalid_params
          (asc ''action '' @ sq (asc action) @ asc '' takes no parameters'')))
      else handler e s)"


definition vi_actions :: "string list" where
  "vi_actions =
    [''software_list'', ''software_get'', ''software_machines'', ''software_vulnerabilities'',
     ''software_missing_kbs'', ''software_distribution'', ''vulnerability_list'',
     ''vulnerability_get_by_cve'', ''vulnerability_get_machines'',
     ''vulnerability_get_by_machine_software'', ''recommendation_list'', ''recommendation_get'',
     ''recommendation_machines'', ''recommendation_vulnerabilities'',
     ''recommendation_by_software'', ''remediation_list'', ''remediation_get'',
     ''remediation_exposed_devices'', ''exposure_score'', ''exposure_score_by_machine_groups'']"

definition vi_routes :: "'x env_scheme \<Rightarrow> server \<Rightarrow> vulnerabilities_input \<Rightarrow> json_map
     \<Rightarrow> (string \<times> read_io) list" where
  "vi_routes e s i args =
    [(''software_list'', call_action e ''EndpointODataInput'' endpoint_odata_input
        (defender_endpoint_software_list e s) args),
     (''software_get'', call_action e ''SoftwareIdInput'' software_id_input
        (defender_endpoint_software_get e s) args),
     (''software_machines'', call_action e ''SoftwareODataInput'' software_odata_input
        (defender_endpoint_software_machines e s) args),
     (''software_vulnerabilities'', call_action e ''SoftwareIdInput'' software_id_input
        (defender_endpoint_software_vulnerabilities e s) args),
     (''software_missing_kbs'', call_action e ''SoftwareIdInput'' software_id_input
        (defender_endpoint_software_missing_kbs e s) args),
     (''software_distribution'', call_action e ''SoftwareIdInput'' software_id_input
        (defender_endpoint_software_distribution e s) args),
     (''vulnerability_list'', call_action e ''EndpointODataInput'' endpoint_odata_input
        (defender_endpoint_vulnerability_list e s) args),
     (''vulnerability_get_by_cve'', call_action e ''CveIdInput'' cve_id_input
        (defender_endpoint_vulnerability_get_by_cve e s) args),
     (''vulnerability_get_machines'', call_action e ''CveODataInput'' cve_odata_input
        (defender_endpoint_vulnerability_get_machines e s) args),
     (''vulnerability_get_by_machine_software'', call_action e ''EndpointODataInput'' endpoint_odata_input
        (defender_endpoint_vulnerability_get_by_machine_software e s) args),
     (''recommendation_list'', call_action e ''EndpointODataInput'' endpoint_odata_input
        (defender_endpoint_recommendation_list e s) args),
     (''recommendation_get'', call_action e ''RecommendationIdInput'' recommendation_id_input
        (defender_endpoint_recommendation_get e s) args),
     (''recommendation_machines'', call_action e ''RecommendationIdInput'' recommendation_id_input
        (defender_endpoint_recommendation_machines e s) args),
     (''recommendation_vulnerabilities'', call_action e ''RecommendationIdInput'' recommendation_id_input
        (defender_endpoint_recommendation_vulnerabilities e s) args),
     (''recommendation_by_software'', call_action e ''RecommendationIdInput'' recommendation_id_input
        (defender_endpoint_recommendation_by_software e s) args),
     (''remediation_list'', call_action e ''EndpointODataInput'' endpoint_odata_input
        (defender_endpoint_remediation_list e s) args),
     (''remediation_get'', call_action e ''RemediationIdInput'' remediation_id_input
        (defender_endpoint_remediation_get e s) args),
     (''remediation_exposed_devices'', call_action e ''RemediationODataInput'' remediation_odata_input
        (defender_endpoint_remediation_exposed_devices e s) args),
     (''exposure_score'', exposure_action e s ''exposure_score'' args
        defender_endpoint_exposure_score),
     (''exposure_score_by_machine_groups'', exposure_action e s ''exposure_score_by_machine_groups'' args
        defender_endpoint_exposure_score_by_machine_groups)]"

definition defender_vulnerabilities :: "'x env_scheme \<Rightarrow> server \<Rightarrow> vulnerabilities_input \<Rightarrow> read_io" where
  "defender_vulnerabilities e s i =
     match_action (vi_routes e s i (vi_args i))
          (ret (Inl (unknown_action_error (asc ''defender_vulnerabilities'') (vi_action i) (map asc vi_actions))))
          (vi_action i)"

section \<open>The contract\<close>

definition vi_roots :: "(audience \<times> string) list" where
  "vi_roots = [(Endpoint, ''/api/Software''), (Endpoint, ''/api/vulnerabilities''), (Endpoint, ''/api/recommendations''),
     (Endpoint, ''/api/remediationTasks''), (Endpoint, ''/api/exposureScore'')]"

lemma reading_vi_handlers [reading_rules]:
  assumes "percent_documented e" and "text_params p"
  shows
    "reading 1 (reads_from s vi_roots) (defender_endpoint_software_list e s p)"
    "reading 1 (reads_from s vi_roots) (defender_endpoint_software_get e s p)"
    "reading 1 (reads_from s vi_roots) (defender_endpoint_software_machines e s p)"
    "reading 1 (reads_from s vi_roots) (defender_endpoint_software_vulnerabilities e s p)"
    "reading 1 (reads_from s vi_roots) (defender_endpoint_software_missing_kbs e s p)"
    "reading 1 (reads_from s vi_roots) (defender_endpoint_software_distribution e s p)"
    "reading 1 (reads_from s vi_roots) (defender_endpoint_vulnerability_list e s p)"
    "reading 1 (reads_from s vi_roots) (defender_endpoint_vulnerability_get_by_cve e s p)"
    "reading 1 (reads_from s vi_roots) (defender_endpoint_vulnerability_get_machines e s p)"
    "reading 1 (reads_from s vi_roots) (defender_endpoint_vulnerability_get_by_machine_software e s p)"
    "reading 1 (reads_from s vi_roots) (defender_endpoint_recommendation_list e s p)"
    "reading 1 (reads_from s vi_roots) (defender_endpoint_recommendation_get e s p)"
    "reading 1 (reads_from s vi_roots) (defender_endpoint_recommendation_machines e s p)"
    "reading 1 (reads_from s vi_roots) (defender_endpoint_recommendation_vulnerabilities e s p)"
    "reading 1 (reads_from s vi_roots) (defender_endpoint_recommendation_by_software e s p)"
    "reading 1 (reads_from s vi_roots) (defender_endpoint_remediation_list e s p)"
    "reading 1 (reads_from s vi_roots) (defender_endpoint_remediation_get e s p)"
    "reading 1 (reads_from s vi_roots) (defender_endpoint_remediation_exposed_devices e s p)"
    "reading 1 (reads_from s vi_roots) (defender_endpoint_exposure_score e s)"
    "reading 1 (reads_from s vi_roots) (defender_endpoint_exposure_score_by_machine_groups e s)"
  unfolding handlers
  by (rule path_rules reading_rules segments assms | assumption | code_simp)+

section \<open>Properties of the tool\<close>

definition vi_texts :: "vulnerabilities_input \<Rightarrow> bool" where
  "vi_texts i \<longleftrightarrow> opt_texts [vi_id i, vi_cve_id i, vi_software_id i, vi_filter i]"

lemma reading_scores [reading_rules]:
  "reading 1 (reads_from s vi_roots) (defender_endpoint_exposure_score e s)"
  "reading 1 (reads_from s vi_roots) (defender_endpoint_exposure_score_by_machine_groups e s)"
  unfolding handlers by (rule reading_rules | code_simp)+

lemma reading_exposure [reading_rules]:
  "reading n P (h e s) \<Longrightarrow> reading n P (exposure_action e s action args h)"
  by (simp add: exposure_action_def reading_ret)

lemma text_vi_args: "vi_texts i \<Longrightarrow> text_args (vi_args i)"
  unfolding vi_args_def vi_action_args_def Let_def
  by (auto simp: vi_texts_def opt_texts_def text_append text_opt text_opt_arg intro!: text_obj_of text_rename)

lemma reading_vi_routes:
  assumes "percent_documented e" and "text_args args" and "vi_texts i"
  shows "list_all (\<lambda>(n, m). reading 1 (reads_from s vi_roots) m) (vi_routes e s i args)"
  unfolding vi_routes_def
  by (rule row_rules  reading_rules text_rename assms | assumption)+

lemma vi_catalogue: "map fst (vi_routes e s i args) = vi_actions"
  by (simp add: vi_routes_def vi_actions_def)


lemma reading_defender_vulnerabilities:
  "percent_documented e \<and> vi_texts i \<Longrightarrow> reading 1 (reads_from s vi_roots) (defender_vulnerabilities e s i)"
  unfolding defender_vulnerabilities_def
  by (intro  reading_match reading_vi_routes text_vi_args reading_ret) auto

interpretation vi_tool: read_tool "defender_vulnerabilities e s" "\<lambda>i. percent_documented e \<and> vi_texts i" s vi_roots
  for e :: "'x env_scheme" and s
  by (rule read_tool.intro) (rule reading_defender_vulnerabilities)

end
