(* ===== verification/Staging.thy ===== *)
theory Staging
  imports Client
begin

text \<open>
  The staging of downloaded artifacts: the paths of \<open>std::path\<close> on Unix as far as the source uses
  them, \<open>download_artifact\<close> and \<open>stream_to_file\<close> of \<open>src/client.rs\<close>, and the resolution of the
  staging directory of \<open>src/server.rs\<close>. The lemmas show that a confined relative directory joined to
  the quarantine directory stays inside it, component by component, and that the size and the hash
  reported for an artifact are those of the bytes written. Symbolic links are not modelled:
  containment is that of the path's components.
\<close>

section \<open>Paths\<close>

datatype path_component = RootDir | CurDir | ParentDir | Normal ustr

definition path_segments :: "ustr \<Rightarrow> ustr list" where
  "path_segments p = filter (\<lambda>t. t \<noteq> []) (split_chars (\<lambda>c. c = 47) p)"

definition segment_component :: "ustr \<Rightarrow> path_component" where
  "segment_component t = (if t = asc ''..'' then ParentDir else Normal t)"

definition later_components :: "ustr list \<Rightarrow> path_component list" where
  "later_components ts = map segment_component (filter (\<lambda>t. t \<noteq> asc ''.'') ts)"

text \<open>\<open>Path::components\<close>: a leading dot is kept, other dots and repeated slashes are dropped.\<close>

definition path_components :: "ustr \<Rightarrow> path_component list" where
  "path_components p =
     (if p \<noteq> [] \<and> hd p = 47 then RootDir # later_components (path_segments p)
      else (case path_segments p of
          [] \<Rightarrow> []
        | t # ts \<Rightarrow> (if t = asc ''.'' then CurDir else segment_component t) # later_components ts))"

definition path_join :: "ustr \<Rightarrow> ustr \<Rightarrow> ustr" where
  "path_join base p =
     (if p \<noteq> [] \<and> hd p = 47 then p
      else if base = [] \<or> last base = 47 then base @ p
      else base @ 47 # p)"

definition relative_component :: "path_component \<Rightarrow> bool" where
  "relative_component c = (case c of Normal t \<Rightarrow> True | CurDir \<Rightarrow> True | _ \<Rightarrow> False)"

definition staging_dir :: "server \<Rightarrow> ustr option \<Rightarrow> mcp_error + ustr" where
  "staging_dir s destination_dir =
     (case destination_dir of
       None \<Rightarrow> Inr (quarantine_dir (config s))
     | Some d \<Rightarrow>
         (let sub = trim d in
          if sub = [] then Inr (quarantine_dir (config s))
          else if list_all relative_component (path_components sub)
          then Inr (path_join (quarantine_dir (config s)) sub)
          else Inl (invalid_params (asc ''destination_dir must be a relative subdirectory of the quarantine directory (no absolute paths or '' @ sq (asc ''..'') @ asc '')''))))"

text \<open>\<open>p\<close> is \<open>dir\<close> or below it.\<close>

definition inside :: "ustr \<Rightarrow> ustr \<Rightarrow> bool" where
  "inside dir p \<longleftrightarrow> (\<exists>cs. path_components p = path_components dir @ cs \<and> list_all relative_component cs)"

lemma path_segments_join: "path_segments (a @ 47 # b) = path_segments a @ path_segments b"
  by (simp add: path_segments_def split_chars_sep)

lemma path_segments_first:
  "p \<noteq> [] \<Longrightarrow> hd p \<noteq> 47 \<Longrightarrow> \<exists>t ts. path_segments p = t # ts"
proof (cases p)
  case (Cons c r)
  assume "p \<noteq> []" "hd p \<noteq> 47"
  with Cons split_chars_ne [of "\<lambda>c. c = 47" r] show ?thesis
    by (auto simp: path_segments_def split: list.splits)
qed simp

lemma later_append: "later_components (a @ b) = later_components a @ later_components b"
  by (simp add: later_components_def)

lemma relative_no_root: "list_all relative_component (path_components p) \<Longrightarrow> p \<noteq> [] \<Longrightarrow> hd p \<noteq> 47"
  by (auto simp: path_components_def relative_component_def)

lemma relative_segments:
  assumes "list_all relative_component (path_components p)"
  shows "list_all relative_component (later_components (path_segments p))"
proof (cases "p = []")
  case True
  then show ?thesis by (simp add: path_segments_def later_components_def)
next
  case False
  from path_segments_first [OF False relative_no_root [OF assms False]] obtain t ts where
    "path_segments p = t # ts" by blast
  with assms relative_no_root [OF assms False] False show ?thesis
    by (auto simp: path_components_def later_components_def split: if_splits)
qed

lemma components_below:
  assumes "base \<noteq> []"
  shows "path_components (base @ 47 # p) = path_components base @ later_components (path_segments p)"
proof (cases "hd base = 47")
  case True
  with assms show ?thesis by (simp add: path_components_def path_segments_join later_append)
next
  case False
  from path_segments_first [OF assms False] obtain t ts where "path_segments base = t # ts" by blast
  with assms False show ?thesis by (simp add: path_components_def path_segments_join later_append)
qed

lemma components_slash: "base \<noteq> [] \<Longrightarrow> path_components (base @ [47]) = path_components base"
  using components_below [of base "[]"] by (simp add: path_segments_def later_components_def)

lemma inside_self [simp]: "inside dir dir"
  by (simp add: inside_def)

lemma inside_trans: "inside a b \<Longrightarrow> inside b c \<Longrightarrow> inside a c"
  unfolding inside_def by fastforce

lemma inside_join:
  assumes "list_all relative_component (path_components p)"
  shows "inside base (path_join base p)"
proof (cases "p = [] \<or> base = []")
  case True
  with assms relative_no_root [OF assms] show ?thesis
    using components_slash [of base]
    by (cases "p = []") (auto simp: inside_def path_join_def path_components_def path_segments_def)
next
  case False
  then have root: "hd p \<noteq> 47" using relative_no_root [OF assms] by blast
  have rel: "list_all relative_component (later_components (path_segments p))"
    by (rule relative_segments [OF assms])
  show ?thesis
  proof (cases "last base = 47")
    case True
    then obtain b where b: "base = b @ [47]" using False by (metis append_butlast_last_id)
    show ?thesis
    proof (cases "b = []")
      case True
      with b root False rel show ?thesis
        by (simp add: inside_def path_join_def path_components_def path_segments_join [of "[]", simplified]
            path_segments_def later_components_def)
    next
      case False
      with b root rel \<open>\<not> (p = [] \<or> base = [])\<close> show ?thesis
        using components_below [of b p] components_slash [of b]
        by (auto simp: inside_def path_join_def)
    qed
  next
    case ends: False
    with False root rel show ?thesis
      using components_below [of base p] by (auto simp: inside_def path_join_def)
  qed
qed

lemma staging_dir_inside:
  "staging_dir s d = Inr dir \<Longrightarrow> inside (quarantine_dir (config s)) dir"
  by (auto simp: staging_dir_def Let_def inside_join split: option.splits if_splits)

text \<open>A file name without a slash, other than the dots, is one component below its directory.\<close>

definition plain_name :: "ustr \<Rightarrow> bool" where
  "plain_name n \<longleftrightarrow> n \<noteq> [] \<and> list_all (\<lambda>c. c \<noteq> 47) n \<and> n \<noteq> asc ''..''"

lemma plain_name_relative: "plain_name n \<Longrightarrow> list_all relative_component (path_components n)"
  by (cases n) (auto simp: plain_name_def path_components_def path_segments_def split_chars_single
      relative_component_def segment_component_def later_components_def list_all_iff)

lemma inside_file: "plain_name n \<Longrightarrow> inside dir (path_join dir n)"
  by (rule inside_join) (rule plain_name_relative)

section \<open>Downloading an artifact\<close>

record downloaded_artifact =
  da_file_path :: ustr
  da_size :: nat
  da_sha256 :: ustr
  da_action_id :: "ustr option"
  da_sha1 :: "ustr option"

definition artifact_json :: "downloaded_artifact \<Rightarrow> json" where
  "artifact_json a = JObj (obj_of
     ([(asc ''status'', JStr (asc ''Downloaded'')), (asc ''file_path'', JStr (da_file_path a)),
       (asc ''file_size_bytes'', JNum (int (da_size a))), (asc ''sha256'', JStr (da_sha256 a))]
      @ (case da_action_id a of Some t \<Rightarrow> [(asc ''source_action_id'', JStr t)] | None \<Rightarrow> [])
      @ (case da_sha1 a of Some t \<Rightarrow> [(asc ''source_sha1'', JStr t)] | None \<Rightarrow> [])))"

fun write_chunks :: "'x env_scheme \<Rightarrow> ustr \<Rightarrow> nat list list \<Rightarrow> (call_tool_result + unit) io" where
  "write_chunks e path [] = ret (Inr ())"
| "write_chunks e path (c # cs) = do {
     r \<leftarrow> file_effect e (WriteChunk path c);
     case r of
       Inl m \<Rightarrow> ret (Inl (staging_filesystem_error (asc ''failed to write artifact file: '' @ m)))
     | Inr _ \<Rightarrow> write_chunks e path cs
   }"

definition stream_to_file ::
  "'x env_scheme \<Rightarrow> http_reply \<Rightarrow> ustr \<Rightarrow> (call_tool_result + (nat \<times> ustr)) io" where
  "stream_to_file e resp path = do {
     body \<leftarrow> gets (\<lambda>w. body_chunks e (trace w) resp);
     r \<leftarrow> write_chunks e path (fst body);
     case r of
       Inl err \<Rightarrow> ret (Inl err)
     | Inr _ \<Rightarrow> (case snd body of
           Some n \<Rightarrow> ret (Inl (network_error n (asc ''artifact download streaming'')))
         | None \<Rightarrow> do {
             f \<leftarrow> file_effect e (FlushFile path);
             case f of
               Inl m \<Rightarrow> ret (Inl (staging_filesystem_error (asc ''failed to flush artifact file: '' @ m)))
             | Inr _ \<Rightarrow> ret (Inr (length (concat (fst body)), hex_bytes (sha256 e (concat (fst body)))))
           })
   }"

text \<open>The artifact's file, once its reply is there: a file that could not be completed is removed.\<close>

definition write_artifact ::
  "'x env_scheme \<Rightarrow> http_reply \<Rightarrow> ustr \<Rightarrow> ustr option \<Rightarrow> ustr option
     \<Rightarrow> (call_tool_result + downloaded_artifact) io" where
  "write_artifact e resp path action_id sha1 = do {
     opened \<leftarrow> file_effect e (OpenTruncated path);
     case opened of
       Inl m \<Rightarrow> ret (Inl (staging_filesystem_error
         (asc ''failed to create artifact file '' @ path @ asc '': '' @ m)))
     | Inr _ \<Rightarrow> do {
         r \<leftarrow> stream_to_file e resp path;
         case r of
           Inl err \<Rightarrow> do { _ \<leftarrow> file_effect e (RemoveFile path); ret (Inl err) }
         | Inr (len, hash) \<Rightarrow> do {
             c \<leftarrow> file_effect e (Canonicalize path);
             ret (Inr \<lparr>da_file_path = (case c of Inr canonical \<Rightarrow> canonical | Inl _ \<Rightarrow> path),
               da_size = len, da_sha256 = hash, da_action_id = action_id, da_sha1 = sha1\<rparr>)
           }
       }
   }"

definition artifact_request :: "ustr \<Rightarrow> http_request" where
  "artifact_request url =
     \<lparr>rq_method = GET, rq_url = url, rq_query = [], rq_bearer = None, rq_body = NoBody\<rparr>"

definition download_artifact ::
  "'x env_scheme \<Rightarrow> server \<Rightarrow> ustr \<Rightarrow> ustr \<Rightarrow> ustr \<Rightarrow> ustr option \<Rightarrow> ustr option
     \<Rightarrow> (call_tool_result + downloaded_artifact) io" where
  "download_artifact e s url dir file_name action_id sha1 = do {
     d \<leftarrow> file_effect e (EnsureDir dir);
     case d of
       Inl m \<Rightarrow> ret (Inl (staging_filesystem_error
         (asc ''failed to create staging directory '' @ dir @ asc '': '' @ m)))
     | Inr _ \<Rightarrow> do {
         r \<leftarrow> send e (artifact_request url);
         case r of
           Inl n \<Rightarrow> ret (Inl (network_error n (asc ''artifact download'')))
         | Inr resp \<Rightarrow>
             if reply_status resp \<noteq> 200 then
               (if claims_challenge resp then do {
                  set_reauth s ConditionalAccess;
                  ret (Inl (reauthentication_required (reauth_str ConditionalAccess)))
                }
                else ret (Inl (http_error (reply_status resp) (asc ''artifact download'')
                       (auth_kind_of s) ReadEndpoint)))
             else write_artifact e resp (path_join dir file_name) action_id sha1
       }
   }"

section \<open>What a download does\<close>

text \<open>The bytes written to a file since it was last truncated, as the trace records them.\<close>

fun file_content :: "ustr \<Rightarrow> event list \<Rightarrow> nat list" where
  "file_content p [] = []"
| "file_content p (ev # evs) =
     (case ev of
       Filed (WriteChunk q bs) \<Rightarrow> (if q = p then bs @ file_content p evs else file_content p evs)
     | _ \<Rightarrow> file_content p evs)"

lemma file_content_append [simp]: "file_content p (a @ b) = file_content p a @ file_content p b"
  by (induction a) (auto split: event.split file_op.split)

fun file_event :: "(file_op \<Rightarrow> bool) \<Rightarrow> event \<Rightarrow> bool" where
  "file_event P (Filed f) = P f"
| "file_event P _ = False"

lemma write_chunks_run:
  assumes "run_state (write_chunks e p cs) w = (r, w')"
  shows "\<exists>n. trace w' = trace w @ map (\<lambda>c. Filed (WriteChunk p c)) (take n cs) \<and> (r = Inr () \<longrightarrow> length cs \<le> n)"
  using assms
proof (induction cs arbitrary: w)
  case (Cons c cs)
  let ?w = "w\<lparr>trace := trace w @ [Filed (WriteChunk p c)]\<rparr>"
  show ?case
  proof (cases "file_io e (trace w) (WriteChunk p c)")
    case (Inl m)
    with Cons.prems show ?thesis by (intro exI [of _ 1]) auto
  next
    case (Inr x)
    with Cons.prems have "run_state (write_chunks e p cs) ?w = (r, w')" by simp
    from Cons.IH [OF this] obtain n where
      "trace w' = trace ?w @ map (\<lambda>c. Filed (WriteChunk p c)) (take n cs)" "r = Inr () \<longrightarrow> length cs \<le> n"
      by blast
    then show ?thesis by (intro exI [of _ "Suc n"]) simp
  qed
qed simp

lemma content_of_chunks: "file_content p (map (\<lambda>c. Filed (WriteChunk p c)) cs) = concat cs"
  by (induction cs) auto

lemma stream_to_file_run:
  assumes "run_state (stream_to_file e resp p) w = (r, w')"
  shows "\<exists>evs. trace w' = trace w @ evs \<and>
    list_all (file_event (\<lambda>f. (\<exists>c. f = WriteChunk p c) \<or> f = FlushFile p)) evs \<and>
    (case r of Inl err \<Rightarrow> True | Inr (len, hash) \<Rightarrow>
       len = length (file_content p evs) \<and> hash = hex_bytes (sha256 e (file_content p evs)))"
proof -
  define body where "body = body_chunks e (trace w) resp"
  obtain x w1 where 1: "run_state (write_chunks e p (fst body)) w = (x, w1)" by fastforce
  from write_chunks_run [OF 1] obtain n where
    n: "trace w1 = trace w @ map (\<lambda>c. Filed (WriteChunk p c)) (take n (fst body))"
      "x = Inr () \<longrightarrow> length (fst body) \<le> n" by blast
  have chunks: "list_all (file_event (\<lambda>f. (\<exists>c. f = WriteChunk p c) \<or> f = FlushFile p))
      (map (\<lambda>c. Filed (WriteChunk p c)) (take n (fst body)))"
    by (simp add: list_all_iff)
  show ?thesis
  proof (cases "x = Inr () \<and> snd body = None")
    case False
    with assms 1 have "\<exists>err. r = Inl err \<and> w' = w1"
      by (cases x; cases "snd body") (auto simp: stream_to_file_def body_def)
    with n chunks show ?thesis by (intro exI [of _ "map (\<lambda>c. Filed (WriteChunk p c)) (take n (fst body))"]) auto
  next
    case True
    let ?evs = "map (\<lambda>c. Filed (WriteChunk p c)) (fst body) @ [Filed (FlushFile p)]"
    from True n have w1: "trace w1 = trace w @ map (\<lambda>c. Filed (WriteChunk p c)) (fst body)" by simp
    from True chunks n(2) have all: "list_all (file_event (\<lambda>f. (\<exists>c. f = WriteChunk p c) \<or> f = FlushFile p)) ?evs"
      by simp
    from True assms 1 have "w' = w1\<lparr>trace := trace w1 @ [Filed (FlushFile p)]\<rparr>"
        "(\<exists>err. r = Inl err) \<or>
         r = Inr (length (concat (fst body)), hex_bytes (sha256 e (concat (fst body))))"
      by (auto simp: stream_to_file_def body_def split: sum.splits)
    with w1 all show ?thesis
      by (intro exI [of _ ?evs]) (auto simp: content_of_chunks)
  qed
qed

fun op_path :: "file_op \<Rightarrow> ustr" where
  "op_path (EnsureDir p) = p"
| "op_path (OpenTruncated p) = p"
| "op_path (WriteChunk p bs) = p"
| "op_path (FlushFile p) = p"
| "op_path (RemoveFile p) = p"
| "op_path (Canonicalize p) = p"

text \<open>What the events of a staged file say of its result: what was written, or that it was removed.\<close>

definition artifact_outcome ::
  "'x env_scheme \<Rightarrow> ustr \<Rightarrow> event list \<Rightarrow> call_tool_result + downloaded_artifact \<Rightarrow> bool" where
  "artifact_outcome e p evs r =
     (case r of
       Inr a \<Rightarrow> da_size a = length (file_content p evs) \<and> da_sha256 a = hex_bytes (sha256 e (file_content p evs))
     | Inl err \<Rightarrow> Filed (OpenTruncated p) \<in> set (butlast evs) \<longrightarrow> last evs = Filed (RemoveFile p))"

lemma write_artifact_run:
  assumes "run_state (write_artifact e resp p action_id sha1) w = (r, w')"
  shows "\<exists>evs. trace w' = trace w @ Filed (OpenTruncated p) # evs \<and>
    list_all (file_event (\<lambda>f. op_path f = p)) evs \<and>
    artifact_outcome e p (Filed (OpenTruncated p) # evs) r"
proof -
  let ?w = "w\<lparr>trace := trace w @ [Filed (OpenTruncated p)]\<rparr>"
  show ?thesis
  proof (cases "file_io e (trace w) (OpenTruncated p)")
    case (Inl m)
    with assms show ?thesis
      by (intro exI [of _ "[]"]) (auto simp: write_artifact_def artifact_outcome_def)
  next
    case (Inr u)
    obtain x w1 where 1: "run_state (stream_to_file e resp p) ?w = (x, w1)" by fastforce
    from stream_to_file_run [OF 1] obtain evs where
      evs: "trace w1 = trace ?w @ evs"
        "list_all (file_event (\<lambda>f. (\<exists>c. f = WriteChunk p c) \<or> f = FlushFile p)) evs"
      and res: "case x of Inl err \<Rightarrow> True | Inr (len, hash) \<Rightarrow>
         len = length (file_content p evs) \<and> hash = hex_bytes (sha256 e (file_content p evs))" by blast
    from evs(2) have at_p: "list_all (file_event (\<lambda>f. op_path f = p)) evs"
      by (rule list.pred_mono_strong) (auto elim!: file_event.elims(2))
    show ?thesis
    proof (cases x)
      case (Inl err)
      with assms 1 Inr evs(1) at_p show ?thesis
        by (intro exI [of _ "evs @ [Filed (RemoveFile p)]"])
           (auto simp: write_artifact_def artifact_outcome_def)
    next
      case out: (Inr lh)
      obtain len hash where lh: "lh = (len, hash)" by fastforce
      with assms 1 Inr out evs(1) at_p res show ?thesis
        by (intro exI [of _ "evs @ [Filed (Canonicalize p)]"])
           (auto simp: write_artifact_def artifact_outcome_def)
    qed
  qed
qed

lemma set_reauth_trace: "run_state (set_reauth s q) w = (u, w') \<Longrightarrow> trace w' = trace w"
  by (auto simp: set_reauth_def once_reauth_def split: if_splits option.splits)

text \<open>
  A download: the directory, one request without an access token, and then only operations on the
  file, whose outcome is that of its events.
\<close>

lemma download_artifact_run:
  assumes "run_state (download_artifact e s url dir name action_id sha1) w = (r, w')"
  shows "\<exists>sent files. trace w' = trace w @ Filed (EnsureDir dir) # sent @ files \<and>
    sent \<in> {[], [Sent (artifact_request url)]} \<and>
    list_all (file_event (\<lambda>f. op_path f = path_join dir name)) files \<and>
    artifact_outcome e (path_join dir name) (Filed (EnsureDir dir) # sent @ files) r"
proof -
  let ?p = "path_join dir name"
  let ?w = "w\<lparr>trace := trace w @ [Filed (EnsureDir dir)]\<rparr>"
  let ?w2 = "w\<lparr>trace := trace w @ [Filed (EnsureDir dir), Sent (artifact_request url)]\<rparr>"
  have w2: "run_state (send e (artifact_request url)) ?w = (http e (trace ?w) (artifact_request url), ?w2)"
    by simp
  consider (dir) m where "file_io e (trace w) (EnsureDir dir) = Inl m"
    | (net) u n where "file_io e (trace w) (EnsureDir dir) = Inr u" "http e (trace ?w) (artifact_request url) = Inl n"
    | (http) u resp where "file_io e (trace w) (EnsureDir dir) = Inr u"
        "http e (trace ?w) (artifact_request url) = Inr resp" "reply_status resp \<noteq> 200"
    | (ok) u resp where "file_io e (trace w) (EnsureDir dir) = Inr u"
        "http e (trace ?w) (artifact_request url) = Inr resp" "reply_status resp = 200"
    by (cases "file_io e (trace w) (EnsureDir dir)"; cases "http e (trace ?w) (artifact_request url)") auto
  then show ?thesis
  proof cases
    case (dir m)
    with assms show ?thesis
      by (intro exI [of _ "[]"]) (auto simp: download_artifact_def artifact_outcome_def)
  next
    case (net u n)
    with assms show ?thesis
      by (intro exI [of _ "[Sent (artifact_request url)]"] exI [of _ "[]"])
         (auto simp: download_artifact_def artifact_outcome_def)
  next
    case (http u resp)
    with assms have "trace w' = trace ?w2" and "\<exists>err. r = Inl err"
      by (auto simp: download_artifact_def split: if_splits prod.splits dest: set_reauth_trace)
    then show ?thesis
      by (intro exI [of _ "[Sent (artifact_request url)]"] exI [of _ "[]"]) (auto simp: artifact_outcome_def)
  next
    case (ok u resp)
    with assms have "run_state (write_artifact e resp ?p action_id sha1) ?w2 = (r, w')"
      by (simp add: download_artifact_def)
    from write_artifact_run [OF this] obtain evs where
      evs: "trace w' = trace ?w2 @ Filed (OpenTruncated ?p) # evs"
        "list_all (file_event (\<lambda>f. op_path f = ?p)) evs"
        "artifact_outcome e ?p (Filed (OpenTruncated ?p) # evs) r" by blast
    then show ?thesis
      by (intro exI [of _ "[Sent (artifact_request url)]"] exI [of _ "Filed (OpenTruncated ?p) # evs"])
         (auto simp: artifact_outcome_def split: sum.splits)
  qed
qed

section \<open>Properties\<close>



end
