(* ===== verification/Forensics.thy ===== *)
theory Forensics
  imports ReadBase Staging
begin

text \<open>
  The tool \<open>defender_forensics\<close> of \<open>src/server.rs\<close>: machine actions, investigations, investigation
  packages, quarantined files and Live Response results. Its calls are GETs; the downloads write
  into the quarantine directory only, and send no access token to the address they are given.
\<close>

section \<open>Inputs\<close>

definition action_id_input :: "arg_field list" where
  "action_id_input =
    [(''action_id'', [''id''], True)]"

definition live_response_result_input :: "arg_field list" where
  "live_response_result_input =
    [(''action_id'', [], True), (''command_index'', [], False)]"

section \<open>Handlers\<close>

definition defender_endpoint_machine_action_list :: "'x read_handler" where
  [handlers]: "defender_endpoint_machine_action_list e s p =
     valid_then (validate_endpoint_odata_params (Some (p_top p)) (Some (p_skip p))) (\<lambda>u.
       ep_odata_get e s (asc ''/api/machineactions'')
          (ep_odata (p_opt_str p ''filter'') (p_top p) (p_skip p)))"

definition defender_endpoint_machine_action_get_status :: "'x read_handler" where
  [handlers]: "defender_endpoint_machine_action_get_status e s p =
     valid_then (validate_required_id (p_str p ''action_id'') (asc ''action_id'')) (\<lambda>i.
       ep_simple_get e s (asc ''/api/machineactions/'' @ encode_path_segment e i))"

definition negative_index :: "int \<Rightarrow> mcp_error" where
  "negative_index i = invalid_params (asc ''command_index must be zero or greater, got '' @ show_int i)"

definition result_link_path :: "'x env_scheme \<Rightarrow> ustr \<Rightarrow> int \<Rightarrow> ustr" where
  "result_link_path e action_id i =
     asc ''/api/machineactions/'' @ encode_path_segment e action_id
     @ (asc ''/'' @ (asc ''GetLiveResponseResultDownloadLink(index='' @ show_int i @ asc '')''))"

definition defender_endpoint_live_response_get_result :: "'x read_handler" where
  "defender_endpoint_live_response_get_result e s p =
     (if \<not> live_response (categories (config s)) then ret (Inr (tool_error
         (asc ''Live Response is disabled. Set DEFENDER_ENABLE_LIVE_RESPONSE=true to enable.'')))
      else valid_then (validate_required_id (p_str p ''action_id'') (asc ''action_id'')) (\<lambda>action_id.
        let idx = p_int p ''command_index'' 0 in
        if idx < 0 then ret (Inl (negative_index idx))
        else ep_simple_get e s (result_link_path e action_id idx)))"

section \<open>Download links\<close>

definition sas_url :: "json \<Rightarrow> call_tool_result + ustr" where
  "sas_url v = (case get_str (asc ''value'') v of
       Some t \<Rightarrow> Inr t
     | None \<Rightarrow> Inl (tool_error (asc ''upstream response did not contain a download URL in '' @ sq (asc ''value''))))"

text \<open>
  A package that is not there yet answers 404: then the action's own status is read, and a second
  404 surfaces the first.
\<close>

definition investigation_package_url :: "'x env_scheme \<Rightarrow> server \<Rightarrow> ustr \<Rightarrow> (call_tool_result + ustr) io" where
  "investigation_package_url e s action_id = do {
     r \<leftarrow> endpoint_get e s (asc ''/api/machineactions/'' @ encode_path_segment e action_id @ asc ''/getPackageUri'') [];
     case r of
       Inr v \<Rightarrow> ret (sas_url v)
     | Inl err \<Rightarrow>
         if http_status_of err = Some 404 then do {
           a \<leftarrow> endpoint_get e s (asc ''/api/machineactions/'' @ encode_path_segment e action_id) [];
           case a of
             Inr action \<Rightarrow> ret (Inl (package_not_ready
               (case get_str (asc ''status'') action of Some t \<Rightarrow> t | None \<Rightarrow> asc ''Unknown'')))
           | Inl _ \<Rightarrow> ret (Inl err)
         }
         else ret (Inl err)
   }"

definition stage_artifact ::
  "'x env_scheme \<Rightarrow> server \<Rightarrow> ustr \<Rightarrow> ustr \<Rightarrow> ustr \<Rightarrow> ustr \<Rightarrow> ustr option \<Rightarrow> read_io" where
  "stage_artifact e s url dir file_name action_id sha1 = do {
     r \<leftarrow> download_artifact e s url dir file_name (Some action_id) sha1;
     ret (Inr (case r of Inr a \<Rightarrow> Structured (artifact_json a) | Inl err \<Rightarrow> err))
   }"

section \<open>The dispatcher\<close>

record forensics_input =
  fi_action :: ustr
  fi_action_id :: "ustr option"
  fi_sha1 :: "ustr option"
  fi_command_index :: "int option"
  fi_destination_dir :: "ustr option"
  fi_top :: "int option"
  fi_skip :: "int option"
  fi_filter :: "ustr option"
  fi_investigation_id :: "ustr option"

definition fi_args :: "forensics_input \<Rightarrow> json_map" where
  "fi_args i = obj_of
     (opt_arg ''action_id'' JStr (fi_action_id i) @ opt_arg ''sha1'' JStr (fi_sha1 i) @
      opt_arg ''command_index'' JNum (fi_command_index i) @
      opt_arg ''destination_dir'' JStr (fi_destination_dir i) @ opt_arg ''top'' JNum (fi_top i) @
      opt_arg ''skip'' JNum (fi_skip i) @ opt_arg ''filter'' JStr (fi_filter i) @
      opt_arg ''investigation_id'' JStr (fi_investigation_id i))"

definition fi_action_id_of :: "forensics_input \<Rightarrow> string \<Rightarrow> mcp_error + ustr" where
  "fi_action_id_of i action =
     (case required (fi_action_id i) ''action_id'' (asc action) of
       Inl err \<Rightarrow> Inl err | Inr v \<Rightarrow> validate_action_id v)"

definition get_investigation_package_sas_url :: "'x env_scheme \<Rightarrow> server \<Rightarrow> forensics_input \<Rightarrow> read_io" where
  "get_investigation_package_sas_url e s i =
     valid_then (fi_action_id_of i ''get_investigation_package_sas_url'') (\<lambda>action_id. do {
       r \<leftarrow> investigation_package_url e s action_id;
       ret (Inr (case r of
           Inr url \<Rightarrow> Structured (jobj [(asc ''action_id'', JStr action_id), (asc ''value'', JStr url)])
         | Inl err \<Rightarrow> err))
     })"

definition download_investigation_package :: "'x env_scheme \<Rightarrow> server \<Rightarrow> forensics_input \<Rightarrow> read_io" where
  "download_investigation_package e s i =
     valid_then (fi_action_id_of i ''download_investigation_package'') (\<lambda>action_id.
     valid_then (staging_dir s (fi_destination_dir i)) (\<lambda>dir. do {
       r \<leftarrow> investigation_package_url e s action_id;
       case r of
         Inl err \<Rightarrow> ret (Inr err)
       | Inr url \<Rightarrow> stage_artifact e s url dir
           (asc ''investigation_package_'' @ action_id @ asc ''.zip'') action_id None
     }))"

definition fi_sha1_of :: "forensics_input \<Rightarrow> mcp_error + ustr option" where
  "fi_sha1_of i =
     (case fi_sha1 i of
       None \<Rightarrow> Inr None
     | Some t \<Rightarrow> (case validate_sha1 t of Inl err \<Rightarrow> Inl err | Inr v \<Rightarrow> Inr (Some (to_ascii_lowercase v))))"

definition quarantine_name :: "ustr \<Rightarrow> int \<Rightarrow> ustr option \<Rightarrow> ustr" where
  "quarantine_name action_id index sha1 =
     (case sha1 of
       Some h \<Rightarrow> asc ''quarantine_'' @ h @ asc ''.zip''
     | None \<Rightarrow> asc ''quarantine_'' @ action_id @ asc ''_'' @ show_int index @ asc ''.zip'')"

definition download_quarantined_file :: "'x env_scheme \<Rightarrow> server \<Rightarrow> forensics_input \<Rightarrow> read_io" where
  "download_quarantined_file e s i =
     valid_then (fi_action_id_of i ''download_quarantined_file'') (\<lambda>action_id.
     let index = skip_or_default (fi_command_index i) in
     if index < 0 then ret (Inl (negative_index index))
     else valid_then (fi_sha1_of i) (\<lambda>sha1.
       valid_then (staging_dir s (fi_destination_dir i)) (\<lambda>dir. do {
         link \<leftarrow> endpoint_get e s (result_link_path e action_id index) [];
         case link of
           Inl err \<Rightarrow> ret (Inr err)
         | Inr v \<Rightarrow> (case sas_url v of
               Inl err \<Rightarrow> ret (Inr err)
             | Inr url \<Rightarrow> stage_artifact e s url dir (quarantine_name action_id index sha1) action_id sha1)
       })))"

definition investigation_list :: "'x env_scheme \<Rightarrow> server \<Rightarrow> forensics_input \<Rightarrow> read_io" where
  "investigation_list e s i =
     refusing (asc ''investigation_list'')
       [(''action_id'', fi_action_id i \<noteq> None), (''sha1'', fi_sha1 i \<noteq> None),
        (''command_index'', fi_command_index i \<noteq> None),
        (''destination_dir'', fi_destination_dir i \<noteq> None),
        (''investigation_id'', fi_investigation_id i \<noteq> None)]
       (valid_then (validate_endpoint_odata_params (fi_top i) (fi_skip i)) (\<lambda>u.
          ep_odata_get_as e s (asc ''/api/investigations'')
            (ep_odata (fi_filter i) (top_or_default (fi_top i)) (skip_or_default (fi_skip i)))
            ReadWriteNamed))"

definition investigation_get :: "'x env_scheme \<Rightarrow> server \<Rightarrow> forensics_input \<Rightarrow> read_io" where
  "investigation_get e s i =
     refusing (asc ''investigation_get'')
       [(''action_id'', fi_action_id i \<noteq> None), (''sha1'', fi_sha1 i \<noteq> None),
        (''command_index'', fi_command_index i \<noteq> None),
        (''destination_dir'', fi_destination_dir i \<noteq> None),
        (''top'', fi_top i \<noteq> None), (''skip'', fi_skip i \<noteq> None),
        (''filter'', fi_filter i \<noteq> None)]
       (valid_then (required (fi_investigation_id i) ''investigation_id'' (asc ''investigation_get'')) (\<lambda>v.
        valid_then (validate_required_id v (asc ''investigation_id'')) (\<lambda>validated.
          ep_simple_get_as e s (asc ''/api/investigations/'' @ encode_path_segment e validated) ReadWriteNamed)))"

definition library_file_list :: "'x env_scheme \<Rightarrow> server \<Rightarrow> forensics_input \<Rightarrow> read_io" where
  "library_file_list e s i =
     refusing (asc ''library_file_list'')
       [(''action_id'', fi_action_id i \<noteq> None), (''sha1'', fi_sha1 i \<noteq> None),
        (''command_index'', fi_command_index i \<noteq> None),
        (''destination_dir'', fi_destination_dir i \<noteq> None),
        (''investigation_id'', fi_investigation_id i \<noteq> None),
        (''top'', fi_top i \<noteq> None), (''skip'', fi_skip i \<noteq> None),
        (''filter'', fi_filter i \<noteq> None)]
       (ep_simple_get_as e s (asc ''/api/libraryfiles'') ReadWriteNamed)"

definition fi_actions :: "string list" where
  "fi_actions =
    [''machine_action_list'', ''machine_action_get_status'',
     ''get_investigation_package_sas_url'', ''download_investigation_package'',
     ''download_quarantined_file'', ''live_response_get_result'', ''investigation_list'',
     ''investigation_get'', ''library_file_list'']"

definition fi_routes :: "'x env_scheme \<Rightarrow> server \<Rightarrow> forensics_input \<Rightarrow> json_map
     \<Rightarrow> (string \<times> read_io) list" where
  "fi_routes e s i args =
    [(''machine_action_list'', call_action e ''EndpointODataInput'' endpoint_odata_input
        (defender_endpoint_machine_action_list e s) args),
     (''machine_action_get_status'', call_action e ''ActionIdInput'' action_id_input
        (defender_endpoint_machine_action_get_status e s) args),
     (''get_investigation_package_sas_url'', get_investigation_package_sas_url e s i),
     (''download_investigation_package'', download_investigation_package e s i),
     (''download_quarantined_file'', download_quarantined_file e s i),
     (''live_response_get_result'', call_action e ''LiveResponseResultInput'' live_response_result_input
        (defender_endpoint_live_response_get_result e s) args),
     (''investigation_list'', investigation_list e s i),
     (''investigation_get'', investigation_get e s i),
     (''library_file_list'', library_file_list e s i)]"

definition defender_forensics :: "'x env_scheme \<Rightarrow> server \<Rightarrow> forensics_input \<Rightarrow> read_io" where
  "defender_forensics e s i =
     unless_blocked s (fi_action i)
       (match_action (fi_routes e s i (fi_args i))
          (ret (Inl (unknown_action_error (asc ''defender_forensics'') (fi_action i) (map asc fi_actions))))
          (fi_action i))"

section \<open>The contract\<close>

definition fi_roots :: "(audience \<times> string) list" where
  "fi_roots = [(Endpoint, ''/api/machineactions''), (Endpoint, ''/api/investigations''),
     (Endpoint, ''/api/libraryfiles'')]"

section \<open>Properties of the tool\<close>

fun forensic_event :: "server \<Rightarrow> event \<Rightarrow> bool" where
  "forensic_event s (Sent rq) = (rq_bearer rq = None \<or> reads_from s fi_roots rq)"
| "forensic_event s (Filed f) = inside (quarantine_dir (config s)) (op_path f)"
| "forensic_event s _ = False"

lemma read_event_forensic: "read_event (reads_from s fi_roots) ev \<Longrightarrow> forensic_event s ev"
  by (cases ev) auto

lemma forensic_reading: "reading 1 (reads_from s fi_roots) m \<Longrightarrow> within 1 (forensic_event s) m"
  by (erule within_mono) (auto intro: read_event_forensic)

lemma reading_case:
  "(\<And>x. within n E (f x)) \<Longrightarrow> (\<And>y. within n E (g y)) \<Longrightarrow> within n E (case r of Inl x \<Rightarrow> f x | Inr y \<Rightarrow> g y)"
  by (cases r) simp_all

lemma reading_last: "within n E m \<Longrightarrow> (\<And>a. within 0 E (f a)) \<Longrightarrow> within n E (do { a \<leftarrow> m; f a })"
  using reading_bind [of n E m 0 f] by simp

lemma forensic_more: "within n E m \<Longrightarrow> n \<le> k \<Longrightarrow> within k E m"
  by (erule within_mono) auto

text \<open>File names: validated identifiers and hashes make plain names.\<close>

lemma plain_name_wrap:
  assumes "list_all (\<lambda>c. c \<noteq> 47) t" and "list_all (\<lambda>c. c \<noteq> 47) pre" and "3 \<le> length pre"
  shows "plain_name (pre @ t @ asc ''.zip'')"
proof -
  have "list_all (\<lambda>c. c \<noteq> 47) (asc ''.zip'')" by code_simp
  moreover have "length (pre @ t @ asc ''.zip'') \<noteq> length (asc ''..'')" using assms(3) by (simp add: asc_def)
  then have "pre @ t @ asc ''.zip'' \<noteq> asc ''..''" by metis
  ultimately show ?thesis using assms by (auto simp: plain_name_def)
qed

lemma no_slash_action_id: "validate_action_id v = Inr t \<Longrightarrow> list_all (\<lambda>c. c \<noteq> 47) t"
  by (auto simp: action_id.accepts action_id_ok_def list_all_iff char_class)

lemma no_slash_sha1: "validate_sha1 v = Inr t \<Longrightarrow> list_all (\<lambda>c. c \<noteq> 47) (to_ascii_lowercase t)"
  by (auto simp: sha1.accepts hex_ok_def list_all_iff to_ascii_lowercase_def to_ascii_lower_def char_class)

lemma show_int_chars: "c \<in> set (show_int i) \<Longrightarrow> is_ascii_digit c \<or> c = 45"
  by (auto simp: show_int_def asc_def dest: nat_digits_digits split: if_splits)

lemma no_slash_show_int: "list_all (\<lambda>c. c \<noteq> 47) (show_int i)"
  by (auto simp: list_all_iff char_class dest!: show_int_chars)

lemma plain_package_name:
  "list_all (\<lambda>c. c \<noteq> 47) t \<Longrightarrow> plain_name (asc ''investigation_package_'' @ t @ asc ''.zip'')"
  by (rule plain_name_wrap) (simp_all, code_simp+)

lemma plain_quarantine_name:
  assumes "list_all (\<lambda>c. c \<noteq> 47) t" and "\<And>h. sha1 = Some h \<Longrightarrow> list_all (\<lambda>c. c \<noteq> 47) h"
  shows "plain_name (quarantine_name t i sha1)"
proof -
  have pre: "list_all (\<lambda>c. c \<noteq> 47) (asc ''quarantine_'')" "3 \<le> length (asc ''quarantine_'')"
      "list_all (\<lambda>c. c \<noteq> 47) (asc ''_'')"
    by code_simp+
  then have "plain_name (asc ''quarantine_'' @ (t @ asc ''_'' @ show_int i) @ asc ''.zip'')"
    using assms(1) no_slash_show_int by (intro plain_name_wrap) auto
  moreover have "plain_name (asc ''quarantine_'' @ h @ asc ''.zip'')" if "sha1 = Some h" for h
    using pre assms(2) that by (intro plain_name_wrap) auto
  ultimately show ?thesis by (cases sha1) (auto simp: quarantine_name_def)
qed

text \<open>The parts of the downloads.\<close>

lemma within_download:
  assumes "inside (quarantine_dir (config s)) dir" and "plain_name name"
  shows "within 0 (forensic_event s) (download_artifact e s url dir name a h)"
  unfolding within_def
proof (intro allI impI)
  fix w r w' assume "run_state (download_artifact e s url dir name a h) w = (r, w')"
  from download_artifact_run [OF this] obtain sent files where
    evs: "trace w' = trace w @ Filed (EnsureDir dir) # sent @ files"
      "sent \<in> {[], [Sent (artifact_request url)]}"
      "list_all (file_event (\<lambda>f. op_path f = path_join dir name)) files"
    by blast
  have staged: "inside (quarantine_dir (config s)) (path_join dir name)"
    by (rule inside_trans [OF assms(1) inside_file [OF assms(2)]])
  from evs(3) have "list_all (forensic_event s) files"
    by (rule list.pred_mono_strong) (auto simp: staged elim!: file_event.elims(2))
  moreover from evs(3) have "filter api_call files = []"
    by (auto simp: filter_empty_conv list_all_iff elim!: api_call.elims(2) dest!: bspec)
  ultimately show "\<exists>evs. trace w' = trace w @ evs \<and> list_all (forensic_event s) evs \<and>
      length (filter api_call evs) \<le> 0"
    using evs(1,2) assms(1)
    by (intro exI [of _ "Filed (EnsureDir dir) # sent @ files"]) (auto simp: artifact_request_def)
qed

lemma within_stage:
  "inside (quarantine_dir (config s)) dir \<Longrightarrow> plain_name name \<Longrightarrow>
     within 0 (forensic_event s) (stage_artifact e s url dir name a h)"
  unfolding stage_artifact_def by (intro reading_then_ret within_download)

lemma tail_result_link: "tail_path (asc ''/'' @ (asc ''GetLiveResponseResultDownloadLink(index='' @ show_int i @ asc '')''))"
proof -
  let ?t = "asc ''GetLiveResponseResultDownloadLink(index='' @ show_int i @ asc '')''"
  have "list_all plain (asc ''GetLiveResponseResultDownloadLink(index='')" "list_all plain (asc '')'')" "plain 45"
    by code_simp+
  then have "list_all plain ?t"
    by (auto simp: list_all_iff plain_def unreserved_def is_ascii_alphanumeric_def dest!: show_int_chars)
  then have "seg_ok ?t" unfolding seg_ok_def by (simp add: asc_def)
  then have "list_all seg_ok (split_chars (\<lambda>c. c = 47) ?t)"
    using seg_free [of ?t] split_chars_single [of ?t "\<lambda>c. c = 47"] by simp
  moreover have "asc ''/'' = [47]" by code_simp
  ultimately show ?thesis by (simp add: tail_path_def)
qed

lemma rooted_actions: "rooted fi_roots Endpoint (asc ''/api/machineactions/'')"
  by code_simp

lemma fixed_result_link:
  "percent_documented e \<Longrightarrow> seg_ok (encode_path_segment e t) \<Longrightarrow> fixed_path fi_roots Endpoint (result_link_path e t i)"
  unfolding result_link_path_def
  using fixed_inner [of fi_roots Endpoint "asc ''/api/machineactions/''"] tail_result_link
  by (metis rooted_actions)

lemma reading_ep_get [reading_rules]:
  "fixed_path roots Endpoint path \<Longrightarrow> reading 1 (reads_from s roots) (endpoint_get e s path [])"
  unfolding endpoint_get_def by (intro reading_endpoint_get bounded_Nil)

lemma within_package_url:
  assumes "percent_documented e" and "validate_action_id v = Inr t"
  shows "within 2 (forensic_event s) (investigation_package_url e s t)"
proof -
  have seg: "seg_ok (encode_path_segment e t)" by (rule seg_action [OF assms])
  have "rooted fi_roots Endpoint (asc ''/api/machineactions/'')" "tail_path (asc ''/getPackageUri'')"
    by (rule rooted_actions) code_simp
  then have paths: "fixed_path fi_roots Endpoint (asc ''/api/machineactions/'' @ encode_path_segment e t @ asc ''/getPackageUri'')"
      "fixed_path fi_roots Endpoint (asc ''/api/machineactions/'' @ encode_path_segment e t)"
    using seg by (auto intro: path_rules)
  have "within (1 + 1) (forensic_event s) (investigation_package_url e s t)"
    unfolding investigation_package_url_def
  proof (rule reading_bind)
    have get: "within 1 (forensic_event s) (endpoint_get e s
        (asc ''/api/machineactions/'' @ encode_path_segment e t) [])"
      by (intro forensic_reading reading_ep_get paths)
    fix r :: "call_tool_result + json"
    show "within 1 (forensic_event s)
        (case r of Inr v \<Rightarrow> ret (sas_url v)
         | Inl err \<Rightarrow>
             if http_status_of err = Some 404 then do {
               a \<leftarrow> endpoint_get e s (asc ''/api/machineactions/'' @ encode_path_segment e t) [];
               case a of
                 Inr action \<Rightarrow> ret (Inl (package_not_ready
                   (case get_str (asc ''status'') action of Some x \<Rightarrow> x | None \<Rightarrow> asc ''Unknown'')))
               | Inl _ \<Rightarrow> ret (Inl err)
             } else ret (Inl err))"
      by (rule reading_case reading_if reading_ret reading_last get)+
  qed (intro forensic_reading reading_ep_get paths)
  then show ?thesis by (simp add: numeral_2_eq_2)
qed


lemma within_result_link:
  "percent_documented e \<Longrightarrow> validate_action_id v = Inr t \<Longrightarrow>
     within 1 (forensic_event s) (endpoint_get e s (result_link_path e t i) [])"
  by (intro forensic_reading reading_ep_get fixed_result_link seg_action)

lemma fi_action_id_of_valid: "fi_action_id_of i a = Inr t \<Longrightarrow> \<exists>v. validate_action_id v = Inr t"
  by (auto simp: fi_action_id_of_def split: sum.splits)

lemma fi_sha1_of_plain: "fi_sha1_of i = Inr (Some h) \<Longrightarrow> list_all (\<lambda>c. c \<noteq> 47) h"
  by (auto simp: fi_sha1_of_def no_slash_sha1 split: option.splits sum.splits)

lemma within_sas_url:
  assumes "percent_documented e"
  shows "within 2 (forensic_event s) (get_investigation_package_sas_url e s i)"
  unfolding get_investigation_package_sas_url_def
  by (rule reading_valid_then, drule fi_action_id_of_valid)
     (auto intro: reading_then_ret within_package_url [OF assms])

lemma within_package_download:
  assumes "percent_documented e"
  shows "within 2 (forensic_event s) (download_investigation_package e s i)"
  unfolding download_investigation_package_def
proof (rule reading_valid_then, rule reading_valid_then)
  fix t dir
  assume "fi_action_id_of i ''download_investigation_package'' = Inr t"
    and dir: "staging_dir s (fi_destination_dir i) = Inr dir"
  then obtain v where v: "validate_action_id v = Inr t" using fi_action_id_of_valid by blast
  show "within 2 (forensic_event s) (do {
       r \<leftarrow> investigation_package_url e s t;
       case r of
         Inl err \<Rightarrow> ret (Inr err)
       | Inr url \<Rightarrow> stage_artifact e s url dir (asc ''investigation_package_'' @ t @ asc ''.zip'') t None
     })"
    by (rule reading_last [OF within_package_url [OF assms v]])
       (intro reading_case reading_ret within_stage staging_dir_inside [OF dir] plain_package_name
         no_slash_action_id [OF v])
qed

lemma within_quarantine_download:
  assumes "percent_documented e"
  shows "within 1 (forensic_event s) (download_quarantined_file e s i)"
  unfolding download_quarantined_file_def Let_def
proof (rule reading_valid_then, rule reading_if, rule reading_ret, rule reading_valid_then,
    rule reading_valid_then)
  fix t h dir
  assume "fi_action_id_of i ''download_quarantined_file'' = Inr t"
    and h: "fi_sha1_of i = Inr h" and dir: "staging_dir s (fi_destination_dir i) = Inr dir"
  then obtain v where v: "validate_action_id v = Inr t" using fi_action_id_of_valid by blast
  let ?index = "skip_or_default (fi_command_index i)"
  have name: "plain_name (quarantine_name t ?index h)"
    by (rule plain_quarantine_name [OF no_slash_action_id [OF v]], rule fi_sha1_of_plain [of i]) (simp add: h)
  show "within 1 (forensic_event s) (do {
         link \<leftarrow> endpoint_get e s (result_link_path e t ?index) [];
         case link of
           Inl err \<Rightarrow> ret (Inr err)
         | Inr v \<Rightarrow> (case sas_url v of
               Inl err \<Rightarrow> ret (Inr err)
             | Inr url \<Rightarrow> stage_artifact e s url dir (quarantine_name t ?index h) t h)
       })"
    by (rule reading_last [OF within_result_link [OF assms v]])
       (intro reading_case reading_ret within_stage staging_dir_inside [OF dir] name)
qed

definition fi_texts :: "forensics_input \<Rightarrow> bool" where
  "fi_texts i \<longleftrightarrow> opt_texts [fi_action_id i, fi_sha1 i, fi_destination_dir i, fi_filter i, fi_investigation_id i]"

lemma text_fi_args: "fi_texts i \<Longrightarrow> text_args (fi_args i)"
  unfolding fi_args_def
  by (auto simp: fi_texts_def opt_texts_def text_append text_opt text_opt_arg intro!: text_obj_of)

lemma reading_fi_handlers [reading_rules]:
  assumes "percent_documented e" and "text_params p"
  shows "reading 1 (reads_from s fi_roots) (defender_endpoint_machine_action_list e s p)"
    "reading 1 (reads_from s fi_roots) (defender_endpoint_machine_action_get_status e s p)"
    "reading 1 (reads_from s fi_roots) (defender_endpoint_live_response_get_result e s p)"
proof -
  show "reading 1 (reads_from s fi_roots) (defender_endpoint_machine_action_list e s p)"
    "reading 1 (reads_from s fi_roots) (defender_endpoint_machine_action_get_status e s p)"
    unfolding handlers
    by (rule path_rules reading_rules segments assms | assumption | code_simp)+
  show "reading 1 (reads_from s fi_roots) (defender_endpoint_live_response_get_result e s p)"
    unfolding defender_endpoint_live_response_get_result_def Let_def
    by (intro reading_if reading_ret reading_valid_then reading_ep_simple_get fixed_result_link
        seg_id [OF assms(1) text_paramsD [OF assms(2)]] assms)
qed

lemma reading_investigations:
  assumes "percent_documented e" and "fi_texts i"
  shows "reading 1 (reads_from s fi_roots) (investigation_list e s i)"
    "reading 1 (reads_from s fi_roots) (investigation_get e s i)"
    "reading 1 (reads_from s fi_roots) (library_file_list e s i)"
proof -
  show "reading 1 (reads_from s fi_roots) (investigation_list e s i)"
    "reading 1 (reads_from s fi_roots) (library_file_list e s i)"
    unfolding investigation_list_def library_file_list_def
    by (rule reading_refusing reading_rules | assumption | code_simp)+
  have "rooted fi_roots Endpoint (asc ''/api/investigations/'')" by code_simp
  moreover have "scalars v" if "required (fi_investigation_id i) ''investigation_id'' a = Inr v" for v a
    using assms(2) that by (auto simp: fi_texts_def opt_texts_def required_def split: option.splits)
  ultimately show "reading 1 (reads_from s fi_roots) (investigation_get e s i)"
    unfolding investigation_get_def
    by (intro reading_refusing reading_valid_then reading_ep_simple_get_as fixed_segment seg_id assms)
qed

lemma within_fi_routes:
  assumes "percent_documented e" and "text_args args" and "fi_texts i"
  shows "list_all (\<lambda>(n, m). within 2 (forensic_event s) m) (fi_routes e s i args)"
proof -
  have two: "within 2 (forensic_event s) m" if "within 1 (forensic_event s) m" for m :: read_io
    using that by (rule forensic_more) simp
  show ?thesis
    unfolding fi_routes_def
    by (rule row_rules within_sas_url within_package_download two within_quarantine_download
        forensic_reading reading_investigations reading_call_action reading_fi_handlers assms | assumption)+
qed

lemma within_forensics:
  "percent_documented e \<and> fi_texts i \<Longrightarrow> within 2 (forensic_event s) (defender_forensics e s i)"
  unfolding defender_forensics_def
  by (intro reading_unless_blocked reading_match within_fi_routes text_fi_args reading_ret) auto

lemma fi_catalogue: "map fst (fi_routes e s i args) = fi_actions"
  by (simp add: fi_routes_def fi_actions_def)

end
