(* ===== verification/ReadTools.thy ===== *)
theory ReadTools
  imports ReadTI ReadAlerts ReadMachines ReadVulnerabilities Forensics
begin

text \<open>
  The five read-only tools over the Defender APIs together: a request is the name of a tool with its
  input, as the router hands it over. The properties say what any of them can do: GETs of the
  tool's own resources on paths that no argument can turn into another one, with paging in bounds, at
  most one call (two for an investigation package), and files only below the quarantine directory.
\<close>

section \<open>Requests\<close>

datatype read_request =
    TiRequest threat_intel_input
  | AlertsRequest incidents_alerts_input
  | MachinesRequest machines_input
  | VulnerabilitiesRequest vulnerabilities_input
  | ForensicsRequest forensics_input

fun call_read_tool :: "'x env_scheme \<Rightarrow> server \<Rightarrow> read_request \<Rightarrow> read_io" where
  "call_read_tool e s (TiRequest i) = defender_ti e s i"
| "call_read_tool e s (AlertsRequest i) = defender_incidents_alerts e s i"
| "call_read_tool e s (MachinesRequest i) = defender_machines e s i"
| "call_read_tool e s (VulnerabilitiesRequest i) = defender_vulnerabilities e s i"
| "call_read_tool e s (ForensicsRequest i) = defender_forensics e s i"

fun read_action :: "read_request \<Rightarrow> ustr" where
  "read_action (TiRequest i) = ti_action i"
| "read_action (AlertsRequest i) = ia_action i"
| "read_action (MachinesRequest i) = mi_action i"
| "read_action (VulnerabilitiesRequest i) = vi_action i"
| "read_action (ForensicsRequest i) = fi_action i"

fun read_tool_name :: "read_request \<Rightarrow> string" where
  "read_tool_name (TiRequest i) = ''defender_ti''"
| "read_tool_name (AlertsRequest i) = ''defender_incidents_alerts''"
| "read_tool_name (MachinesRequest i) = ''defender_machines''"
| "read_tool_name (VulnerabilitiesRequest i) = ''defender_vulnerabilities''"
| "read_tool_name (ForensicsRequest i) = ''defender_forensics''"

fun read_actions :: "read_request \<Rightarrow> string list" where
  "read_actions (TiRequest i) = ti_actions"
| "read_actions (AlertsRequest i) = ia_actions"
| "read_actions (MachinesRequest i) = mi_actions"
| "read_actions (VulnerabilitiesRequest i) = vi_actions"
| "read_actions (ForensicsRequest i) = fi_actions"

text \<open>The resources a tool may read, and the number of calls one request may cost.\<close>

fun read_roots :: "read_request \<Rightarrow> (audience \<times> string) list" where
  "read_roots (TiRequest i) = ti_roots"
| "read_roots (AlertsRequest i) = ia_roots"
| "read_roots (MachinesRequest i) = mi_roots"
| "read_roots (VulnerabilitiesRequest i) = vi_roots"
| "read_roots (ForensicsRequest i) = fi_roots"

fun max_calls :: "read_request \<Rightarrow> nat" where
  "max_calls (ForensicsRequest i) = 2"
| "max_calls r = 1"

fun may_stage :: "read_request \<Rightarrow> bool" where
  "may_stage (ForensicsRequest i) = True"
| "may_stage r = False"

fun read_texts :: "read_request \<Rightarrow> bool" where
  "read_texts (TiRequest i) = ti_texts i"
| "read_texts (AlertsRequest i) = ia_texts i"
| "read_texts (MachinesRequest i) = mi_texts i"
| "read_texts (VulnerabilitiesRequest i) = vi_texts i"
| "read_texts (ForensicsRequest i) = fi_texts i"

text \<open>The documented behaviour of the percent encoder and of the timestamp printer.\<close>

definition printers_documented :: "'x env_scheme \<Rightarrow> bool" where
  "printers_documented e \<longleftrightarrow> percent_documented e \<and> plain_timestamps e"

definition read_only_event :: "server \<Rightarrow> read_request \<Rightarrow> event \<Rightarrow> bool" where
  "read_only_event s r ev =
     (case ev of
       Sent rq \<Rightarrow> rq_bearer rq = None \<or> reads_from s (read_roots r) rq
     | Filed f \<Rightarrow> may_stage r \<and> inside (quarantine_dir (config s)) (op_path f)
     | _ \<Rightarrow> False)"

lemma read_event_only: "read_event (reads_from s (read_roots r)) ev \<Longrightarrow> read_only_event s r ev"
  by (cases ev) (auto simp: read_only_event_def)

lemma forensic_event_only: "forensic_event s ev \<Longrightarrow> read_only_event s (ForensicsRequest i) ev"
  by (cases ev) (auto simp: read_only_event_def)

lemma within_read_tool:
  assumes "printers_documented e" and "read_texts r"
  shows "within (max_calls r) (read_only_event s r) (call_read_tool e s r)"
proof (cases "may_stage r")
  case True
  then obtain i where r: "r = ForensicsRequest i" by (cases r) auto
  have "within 2 (forensic_event s) (defender_forensics e s i)"
    by (rule within_forensics) (use assms r in \<open>simp add: printers_documented_def\<close>)
  then show ?thesis unfolding r by (auto intro: within_mono forensic_event_only)
next
  case False
  have "reading 1 (reads_from s (read_roots r)) (call_read_tool e s r)"
    using assms False
    by (cases r)
       (auto simp: printers_documented_def simp del: One_nat_def intro: ti_tool.contract ia_tool.contract mi_tool.contract
         vi_tool.contract)
  moreover have "max_calls r = 1" using False by (cases r) auto
  ultimately show ?thesis by (auto intro: within_mono read_event_only)
qed

section \<open>Properties\<close>

text \<open>
  C37. A read-only tool only reads. Whatever its input, the only things a request to one of the five
  tools does are HTTP requests and, for forensics, file operations inside the quarantine directory:
  no prompt, no audit record. Each request that carries an access token is a GET without a body to a
  resource of that tool, on a path whose segments are plain characters and no dot segments, with
  \<open>$top\<close>, \<open>$skip\<close> and \<open>lookBackHours\<close> within their bounds.
\<close>

theorem read_tools_only_read:
  assumes "printers_documented e" and "read_texts r"
    and "run_state (call_read_tool e s r) w = (res, w')" and "trace w' = trace w @ evs"
  shows "list_all (read_only_event s r) evs"
  using withinD [OF within_read_tool [OF assms(1,2)] assms(3,4)] by blast

definition documented_env :: env where
  "documented_env = (demo_env (demo_reply 200 (asc ''{}'')))
     \<lparr>utc_format := (\<lambda>t. asc ''2026-01-02T03:04:05Z'')\<rparr>"

definition host_request :: read_request where
  "host_request = TiRequest \<lparr>ti_action = asc ''host_reputation_get'', ti_id = Some (asc ''a:b''),
     ti_hostname = None, ti_component_id = None, ti_top = None, ti_skip = None, ti_filter = None,
     ti_select = None, ti_expand = None, ti_search = None, ti_count = None\<rparr>"

lemma documented_env_printers: "printers_documented documented_env"
proof -
  have "list_all (\<lambda>c. is_ascii_digit c \<or> c \<in> set (asc ''-+:TZ'')) (asc ''2026-01-02T03:04:05Z'')"
    by code_simp
  then show ?thesis
    by (simp add: printers_documented_def percent_documented_def plain_timestamps_def documented_env_def
        demo_env_def)
qed

lemma host_request_texts: "read_texts host_request"
  by code_simp

lemma read_tools_only_read_witness:
  "\<exists>rq. list_all (read_only_event demo_server host_request) [Sent rq] \<and>
     rq_url rq = asc ''https://graph/security/threatIntelligence/hosts/a%3Ab/reputation''"
proof -
  let ?run = "run_state (call_read_tool documented_env demo_server host_request) world1"
  let ?rq = "api_request demo_server Graph GET
     (asc ''/security/threatIntelligence/hosts/a%3Ab/reputation'') [] NoBody (asc ''token'')"
  have t: "trace (snd ?run) = trace world1 @ [Sent ?rq]" by code_simp
  have "list_all (read_only_event demo_server host_request) [Sent ?rq]"
    by (rule read_tools_only_read [OF documented_env_printers host_request_texts prod.collapse [symmetric] t])
  moreover have "rq_url ?rq = asc ''https://graph/security/threatIntelligence/hosts/a%3Ab/reputation''"
    by code_simp
  ultimately show ?thesis by blast
qed

text \<open>The requests the witnesses use: an investigation package, its link not ready.\<close>

definition package_request :: read_request where
  "package_request = ForensicsRequest \<lparr>fi_action = asc ''get_investigation_package_sas_url'',
     fi_action_id = Some (asc ''5382f7ea-7557-4ab7-9782-d50480024a4e''), fi_sha1 = None,
     fi_command_index = None, fi_destination_dir = None, fi_top = None, fi_skip = None,
     fi_filter = None, fi_investigation_id = None\<rparr>"

definition not_found_env :: env where
  "not_found_env = documented_env\<lparr>http := (\<lambda>h rq. demo_reply 404 [])\<rparr>"

text \<open>No action of the vulnerability tool needs a write-named scope, so it has no such check.\<close>

lemma vi_no_scope: "a \<in> set (map asc vi_actions) \<Longrightarrow> write_named_scope a = None"
proof -
  have "list_all (\<lambda>a. write_named_scope (asc a) = None) vi_actions" by code_simp
  then show "a \<in> set (map asc vi_actions) \<Longrightarrow> write_named_scope a = None" by (auto simp: list_all_iff)
qed

text \<open>
  Under delegated \<open>--read-only\<close> the write-named scopes were not requested, and a read that needs
  one is refused with the error that names it, before anything else: no request, no change of state.
\<close>

theorem unrequested_scope_refused:
  assumes "user_auth (config s)" and "read_only (config s)"
    and "read_action r \<in> set (map asc (read_actions r))" and "write_named_scope (read_action r) = Some scope"
  shows "run_state (call_read_tool e s r) w = (Inr (scope_not_requested (read_action r) (asc scope)), w)"
proof -
  have b: "check_scope_not_requested s (read_action r) = Some (scope_not_requested (read_action r) (asc scope))"
    using assms(1,2,4) by (simp add: check_scope_not_requested_def)
  show ?thesis
  proof (cases r)
    case (VulnerabilitiesRequest i)
    with assms(3,4) vi_no_scope [of "vi_action i"] show ?thesis by simp
  qed (use b in \<open>simp_all add: ti_tool.blocked_silent ia_tool.blocked_silent mi_tool.blocked_silent
      defender_forensics_def unless_blocked_def\<close>)
qed

definition read_only_server :: server where
  "read_only_server = demo_server\<lparr>config := demo_config\<lparr>read_only := True\<rparr>\<rparr>"

lemma unrequested_scope_refused_witness:
  "run_state (call_read_tool documented_env read_only_server package_request) world1
     = (Inr (scope_not_requested (asc ''get_investigation_package_sas_url'') (asc ''Alert.ReadWrite'')), world1)"
proof -
  have "user_auth (config read_only_server)" "read_only (config read_only_server)"
    "read_action package_request \<in> set (map asc (read_actions package_request))"
    by code_simp+
  moreover have a: "read_action package_request = asc ''get_investigation_package_sas_url''" by code_simp
  have "write_named_scope (read_action package_request) = Some ''Alert.ReadWrite''" by code_simp
  ultimately show ?thesis unfolding a [symmetric] by (rule unrequested_scope_refused)
qed

lemma rows_catalogue: "map fst rows = names \<Longrightarrow> a \<notin> set (map asc names) \<Longrightarrow> match_action rows other a = other"
  by (rule match_action_other) (metis map_map)

text \<open>
  The catalogue of each tool is exactly what it routes: an action outside it is refused with the
  error that lists the catalogue, whatever the other fields hold, and without any effect.
\<close>

theorem unknown_actions_refused:
  assumes "read_action r \<notin> set (map asc (read_actions r))"
    and "check_scope_not_requested s (read_action r) = None"
  shows "run_state (call_read_tool e s r) w =
    (Inl (unknown_action_error (asc (read_tool_name r)) (read_action r) (map asc (read_actions r))), w)"
  using assms
  by (cases r)
     (simp_all add: defender_ti_def defender_incidents_alerts_def defender_machines_def
       defender_vulnerabilities_def defender_forensics_def unless_blocked_def
       rows_catalogue [OF ti_catalogue] rows_catalogue [OF ia_catalogue] rows_catalogue [OF mi_catalogue]
       rows_catalogue [OF vi_catalogue] rows_catalogue [OF fi_catalogue])

lemma unknown_actions_refused_witness:
  "\<exists>actions. run_state (call_read_tool documented_env demo_server (ForensicsRequest
       \<lparr>fi_action = asc ''offboard'', fi_action_id = None, fi_sha1 = None,
         fi_command_index = None, fi_destination_dir = None, fi_top = None, fi_skip = None,
         fi_filter = None, fi_investigation_id = None\<rparr>)) world1
     = (Inl (unknown_action_error (asc ''defender_forensics'') (asc ''offboard'') actions), world1)"
proof -
  let ?r = "ForensicsRequest \<lparr>fi_action = asc ''offboard'', fi_action_id = None, fi_sha1 = None,
         fi_command_index = None, fi_destination_dir = None, fi_top = None, fi_skip = None,
         fi_filter = None, fi_investigation_id = None\<rparr>"
  have "read_action ?r \<notin> set (map asc (read_actions ?r))" by code_simp
  moreover have "check_scope_not_requested demo_server (read_action ?r) = None" by code_simp
  ultimately show ?thesis
    using unknown_actions_refused [of ?r demo_server documented_env world1] by auto
qed

text \<open>
  For the host actions that take a name, the generic field \<open>id\<close> stands for \<open>hostname\<close>: giving the
  name in either field is the same request.
\<close>

theorem host_id_is_hostname:
  assumes "host_by_name (ti_action i)" and "ti_hostname i = None"
  shows "defender_ti e s (i\<lparr>ti_id := None, ti_hostname := ti_id i\<rparr>) = defender_ti e s i"
proof (cases "ti_id i")
  case None
  with assms(2) have "i\<lparr>ti_id := None, ti_hostname := ti_id i\<rparr> = i" by (cases i) simp
  then show ?thesis by simp
next
  case (Some h)
  let ?j = "i\<lparr>ti_id := None, ti_hostname := Some h\<rparr>"
  have "ti_action i \<noteq> asc ''custom_indicator_list''"
  proof
    assume a: "ti_action i = asc ''custom_indicator_list''"
    have "\<not> host_by_name (asc ''custom_indicator_list'')" by code_simp
    with assms(1) a show False by simp
  qed
  then have "match_action (ti_routes e s ?j (ti_args i)) d (ti_action i) =
      match_action (ti_routes e s i (ti_args i)) d (ti_action i)" for d
    by (rule ti_other_rows)
  then show ?thesis
    unfolding defender_ti_def Some ti_args_named [OF assms Some] by simp
qed

lemma host_id_is_hostname_witness:
  "\<exists>i. ti_id i = Some (asc ''a:b'') \<and>
     run_state (defender_ti documented_env demo_server (i\<lparr>ti_id := None, ti_hostname := ti_id i\<rparr>)) world1
       = run_state (defender_ti documented_env demo_server i) world1"
proof -
  let ?i = "\<lparr>ti_action = asc ''host_reputation_get'', ti_id = Some (asc ''a:b''),
     ti_hostname = None, ti_component_id = None, ti_top = None, ti_skip = None, ti_filter = None,
     ti_select = None, ti_expand = None, ti_search = None, ti_count = None\<rparr>"
  have "host_by_name (ti_action ?i)" by code_simp
  from host_id_is_hostname [OF this, of documented_env demo_server]
  have "defender_ti documented_env demo_server (?i\<lparr>ti_id := None, ti_hostname := ti_id ?i\<rparr>) =
      defender_ti documented_env demo_server ?i" by simp
  then show ?thesis by (intro exI [of _ ?i]) simp
qed

end
