(* ===== verification/Kql.thy ===== *)
theory Kql
  imports KqlTree
begin

text \<open>
  The analysis of a parsed query, \<open>walk\<close> and \<open>analyze_query\<close> of \<open>src/crates/kql-parser/src/lib.rs\<close>, and
  the policy of \<open>policy.rs\<close>. The last section states what the policy is for without the walk: a
  node offends when it is one of the constructs a read-only service refuses, and the walk reports
  exactly the offences of the nodes of the tree.
\<close>

section \<open>The walk\<close>

text \<open>Every call is on a smaller tree: a child, a child's child, or the end of a chain below a child.\<close>

lemma size_grandchild: "c \<in> set (nd_children p) \<Longrightarrow> x \<in> set (nd_children c) \<Longrightarrow> size x < size p"
  using size_child less_trans by blast

lemma size_head_paren:
  "h \<in> set (nd_children p) \<Longrightarrow> head_of h = HeadParen pp \<Longrightarrow> x \<in> set (nd_children pp) \<Longrightarrow> size x < size p"
  using size_child [of x pp] size_child [of h p] head_paren [of h pp] by linarith

lemma size_first:
  "h # t = nd_children p \<Longrightarrow> size h < size p"
  "h # t = nd_children p \<Longrightarrow> x \<in> set t \<Longrightarrow> size x < size p"
  "g # h # t = nd_children p \<Longrightarrow> x \<in> set t \<Longrightarrow> size x < size p"
  "h # t = nd_children p \<Longrightarrow> head_of h = HeadParen pp \<Longrightarrow> x \<in> set (nd_children pp) \<Longrightarrow> size x < size p"
  using size_child [of _ p] size_head_paren [of h p pp x] by (metis list.set_intros)+

function walk :: "kql_node \<Rightarrow> bool \<Rightarrow> analysis \<Rightarrow> analysis" where
  "walk p tabular a =
     (let r = nd_rule p; cs = nd_children p in
      if r = ''let_stmt'' then
        (case cs of
           _ # n # rest \<Rightarrow> fold (\<lambda>c. walk c True) rest (a\<lparr>an_let_names := add_name (name_text n) (an_let_names a)\<rparr>)
         | _ \<Rightarrow> a)
      else if r = ''set_stmt'' then
        (case find (\<lambda>c. nd_rule c = ''option_name'') cs of
           Some opt \<Rightarrow> a\<lparr>an_set_options := add_name (nd_text opt) (an_set_options a)\<rparr>
         | None \<Rightarrow> a)
      else if r = ''fn_param'' then a
      else if r = ''name_ref'' then a\<lparr>an_names := add_name (name_text p) (an_names a)\<rparr>
      else if r = ''name_decl'' then a\<lparr>an_declared := add_name (name_text p) (an_declared a)\<rparr>
      else if r = ''pipe_expr'' then
        (case cs of
           [] \<Rightarrow> a
         | h # ops \<Rightarrow>
             fold (\<lambda>c. walk c False) ops
               (if tabular \<or> ops \<noteq> [] then
                  (case head_of h of
                     HeadName n \<Rightarrow> a\<lparr>an_tables := add_name n (an_tables a)\<rparr>
                   | HeadParen pp \<Rightarrow> fold (\<lambda>c. walk c True) (nd_children pp) a
                   | HeadOther \<Rightarrow> walk h False a)
                else walk h False a))
      else if r = ''tabular_operand'' \<or> r = ''find_source'' then
        fold (\<lambda>c b.
            if nd_rule c = ''paren_pipe'' then fold (\<lambda>x. walk x True) (nd_children c) b
            else if nd_rule c = ''table_pattern'' then b\<lparr>an_table_patterns := add_name (nd_text c) (an_table_patterns b)\<rparr>
            else if nd_rule c = ''postfix'' then
              (case head_of c of
                 HeadName n \<Rightarrow> b\<lparr>an_tables := add_name n (an_tables b)\<rparr>
               | _ \<Rightarrow> walk c False b)
            else walk c True b) cs a
      else if r = ''table_pattern'' then a\<lparr>an_table_patterns := add_name (nd_text p) (an_table_patterns a)\<rparr>
      else if r = ''typed_literal'' then
        (if is_time_literal (nd_text p) then a\<lparr>an_time_literals := True\<rparr> else a)
      else if r = ''postfix'' then fold (\<lambda>c. walk c False) (not_callees cs) (call_facts p a)
      else fold (\<lambda>c. walk c False) cs (operator_fact p (node_facts p a)))"
  by pat_completeness auto
termination
  by (relation "measure (\<lambda>(p, _, _). size p)")
     (auto intro: size_child size_grandchild size_first dest!: not_callees_subset)

declare walk.simps [simp del]

definition analyze_query :: "kql_node \<Rightarrow> analysis" where
  "analyze_query query =
     (let a = fold (\<lambda>c. walk c True) (nd_children query) default_analysis
      in a\<lparr>an_tables := filter (\<lambda>t. t \<notin> set (an_let_names a)) (an_tables a)\<rparr>)"

definition last_statement :: "kql_node \<Rightarrow> kql_node option" where
  "last_statement query =
     (case rev (filter (\<lambda>p. nd_rule p \<noteq> ''EOI'') (nd_children query)) of [] \<Rightarrow> None | p # _ \<Rightarrow> Some p)"

section \<open>The policy\<close>

datatype policy_code =
    ParseError | ManagementCommand | ExternalData | CrossCluster | ExternalPlugin | SetStatement
  | UnscopedSearch | WildcardTable | NotTabular

fun code_str :: "policy_code \<Rightarrow> string" where
  "code_str ParseError = ''parse_error''"
| "code_str ManagementCommand = ''management_command''"
| "code_str ExternalData = ''external_data''"
| "code_str CrossCluster = ''cross_cluster''"
| "code_str ExternalPlugin = ''external_plugin''"
| "code_str SetStatement = ''set_statement''"
| "code_str UnscopedSearch = ''unscoped_search''"
| "code_str WildcardTable = ''wildcard_table''"
| "code_str NotTabular = ''not_tabular''"

definition external_plugins :: "ustr list" where
  "external_plugins = map asc [''http_request'', ''http_request_post'', ''sql_request'', ''mysql_request'',
     ''postgresql_request'', ''cosmosdb_sql_request'', ''azure_digital_twins_query_request'']"

record problem =
  pr_code :: policy_code
  pr_message :: ustr
  pr_position :: "(nat \<times> nat) option"

definition problem_of :: "policy_code \<Rightarrow> ustr \<Rightarrow> problem" where
  "problem_of c m = \<lparr>pr_code = c, pr_message = m, pr_position = None\<rparr>"

abbreviation bq :: "ustr \<Rightarrow> ustr" where
  "bq t \<equiv> 96 # t @ [96]"

definition check :: "analysis \<Rightarrow> problem list" where
  "check a =
     (if an_cross_cluster a then [problem_of CrossCluster
        (bq (asc ''cluster()'') @ asc ''/'' @ bq (asc ''database()'')
         @ asc '' are not allowed: the query must read only the data in scope'')] else [])
     @ (if an_external_data a then [problem_of ExternalData
        (bq (asc ''externaldata'') @ asc ''/'' @ bq (asc ''external_table()'')
         @ asc '' are not allowed: the query must not read outside data'')] else [])
     @ map (\<lambda>p. problem_of ExternalPlugin
         (bq (asc ''evaluate '' @ p) @ asc '' is not allowed: it calls an external service''))
       (filter (\<lambda>p. p \<in> set external_plugins) (an_plugins a))
     @ (if an_unscoped_search a then [problem_of UnscopedSearch
        (bq (asc ''search'') @ asc ''/'' @ bq (asc ''find'') @ asc '' must name its tables with ''
         @ bq (asc ''in (...)''))] else [])
     @ map (\<lambda>p. problem_of WildcardTable
         (asc ''wildcard table name '' @ bq p @ asc '' is not allowed: name each table'')) (an_table_patterns a)
     @ map (\<lambda>n. problem_of SetStatement
         (bq (asc ''set '' @ n) @ asc '' is not allowed: the service sets the query options and bounds''))
       (an_set_options a)"

section \<open>What the policy is for\<close>

text \<open>
  The constructs a read-only service refuses, read off a single node of the tree: outside data,
  another cluster or database, an outbound plugin, a query option, an unscoped search, a wildcard
  table.
\<close>

definition calls_any :: "kql_node \<Rightarrow> string list \<Rightarrow> bool" where
  "calls_any p ns \<longleftrightarrow> list_ex (\<lambda>(n, _). n \<in> set (map asc ns)) (calls_of p)"

definition offences :: "kql_node \<Rightarrow> policy_code set" where
  "offences p =
     (let r = nd_rule p in
      if r = ''externaldata_op'' then {ExternalData}
      else if r = ''find_op'' \<or> r = ''search_op'' then (if has_child ''kw_in'' p then {} else {UnscopedSearch})
      else if r = ''set_stmt'' then (if has_child ''option_name'' p then {SetStatement} else {})
      else if r = ''table_pattern'' then {WildcardTable}
      else if r = ''plugin_call'' then
        (case nd_children p of
           n # _ \<Rightarrow> if to_ascii_lowercase (name_text n) \<in> set external_plugins then {ExternalPlugin} else {}
         | [] \<Rightarrow> {})
      else if r = ''postfix'' then
        (if calls_any p [''cluster'', ''database''] then {CrossCluster} else {})
        \<union> (if calls_any p [''external_table''] then {ExternalData} else {})
      else {})"

text \<open>Where queries live in a tree: everywhere but inside names, literals, options and parameters.\<close>

definition opaque :: "string list" where
  "opaque = [''set_stmt'', ''fn_param'', ''name_ref'', ''name_decl'', ''table_pattern'', ''typed_literal'']"

definition entered :: "kql_node \<Rightarrow> kql_node list" where
  "entered p =
     (if nd_rule p = ''let_stmt'' then drop 2 (nd_children p)
      else if nd_rule p \<in> set opaque then [] else nd_children p)"

lemma entered_child: "c \<in> set (entered p) \<Longrightarrow> c \<in> set (nd_children p)"
  by (auto simp: entered_def dest: in_set_dropD split: if_splits)

function codes_of :: "kql_node \<Rightarrow> policy_code set" where
  "codes_of p = offences p \<union> \<Union> (set (map codes_of (entered p)))"
  by pat_completeness auto
termination
  by (relation "measure size") (auto intro: size_child dest: entered_child)

declare codes_of.simps [simp del]

text \<open>
  What the grammar says of the shape of trees: a node that offends is never an only child's only
  parent (its rule is a keyword followed by something, a call chain, or an atom), and names, options
  and literals are not chains that end in a name or a parenthesized query.
\<close>

function grammar_shape :: "kql_node \<Rightarrow> bool" where
  "grammar_shape p \<longleftrightarrow>
     (length (nd_children p) = 1 \<longrightarrow> offences p = {}) \<and>
     (nd_rule p = ''let_stmt'' \<or> nd_rule p \<in> set opaque \<and> nd_rule p \<noteq> ''name_ref'' \<longrightarrow> head_of p = HeadOther) \<and>
     list_all grammar_shape (nd_children p)"
  by pat_completeness auto
termination
  by (relation "measure size") (auto intro: size_child)

declare grammar_shape.simps [simp del]

lemma shape_child: "grammar_shape p \<Longrightarrow> c \<in> set (nd_children p) \<Longrightarrow> grammar_shape c"
  using grammar_shape.simps [of p] by (auto simp: list_all_iff)

text \<open>A chain of only children holds nothing but what its end holds.\<close>

lemma offences_plain:
  "nd_rule p \<notin> set [''externaldata_op'', ''find_op'', ''search_op'', ''set_stmt'', ''table_pattern'', ''plugin_call'', ''postfix'']
     \<Longrightarrow> offences p = {}"
  by (simp add: offences_def)

lemma codes_of_opaque: "nd_rule p \<in> set opaque \<Longrightarrow> codes_of p = offences p"
  by (subst codes_of.simps) (auto simp: entered_def opaque_def)

lemma head_chain:
  "grammar_shape p \<Longrightarrow>
     (case head_of p of
       HeadName n \<Rightarrow> codes_of p = {}
     | HeadParen pp \<Rightarrow> codes_of p = \<Union> (codes_of ` set (nd_children pp)) \<and> (\<forall>x\<in>set (nd_children pp). grammar_shape x)
     | HeadOther \<Rightarrow> True)"
proof (induction p rule: head_of.induct)
  case (1 r t a b cs)
  let ?p = "Node r t a b cs"
  show ?case
  proof (cases "r = ''name_ref'' \<or> r = ''paren_pipe''")
    case True
    moreover have "codes_of ?p = {}" if "r = ''name_ref''"
      using codes_of_opaque [of ?p] offences_plain [of ?p] that by (simp add: opaque_def)
    moreover have "codes_of ?p = \<Union> (codes_of ` set cs)" if "r = ''paren_pipe''"
      using codes_of.simps [of ?p] offences_plain [of ?p] that by (simp add: entered_def opaque_def)
    ultimately show ?thesis using shape_child [OF "1.prems"] by auto
  next
    case False
    show ?thesis
    proof (cases "\<exists>c. cs = [c]")
      case True
      then obtain c where c: "cs = [c]" by blast
      have head: "head_of ?p = head_of c" using False c by simp
      have IH: "case head_of c of
            HeadName n \<Rightarrow> codes_of c = {}
          | HeadParen pp \<Rightarrow> codes_of c = \<Union> (codes_of ` set (nd_children pp)) \<and> (\<forall>x\<in>set (nd_children pp). grammar_shape x)
          | HeadOther \<Rightarrow> True"
        using "1.IH" [of c "[]"] False c shape_child [OF "1.prems", of c] by simp
      show ?thesis
      proof (cases "head_of c = HeadOther")
        case True
        with head show ?thesis by simp
      next
        case other: False
        with "1.prems" head False have "\<not> (r = ''let_stmt'' \<or> r \<in> set opaque)"
          by (subst (asm) grammar_shape.simps) auto
        moreover from "1.prems" c have "offences ?p = {}"
          by (subst (asm) grammar_shape.simps) auto
        ultimately have same: "codes_of ?p = codes_of c"
          using codes_of.simps [of ?p] c by (simp add: entered_def)
        show ?thesis unfolding head same by (rule IH)
      qed
    qed (use False in \<open>auto split: list.splits\<close>)
  qed
qed

section \<open>The walk reports the offences\<close>

definition flag_codes :: "analysis \<Rightarrow> policy_code set" where
  "flag_codes a =
     (if an_cross_cluster a then {CrossCluster} else {}) \<union> (if an_external_data a then {ExternalData} else {})
     \<union> (if set (an_plugins a) \<inter> set external_plugins \<noteq> {} then {ExternalPlugin} else {})
     \<union> (if an_unscoped_search a then {UnscopedSearch} else {})
     \<union> (if an_table_patterns a \<noteq> [] then {WildcardTable} else {})
     \<union> (if an_set_options a \<noteq> [] then {SetStatement} else {})"

lemma codes_of_problems:
  "pr_code ` set (if b then [problem_of c m] else []) = (if b then {c} else {})"
  "pr_code ` set (map (\<lambda>x. problem_of c (f x)) xs) = (if xs \<noteq> [] then {c} else {})"
  by (cases xs; auto simp: problem_of_def image_iff)+

lemma check_codes: "pr_code ` set (check a) = flag_codes a"
proof -
  have plugins: "filter (\<lambda>p. p \<in> set external_plugins) (an_plugins a) \<noteq> []
      \<longleftrightarrow> set (an_plugins a) \<inter> set external_plugins \<noteq> {}"
    by (auto simp: filter_empty_conv)
  show ?thesis
    unfolding check_def flag_codes_def set_append image_Un codes_of_problems plugins
    by (simp only: Un_assoc)
qed

lemma add_name_ne [simp]: "add_name n s \<noteq> []"
  by (metis empty_iff empty_set insertI1 set_insort_insert)

lemma flag_irrelevant [simp]:
  "flag_codes (a\<lparr>an_tables := x\<rparr>) = flag_codes a" "flag_codes (a\<lparr>an_functions := x\<rparr>) = flag_codes a"
  "flag_codes (a\<lparr>an_invoked := x\<rparr>) = flag_codes a" "flag_codes (a\<lparr>an_let_names := x\<rparr>) = flag_codes a"
  "flag_codes (a\<lparr>an_operators := x\<rparr>) = flag_codes a" "flag_codes (a\<lparr>an_names := x\<rparr>) = flag_codes a"
  "flag_codes (a\<lparr>an_declared := x\<rparr>) = flag_codes a"
  "flag_codes (a\<lparr>an_ungrouped_aggregate := b\<rparr>) = flag_codes a"
  "flag_codes (a\<lparr>an_time_literals := b\<rparr>) = flag_codes a"
  by (simp_all add: flag_codes_def)

lemma flag_raised [simp]:
  "flag_codes (a\<lparr>an_cross_cluster := True\<rparr>) = insert CrossCluster (flag_codes a)"
  "flag_codes (a\<lparr>an_external_data := True\<rparr>) = insert ExternalData (flag_codes a)"
  "flag_codes (a\<lparr>an_unscoped_search := True\<rparr>) = insert UnscopedSearch (flag_codes a)"
  "flag_codes (a\<lparr>an_table_patterns := add_name n (an_table_patterns a)\<rparr>) = insert WildcardTable (flag_codes a)"
  "flag_codes (a\<lparr>an_set_options := add_name n (an_set_options a)\<rparr>) = insert SetStatement (flag_codes a)"
  "flag_codes (a\<lparr>an_plugins := add_name n (an_plugins a)\<rparr>) =
     flag_codes a \<union> (if n \<in> set external_plugins then {ExternalPlugin} else {})"
  by (auto simp: flag_codes_def set_insort_insert)

lemma fold_codes:
  "(\<And>c b. c \<in> set cs \<Longrightarrow> flag_codes (f c b) = flag_codes b \<union> G c) \<Longrightarrow>
     flag_codes (fold f cs a) = flag_codes a \<union> \<Union> (G ` set cs)"
proof (induction cs arbitrary: a)
  case (Cons c cs)
  then have "flag_codes (fold f cs (f c a)) = flag_codes (f c a) \<union> \<Union> (G ` set cs)" by auto
  moreover have "flag_codes (f c a) = flag_codes a \<union> G c" by (rule Cons.prems) simp
  ultimately show ?case by auto
qed simp

definition call_codes :: "ustr \<Rightarrow> policy_code set" where
  "call_codes n =
     (if n \<in> set (map asc [''cluster'', ''database'']) then {CrossCluster} else {})
     \<union> (if n \<in> set (map asc [''external_table'']) then {ExternalData} else {})"

lemma flag_call_fact: "flag_codes (call_fact n args b) = flag_codes b \<union> call_codes n"
proof -
  have "asc ''external_table'' \<noteq> asc ''cluster''" "asc ''external_table'' \<noteq> asc ''database''" by code_simp+
  then show ?thesis
    by (auto simp: call_fact_def call_codes_def Let_def split: list.split option.split)
qed

lemma flag_call_facts:
  "flag_codes (call_facts p a) = flag_codes a \<union> (\<Union>(n, args)\<in>set (calls_of p). call_codes n)"
  unfolding call_facts_def by (rule fold_codes) (auto simp: flag_call_fact)

lemma offences_postfix:
  "nd_rule p = ''postfix'' \<Longrightarrow> offences p = (\<Union>(n, args)\<in>set (calls_of p). call_codes n)"
  by (auto simp: offences_def calls_any_def list_ex_iff call_codes_def split: if_splits)

lemma flag_node_facts:
  "nd_rule p \<noteq> ''postfix'' \<Longrightarrow> nd_rule p \<noteq> ''set_stmt'' \<Longrightarrow> nd_rule p \<noteq> ''table_pattern'' \<Longrightarrow>
     flag_codes (node_facts p a) = flag_codes a \<union> offences p"
  by (auto simp: node_facts_def offences_def Let_def split: list.split option.split)

lemma flag_operator_fact: "flag_codes (operator_fact p a) = flag_codes a"
  by (simp add: operator_fact_def)

text \<open>Callees are names: leaving them out of the walk loses nothing.\<close>

lemma codes_name_ref: "nd_rule p = ''name_ref'' \<Longrightarrow> codes_of p = {}"
  using codes_of_opaque [of p] offences_plain [of p] by (simp add: opaque_def)

lemma codes_not_callees: "\<Union> (codes_of ` set (not_callees ps)) = \<Union> (codes_of ` set ps)"
  by (induction ps rule: not_callees.induct) (auto simp: codes_name_ref)

lemma codes_paren: "nd_rule p = ''paren_pipe'' \<Longrightarrow> codes_of p = \<Union> (codes_of ` set (nd_children p))"
  using codes_of.simps [of p] offences_plain [of p] by (simp add: entered_def opaque_def)

lemma codes_pattern: "nd_rule p = ''table_pattern'' \<Longrightarrow> codes_of p = {WildcardTable}"
  using codes_of_opaque [of p] by (simp add: opaque_def offences_def)

lemma codes_let: "nd_rule p = ''let_stmt'' \<Longrightarrow> codes_of p = \<Union> (codes_of ` set (drop 2 (nd_children p)))"
  using codes_of.simps [of p] offences_plain [of p] by (simp add: entered_def)

lemma codes_entered:
  "nd_rule p \<noteq> ''let_stmt'' \<Longrightarrow> nd_rule p \<notin> set opaque \<Longrightarrow>
     codes_of p = offences p \<union> \<Union> (codes_of ` set (nd_children p))"
  using codes_of.simps [of p] by (simp add: entered_def)

text \<open>The children of a node are walked one after the other, each adding its own offences.\<close>

definition walk_exact :: "kql_node \<Rightarrow> bool" where
  "walk_exact p \<longleftrightarrow> (\<forall>t b. flag_codes (walk p t b) = flag_codes b \<union> codes_of p)"

lemma walk_exactD: "walk_exact p \<Longrightarrow> flag_codes (walk p t b) = flag_codes b \<union> codes_of p"
  by (simp add: walk_exact_def)

lemma fold_walk_codes:
  "(\<And>c. c \<in> set cs \<Longrightarrow> walk_exact c) \<Longrightarrow>
     flag_codes (fold (\<lambda>c. walk c t) cs a) = flag_codes a \<union> \<Union> (codes_of ` set cs)"
  by (rule fold_codes) (simp add: walk_exactD)

lemma walk_source_codes:
  assumes "walk_exact h" "grammar_shape h"
    "\<And>pp x. head_of h = HeadParen pp \<Longrightarrow> x \<in> set (nd_children pp) \<Longrightarrow> walk_exact x"
  shows "flag_codes (case head_of h of
            HeadName n \<Rightarrow> a\<lparr>an_tables := add_name n (an_tables a)\<rparr>
          | HeadParen pp \<Rightarrow> fold (\<lambda>c. walk c True) (nd_children pp) a
          | HeadOther \<Rightarrow> walk h False a) = flag_codes a \<union> codes_of h"
  using head_chain [OF assms(2)] assms(1,3)
  by (auto split: head.split simp: fold_walk_codes walk_exactD)

lemma walk_operand_codes:
  assumes "walk_exact c" "grammar_shape c" "\<And>x. x \<in> set (nd_children c) \<Longrightarrow> walk_exact x"
  shows "flag_codes
      (if nd_rule c = ''paren_pipe'' then fold (\<lambda>x. walk x True) (nd_children c) b
       else if nd_rule c = ''table_pattern'' then b\<lparr>an_table_patterns := add_name (nd_text c) (an_table_patterns b)\<rparr>
       else if nd_rule c = ''postfix'' then
         (case head_of c of
            HeadName n \<Rightarrow> b\<lparr>an_tables := add_name n (an_tables b)\<rparr>
          | _ \<Rightarrow> walk c False b)
       else walk c True b) = flag_codes b \<union> codes_of c"
  using head_chain [OF assms(2)] assms(1,3)
  by (auto split: head.split simp: fold_walk_codes walk_exactD codes_paren codes_pattern)

lemma option_found: "(find P xs = None) = (\<not> list_ex P xs)"
  by (induction xs) auto

lemma walk_names:
  "nd_rule p \<in> {''set_stmt'', ''fn_param'', ''name_ref'', ''name_decl'', ''table_pattern'', ''typed_literal''}
     \<Longrightarrow> walk_exact p"
proof -
  assume "nd_rule p \<in> {''set_stmt'', ''fn_param'', ''name_ref'', ''name_decl'', ''table_pattern'', ''typed_literal''}"
  moreover from this have codes: "codes_of p = offences p" by (auto simp: codes_of_opaque opaque_def)
  moreover have "(find (\<lambda>c. nd_rule c = ''option_name'') (nd_children p) = None) = (\<not> has_child ''option_name'' p)"
    by (simp add: option_found has_child_def)
  moreover have "offences p = {}" if "nd_rule p \<in> {''fn_param'', ''name_ref'', ''name_decl'', ''typed_literal''}"
    using that offences_plain [of p] by auto
  ultimately show ?thesis
    unfolding walk_exact_def codes
    by (elim insertE; subst walk.simps) (auto simp: offences_def split: option.split)
qed

lemma walk_branches:
  assumes shape: "grammar_shape p"
    and IH: "\<And>x. size x < size p \<Longrightarrow> grammar_shape x \<Longrightarrow> walk_exact x"
  shows "walk_exact p"
proof -
  have child: "walk_exact c \<and> grammar_shape c" if "c \<in> set (nd_children p)" for c
    using that size_child [of c p] shape_child [OF shape, of c] IH by blast
  have below: "walk_exact x \<and> grammar_shape x" if "c \<in> set (nd_children p)" "x \<in> set (nd_children c)" for c x
    using that size_grandchild [of c p x] shape_child [of c x] child [of c] IH by blast
  have head: "walk_exact x"
    if "c \<in> set (nd_children p)" "head_of c = HeadParen pp" "x \<in> set (nd_children pp)" for c pp x
    using that size_head_paren [of c p pp x] head_chain [of c] child [of c] IH by auto
  let ?r = "nd_rule p"
  consider "?r \<in> {''set_stmt'', ''fn_param'', ''name_ref'', ''name_decl'', ''table_pattern'', ''typed_literal''}"
    | "?r = ''let_stmt''" | "?r = ''pipe_expr''" | "?r = ''tabular_operand'' \<or> ?r = ''find_source''"
    | "?r = ''postfix''"
    | "?r \<notin> set opaque" "?r \<notin> {''let_stmt'', ''pipe_expr'', ''tabular_operand'', ''find_source'', ''postfix''}"
    by (auto simp: opaque_def)
  then show ?thesis
  proof cases
    case 1
    then show ?thesis by (rule walk_names)
  next
    case 2
    show ?thesis unfolding walk_exact_def
    proof (intro allI)
      fix t b
      show "flag_codes (walk p t b) = flag_codes b \<union> codes_of p"
      proof (cases "\<exists>k n rest. nd_children p = k # n # rest")
        case True
        then obtain k n rest where cs: "nd_children p = k # n # rest" by blast
        then have "walk_exact c" if "c \<in> set rest" for c using child [of c] that by simp
        with cs 2 show ?thesis
          by (subst walk.simps) (simp add: codes_let fold_walk_codes)
      next
        case False
        with 2 show ?thesis
          by (subst walk.simps) (auto simp: codes_let split: list.split)
      qed
    qed
  next
    case 3
    then have codes: "codes_of p = \<Union> (codes_of ` set (nd_children p))"
      using codes_entered [of p] offences_plain [of p] by (simp add: opaque_def)
    show ?thesis
    proof (cases "nd_children p")
      case Nil
      then show ?thesis unfolding walk_exact_def codes
        using 3 by (subst walk.simps) simp
    next
      case (Cons h ops)
      have hs: "walk_exact h" "grammar_shape h" using child [of h] Cons by auto
      have ops: "walk_exact c" if "c \<in> set ops" for c using child [of c] that Cons by simp
      have hd: "head_of h = HeadParen pp \<Longrightarrow> x \<in> set (nd_children pp) \<Longrightarrow> walk_exact x" for pp x
        using head [of h pp x] Cons by simp
      note src = walk_source_codes [OF hs hd]
      show ?thesis unfolding walk_exact_def codes
        using 3 Cons
        by (subst walk.simps)
           (simp add: fold_walk_codes [OF ops] src walk_exactD [OF hs(1)] Un_assoc split del: head.split)
    qed
  next
    case 4
    then have codes: "codes_of p = \<Union> (codes_of ` set (nd_children p))"
      using codes_entered [of p] offences_plain [of p] by (auto simp: opaque_def)
    have "flag_codes (walk p t b) = flag_codes b \<union> \<Union> (codes_of ` set (nd_children p))" for t b
    proof -
      have "?r \<noteq> ''let_stmt''" "?r \<noteq> ''set_stmt''" "?r \<noteq> ''fn_param''" "?r \<noteq> ''name_ref''"
        "?r \<noteq> ''name_decl''" "?r \<noteq> ''pipe_expr''" using 4 by auto
      then show ?thesis using 4
        by (subst walk.simps) (simp add: fold_codes [OF walk_operand_codes] child below)
    qed
    then show ?thesis by (simp add: walk_exact_def codes)
  next
    case 5
    then have codes: "codes_of p = offences p \<union> \<Union> (codes_of ` set (nd_children p))"
      using codes_entered [of p] by (simp add: opaque_def)
    have "walk_exact c" if "c \<in> set (not_callees (nd_children p))" for c
      using child [of c] not_callees_subset that by blast
    then have "flag_codes (fold (\<lambda>c. walk c False) (not_callees (nd_children p)) b)
        = flag_codes b \<union> \<Union> (codes_of ` set (not_callees (nd_children p)))" for b
      by (rule fold_walk_codes)
    moreover have "walk p t b = fold (\<lambda>c. walk c False) (not_callees (nd_children p)) (call_facts p b)" for t b
      using 5 by (subst walk.simps) simp
    ultimately show ?thesis unfolding walk_exact_def codes
      using 5 by (simp add: codes_not_callees flag_call_facts offences_postfix Un_assoc)
  next
    case 6
    then have codes: "codes_of p = offences p \<union> \<Union> (codes_of ` set (nd_children p))"
      using codes_entered [of p] by simp
    have "walk p t b = fold (\<lambda>c. walk c False) (nd_children p) (operator_fact p (node_facts p b))" for t b
      using 6 by (subst walk.simps) (simp add: opaque_def Let_def)
    moreover have "flag_codes (node_facts p b) = flag_codes b \<union> offences p" for b
      using 6 by (intro flag_node_facts) (auto simp: opaque_def)
    ultimately show ?thesis unfolding walk_exact_def codes
      using child by (simp add: fold_walk_codes flag_operator_fact Un_assoc)
  qed
qed

lemma walk_codes: "grammar_shape p \<Longrightarrow> walk_exact p"
proof (induction p rule: measure_induct_rule [of size])
  case (less p)
  show ?case by (rule walk_branches [OF less.prems less.IH])
qed

text \<open>The analysis of a whole query: what is checked is what the nodes of its statements offend.\<close>

lemma analyze_codes:
  assumes "list_all grammar_shape (nd_children q)"
  shows "pr_code ` set (check (analyze_query q)) = \<Union> (codes_of ` set (nd_children q))"
proof -
  have "flag_codes (fold (\<lambda>c. walk c True) (nd_children q) default_analysis)
      = flag_codes default_analysis \<union> \<Union> (codes_of ` set (nd_children q))"
    using assms walk_codes by (intro fold_walk_codes) (auto simp: list_all_iff)
  moreover have "flag_codes default_analysis = {}" by (simp add: flag_codes_def default_analysis_def)
  ultimately show ?thesis by (simp add: check_codes analyze_query_def Let_def)
qed

text \<open>A node is part of a query when a walk through entered children reaches it.\<close>

inductive reaches :: "kql_node \<Rightarrow> kql_node \<Rightarrow> bool" where
  here: "reaches p p"
| inside: "c \<in> set (entered p) \<Longrightarrow> reaches c x \<Longrightarrow> reaches p x"

lemma codes_of_reaches: "c \<in> codes_of p \<longleftrightarrow> (\<exists>x. reaches p x \<and> c \<in> offences x)"
proof
  assume "c \<in> codes_of p"
  then show "\<exists>x. reaches p x \<and> c \<in> offences x"
  proof (induction p rule: codes_of.induct)
    case (1 p)
    then show ?case by (subst (asm) codes_of.simps) (auto intro: reaches.intros)
  qed
next
  assume "\<exists>x. reaches p x \<and> c \<in> offences x"
  then obtain x where "reaches p x" "c \<in> offences x" by blast
  then show "c \<in> codes_of p"
    by (induction rule: reaches.induct) (subst codes_of.simps; auto)+
qed

end
