(* ===== verification/KqlPolicy.thy ===== *)
theory KqlPolicy
  imports Kql
begin

text \<open>
  The text side of \<open>src/crates/kql-parser\<close>: \<open>parse\<close> and \<open>analyze\<close> of \<open>lib.rs\<close> over the generated
  parser \<open>pest\<close>, which is a parameter (it answers the tree of the \<open>query\<close> rule or the first line and
  column of the error), the reports of an analysis, and \<open>check_query\<close> and \<open>bounded\<close> of \<open>policy.rs\<close>.
  Offsets count characters.
\<close>

section \<open>Lines\<close>

text \<open>\<open>split_inclusive\<close> at line feeds and \<open>lines\<close>, which drops the line endings.\<close>

fun split_inclusive :: "ustr \<Rightarrow> ustr list" where
  "split_inclusive [] = []"
| "split_inclusive (c # s) =
     (if c = 10 then [c] # split_inclusive s
      else (case split_inclusive s of [] \<Rightarrow> [[c]] | l # ls \<Rightarrow> (c # l) # ls))"

lemma concat_split_inclusive [simp]: "concat (split_inclusive s) = s"
  by (induction s) (auto split: list.split)

definition chomp :: "ustr \<Rightarrow> ustr" where
  "chomp l =
     (case strip_suffix [10] l of
       None \<Rightarrow> l
     | Some l' \<Rightarrow> (case strip_suffix [13] l' of Some l'' \<Rightarrow> l'' | None \<Rightarrow> l'))"

definition str_lines :: "ustr \<Rightarrow> ustr list" where
  "str_lines s = map chomp (split_inclusive s)"

definition nth_of :: "nat \<Rightarrow> 'a list \<Rightarrow> 'a option" where
  "nth_of n xs = (case drop n xs of x # _ \<Rightarrow> Some x | [] \<Rightarrow> None)"

section \<open>Parsing\<close>

record parse_error =
  pe_line :: nat
  pe_column :: nat
  pe_message :: ustr

definition parse :: "pest_parser \<Rightarrow> ustr \<Rightarrow> parse_error + kql_node" where
  "parse pest text =
     (case pest text of
       Inr q \<Rightarrow> Inr q
     | Inl (line, column) \<Rightarrow>
         (let rest = (case nth_of (line - 1) (str_lines text) of
                Some l \<Rightarrow> take 40 (drop (column - 1) l)
              | None \<Rightarrow> []);
              near = (if trim rest = [] then asc ''the end of the line'' else bq (trim_end rest))
          in Inl \<lparr>pe_line = line, pe_column = column,
                  pe_message = asc ''unsupported or invalid KQL near '' @ near\<rparr>))"

definition analyze :: "pest_parser \<Rightarrow> ustr \<Rightarrow> parse_error + analysis" where
  "analyze pest text = (case parse pest text of Inl err \<Rightarrow> Inl err | Inr q \<Rightarrow> Inr (analyze_query q))"

section \<open>What an analysis reports\<close>

definition row_limit_operators :: "ustr list" where
  "row_limit_operators = map asc [''take_op'', ''top_op'', ''top_hitters_op'', ''sample_op'', ''sample_distinct_op'']"

definition time_functions :: "ustr list" where
  "time_functions = map asc [''ago'', ''now'', ''startofday'', ''startofweek'', ''startofmonth'', ''startofyear'',
     ''endofday'', ''endofweek'', ''endofmonth'', ''endofyear'', ''datetime_add'']"

definition aggregate_prefixes :: "ustr list" where
  "aggregate_prefixes = map asc [''count'', ''dcount'', ''sum'', ''avg'', ''min'', ''max'', ''any'', ''take_any'',
     ''arg_max'', ''arg_min'', ''make_set'', ''make_list'', ''make_bag'', ''countif'', ''dcountif'', ''sumif'',
     ''avgif'', ''minif'', ''maxif'', ''percentile'', ''percentiles'', ''stdev'', ''variance'', ''hll'', ''tdigest'']"

definition is_generated_name :: "ustr \<Rightarrow> bool" where
  "is_generated_name n =
     (let numbered = (\<lambda>p. case strip_prefix (asc p) n of
            Some d \<Rightarrow> d \<noteq> [] \<and> list_all is_ascii_digit d | None \<Rightarrow> False)
      in prefix (asc ''$'') n \<or> numbered ''Column'' \<or> numbered ''print_'' \<or>
         list_ex (\<lambda>p. case strip_prefix p n of Some r \<Rightarrow> prefix (asc ''_'') r | None \<Rightarrow> False) aggregate_prefixes)"

definition row_limited :: "analysis \<Rightarrow> bool" where
  "row_limited a = list_ex (\<lambda>o'. o' \<in> set row_limit_operators) (an_operators a)"

definition time_narrowed :: "analysis \<Rightarrow> bool" where
  "time_narrowed a \<longleftrightarrow> an_time_literals a \<or>
     list_ex (\<lambda>f. to_ascii_lowercase f \<in> set time_functions) (an_functions a)"

definition columns :: "analysis \<Rightarrow> name_set" where
  "columns a = filter (\<lambda>n. n \<notin> set (an_declared a) \<and> n \<notin> set (an_let_names a) \<and> n \<notin> set (an_tables a)
     \<and> \<not> is_generated_name n) (an_names a)"

text \<open>\<open>trim_end_matches("_op")\<close> drops the suffix as often as it is there; the set is sorted again.\<close>

fun trim_end_str :: "nat \<Rightarrow> ustr \<Rightarrow> ustr \<Rightarrow> ustr" where
  "trim_end_str 0 suf s = s"
| "trim_end_str (Suc n) suf s =
     (if suf = [] then s else case strip_suffix suf s of Some t \<Rightarrow> trim_end_str n suf t | None \<Rightarrow> s)"

definition operator_keyword :: "ustr \<Rightarrow> ustr" where
  "operator_keyword o' = map (\<lambda>c. if c = 95 then 45 else c) (trim_end_str (length o') (asc ''_op'') o')"

definition operator_keywords :: "analysis \<Rightarrow> name_set" where
  "operator_keywords a = fold (\<lambda>o'. insort_insert (operator_keyword o')) (an_operators a) []"

section \<open>Checking a query\<close>

definition is_external_access :: "policy_code \<Rightarrow> bool" where
  "is_external_access c \<longleftrightarrow> c \<in> {ExternalData, CrossCluster, ExternalPlugin}"

definition problem_at :: "problem \<Rightarrow> nat \<times> nat \<Rightarrow> problem" where
  "problem_at p pos = p\<lparr>pr_position := Some pos\<rparr>"

definition show_problem :: "problem \<Rightarrow> ustr" where
  "show_problem p =
     (case pr_position p of
       Some (l, c) \<Rightarrow> asc (code_str (pr_code p)) @ asc '' (line '' @ show_nat l @ asc '', column '' @ show_nat c
         @ asc ''): '' @ pr_message p
     | None \<Rightarrow> asc (code_str (pr_code p)) @ asc '': '' @ pr_message p)"

definition is_tabular :: "kql_node option \<Rightarrow> bool" where
  "is_tabular stmt = (case stmt of Some s \<Rightarrow> nd_rule s = ''pipe_expr'' | None \<Rightarrow> False)"

definition management_command :: problem where
  "management_command = problem_of ManagementCommand
     (asc ''management commands ('' @ bq (asc ''.show'') @ asc '', '' @ bq (asc ''.create'') @ asc '', ''
      @ bq (asc ''.drop'') @ asc ''...) are not queries and are not allowed'')"

fun leading_dot_from :: "nat \<Rightarrow> ustr list \<Rightarrow> (nat \<times> nat) option" where
  "leading_dot_from i [] = None"
| "leading_dot_from i (line # ls) =
     (let trimmed = trim_start_matches (\<lambda>c. is_whitespace c \<or> c = 0xFEFF) line in
      if trimmed = [] \<or> prefix (asc ''//'') trimmed then leading_dot_from (i + 1) ls
      else if prefix (asc ''.'') trimmed then Some (i + 1, length line - length trimmed + 1)
      else None)"

definition leading_dot :: "ustr \<Rightarrow> (nat \<times> nat) option" where
  "leading_dot text = leading_dot_from 0 (str_lines text)"

text \<open>
  The offset of a line and column. An offset at the end of a line is none, as \<open>char_indices().nth\<close>
  answers none there.
\<close>

fun offset_from :: "nat \<Rightarrow> nat \<Rightarrow> ustr list \<Rightarrow> nat \<times> nat \<Rightarrow> nat option" where
  "offset_from i start [] pos = None"
| "offset_from i start (line # ls) (l, c) =
     (if i + 1 = l then (if c - 1 < length line then Some (start + (c - 1)) else None)
      else offset_from (i + 1) (start + length line + 1) ls (l, c))"

definition char_offset :: "ustr \<Rightarrow> nat \<times> nat \<Rightarrow> nat option" where
  "char_offset text pos = offset_from 0 0 (split_chars (\<lambda>c. c = 10) text) pos"

definition dot_statement_at :: "ustr \<Rightarrow> nat \<times> nat \<Rightarrow> bool" where
  "dot_statement_at text pos =
     (case char_offset text pos of
       None \<Rightarrow> False
     | Some k \<Rightarrow> prefix (asc ''.'') (drop k text) \<and> suffix (asc '';'') (trim_end (take k text)))"

definition not_tabular_problem :: problem where
  "not_tabular_problem = problem_of NotTabular
     (asc ''the query must end with a tabular expression: its rows are bounded with '' @ bq (asc ''| take''))"

definition check_query :: "pest_parser \<Rightarrow> ustr \<Rightarrow> problem list + analysis" where
  "check_query pest text =
     (case leading_dot text of
       Some pos \<Rightarrow> Inl [problem_at management_command pos]
     | None \<Rightarrow>
         (case parse pest text of
           Inl err \<Rightarrow>
             (let pos = (pe_line err, pe_column err);
                  p = (if dot_statement_at text pos then management_command
                       else problem_of ParseError (pe_message err))
              in Inl [problem_at p pos])
         | Inr query \<Rightarrow>
             (let tabular = is_tabular (last_statement query);
                  a = analyze_query query;
                  out = check a @ (if tabular then [] else [not_tabular_problem])
              in if out = [] then Inr a else Inl out)))"

definition ends_tabular :: "pest_parser \<Rightarrow> ustr \<Rightarrow> bool" where
  "ends_tabular pest text = (case parse pest text of Inr q \<Rightarrow> is_tabular (last_statement q) | Inl _ \<Rightarrow> False)"

section \<open>Bounding a query\<close>

fun leaf_ends :: "kql_node \<Rightarrow> nat list" where
  "leaf_ends (Node r t a b cs) =
     concat (map (\<lambda>c. if nd_children c = [] then [nd_end c] else leaf_ends c) cs)"

fun before_comment :: "ustr \<Rightarrow> ustr" where
  "before_comment [] = []"
| "before_comment (c # s) = (if prefix (asc ''//'') (c # s) then [] else c # before_comment s)"

text \<open>The loop of \<open>statement_end\<close>: the end of the last code seen, and the offset of the next line.\<close>

fun code_end :: "nat \<Rightarrow> nat \<Rightarrow> ustr list \<Rightarrow> nat" where
  "code_end e off [] = e"
| "code_end e off (line # ls) =
     (let code = trim_end (before_comment line)
      in code_end (if code = [] then e else off + length code) (off + length line) ls)"

definition statement_end :: "ustr \<Rightarrow> kql_node \<Rightarrow> nat" where
  "statement_end text stmt =
     (let last_leaf = (case leaf_ends stmt of [] \<Rightarrow> nd_start stmt | e # es \<Rightarrow> fold max es e)
      in code_end last_leaf last_leaf (split_inclusive (drop last_leaf (take (nd_end stmt) text))))"

definition bounded :: "pest_parser \<Rightarrow> ustr \<Rightarrow> 32 word \<Rightarrow> ustr" where
  "bounded pest text max_rows =
     (let body = (case parse pest text of
            Inr q \<Rightarrow> (case last_statement q of Some s \<Rightarrow> Some (take (statement_end text s) text) | None \<Rightarrow> None)
          | Inl _ \<Rightarrow> None);
          kept = (case body of Some b \<Rightarrow> b
            | None \<Rightarrow> trim_end_matches (\<lambda>c. c = 59 \<or> is_whitespace c) text)
      in kept @ 10 # asc ''| take '' @ show_nat (unat max_rows + 1))"

section \<open>Properties\<close>

text \<open>
  C11. The policy is exact. For a query that parses, the problems \<open>check_query\<close> reports are, code for
  code, the offences of the nodes of its statements (wherever they are nested), and one more when
  its last statement is not tabular; it is accepted when there are none. The hypothesis on the tree
  is what the grammar gives: a node that offends is never one with a single child, and options,
  declarations, literals and let statements are no chains of single children.
\<close>

lemma policy_exact:
  assumes "leading_dot text = None" and "pest text = Inr q" and "list_all grammar_shape (nd_children q)"
  shows "(case check_query pest text of Inr a \<Rightarrow> {} | Inl ps \<Rightarrow> pr_code ` set ps)
        = {c. \<exists>st x. st \<in> set (nd_children q) \<and> reaches st x \<and> c \<in> offences x}
          \<union> (if is_tabular (last_statement q) then {} else {NotTabular})
      \<and> check_query pest text \<noteq> Inl []"
proof -
  have "pr_code ` set (check (analyze_query q)) = {c. \<exists>st x. st \<in> set (nd_children q) \<and> reaches st x \<and> c \<in> offences x}"
    unfolding analyze_codes [OF assms(3)] using codes_of_reaches by blast
  moreover have "parse pest text = Inr q" by (simp add: parse_def assms)
  ultimately show ?thesis
    using assms(1) by (auto simp: check_query_def Let_def not_tabular_problem_def problem_of_def)
qed

text \<open>\<open>DeviceInfo | take 1\<close> and \<open>T | where x == cluster('c')\<close>, as their trees.\<close>

definition name_node :: "string \<Rightarrow> nat \<Rightarrow> kql_node" where
  "name_node n k = Node ''name_ref'' (asc n) k (k + length n) [Node ''ident'' (asc n) k (k + length n) []]"

definition demo_kql :: ustr where
  "demo_kql = asc ''T|where cluster(c)''"

definition demo_kql_tree :: kql_node where
  "demo_kql_tree =
     Node ''query'' demo_kql 0 18
       [Node ''pipe_expr'' demo_kql 0 18
         [Node ''pipe_head'' (asc ''T'') 0 1 [Node ''postfix'' (asc ''T'') 0 1 [name_node ''T'' 0]],
          Node ''where_op'' (asc ''where cluster(c)'') 2 18
           [Node ''kw_where'' (asc ''where'') 2 7 [],
            Node ''postfix'' (asc ''cluster(c)'') 8 18
             [name_node ''cluster'' 8, Node ''call_args'' (asc ''(c)'') 15 18 [name_node ''c'' 16]]]],
        Node ''EOI'' [] 18 18 []]"

lemma policy_exact_witness:
  "check_query (\<lambda>t. Inr demo_kql_tree) demo_kql = Inl [hd (check (analyze_query demo_kql_tree))]
   \<and> CrossCluster \<in> {c. \<exists>st x. st \<in> set (nd_children demo_kql_tree) \<and> reaches st x \<and> c \<in> offences x}"
proof -
  have "list_all grammar_shape (nd_children demo_kql_tree)" by code_simp
  moreover have "leading_dot demo_kql = None" by code_simp
  ultimately have "(case check_query (\<lambda>t. Inr demo_kql_tree) demo_kql of Inr a \<Rightarrow> {} | Inl ps \<Rightarrow> pr_code ` set ps)
        = {c. \<exists>st x. st \<in> set (nd_children demo_kql_tree) \<and> reaches st x \<and> c \<in> offences x}
          \<union> (if is_tabular (last_statement demo_kql_tree) then {} else {NotTabular})"
    using policy_exact [of demo_kql "\<lambda>t. Inr demo_kql_tree" demo_kql_tree] by simp
  moreover have query: "check_query (\<lambda>t. Inr demo_kql_tree) demo_kql = Inl [hd (check (analyze_query demo_kql_tree))]"
    by code_simp
  moreover have "is_tabular (last_statement demo_kql_tree)" by code_simp
  moreover have "pr_code (hd (check (analyze_query demo_kql_tree))) = CrossCluster" by code_simp
  ultimately have "CrossCluster \<in> {c. \<exists>st x. st \<in> set (nd_children demo_kql_tree) \<and> reaches st x \<and> c \<in> offences x}"
    by auto
  with query show ?thesis by blast
qed

text \<open>What \<open>bounded\<close> may cut: whitespace and line comments. The flag tells whether a comment is open.\<close>

fun blank_text :: "bool \<Rightarrow> ustr \<Rightarrow> bool" where
  "blank_text in_comment [] = True"
| "blank_text True (c # s) = (if c = 10 then blank_text False s else blank_text True s)"
| "blank_text False (c # s) =
     (if prefix (asc ''//'') (c # s) then blank_text True s else is_whitespace c \<and> blank_text False s)"

lemma blank_in_comment: "blank_text b s \<Longrightarrow> blank_text True s"
  by (induction b s rule: blank_text.induct) (auto simp: asc_def split: if_splits)

lemma blank_comment_line: "10 \<notin> set (butlast l) \<Longrightarrow> blank_text False r \<Longrightarrow> blank_text True (l @ r)"
  by (induction l) (auto simp: blank_in_comment split: if_splits)

lemma blank_line:
  "list_all is_whitespace (before_comment l) \<Longrightarrow> 10 \<notin> set (butlast l) \<Longrightarrow> blank_text False r \<Longrightarrow> blank_text False (l @ r)"
proof (induction l)
  case (Cons c l)
  have nl: "10 \<notin> set (butlast l)" using Cons.prems(2) by (auto split: if_splits)
  show ?case
  proof (cases "prefix (asc ''//'') (c # l)")
    case True
    then have "prefix (asc ''//'') (c # l @ r)" using prefix_prefix [OF True, of r] by simp
    then show ?thesis using blank_comment_line [OF nl Cons.prems(3)] by simp
  next
    case False
    with Cons.prems(1) have c: "is_whitespace c" "list_all is_whitespace (before_comment l)" by auto
    then have "c \<noteq> 47" by (auto simp: is_whitespace_def)
    then have "\<not> prefix (asc ''//'') (c # l @ r)" by (auto simp: asc_def)
    then show ?thesis using c(1) Cons.IH [OF c(2) nl Cons.prems(3)] by simp
  qed
qed simp

lemma split_inclusive_lines: "l \<in> set (split_inclusive s) \<Longrightarrow> 10 \<notin> set (butlast l)"
  by (induction s arbitrary: l) (auto split: list.splits if_splits)

text \<open>A line is its code, then whitespace, then a comment.\<close>

lemma before_comment_prefix: "before_comment l = take (length (before_comment l)) l"
  by (induction l) auto

lemma before_comment_rest: "before_comment (drop k l) = drop k (before_comment l)" if "k \<le> length (before_comment l)"
  using that by (induction l arbitrary: k) (auto split: if_splits simp: drop_Cons')

lemma trim_end_split: "\<exists>ws. s = trim_end s @ ws \<and> list_all is_whitespace ws"
  unfolding trim_end_def trim_end_matches_def
  by (rule exI [of _ "rev (takeWhile is_whitespace (rev s))"])
     (auto simp: list_all_iff dest: set_takeWhileD simp flip: rev_append)

lemma code_of_line:
  "length (trim_end (before_comment l)) \<le> length l"
  "list_all is_whitespace (before_comment (drop (length (trim_end (before_comment l))) l))"
proof -
  obtain ws where ws: "before_comment l = trim_end (before_comment l) @ ws" "list_all is_whitespace ws"
    using trim_end_split by blast
  then have le: "length (trim_end (before_comment l)) \<le> length (before_comment l)"
    by (metis le_add1 length_append)
  moreover have "length (before_comment l) \<le> length l"
    by (subst before_comment_prefix) simp
  ultimately show "length (trim_end (before_comment l)) \<le> length l" by simp
  show "list_all is_whitespace (before_comment (drop (length (trim_end (before_comment l))) l))"
    using before_comment_rest [OF le] ws by (metis append_eq_conv_conj)
qed

lemma butlast_drop_free: "10 \<notin> set (butlast l) \<Longrightarrow> 10 \<notin> set (butlast (drop k l))"
  by (metis butlast_drop in_set_dropD)

lemma code_end_blank:
  assumes "\<And>l. l \<in> set ls \<Longrightarrow> 10 \<notin> set (butlast l)"
    and "\<And>r. blank_text False r \<Longrightarrow> blank_text False (pre @ r)"
    and "off = e + length pre"
  shows "e \<le> code_end e off ls \<and> code_end e off ls \<le> off + length (concat ls)
       \<and> blank_text False (drop (code_end e off ls - e) (pre @ concat ls))"
  using assms
proof (induction ls arbitrary: e off pre)
  case Nil
  then show ?case using Nil(2) [of "[]"] by simp
next
  case (Cons l ls)
  let ?code = "trim_end (before_comment l)"
  have nl: "10 \<notin> set (butlast l)" by (rule Cons.prems(1)) simp
  show ?case
  proof (cases "?code = []")
    case True
    then have "list_all is_whitespace (before_comment l)" using code_of_line(2) [of l] by simp
    then have "blank_text False ((pre @ l) @ r)" if "blank_text False r" for r
      using Cons.prems(2) [OF blank_line [OF _ nl that]] by simp
    from Cons.IH [OF Cons.prems(1) this, of "off + length l" e] True Cons.prems(3)
    show ?thesis by simp
  next
    case False
    let ?e = "off + length ?code"
    have closed: "blank_text False (drop (length ?code) l @ r)" if "blank_text False r" for r
      by (rule blank_line [OF code_of_line(2) butlast_drop_free [OF nl] that])
    have len: "off + length l = ?e + length (drop (length ?code) l)" using code_of_line(1) [of l] by simp
    have IH: "?e \<le> code_end ?e (off + length l) ls \<and>
        code_end ?e (off + length l) ls \<le> off + length l + length (concat ls) \<and>
        blank_text False (drop (code_end ?e (off + length l) ls - ?e) (drop (length ?code) l @ concat ls))"
      by (rule Cons.IH [OF _ closed len]) (use Cons.prems(1) in simp)
    have "drop (code_end ?e (off + length l) ls - e) (pre @ l @ concat ls)
        = drop (code_end ?e (off + length l) ls - ?e) (drop (length ?code) l @ concat ls)"
      using IH [THEN conjunct1] Cons.prems(3) code_of_line(1) [of l] by (simp add: add.assoc)
    then have "blank_text False (drop (code_end ?e (off + length l) ls - e) (pre @ l @ concat ls))"
      using IH [THEN conjunct2, THEN conjunct2] by (simp only:)
    moreover have "code_end e off (l # ls) = code_end ?e (off + length l) ls" using False by (simp add: Let_def)
    ultimately show ?thesis
      using IH [THEN conjunct1] IH [THEN conjunct2, THEN conjunct1] Cons.prems(3) by (simp del: drop_append)
  qed
qed

text \<open>The spans of a statement: inside the text, and every token inside the statement.\<close>

definition spans_ok :: "ustr \<Rightarrow> kql_node \<Rightarrow> bool" where
  "spans_ok text st \<longleftrightarrow> nd_start st \<le> nd_end st \<and> nd_end st \<le> length text \<and>
     list_all (\<lambda>k. k \<le> nd_end st) (leaf_ends st)"

lemma fold_max: "(\<forall>x\<in>set es. x \<le> fold max es (e::nat)) \<and> e \<le> fold max es e \<and> (\<forall>b. e \<le> b \<and> (\<forall>x\<in>set es. x \<le> b) \<longrightarrow> fold max es e \<le> b)"
proof (induction es arbitrary: e)
  case (Cons x es)
  from Cons.IH [of "max x e"] show ?case by (auto simp: le_max_iff_disj)
qed simp

lemma statement_end_blank:
  assumes "spans_ok text st"
  shows "list_all (\<lambda>k. k \<le> statement_end text st) (leaf_ends st) \<and> statement_end text st \<le> nd_end st
       \<and> blank_text False (drop (statement_end text st) (take (nd_end st) text))"
proof -
  define k where "k = (case leaf_ends st of [] \<Rightarrow> nd_start st | e # es \<Rightarrow> fold max es e)"
  have k: "list_all (\<lambda>x. x \<le> k) (leaf_ends st)" "k \<le> nd_end st"
    using assms fold_max [of "tl (leaf_ends st)" "hd (leaf_ends st)"]
    by (auto simp: k_def spans_ok_def list_all_iff split: list.split)
  let ?rest = "drop k (take (nd_end st) text)"
  have len: "length ?rest = nd_end st - k" using assms by (simp add: spans_ok_def)
  have "k \<le> code_end k k (split_inclusive ?rest)
      \<and> code_end k k (split_inclusive ?rest) \<le> k + length (concat (split_inclusive ?rest))
      \<and> blank_text False (drop (code_end k k (split_inclusive ?rest) - k) ([] @ concat (split_inclusive ?rest)))"
    by (rule code_end_blank) (auto dest: split_inclusive_lines)
  moreover have "statement_end text st = code_end k k (split_inclusive ?rest)"
    by (simp add: statement_end_def k_def Let_def)
  ultimately show ?thesis using k len by (auto simp: list_all_iff dest: order_trans)
qed

text \<open>
  C14. \<open>bounded\<close> keeps the code. The bounded query is a piece of the text up to some point, followed on a
  line of its own by \<open>| take\<close> of one row more than the limit (which never wraps around). Every token
  of the last statement lies before that point, and what is left out of the statement is
  whitespace and line comments only, so the bound applies to the statement that was checked.
\<close>

lemma bounded_keeps_code:
  assumes "pest text = Inr q" and "last_statement q = Some st" and "spans_ok text st"
  shows "\<exists>k. bounded pest text n = take k text @ 10 # asc ''| take '' @ show_nat (unat n + 1)
        \<and> list_all (\<lambda>e. e \<le> k) (leaf_ends st) \<and> k \<le> nd_end st
        \<and> blank_text False (drop k (take (nd_end st) text))"
  using statement_end_blank [OF assms(3)] assms(1,2)
  by (intro exI [of _ "statement_end text st"]) (simp add: bounded_def parse_def)

definition demo_open :: ustr where
  "demo_open = asc ''T '' @ asc ''// all of it'' @ [10] @ asc '' ''"

definition demo_open_tree :: kql_node where
  "demo_open_tree = Node ''query'' demo_open 0 16
     [Node ''pipe_expr'' demo_open 0 16
        [Node ''pipe_head'' demo_open 0 16 [Node ''postfix'' demo_open 0 16 [name_node ''T'' 0]]],
      Node ''EOI'' [] 16 16 []]"

lemma bounded_keeps_code_witness:
  "(\<exists>k. bounded (\<lambda>t. Inr demo_open_tree) demo_open 10 = take k demo_open @ 10 # asc ''| take '' @ show_nat 11)
   \<and> bounded (\<lambda>t. Inr demo_open_tree) demo_open 10 = asc ''T'' @ 10 # asc ''| take 11''"
proof -
  let ?st = "hd (nd_children demo_open_tree)"
  have "last_statement demo_open_tree = Some ?st" "spans_ok demo_open ?st" by code_simp+
  moreover have "unat (10 :: 32 word) + 1 = 11" by code_simp
  moreover have "bounded (\<lambda>t. Inr demo_open_tree) demo_open 10 = asc ''T'' @ 10 # asc ''| take 11''" by code_simp
  ultimately show ?thesis
    using bounded_keeps_code [of "\<lambda>t. Inr demo_open_tree" demo_open demo_open_tree ?st 10] by auto
qed

text \<open>
  The documentation of \<open>Analysis\<close> counts the operands of a union among the tables. The grammar parses a
  parenthesized operand as a \<open>paren_pipe\<close> directly below the union, and the walk enters it as a value:
  the tables of \<open>union (A), (B)\<close> are taken for columns, while those of \<open>union A, B\<close> are tables.
\<close>

definition expr_chain :: "kql_node \<Rightarrow> kql_node" where
  "expr_chain c = foldr (\<lambda>r n. Node r (nd_text c) (nd_start c) (nd_end c) [n])
     [''expr'', ''or_expr'', ''and_expr'', ''equality'', ''relational'', ''additive'', ''multiplicative'',
      ''string_op_expr'', ''unary''] c"

definition postfix_name :: "string \<Rightarrow> nat \<Rightarrow> kql_node" where
  "postfix_name n k = Node ''postfix'' (asc n) k (k + length n) [name_node n k]"

definition paren_table :: "string \<Rightarrow> nat \<Rightarrow> kql_node" where
  "paren_table n k = Node ''paren_pipe'' (asc ''('' @ asc n @ asc '')'') k (k + length n + 2)
     [Node ''pipe_expr'' (asc n) (k + 1) (k + 1 + length n)
       [Node ''pipe_head'' (asc n) (k + 1) (k + 1 + length n) [expr_chain (postfix_name n (k + 1))]]]"

definition union_tree :: "ustr \<Rightarrow> kql_node list \<Rightarrow> kql_node" where
  "union_tree q operands =
     Node ''query'' q 0 (length q)
       [Node ''pipe_expr'' q 0 (length q)
         [Node ''pipe_head'' q 0 (length q)
           [Node ''union_op'' q 0 (length q) (Node ''kw_union'' (asc ''union'') 0 5 [] # operands)]],
        Node ''EOI'' [] (length q) (length q) []]"

lemma paren_union_operands_not_tables:
  "an_tables (analyze_query (union_tree (asc ''union (A), (B)'') [paren_table ''A'' 6, paren_table ''B'' 11])) = []
   \<and> an_tables (analyze_query (union_tree (asc ''union A, B'')
        [Node ''tabular_operand'' (asc ''A'') 6 7 [postfix_name ''A'' 6],
         Node ''tabular_operand'' (asc ''B'') 9 10 [postfix_name ''B'' 9]])) = [asc ''A'', asc ''B'']"
  by code_simp

end
