(* ===== verification/Catalog.thy ===== *)
theory Catalog
  imports Json
begin

text \<open>
  \<open>src/hunting/catalog.rs\<close>: the Advanced Hunting tables the server knows, and their JSON.
\<close>

record table =
  tb_name :: string
  tb_kind :: string
  tb_time :: "string option"
  tb_tags :: "string list"
  tb_entities :: "(string \<times> string) list"

abbreviation jstr :: "string \<Rightarrow> json" where
  "jstr t \<equiv> JStr (asc t)"

definition table_json :: "table \<Rightarrow> json" where
  "table_json t = jobj
     [(asc ''name'', jstr (tb_name t)), (asc ''kind'', jstr (tb_kind t)),
      (asc ''timeColumn'', case tb_time t of Some c \<Rightarrow> jstr c | None \<Rightarrow> JNull),
      (asc ''tags'', JArr (map jstr (tb_tags t))),
      (asc ''entities'', jobj (map (\<lambda>(k, c). (asc k, jstr c)) (tb_entities t)))]"

definition event_table :: "string \<Rightarrow> string list \<Rightarrow> (string \<times> string) list \<Rightarrow> table" where
  "event_table name tags entities = \<lparr>tb_name = name, tb_kind = ''raw_event'', tb_time = Some ''Timestamp'',
     tb_tags = tags, tb_entities = entities\<rparr>"

definition alert_table :: "string \<Rightarrow> (string \<times> string) list \<Rightarrow> table" where
  "alert_table name entities = \<lparr>tb_name = name, tb_kind = ''alert'', tb_time = Some ''Timestamp'',
     tb_tags = [''alert''], tb_entities = entities\<rparr>"

definition state_table :: "string \<Rightarrow> string option \<Rightarrow> string list \<Rightarrow> (string \<times> string) list \<Rightarrow> table" where
  "state_table name tm tags entities = \<lparr>tb_name = name, tb_kind = ''inventory'', tb_time = tm,
     tb_tags = tags, tb_entities = entities\<rparr>"

definition device_entity :: "string \<times> string" where
  "device_entity = (''device'', ''DeviceName'')"

text \<open>The tables of endpoints, vulnerability management and alerts; then those of the other products.\<close>

definition endpoint_tables :: "table list" where
  "endpoint_tables =
    [event_table ''DeviceEvents'' [''endpoint'', ''process'', ''security_event''] [device_entity, (''user'', ''InitiatingProcessAccountUpn''), (''file_hash'', ''SHA256''), (''ip'', ''RemoteIP'')],
     event_table ''DeviceFileCertificateInfo'' [''endpoint'', ''file'', ''certificate''] [device_entity, (''file_hash'', ''SHA1'')],
     event_table ''DeviceFileEvents'' [''endpoint'', ''file''] [device_entity, (''user'', ''InitiatingProcessAccountUpn''), (''file_hash'', ''SHA256'')],
     event_table ''DeviceImageLoadEvents'' [''endpoint'', ''module'', ''process''] [device_entity, (''user'', ''InitiatingProcessAccountUpn''), (''file_hash'', ''SHA256'')],
     event_table ''DeviceLogonEvents'' [''endpoint'', ''logon'', ''authentication''] [device_entity, (''user'', ''AccountName''), (''ip'', ''RemoteIP'')],
     event_table ''DeviceNetworkEvents'' [''endpoint'', ''network''] [device_entity, (''user'', ''InitiatingProcessAccountUpn''), (''ip'', ''RemoteIP''), (''url'', ''RemoteUrl'')],
     event_table ''DeviceProcessEvents'' [''endpoint'', ''process''] [device_entity, (''user'', ''AccountUpn''), (''file_hash'', ''SHA256''), (''process'', ''FileName'')],
     event_table ''DeviceRegistryEvents'' [''endpoint'', ''registry''] [device_entity, (''user'', ''InitiatingProcessAccountUpn'')],
     state_table ''DeviceInfo'' (Some ''Timestamp'') [''endpoint'', ''inventory'', ''device''] [device_entity],
     state_table ''DeviceNetworkInfo'' (Some ''Timestamp'') [''endpoint'', ''inventory'', ''network''] [device_entity],
     state_table ''DeviceTvmSoftwareInventory'' None [''vulnerability'', ''inventory'', ''software''] [device_entity],
     state_table ''DeviceTvmSoftwareVulnerabilities'' None [''vulnerability'', ''inventory'', ''cve''] [device_entity],
     state_table ''DeviceTvmSoftwareVulnerabilitiesKB'' None [''vulnerability'', ''knowledge_base'', ''cve''] [],
     state_table ''DeviceTvmSecureConfigurationAssessment'' (Some ''Timestamp'') [''vulnerability'', ''configuration''] [device_entity],
     state_table ''DeviceTvmSecureConfigurationAssessmentKB'' None [''vulnerability'', ''knowledge_base'', ''configuration''] [],
     alert_table ''AlertEvidence'' [device_entity, (''user'', ''AccountUpn''), (''ip'', ''RemoteIP''), (''file_hash'', ''SHA256''), (''url'', ''RemoteUrl'')],
     alert_table ''AlertInfo'' [],
     alert_table ''BehaviorEntities'' [device_entity, (''user'', ''AccountUpn''), (''ip'', ''RemoteIP'')],
     alert_table ''BehaviorInfo'' []]"

definition product_tables :: "table list" where
  "product_tables =
    [event_table ''EmailAttachmentInfo'' [''email'', ''file''] [(''email'', ''RecipientEmailAddress''), (''file_hash'', ''SHA256'')],
     event_table ''EmailEvents'' [''email''] [(''email'', ''RecipientEmailAddress'')],
     event_table ''EmailPostDeliveryEvents'' [''email''] [(''email'', ''RecipientEmailAddress'')],
     event_table ''EmailUrlInfo'' [''email'', ''url''] [(''url'', ''Url'')],
     event_table ''UrlClickEvents'' [''email'', ''url''] [(''user'', ''AccountUpn''), (''url'', ''Url''), (''ip'', ''IPAddress'')],
     event_table ''IdentityDirectoryEvents'' [''identity'', ''directory''] [(''user'', ''AccountUpn''), device_entity, (''ip'', ''IPAddress'')],
     state_table ''IdentityInfo'' (Some ''Timestamp'') [''identity'', ''inventory''] [(''user'', ''AccountUpn'')],
     event_table ''IdentityLogonEvents'' [''identity'', ''logon'', ''authentication''] [(''user'', ''AccountUpn''), device_entity, (''ip'', ''IPAddress'')],
     event_table ''IdentityQueryEvents'' [''identity'', ''directory'', ''query''] [(''user'', ''AccountUpn''), device_entity, (''ip'', ''IPAddress'')],
     event_table ''AADSignInEventsBeta'' [''identity'', ''logon'', ''cloud''] [(''user'', ''AccountUpn''), (''ip'', ''IPAddress'')],
     event_table ''AADSpnSignInEventsBeta'' [''identity'', ''logon'', ''cloud'', ''service_principal''] [(''ip'', ''IPAddress'')],
     event_table ''EntraIdSignInEvents'' [''identity'', ''logon'', ''cloud''] [(''user'', ''AccountUpn''), (''ip'', ''IPAddress'')],
     event_table ''EntraIdSpnSignInEvents'' [''identity'', ''logon'', ''cloud'', ''service_principal''] [(''ip'', ''IPAddress'')],
     event_table ''CloudAppEvents'' [''cloud'', ''saas''] [(''user'', ''AccountObjectId''), (''ip'', ''IPAddress'')],
     event_table ''CloudAuditEvents'' [''cloud'', ''audit''] [(''ip'', ''IPAddress'')],
     event_table ''CloudProcessEvents'' [''cloud'', ''process'', ''container''] [(''process'', ''FileName'')],
     state_table ''ExposureGraphEdges'' None [''exposure'', ''graph''] [],
     state_table ''ExposureGraphNodes'' None [''exposure'', ''graph''] []]"

definition tables :: "table list" where
  "tables = endpoint_tables @ product_tables"

definition find_table :: "ustr \<Rightarrow> table option" where
  "find_table name = find (\<lambda>t. asc (tb_name t) = name) tables"

definition find_ignoring_case :: "ustr \<Rightarrow> table option" where
  "find_ignoring_case name = find (\<lambda>t. eq_ignore_ascii_case (asc (tb_name t)) name) tables"

text \<open>The names are distinct, also ignoring case, so a name has at most one entry.\<close>

lemma names_distinct: "distinct (map (\<lambda>t. to_ascii_lowercase (asc (tb_name t))) tables)"
  by code_simp

end
