(* ===== verification/Hunting.thy ===== *)
theory Hunting
  imports Catalog KqlPolicy ReadBase
begin

text \<open>
  \<open>src/hunting/mod.rs\<close> and the tool \<open>defender_hunting\<close> of \<open>src/server.rs\<close>: a query is checked on its
  parse tree before Microsoft Graph sees it, its rows are bounded, the answer is made compact, and
  table schemas are cached for an hour.
\<close>

section \<open>Findings\<close>

record finding =
  fd_code :: string
  fd_severity :: string
  fd_message :: ustr
  fd_line :: "nat option"
  fd_column :: "nat option"

definition error_finding :: "string \<Rightarrow> ustr \<Rightarrow> finding" where
  "error_finding code m = \<lparr>fd_code = code, fd_severity = ''error'', fd_message = m, fd_line = None, fd_column = None\<rparr>"

definition warning_finding :: "string \<Rightarrow> ustr \<Rightarrow> finding" where
  "warning_finding code m = (error_finding code m)\<lparr>fd_severity := ''warning''\<rparr>"

definition finding_is_error :: "finding \<Rightarrow> bool" where
  "finding_is_error f \<longleftrightarrow> fd_severity f = ''error''"

definition finding_json :: "finding \<Rightarrow> json" where
  "finding_json f = jobj
     ([(asc ''code'', jstr (fd_code f)), (asc ''severity'', jstr (fd_severity f)), (asc ''message'', JStr (fd_message f))]
      @ (case (fd_line f, fd_column f) of
          (Some l, Some c) \<Rightarrow> [(asc ''line'', JNum (int l)), (asc ''column'', JNum (int c))]
        | _ \<Rightarrow> []))"

definition finding_of :: "problem \<Rightarrow> finding" where
  "finding_of p = \<lparr>fd_code = code_str (pr_code p), fd_severity = ''error'', fd_message = pr_message p,
     fd_line = map_option fst (pr_position p), fd_column = map_option snd (pr_position p)\<rparr>"

record validation =
  va_analysis :: "analysis option"
  va_findings :: "finding list"

definition is_valid :: "validation \<Rightarrow> bool" where
  "is_valid v \<longleftrightarrow> \<not> list_ex finding_is_error (va_findings v)"

definition validation_errors :: "validation \<Rightarrow> finding list" where
  "validation_errors v = filter finding_is_error (va_findings v)"

definition findings_json :: "validation \<Rightarrow> json" where
  "findings_json v = JArr (map finding_json (va_findings v))"

definition names_json :: "name_set \<Rightarrow> json" where
  "names_json ns = JArr (map JStr ns)"

definition validation_json :: "validation \<Rightarrow> json" where
  "validation_json v = jobj
     ([(asc ''valid'', JBool (is_valid v))]
      @ (case va_analysis v of
          Some a \<Rightarrow> [(asc ''tables'', names_json (an_tables a)), (asc ''columns'', names_json (columns a)),
            (asc ''operators'', names_json (operator_keywords a)), (asc ''rowLimited'', JBool (row_limited a)),
            (asc ''timeNarrowed'', JBool (time_narrowed a)),
            (asc ''ungroupedAggregate'', JBool (an_ungrouped_aggregate a))]
        | None \<Rightarrow> [])
      @ [(asc ''problems'', findings_json v)])"

definition table_warning :: "ustr \<Rightarrow> finding" where
  "table_warning t = warning_finding ''unknown_table''
     (case find_ignoring_case t of
       Some known \<Rightarrow> bq t @ asc '' is not an Advanced Hunting table: table names are case-sensitive, did you mean ''
         @ bq (asc (tb_name known)) @ asc ''?''
     | None \<Rightarrow> bq t @ asc '' is not a known Advanced Hunting table: a custom table works, a missing one is refused by Defender'')"

definition table_findings :: "analysis \<Rightarrow> finding list" where
  "table_findings a =
     (if an_tables a = [] then [error_finding ''no_table''
        (asc ''the query reads no table: name an Advanced Hunting table (action '' @ bq (asc ''tables'') @ asc '' lists them)'')]
      else [])
     @ map table_warning (filter (\<lambda>t. find_table t = None) (an_tables a))
     @ (if an_ungrouped_aggregate a then [warning_finding ''ungrouped_aggregate''
        (asc ''an ungrouped '' @ bq (asc ''summarize'') @ asc ''/'' @ bq (asc ''count'')
         @ asc '' returns one row whether or not anything matched: group by an entity, or return the events'')] else [])"

definition validate :: "pest_parser \<Rightarrow> ustr \<Rightarrow> validation" where
  "validate pest query =
     (case check_query pest query of
       Inr a \<Rightarrow> \<lparr>va_analysis = Some a, va_findings = table_findings a\<rparr>
     | Inl problems \<Rightarrow>
         (let parsed = \<not> list_ex (\<lambda>p. pr_code p = ParseError \<or> pr_code p = ManagementCommand) problems;
              an = (if parsed then (case analyze pest query of Inr a \<Rightarrow> Some a | Inl _ \<Rightarrow> None) else None)
          in \<lparr>va_analysis = an, va_findings = map finding_of problems
                @ (case an of Some a \<Rightarrow> table_findings a | None \<Rightarrow> [])\<rparr>))"

section \<open>Answers\<close>

definition results_of :: "json \<Rightarrow> json list" where
  "results_of answer = (case Option.bind (jget (asc ''results'') answer) as_array of Some rs \<Rightarrow> rs | None \<Rightarrow> [])"

text \<open>A field under its name, or else under the name with a capital.\<close>

definition either_field :: "string \<Rightarrow> string \<Rightarrow> json \<Rightarrow> json option" where
  "either_field a b c = (case jget (asc a) c of Some v \<Rightarrow> Some v | None \<Rightarrow> jget (asc b) c)"

definition schema_columns :: "json \<Rightarrow> (ustr \<times> ustr option) list" where
  "schema_columns answer = List.map_filter
     (\<lambda>c. map_option (\<lambda>n. (n, Option.bind (either_field ''type'' ''Type'' c) as_str))
        (Option.bind (either_field ''name'' ''Name'' c) as_str))
     (case Option.bind (jget (asc ''schema'') answer) as_array of Some cs \<Rightarrow> cs | None \<Rightarrow> [])"

definition answer_columns :: "json \<Rightarrow> (ustr \<times> ustr option) list" where
  "answer_columns answer =
     (let cs = schema_columns answer
      in if cs = [] then (case results_of answer of JObj o' # _ \<Rightarrow> map (\<lambda>(k, _). (k, None)) o' | _ \<Rightarrow> []) else cs)"

definition compact_row :: "(ustr \<times> ustr option) list \<Rightarrow> json \<Rightarrow> json" where
  "compact_row cs r =
     (case r of
       JObj o' \<Rightarrow> JArr (map (\<lambda>(n, _). case map_of o' n of Some v \<Rightarrow> v | None \<Rightarrow> JNull) cs)
     | other \<Rightarrow> other)"

definition compact :: "json \<Rightarrow> 32 word \<Rightarrow> json_map" where
  "compact answer max_rows =
     (let cs = answer_columns answer;
          limit = unat max_rows;
          rows = map (compact_row cs) (take limit (results_of answer));
          truncated = limit < length (results_of answer)
      in obj_of
        ([(asc ''columns'', JArr (map (\<lambda>(n, t). case t of
             Some t' \<Rightarrow> jobj [(asc ''name'', JStr n), (asc ''type'', JStr t')]
           | None \<Rightarrow> jobj [(asc ''name'', JStr n)]) cs)),
          (asc ''rowCount'', JNum (int (length rows))),
          (asc ''truncated'', JBool truncated),
          (asc ''maxRows'', JNum (int limit))]
         @ (if truncated then [(asc ''note'', JStr (asc ''more than '' @ show_nat limit
              @ asc '' rows matched: this answer is cut and is not the complete result; summarize, narrow the query or raise maxRows''))]
            else [])
         @ [(asc ''rows'', JArr rows)]))"

definition is_table_name :: "ustr \<Rightarrow> bool" where
  "is_table_name name \<longleftrightarrow>
     (case name of
       [] \<Rightarrow> False
     | c # cs \<Rightarrow> (is_ascii_alphabetic c \<or> c = 95) \<and> list_all (\<lambda>c. is_ascii_alphanumeric c \<or> c = 95) cs
         \<and> str_len name \<le> 256)"

definition schema_query :: "ustr \<Rightarrow> ustr" where
  "schema_query t = t @ 10 # asc ''| getschema'' @ 10 # asc ''| project ColumnName, ColumnType''"

definition schema_row :: "json \<Rightarrow> json option" where
  "schema_row r = map_option (\<lambda>n. jobj [(asc ''name'', JStr n),
       (asc ''type'', JStr (case Option.bind (jget (asc ''ColumnType'') r) as_str of Some t \<Rightarrow> t | None \<Rightarrow> []))])
     (Option.bind (jget (asc ''ColumnName'') r) as_str)"

definition schema_answer :: "ustr \<Rightarrow> json \<Rightarrow> json" where
  "schema_answer t answer =
     (let m = (case map_option table_json (find_table t) of
            Some (JObj m) \<Rightarrow> m
          | _ \<Rightarrow> obj_of [(asc ''name'', JStr t), (asc ''known'', JBool False)])
      in JObj (map_insert (asc ''columns'') (JArr (List.map_filter schema_row (results_of answer)))
           (map_remove (asc ''tags'') m)))"

definition tables_answer :: "ustr option \<Rightarrow> json" where
  "tables_answer flt = jobj
     [(asc ''tables'', JArr (map table_json (filter (\<lambda>t. case flt of
         None \<Rightarrow> True
       | Some f \<Rightarrow> asc (tb_kind t) = f \<or> f \<in> set (map asc (tb_tags t))) tables))),
      (asc ''note'', JStr (asc ''Microsoft'' @ 39 # asc ''s schema reference; which tables hold data depends on the Defender products deployed. Use action ''
         @ bq (asc ''schema'') @ asc '' for a table'' @ 39 # asc ''s columns in this tenant.''))]"

section \<open>The schema cache\<close>

definition schema_ttl :: int where
  "schema_ttl = 3600 * 1000000000"

text \<open>\<open>elapsed\<close> of an instant that lies in the future is zero.\<close>

definition elapsed :: "int \<Rightarrow> int \<Rightarrow> int" where
  "elapsed at current = max 0 (current - at)"

definition cache_get :: "'x env_scheme \<Rightarrow> ustr \<Rightarrow> json option io" where
  "cache_get e t = do {
     m \<leftarrow> gets schemas;
     case map_of m t of
       None \<Rightarrow> ret None
     | Some (at, v) \<Rightarrow> do {
         current \<leftarrow> instant e;
         ret (if elapsed at current < schema_ttl then Some v else None)
       }
   }"

fun retain_fresh :: "'x env_scheme \<Rightarrow> schema_map \<Rightarrow> schema_map io" where
  "retain_fresh e [] = ret []"
| "retain_fresh e ((k, at, v) # m) = do {
     current \<leftarrow> instant e;
     m' \<leftarrow> retain_fresh e m;
     ret (if elapsed at current < schema_ttl then (k, at, v) # m' else m')
   }"

definition cache_put :: "'x env_scheme \<Rightarrow> ustr \<Rightarrow> json \<Rightarrow> unit io" where
  "cache_put e t schema = do {
     m \<leftarrow> gets schemas;
     m' \<leftarrow> retain_fresh e m;
     at \<leftarrow> instant e;
     modify (schemas_update (\<lambda>_. map_insert t (at, schema) m'))
   }"

section \<open>The tool\<close>

record hunting_input =
  hi_action :: ustr
  hi_query :: "ustr option"
  hi_timespan :: "ustr option"
  hi_max_rows :: "32 word option"
  hi_table :: "ustr option"
  hi_filter :: "ustr option"

definition default_hunting_action :: ustr where
  "default_hunting_action = asc ''run''"

definition hunting_actions :: "string list" where
  "hunting_actions = [''validate'', ''run'', ''schema'', ''tables'']"

definition default_max_rows :: "32 word" where
  "default_max_rows = 1000"

definition max_max_rows :: "32 word" where
  "max_max_rows = 99999"

definition non_blank :: "ustr option \<Rightarrow> ustr option" where
  "non_blank v = Option.bind v (\<lambda>t. if trim t = [] then None else Some (trim t))"

definition hunting_path :: ustr where
  "hunting_path = asc ''/security/runHuntingQuery''"

definition hunting_body :: "ustr \<Rightarrow> ustr \<Rightarrow> json" where
  "hunting_body query timespan = jobj [(asc ''Query'', JStr query), (asc ''Timespan'', JStr timespan)]"

definition hunting_validate :: "'x env_scheme \<Rightarrow> hunting_input \<Rightarrow> read_io" where
  "hunting_validate e i =
     valid_then (required (hi_query i) ''query'' (asc ''validate'')) (\<lambda>query.
     valid_then (validate_kql_query query) (\<lambda>_.
       ret (Inr (Structured (validation_json (validate (kql_pest e) query))))))"

definition refused_query :: "validation \<Rightarrow> call_tool_result" where
  "refused_query found = StructuredError (jobj
     [(asc ''error'', JStr (asc ''The query was not run: '' @ join (asc ''; '') (map fd_message (validation_errors found)))),
      (asc ''problems'', findings_json found)])"

definition hunting_answer :: "validation \<Rightarrow> 32 word \<Rightarrow> json \<Rightarrow> json" where
  "hunting_answer found max_rows answer =
     (let out = compact answer max_rows
      in JObj (if va_findings found \<noteq> [] then map_insert (asc ''warnings'') (findings_json found) out else out))"

definition hunting_run :: "'x env_scheme \<Rightarrow> server \<Rightarrow> hunting_input \<Rightarrow> read_io" where
  "hunting_run e s i =
     valid_then (required (hi_query i) ''query'' (asc ''run'')) (\<lambda>query.
     valid_then (validate_kql_query query) (\<lambda>_.
       (let max_rows = (case hi_max_rows i of Some n \<Rightarrow> n | None \<Rightarrow> default_max_rows) in
        if \<not> (1 \<le> max_rows \<and> max_rows \<le> max_max_rows) then
          ret (Inl (invalid_params (asc ''maxRows must be between 1 and '' @ show_nat (unat max_max_rows))))
        else
          (let found = validate (kql_pest e) query in
           if \<not> is_valid found then ret (Inr (refused_query found))
           else
             (let timespan = (case non_blank (hi_timespan i) of Some t \<Rightarrow> t | None \<Rightarrow> asc ''P30D'');
                  body = hunting_body (bounded (kql_pest e) query max_rows) timespan
              in do {
                answer \<leftarrow> graph_post_explained e s hunting_path body;
                ret (Inr (case answer of
                    Inr a \<Rightarrow> Structured (hunting_answer found max_rows a)
                  | Inl err \<Rightarrow> err))
              })))))"

definition hunting_schema :: "'x env_scheme \<Rightarrow> server \<Rightarrow> hunting_input \<Rightarrow> read_io" where
  "hunting_schema e s i =
     valid_then (required (hi_table i) ''table'' (asc ''schema'')) (\<lambda>given_table.
       (let t = trim given_table in
        if \<not> is_table_name t then
          ret (Inl (invalid_params (asc ''table must be a table name such as DeviceProcessEvents (letters, digits, _)'')))
        else do {
          cached \<leftarrow> cache_get e t;
          case cached of
            Some v \<Rightarrow> ret (Inr (Structured v))
          | None \<Rightarrow> do {
              answer \<leftarrow> graph_post_explained e s hunting_path (hunting_body (schema_query t) (asc ''P1D''));
              case answer of
                Inl err \<Rightarrow> ret (Inr err)
              | Inr a \<Rightarrow> do {
                  cache_put e t (schema_answer t a);
                  ret (Inr (Structured (schema_answer t a)))
                }
            }
        }))"

definition hunting_tables :: "hunting_input \<Rightarrow> read_io" where
  "hunting_tables i = ret (Inr (Structured (tables_answer (non_blank (hi_filter i)))))"

definition defender_hunting :: "'x env_scheme \<Rightarrow> server \<Rightarrow> hunting_input \<Rightarrow> read_io" where
  "defender_hunting e s i =
     match_action
       [(''validate'', hunting_validate e i), (''run'', hunting_run e s i),
        (''schema'', hunting_schema e s i), (''tables'', hunting_tables i)]
       (ret (Inl (unknown_action_error (asc ''defender_hunting'') (hi_action i) (map asc hunting_actions))))
       (hi_action i)"

section \<open>What a hunting request does\<close>

lemma check_query_problems: "check_query pest text \<noteq> Inl []"
  by (auto simp: check_query_def Let_def split: option.split sum.split prod.split)

lemma problem_errors: "ps \<noteq> [] \<Longrightarrow> list_ex finding_is_error (map finding_of ps @ fs)"
  by (cases ps) (simp_all add: finding_is_error_def finding_of_def)

lemma valid_query:
  assumes "is_valid (validate pest text)"
  shows "\<exists>a. check_query pest text = Inr a \<and> an_tables a \<noteq> []"
proof (cases "check_query pest text")
  case (Inl ps)
  then have "ps \<noteq> []" using check_query_problems [of pest "text"] by auto
  from problem_errors [OF this] Inl assms show ?thesis
    by (auto simp: validate_def is_valid_def Let_def split: option.splits)
next
  case (Inr a)
  with assms show ?thesis
    by (auto simp: validate_def is_valid_def table_findings_def error_finding_def finding_is_error_def)
qed

text \<open>The calls of the tool: a checked query with its bound, or the columns of a table.\<close>

definition hunting_query :: "pest_parser \<Rightarrow> ustr \<Rightarrow> bool" where
  "hunting_query pest q \<longleftrightarrow>
     (\<exists>text n a. q = bounded pest text n \<and> 1 \<le> unat n \<and> unat n \<le> 99999 \<and>
        check_query pest text = Inr a \<and> an_tables a \<noteq> [])
     \<or> (\<exists>t. is_table_name t \<and> q = schema_query t)"

definition hunting_call :: "'x env_scheme \<Rightarrow> server \<Rightarrow> http_request \<Rightarrow> bool" where
  "hunting_call e s rq \<longleftrightarrow> rq_method rq = POST \<and> rq_url rq = graph_base s @ hunting_path \<and> rq_query rq = [] \<and>
     (\<exists>q ts. rq_body rq = JsonBody (hunting_body q ts) \<and> hunting_query (kql_pest e) q)"

lemma reading_hunting:
  "hunting_query (kql_pest e) q \<Longrightarrow>
     reading 1 (hunting_call e s) (graph_post_explained e s hunting_path (hunting_body q ts))"
  unfolding graph_post_explained_def
  by (intro reading_post_explained) (auto simp: hunting_call_def api_request_def)

lemma max_rows_bounds: "(1 \<le> n \<and> n \<le> max_max_rows) \<longleftrightarrow> 1 \<le> unat n \<and> unat n \<le> 99999"
  by (simp add: max_max_rows_def word_le_nat_alt)

lemma reading_run: "reading 1 (hunting_call e s) (hunting_run e s i)"
  unfolding hunting_run_def Let_def max_rows_bounds
  by (intro reading_valid_then reading_if reading_ret reading_then_ret reading_hunting)
     (unfold hunting_query_def, use valid_query in blast)

lemma quiet_cache:
  "within 0 E (cache_get e t)" "within 0 E (retain_fresh e m)" "within 0 E (cache_put e t v)"
proof -
  show get: "within 0 E (cache_get e t)"
    unfolding cache_get_def within_def by (auto split: option.splits)
  have quiet: "run_state (retain_fresh e m) w = (m', w') \<Longrightarrow> trace w' = trace w" for m m' w w'
  proof (induction e m arbitrary: m' w w' rule: retain_fresh.induct)
    case (2 e k at v m)
    from "2.prems" obtain r v' where "run_state (retain_fresh e m) (w\<lparr>reads := Suc (reads w)\<rparr>) = (r, v')" "w' = v'"
      by (auto split: prod.splits)
    with "2.IH" show ?case by fastforce
  qed simp
  then show "within 0 E (retain_fresh e m)" unfolding within_def by fastforce
  show "within 0 E (cache_put e t v)"
    unfolding cache_put_def within_def using quiet by (fastforce split: prod.splits)
qed

lemma reading_schema: "reading 1 (hunting_call e s) (hunting_schema e s i)"
proof -
  have fetch: "reading 1 (hunting_call e s)
      (do { answer \<leftarrow> graph_post_explained e s hunting_path (hunting_body (schema_query t) ts);
         case answer of Inl err \<Rightarrow> ret (Inr err)
         | Inr a \<Rightarrow> do { cache_put e t (schema_answer t a); ret (Inr (Structured (schema_answer t a))) } })"
    if t: "is_table_name t" for t ts
  proof -
    have rest: "within 0 E (case answer of Inl err \<Rightarrow> ret (Inr err)
         | Inr a \<Rightarrow> do { cache_put e t (schema_answer t a); ret (Inr (Structured (schema_answer t a))) })"
      for E and answer :: "call_tool_result + json"
      by (auto split: sum.split intro: reading_ret reading_then_ret quiet_cache)
    have q: "hunting_query (kql_pest e) (schema_query t)" using t by (auto simp: hunting_query_def)
    show ?thesis
      using reading_bind [where k = 0, OF reading_hunting [OF q] rest] by (simp del: One_nat_def)
  qed
  have "reading 1 (hunting_call e s) (do { c \<leftarrow> cache_get e t; case c of Some v \<Rightarrow> ret (Inr (Structured v)) | None \<Rightarrow> m })"
    if "reading 1 (hunting_call e s) m" for m :: read_io and t
  proof -
    have "reading (0 + 1) (hunting_call e s)
        (do { c \<leftarrow> cache_get e t; case c of Some v \<Rightarrow> ret (Inr (Structured v)) | None \<Rightarrow> m })"
      by (rule reading_bind [OF quiet_cache(1)]) (use that in \<open>simp add: reading_ret split: option.split\<close>)
    then show ?thesis by simp
  qed
  then show ?thesis
    unfolding hunting_schema_def Let_def
    by (intro reading_valid_then reading_if reading_ret) (simp add: fetch del: One_nat_def)
qed

lemma reading_hunting_tool: "reading 1 (hunting_call e s) (defender_hunting e s i)"
  unfolding defender_hunting_def
  by (intro reading_match row_rules reading_ret reading_run reading_schema)
     (auto simp: hunting_validate_def hunting_tables_def intro: reading_valid_then reading_ret)

section \<open>Properties\<close>

text \<open>
  C12. \<open>defender_hunting\<close> only asks Graph what was checked. Whatever its input, a request makes at most one
  API call and causes nothing else but token requests; the call is a POST to \<open>runHuntingQuery\<close> whose
  query is either a text that \<open>check_query\<close> accepted and that reads a table, bounded to between 2 and
  100000 rows, or the column listing of a plain table name.
\<close>

theorem hunting_sends_checked_queries:
  assumes "run_state (defender_hunting e s i) w = (r, w')" and "trace w' = trace w @ evs"
  shows "list_all sends evs \<and> length (filter api_call evs) \<le> 1 \<and>
    (\<forall>rq. Sent rq \<in> set evs \<longrightarrow> rq_bearer rq \<noteq> None \<longrightarrow> hunting_call e s rq)"
  using readingD [OF reading_hunting_tool assms] .

definition demo_query :: ustr where
  "demo_query = asc ''DeviceInfo | take 5''"

definition demo_query_tree :: kql_node where
  "demo_query_tree = Node ''query'' demo_query 0 19
     [Node ''pipe_expr'' demo_query 0 19
        [Node ''pipe_head'' (asc ''DeviceInfo '') 0 11 [Node ''postfix'' (asc ''DeviceInfo '') 0 11 [name_node ''DeviceInfo'' 0]],
         Node ''take_op'' (asc ''take 5'') 13 19
           [Node ''kw_take'' (asc ''take'') 13 17 [], Node ''expr'' (asc ''5'') 18 19 []]],
      Node ''EOI'' [] 19 19 []]"

definition hunting_env :: "kql_node \<Rightarrow> env" where
  "hunting_env tree = (demo_env (demo_reply 200 (asc ''{}'')))\<lparr>kql_pest := (\<lambda>t. Inr tree)\<rparr>"

definition run_query_input :: "ustr \<Rightarrow> hunting_input" where
  "run_query_input q = \<lparr>hi_action = asc ''run'', hi_query = Some q, hi_timespan = None, hi_max_rows = Some 10,
     hi_table = None, hi_filter = None\<rparr>"

lemma hunting_sends_checked_queries_witness:
  "\<exists>rq. rq_body rq = JsonBody (hunting_body (demo_query @ 10 # asc ''| take 11'') (asc ''P30D'')) \<and>
     hunting_call (hunting_env demo_query_tree) demo_server rq"
proof -
  let ?e = "hunting_env demo_query_tree"
  let ?run = "run_state (defender_hunting ?e demo_server (run_query_input demo_query)) world1"
  let ?rq = "api_request demo_server Graph POST hunting_path []
     (JsonBody (hunting_body (demo_query @ 10 # asc ''| take 11'') (asc ''P30D''))) (asc ''token'')"
  have t: "trace (snd ?run) = trace world1 @ [Sent ?rq]" by code_simp
  have "list_all sends [Sent ?rq] \<and> length (filter api_call [Sent ?rq]) \<le> 1 \<and>
    (\<forall>rq. Sent rq \<in> set [Sent ?rq] \<longrightarrow> rq_bearer rq \<noteq> None \<longrightarrow> hunting_call ?e demo_server rq)"
    by (rule hunting_sends_checked_queries [OF prod.collapse [symmetric] t])
  then have "hunting_call ?e demo_server ?rq" by (simp add: api_request_def)
  moreover have "rq_body ?rq = JsonBody (hunting_body (demo_query @ 10 # asc ''| take 11'') (asc ''P30D''))"
    by (simp add: api_request_def)
  ultimately show ?thesis by blast
qed

text \<open>
  C13. A query that offends the policy is never sent. When any node of any statement of the query is one of
  the constructs the policy refuses, \<open>run\<close> answers an error and does nothing at all, whatever else
  the input holds.
\<close>

theorem offending_query_not_run:
  assumes "hi_action i = asc ''run''" and "hi_query i = Some q" and "kql_pest e q = Inr tree"
    and "list_all grammar_shape (nd_children tree)"
    and "st \<in> set (nd_children tree)" and "reaches st x" and "offences x \<noteq> {}"
  shows "\<exists>r. run_state (defender_hunting e s i) w = (r, w) \<and>
    (case r of Inl err \<Rightarrow> True | Inr answer \<Rightarrow> is_error answer)"
proof -
  from assms(7) obtain c where "c \<in> offences x" by blast
  with assms(5,6) have "c \<in> \<Union> (codes_of ` set (nd_children tree))" using codes_of_reaches by blast
  then have "check (analyze_query tree) \<noteq> []" using analyze_codes [OF assms(4)] by auto
  then have "\<nexists>a. check_query (kql_pest e) q = Inr a"
    using assms(3) by (auto simp: check_query_def parse_def Let_def split: option.split)
  then have "\<not> is_valid (validate (kql_pest e) q)" using valid_query by blast
  then show ?thesis
    using assms(1,2)
    by (auto simp: defender_hunting_def hunting_run_def valid_then_def required_def refused_query_def Let_def
        split: sum.split)
qed

definition offending_input :: hunting_input where
  "offending_input = run_query_input demo_kql"

lemma offending_query_not_run_witness:
  "\<exists>r. run_state (defender_hunting (hunting_env demo_kql_tree) demo_server offending_input) world1 = (r, world1)"
proof -
  let ?st = "hd (nd_children demo_kql_tree)" and ?wh = "nd_children (hd (nd_children demo_kql_tree)) ! 1"
  have "hi_action offending_input = asc ''run''" "hi_query offending_input = Some demo_kql"
    "kql_pest (hunting_env demo_kql_tree) demo_kql = Inr demo_kql_tree"
    by (simp_all add: offending_input_def run_query_input_def hunting_env_def)
  moreover have "list_all grammar_shape (nd_children demo_kql_tree)" by code_simp
  moreover have "?st \<in> set (nd_children demo_kql_tree)" by (simp add: demo_kql_tree_def)
  moreover have "reaches ?st (nd_children ?wh ! 1)"
    by (rule reaches.inside [of ?wh], code_simp, rule reaches.inside [of "nd_children ?wh ! 1"], code_simp,
        rule reaches.here)
  moreover have "CrossCluster \<in> offences (nd_children ?wh ! 1)" by code_simp
  ultimately show ?thesis
    using offending_query_not_run [of offending_input demo_kql "hunting_env demo_kql_tree" demo_kql_tree ?st
        "nd_children ?wh ! 1" demo_server world1] by blast
qed

lemma map_of_compact:
  "map_of (compact answer n) (asc ''rows'') = Some (JArr (map (compact_row (answer_columns answer)) (take (unat n) (results_of answer))))
   \<and> map_of (compact answer n) (asc ''rowCount'') = Some (JNum (int (min (length (results_of answer)) (unat n))))
   \<and> map_of (compact answer n) (asc ''truncated'') = Some (JBool (unat n < length (results_of answer)))
   \<and> (map_of (compact answer n) (asc ''note'') = None \<longleftrightarrow> length (results_of answer) \<le> unat n)"
  by (cases "unat n < length (results_of answer)") (simp_all add: compact_def Let_def map_of_obj_of min_def)

text \<open>
  C15. Truncation is detected. When Graph applies the bound of one row more than \<open>maxRows\<close> to a query that
  matches the rows \<open>full\<close>, the answer holds the first \<open>maxRows\<close> of them, made compact and in order, their
  count, and says that it is truncated exactly when more rows matched; it carries the note that
  it is not complete only then.
\<close>

theorem truncation_detected:
  assumes "results_of answer = take (unat n + 1) full"
  shows "map_of (compact answer n) (asc ''truncated'') = Some (JBool (unat n < length full))
     \<and> map_of (compact answer n) (asc ''rowCount'') = Some (JNum (int (min (length full) (unat n))))
     \<and> map_of (compact answer n) (asc ''rows'') = Some (JArr (map (compact_row (answer_columns answer)) (take (unat n) full)))
     \<and> (map_of (compact answer n) (asc ''note'') = None \<longleftrightarrow> length full \<le> unat n)"
  using map_of_compact [of answer n] assms by (auto simp: min_def take_map)

definition demo_answer :: "json" where
  "demo_answer = jobj [(asc ''schema'', JArr [jobj [(asc ''name'', JStr (asc ''N''))]]),
     (asc ''results'', JArr [jobj [(asc ''N'', JNum 1)], jobj [(asc ''N'', JNum 2)], jobj [(asc ''N'', JNum 3)]])]"

lemma truncation_detected_witness:
  "map_of (compact demo_answer 2) (asc ''truncated'') = Some (JBool True)
   \<and> map_of (compact demo_answer 2) (asc ''rows'') = Some (JArr [JArr [JNum 1], JArr [JNum 2]])"
proof -
  let ?full = "[jobj [(asc ''N'', JNum 1)], jobj [(asc ''N'', JNum 2)], jobj [(asc ''N'', JNum 3)], jobj [(asc ''N'', JNum 4)]]"
  have "results_of demo_answer = take (unat (2 :: 32 word) + 1) ?full" by code_simp
  moreover have "unat (2 :: 32 word) < length ?full" by simp
  moreover have "map (compact_row (answer_columns demo_answer)) (take (unat (2 :: 32 word)) ?full) = [JArr [JNum 1], JArr [JNum 2]]"
    by code_simp
  ultimately show ?thesis using truncation_detected [of demo_answer 2 ?full] by simp
qed

text \<open>A cached schema is returned when it is fresh, and only then.\<close>

lemma run_cache_get:
  "run_state (cache_get e t) w =
     (case map_of (schemas w) t of
       None \<Rightarrow> (None, w)
     | Some (at, v) \<Rightarrow> (if elapsed at (instants e (reads w)) < schema_ttl then Some v else None, w\<lparr>reads := Suc (reads w)\<rparr>))"
  by (simp add: cache_get_def split: option.split prod.split)

lemma run_cache_put:
  assumes "run_state (cache_put e t v) w = (u, w')"
  shows "map_of (schemas w') t = Some (instants e (reads w' - 1), v) \<and> trace w' = trace w"
proof -
  obtain m' v' where r: "run_state (retain_fresh e (schemas w)) w = (m', v')" by (cases "run_state (retain_fresh e (schemas w)) w")
  from r quiet_cache(2) [where E = "\<lambda>_. False" and e = e and m = "schemas w"] obtain evs
    where "trace v' = trace w @ evs" "list_all (\<lambda>_. False) evs" unfolding within_def by blast
  then have "trace v' = trace w" by (cases evs) simp_all
  with r assms show ?thesis by (auto simp: cache_put_def)
qed

lemma hunting_schema_run:
  assumes "hi_table i = Some t" and "is_table_name (trim t)"
  shows "run_state (hunting_schema e s i) w =
    (case run_state (cache_get e (trim t)) w of
      (Some v, w1) \<Rightarrow> (Inr (Structured v), w1)
    | (None, w1) \<Rightarrow>
        (case run_state (graph_post_explained e s hunting_path (hunting_body (schema_query (trim t)) (asc ''P1D''))) w1 of
          (Inl err, w2) \<Rightarrow> (Inr err, w2)
        | (Inr a, w2) \<Rightarrow> (Inr (Structured (schema_answer (trim t) a)),
             snd (run_state (cache_put e (trim t) (schema_answer (trim t) a)) w2))))"
  unfolding hunting_schema_def valid_then_def required_def assms(1) Let_def
  using assms(2) by (simp split: option.split sum.split prod.split)

text \<open>An explained call answers a body only after a request, and an error otherwise.\<close>

lemma post_explained_result:
  assumes "run_state (graph_post_explained e s path body) w = (r, w')"
  shows "(\<forall>a. r = Inr a \<longrightarrow> trace w' \<noteq> trace w) \<and> (\<forall>err. r = Inl err \<longrightarrow> is_error err)"
  using assms unfolding graph_post_explained_def post_explained_def
proof (cases rule: authenticated_cases)
  case (no_token err)
  then show ?thesis by (auto dest: is_error_get_token)
next
  case (net t w1 n)
  then show ?thesis by simp
next
  case (reply t w1 resp)
  from token_events [OF reply(1)] obtain evs where evs: "trace w1 = trace w @ evs" by blast
  have "is_error (explained_error up (http_error 400 path k c))" for up k c
    by (auto simp: explained_error_def Let_def split: option.split json.split)
  then show ?thesis
    using reply(2) evs
    by (auto split: if_splits prod.splits dest: read_json_quiet elim!: body_of.elims)
       (metis body_of.simps(1) read_json_error)
qed

text \<open>
  C17. A table schema is served from the cache for an hour. When \<open>schema\<close> has fetched an answer, then as
  long as the cache still holds it and less than an hour has passed on the monotonic clock, asking
  for the table again gives the same answer without any request. An answer that causes no
  request is always one the cache held and that was stored less than an hour before.
\<close>

theorem schema_cached_an_hour:
  assumes "hi_action i = asc ''schema''" and "hi_table i = Some t" and "is_table_name (trim t)"
    and "run_state (defender_hunting e s i) w = (Inr (Structured v), w')"
  shows "if trace w' = trace w
    then \<exists>at. map_of (schemas w) (trim t) = Some (at, v) \<and> elapsed at (instants e (reads w)) < schema_ttl
    else schemas w2 = schemas w' \<longrightarrow>
      elapsed (instants e (reads w' - 1)) (instants e (reads w2)) < schema_ttl \<longrightarrow>
      run_state (defender_hunting e s i) w2 = (Inr (Structured v), w2\<lparr>reads := Suc (reads w2)\<rparr>)"
proof -
  have tool: "run_state (defender_hunting e s i) u = run_state (hunting_schema e s i) u" for u
    using assms(1) by (simp add: defender_hunting_def)
  note run = assms(4) [unfolded tool hunting_schema_run [OF assms(2,3)]]
  obtain c w1 where get: "run_state (cache_get e (trim t)) w = (c, w1)" by fastforce
  then have w1: "trace w1 = trace w" by (auto simp: run_cache_get split: option.splits)
  show ?thesis
  proof (cases c)
    case (Some x)
    with run get w1 have "x = v" "trace w' = trace w" by auto
    with get Some show ?thesis by (auto simp: run_cache_get split: option.splits if_splits)
  next
    case None
    obtain r u where post: "run_state (graph_post_explained e s hunting_path
        (hunting_body (schema_query (trim t)) (asc ''P1D''))) w1 = (r, u)" by fastforce
    from post_explained_result [OF post] run get None post obtain a where
      a: "r = Inr a" "v = schema_answer (trim t) a" "trace u \<noteq> trace w1" by (auto split: sum.splits)
    have "w' = snd (run_state (cache_put e (trim t) (schema_answer (trim t) a)) u)"
      using run get None post a(1) by auto
    then have put: "run_state (cache_put e (trim t) (schema_answer (trim t) a)) u = ((), w')"
      by (simp add: prod_eq_iff)
    from run_cache_put [OF put] a w1
    have "trace w' \<noteq> trace w" "map_of (schemas w') (trim t) = Some (instants e (reads w' - 1), v)" by auto
    then show ?thesis
      unfolding tool hunting_schema_run [OF assms(2,3)] by (simp add: run_cache_get)
  qed
qed

definition schema_input :: hunting_input where
  "schema_input = \<lparr>hi_action = asc ''schema'', hi_query = None, hi_timespan = None, hi_max_rows = None,
     hi_table = Some (asc ''AlertInfo''), hi_filter = None\<rparr>"

lemma schema_cached_an_hour_witness:
  "let e = hunting_env demo_query_tree; w' = snd (run_state (defender_hunting e demo_server schema_input) world1)
   in length (trace w') = 1 \<and>
      run_state (defender_hunting e demo_server schema_input) w' =
        (fst (run_state (defender_hunting e demo_server schema_input) world1), w'\<lparr>reads := Suc (reads w')\<rparr>)"
proof -
  let ?e = "hunting_env demo_query_tree"
  let ?run = "run_state (defender_hunting ?e demo_server schema_input) world1"
  let ?v = "schema_answer (asc ''AlertInfo'') (jobj [])"
  have i: "hi_action schema_input = asc ''schema''" "hi_table schema_input = Some (asc ''AlertInfo'')"
    by (simp_all add: schema_input_def)
  moreover have "is_table_name (trim (asc ''AlertInfo''))" by code_simp
  moreover have fst: "fst ?run = Inr (Structured ?v)" by code_simp
  moreover have len: "length (trace (snd ?run)) = 1" by code_simp
  moreover have "trace world1 = []" by (simp add: world1_def world0_def)
  moreover have "elapsed (instants ?e n) (instants ?e m) < schema_ttl" for n m
    by (simp add: hunting_env_def demo_env_def elapsed_def schema_ttl_def)
  ultimately show ?thesis
    using schema_cached_an_hour [of schema_input "asc ''AlertInfo''" ?e demo_server world1 ?v "snd ?run" "snd ?run"]
    by (auto simp: Let_def prod_eq_iff split: if_splits)
qed

end
