(* ===== verification/Server.thy ===== *)
theory Server
  imports ReadTools Hunting DeviceActions ResponseActions IndicatorActions TriageActions
begin

text \<open>
  The server of \<open>src/server.rs\<close> as a client sees it: the tools that \<open>new_with_config\<close> leaves in the
  router, and \<open>call_tool\<close>, which records a call of a mutating tool that is not listed and hands every
  other call to its tool. A call is a tool with its decoded input: decoding and the refusal of
  names that are no tool belong to the router of the protocol library. The properties say what any
  call can do at all, whatever its input.
\<close>

section \<open>Tools and routes\<close>

datatype tool_call =
    HuntingTool hunting_input
  | ReadTool read_request
  | ResponseTool response_input
  | DeviceTool device_input
  | IndicatorsTool indicator_input
  | TriageTool triage_input

fun mutating_tool_of :: "tool_call \<Rightarrow> mutating_tool option" where
  "mutating_tool_of (ResponseTool i) = Some Response"
| "mutating_tool_of (DeviceTool i) = Some DeviceResponse"
| "mutating_tool_of (IndicatorsTool i) = Some Indicators"
| "mutating_tool_of (TriageTool i) = Some Triage"
| "mutating_tool_of _ = None"

text \<open>The names in the router: every tool but the mutating ones that are not enabled.\<close>

definition consolidated_tools :: "ustr list" where
  "consolidated_tools = map asc [''defender_hunting'', ''defender_ti'', ''defender_incidents_alerts'',
     ''defender_machines'', ''defender_vulnerabilities'', ''defender_forensics'']
     @ map tool_name [Response, DeviceResponse, Indicators, Triage]"

definition router :: "server_config \<Rightarrow> ustr list" where
  "router c = fold (\<lambda>t r. if tool_enabled (categories c) t then r else filter (\<lambda>n. n \<noteq> tool_name t) r)
     [Response, DeviceResponse, Indicators, Triage] consolidated_tools"

definition has_route :: "server \<Rightarrow> ustr \<Rightarrow> bool" where
  "has_route s name \<longleftrightarrow> name \<in> set (router (config s))"

section \<open>Calls\<close>

definition unlisted_answer :: "server \<Rightarrow> mutating_tool \<Rightarrow> call_tool_result \<times> reject_reason" where
  "unlisted_answer s tool =
     (if read_only (config s) then (read_only_violation (tool_name tool), RReadOnly)
      else (category_disabled (enable_flag tool), RCategoryDisabled))"

definition unlisted_record :: "server \<Rightarrow> mutating_tool \<Rightarrow> ustr \<Rightarrow> int \<Rightarrow> reject_reason \<Rightarrow> audit_record" where
  "unlisted_record s tool attempt t reason =
     \<lparr>ar_ts = t, ar_attempt_id = attempt, ar_phase = Final, ar_tool = tool_name tool,
      ar_action = [], ar_targets = [], ar_parameters = [], ar_justification = None,
      ar_identity = identity s, ar_confirmation = NotApplicable, ar_result = Rejected reason\<rparr>"

definition unlisted_call :: "'x env_scheme \<Rightarrow> server \<Rightarrow> mutating_tool \<Rightarrow> (mcp_error + call_tool_result) io" where
  "unlisted_call e s tool = do {
     attempt \<leftarrow> new_attempt_id e;
     t \<leftarrow> now e;
     (let (res, reason) = unlisted_answer s tool;
          rec = unlisted_record s tool attempt t reason
      in do {
        (if audit_sink s then do { _ \<leftarrow> sink_append e rec; ret () }
         else stderr_line (asc ''AUDIT '' @ to_rfc3339 e (ar_ts rec) @ asc '' '' @ ar_tool rec
           @ asc ''. targets=0 identity='' @ display_summary (ar_identity rec)
           @ asc '' confirmation=not_applicable result=rejected''));
        ret (Inr res)
      })
   }"

fun routed_call :: "'x env_scheme \<Rightarrow> server \<Rightarrow> tool_call \<Rightarrow> (mcp_error + call_tool_result) io" where
  "routed_call e s (HuntingTool i) = defender_hunting e s i"
| "routed_call e s (ReadTool r) = call_read_tool e s r"
| "routed_call e s (ResponseTool i) = defender_response e s i"
| "routed_call e s (DeviceTool i) = defender_device_response e s i"
| "routed_call e s (IndicatorsTool i) = defender_indicators e s i"
| "routed_call e s (TriageTool i) = defender_triage e s i"

definition call_tool :: "'x env_scheme \<Rightarrow> server \<Rightarrow> tool_call \<Rightarrow> (mcp_error + call_tool_result) io" where
  "call_tool e s c =
     (case mutating_tool_of c of
       Some tool \<Rightarrow> if \<not> has_route s (tool_name tool) then unlisted_call e s tool else routed_call e s c
     | None \<Rightarrow> routed_call e s c)"

text \<open>The router lists exactly the enabled mutating tools.\<close>

lemma tool_names_distinct: "tool_name t = tool_name u \<longleftrightarrow> t = u"
proof -
  have "tool_name t = tool_name u \<Longrightarrow> t = u"
    by (cases t; cases u) simp_all
  then show ?thesis by blast
qed

lemma routed_iff_enabled: "has_route s (tool_name t) \<longleftrightarrow> tool_enabled (categories (config s)) t"
proof -
  have "tool_name t \<in> set consolidated_tools" by (cases t) (simp_all add: consolidated_tools_def)
  then show ?thesis
    unfolding has_route_def router_def by (cases t) (auto simp: tool_names_distinct)
qed

section \<open>What a call may send\<close>

text \<open>The specification of the API calls, tool by tool.\<close>

fun documented_call :: "'x env_scheme \<Rightarrow> server \<Rightarrow> tool_call \<Rightarrow> http_request \<Rightarrow> bool" where
  "documented_call e s (HuntingTool i) rq = hunting_call e s rq"
| "documented_call e s (ReadTool r) rq = reads_from s (read_roots r) rq"
| "documented_call e s (ResponseTool i) rq = response_call e s i rq"
| "documented_call e s (DeviceTool i) rq = device_call e s i rq"
| "documented_call e s (IndicatorsTool i) rq = indicator_call e s i rq"
| "documented_call e s (TriageTool i) rq = triage_call e s i rq"

lemma documented_eta:
  "documented_call e s (ResponseTool ri) = response_call e s ri"
  "documented_call e s (DeviceTool di) = device_call e s di"
  "documented_call e s (IndicatorsTool ii) = indicator_call e s ii"
  "documented_call e s (TriageTool ti) = triage_call e s ti"
  by (simp_all add: fun_eq_iff)

fun call_texts :: "tool_call \<Rightarrow> bool" where
  "call_texts (ReadTool r) = read_texts r"
| "call_texts _ = True"

text \<open>What must have happened before a call of a mutating tool.\<close>

definition mediated :: "server \<Rightarrow> mutating_tool \<Rightarrow> event list \<Rightarrow> bool" where
  "mediated s tool pre \<longleftrightarrow>
     \<not> read_only (config s) \<and> tool_enabled (categories (config s)) tool \<and>
     (\<exists>intent. Appended intent (Inr ()) \<in> set pre \<and> ar_phase intent = Intent \<and> ar_tool intent = tool_name tool) \<and>
     (destructive tool \<and> confirm_destructive (config s) \<longrightarrow> (\<exists>m. Prompted m \<in> set pre))"

text \<open>Every mutating tool is a \<open>run_tool\<close> over its handler's contract, possibly after a clock read.\<close>

lemma run_mutating_tool:
  assumes "mutating_tool_of c = Some tool" and "run_state (routed_call e s c) w = (res, w')"
  obtains action known cat just prepared v where
    "run_state (run_tool e s tool action known cat just prepared) v = (res, w')" "trace v = trace w"
    "tool_handler tool prepared (documented_call e s c)"
proof (cases c)
  case (ResponseTool i)
  have "tool_handler tool (response_request e s i) (documented_call e s c)"
    using response.tool_handler_axioms [of e s i] ResponseTool assms(1) by (simp add: documented_eta)
  with assms ResponseTool that show thesis by (auto simp: defender_response_def)
next
  case (DeviceTool i)
  have "tool_handler tool (device_request e s i) (documented_call e s c)"
    using device.tool_handler_axioms [of e s i] DeviceTool assms(1) by (simp add: documented_eta)
  with assms DeviceTool that show thesis by (auto simp: defender_device_response_def)
next
  case (IndicatorsTool i)
  have "tool_handler tool (indicators_request e s t i) (documented_call e s c)" for t
    using indicators.tool_handler_axioms [of e s t i] IndicatorsTool assms(1) by (simp add: documented_eta)
  moreover from assms IndicatorsTool obtain t v where
    "run_state (run_tool e s Indicators (ii_action i) (ii_action i \<in> set indicators_actions) PIndicators
       (ii_comment i) (indicators_request e s t i)) v = (res, w')" "trace v = trace w"
    by (cases "reads_clock i") (auto simp: defender_indicators_def)
  ultimately show thesis using that assms(1) IndicatorsTool by auto
next
  case (TriageTool i)
  have "tool_handler tool (triage_request e s i) (documented_call e s c)"
    using triage.tool_handler_axioms [of e s i] TriageTool assms(1) by (simp add: documented_eta)
  with assms TriageTool that show thesis by (auto simp: defender_triage_def)
qed (use assms(1) in auto)

lemma unlisted_answer_parts:
  "fst (unlisted_answer s tool) = (if read_only (config s) then read_only_violation (tool_name tool)
     else category_disabled (enable_flag tool))"
  "snd (unlisted_answer s tool) = (if read_only (config s) then RReadOnly else RCategoryDisabled)"
  by (simp_all add: unlisted_answer_def)

lemma unlisted_events:
  assumes "run_state (unlisted_call e s tool) w = (res, w')"
  shows "res = Inr (fst (unlisted_answer s tool)) \<and>
    (\<exists>ok m t a. trace w' = trace w @ (if audit_sink s
        then Appended (unlisted_record s tool a t (snd (unlisted_answer s tool))) ok # (if is_ok ok then [Stderr m] else [])
        else [Stderr m]))"
proof (cases "unlisted_answer s tool")
  case (Pair answer reason)
  show ?thesis
  proof (cases "audit_sink s")
    case True
    with assms Pair show ?thesis
      by (auto simp: unlisted_call_def sink_append_def Let_def split: sum.splits)
         (metis is_ok.simps(1), metis is_ok.simps(2) old.unit.exhaust)
  next
    case False
    with assms Pair show ?thesis by (auto simp: unlisted_call_def stderr_line_def Let_def)
  qed
qed

lemma unlisted_no_calls:
  assumes "run_state (unlisted_call e s tool) w = (res, w')" and "trace w' = trace w @ evs"
  shows "filter sends evs = [] \<and> filter prompts evs = []"
  using unlisted_events [OF assms(1)] assms(2) by (auto split: if_splits)

lemma call_tool_cases:
  assumes "run_state (call_tool e s c) w = (res, w')"
  obtains (unlisted) tool where "mutating_tool_of c = Some tool" "\<not> tool_enabled (categories (config s)) tool"
      "run_state (unlisted_call e s tool) w = (res, w')"
  | (mutating) tool where "mutating_tool_of c = Some tool" "tool_enabled (categories (config s)) tool"
      "run_state (routed_call e s c) w = (res, w')"
  | (hunting) i where "c = HuntingTool i" "run_state (defender_hunting e s i) w = (res, w')"
  | (reading) r where "c = ReadTool r" "run_state (call_read_tool e s r) w = (res, w')"
proof (cases "mutating_tool_of c")
  case None
  with assms hunting reading show thesis by (cases c) (auto simp: call_tool_def)
next
  case (Some tool)
  with assms unlisted mutating show thesis by (auto simp only: call_tool_def routed_iff_enabled option.case split: if_splits)
qed

section \<open>Properties\<close>

text \<open>
  C1. Complete mediation. Whatever tool is called with whatever input, every request that carries an
  access token is one that the tool's table of calls allows; and a request of a mutating tool is only
  sent when the server is not read-only, the tool is enabled, an intent record of the tool was
  appended to the audit log before, and the user was prompted before where the tool is destructive and
  confirmation is on.
\<close>

theorem complete_mediation:
  assumes "printers_documented e" and "call_texts c"
    and "run_state (call_tool e s c) w = (res, w')" and "trace w' = trace w @ pre @ Sent rq # post"
    and "rq_bearer rq \<noteq> None"
  shows "documented_call e s c rq \<and> (\<forall>tool. mutating_tool_of c = Some tool \<longrightarrow> mediated s tool pre)"
  using assms(3)
proof (cases rule: call_tool_cases)
  case (unlisted tool)
  from unlisted_no_calls [OF unlisted(3) assms(4)] show ?thesis by simp
next
  case (mutating tool)
  from run_mutating_tool [OF mutating(1,3)] obtain action known cat just prepared v where
    run: "run_state (run_tool e s tool action known cat just prepared) v = (res, w')" "trace v = trace w"
    and handler: "tool_handler tool prepared (documented_call e s c)" .
  from tool_handler.guarded_call [OF handler run(1) _ assms(5) refl, of pre post] assms(4) run(2)
  show ?thesis using mutating(1) by (auto simp: mediated_def)
next
  case (hunting i)
  from readingD [OF reading_hunting_tool hunting(2) assms(4)] assms(5) hunting(1) show ?thesis by auto
next
  case (reading r)
  from withinD [OF within_read_tool [of e r s] reading(2) assms(4)] assms(1,2,5) reading(1)
  show ?thesis by (auto simp: read_only_event_def)
qed

text \<open>The events of \<open>isolate\<close>, called with confirmation on and accepted.\<close>

abbreviation isolate_run :: "(mcp_error + call_tool_result) \<times> world" where
  "isolate_run \<equiv> run_state (call_tool documented_env demo_server (DeviceTool demo_device)) world1"

lemma isolate_events:
  "\<exists>p i m rq post. trace (snd isolate_run) = [Prompted p, Appended i (Inr ()), Stderr m] @ Sent rq # post
     \<and> rq_bearer rq \<noteq> None"
proof -
  have "case trace (snd isolate_run) of
      Prompted p # Appended i (Inr _) # Stderr m # Sent rq # post \<Rightarrow> rq_bearer rq \<noteq> None
    | _ \<Rightarrow> False" by code_simp
  then show ?thesis by (simp split: list.splits event.splits sum.splits)
qed

lemma complete_mediation_witness:
  "\<exists>rq pre. documented_call documented_env demo_server (DeviceTool demo_device) rq
     \<and> mediated demo_server DeviceResponse pre"
proof -
  from isolate_events obtain p i m rq post where
    t: "trace (snd isolate_run) = [Prompted p, Appended i (Inr ()), Stderr m] @ Sent rq # post"
    and b: "rq_bearer rq \<noteq> None" by blast
  have "trace (snd isolate_run) = trace world1 @ [Prompted p, Appended i (Inr ()), Stderr m] @ Sent rq # post"
    using t by (simp add: world1_def world0_def)
  from complete_mediation [OF documented_env_printers _ prod.collapse [symmetric] this b]
  have "documented_call documented_env demo_server (DeviceTool demo_device) rq
      \<and> mediated demo_server DeviceResponse [Prompted p, Appended i (Inr ()), Stderr m]" by simp
  then show ?thesis by blast
qed



text \<open>
  C2. A read-only server only reads. Whatever tool is called with whatever input, a read-only server
  never prompts, and the requests it sends with an access token are the reads of the read-only
  tools and the checked hunting queries; calls of the mutating tools send nothing at all, even if a
  category were enabled.
\<close>

theorem read_only_server_only_reads:
  assumes "read_only (config s)" and "printers_documented e" and "call_texts c"
    and "run_state (call_tool e s c) w = (res, w')" and "trace w' = trace w @ evs"
  shows "filter prompts evs = [] \<and> (mutating_tool_of c \<noteq> None \<longrightarrow> filter sends evs = []) \<and>
    (\<forall>rq. Sent rq \<in> set evs \<longrightarrow> rq_bearer rq \<noteq> None \<longrightarrow>
       (\<exists>roots. reads_from s roots rq) \<or> hunting_call e s rq)"
  using assms(4)
proof (cases rule: call_tool_cases)
  case (unlisted tool)
  from unlisted_no_calls [OF unlisted(3) assms(5)] have "filter sends evs = []" "filter prompts evs = []" by simp_all
  then show ?thesis by (auto simp: filter_empty_conv)
next
  case (mutating tool)
  from run_mutating_tool [OF mutating(1,3)] obtain action known cat just prepared v where
    run: "run_state (run_tool e s tool action known cat just prepared) v = (res, w')" "trace v = trace w"
    and handler: "tool_handler tool prepared (documented_call e s c)" .
  have "filter sends evs = [] \<and> filter prompts evs = []"
    by (rule tool_handler.read_only_silent [OF handler run(1) _ assms(1)]) (use assms(5) run(2) in simp)
  then show ?thesis by (auto simp: filter_empty_conv)
next
  case (hunting i)
  from readingD [OF reading_hunting_tool hunting(2) assms(5)] hunting(1) show ?thesis
    by (auto simp: list_all_iff filter_empty_conv elim!: prompts.elims)
next
  case (reading r)
  from withinD [OF within_read_tool [of e r s] reading(2) assms(5)] assms(2,3) reading(1)
  have "list_all (read_only_event s r) evs" by simp
  then have "filter prompts evs = []" "\<forall>rq. Sent rq \<in> set evs \<longrightarrow> rq_bearer rq \<noteq> None \<longrightarrow> reads_from s (read_roots r) rq"
    by (auto simp: list_all_iff filter_empty_conv read_only_event_def split: event.splits elim!: prompts.elims dest!: bspec)
  then show ?thesis using reading(1) by auto
qed

lemma read_only_server_only_reads_witness:
  "filter sends (trace (snd (run_state (call_tool documented_env read_only_server (DeviceTool demo_device)) world1))) = []"
proof -
  let ?run = "run_state (call_tool documented_env read_only_server (DeviceTool demo_device)) world1"
  have t: "trace (snd ?run) = trace world1 @ trace (snd ?run)" by (simp add: world1_def world0_def)
  have "read_only (config read_only_server)" by code_simp
  from read_only_server_only_reads [OF this documented_env_printers _ prod.collapse [symmetric] t] show ?thesis by simp
qed

fun call_limit :: "tool_call \<Rightarrow> nat" where
  "call_limit (ReadTool r) = max_calls r"
| "call_limit _ = 1"



end
