(* ===== verification/Listing.thy ===== *)
theory Listing
  imports Descriptions
begin

text \<open>
  What \<open>tools/list\<close> tells a client about the tools of \<open>src/server.rs\<close>: their names, the hints of their
  \<open>#[tool]\<close> attributes and their descriptions. A client decides by the hints which calls to show to a
  person first, and a model chooses actions and fields by the descriptions; the properties say that
  what any call really does keeps to the hints, and that the descriptions state what the dispatchers
  take. The order of a listing is the protocol library's.
\<close>

section \<open>Hints\<close>

record tool_hints =
  hint_title :: string
  read_only_hint :: bool
  destructive_hint :: bool
  idempotent_hint :: bool
  open_world_hint :: bool

definition hunting_hints :: tool_hints where
  "hunting_hints = \<lparr>hint_title = ''Defender Hunting'', read_only_hint = True, destructive_hint = False,
     idempotent_hint = True, open_world_hint = True\<rparr>"

definition ti_hints :: tool_hints where
  "ti_hints = \<lparr>hint_title = ''Defender Threat Intelligence'', read_only_hint = True, destructive_hint = False,
     idempotent_hint = True, open_world_hint = True\<rparr>"

definition alerts_hints :: tool_hints where
  "alerts_hints = \<lparr>hint_title = ''Defender Incidents & Alerts'', read_only_hint = True, destructive_hint = False,
     idempotent_hint = True, open_world_hint = True\<rparr>"

definition machines_hints :: tool_hints where
  "machines_hints = \<lparr>hint_title = ''Defender Machines'', read_only_hint = True, destructive_hint = False,
     idempotent_hint = True, open_world_hint = True\<rparr>"

definition vulnerabilities_hints :: tool_hints where
  "vulnerabilities_hints = \<lparr>hint_title = ''Defender Vulnerabilities'', read_only_hint = True, destructive_hint = False,
     idempotent_hint = True, open_world_hint = True\<rparr>"

definition forensics_hints :: tool_hints where
  "forensics_hints = \<lparr>hint_title = ''Defender Forensics'', read_only_hint = True, destructive_hint = False,
     idempotent_hint = True, open_world_hint = True\<rparr>"

definition response_hints :: tool_hints where
  "response_hints = \<lparr>hint_title = ''Defender Response'', read_only_hint = False, destructive_hint = True,
     idempotent_hint = False, open_world_hint = True\<rparr>"

definition device_hints :: tool_hints where
  "device_hints = \<lparr>hint_title = ''Defender Device Response'', read_only_hint = False, destructive_hint = True,
     idempotent_hint = False, open_world_hint = True\<rparr>"

definition indicators_hints :: tool_hints where
  "indicators_hints = \<lparr>hint_title = ''Defender Custom Indicators'', read_only_hint = False, destructive_hint = True,
     idempotent_hint = False, open_world_hint = True\<rparr>"

definition triage_hints :: tool_hints where
  "triage_hints = \<lparr>hint_title = ''Defender Triage'', read_only_hint = False, destructive_hint = False,
     idempotent_hint = False, open_world_hint = True\<rparr>"

text \<open>The tools of the router in the order of \<open>consolidated_tools\<close>.\<close>

definition all_hints :: "tool_hints list" where
  "all_hints = [hunting_hints, ti_hints, alerts_hints, machines_hints, vulnerabilities_hints,
     forensics_hints, response_hints, device_hints, indicators_hints, triage_hints]"

definition hints_of :: "ustr \<Rightarrow> tool_hints option" where
  "hints_of name = map_of (zip consolidated_tools all_hints) name"

section \<open>The listing\<close>

text \<open>The listing: each routed tool with its hints and its description.\<close>

definition list_tools :: "server_config \<Rightarrow> (ustr \<times> tool_hints option \<times> string option) list" where
  "list_tools c = map (\<lambda>n. (n, hints_of n, description_of c n)) (router c)"

text \<open>The actions each dispatcher takes, by the tool's name.\<close>

definition taken_actions :: "server_config \<Rightarrow> ustr \<Rightarrow> ustr list option" where
  "taken_actions c name = map_of (zip consolidated_tools
     [map asc hunting_actions, map asc ti_actions, map asc ia_actions, map asc mi_actions,
      map asc vi_actions, map asc fi_actions, response_actions,
      device_actions (offboarding (categories c)), indicators_actions, triage_actions]) name"

text \<open>The fields an input of a mutating tool gives a value, in the order of its declaration.\<close>

definition given_fields :: "(string \<times> bool) list \<Rightarrow> string list" where
  "given_fields fs = map fst (filter snd fs)"

definition device_given :: "device_input \<Rightarrow> string list" where
  "device_given i = given_fields
     [(''machine_id'', di_machine_id i \<noteq> None), (''action_id'', di_action_id i \<noteq> None),
      (''comment'', di_comment i \<noteq> None), (''isolation_type'', di_isolation_type i \<noteq> None),
      (''scan_type'', di_scan_type i \<noteq> None), (''tag'', di_tag i \<noteq> None),
      (''device_value'', di_device_value i \<noteq> None)]"

definition indicator_given :: "indicator_input \<Rightarrow> string list" where
  "indicator_given i = given_fields
     ((''indicator_id'', ii_id i \<noteq> None) # submit_fields i @
      [(''comment'', ii_comment i \<noteq> None), (''indicator_ids'', ii_ids i \<noteq> None)])"

definition triage_given :: "triage_input \<Rightarrow> string list" where
  "triage_given i = given_fields
     [(''id'', ti_id i \<noteq> None), (''ids'', ti_ids i \<noteq> None),
      (''justification'', ti_justification i \<noteq> None), (''status'', ti_status i \<noteq> None),
      (''assigned_to'', ti_assigned i \<noteq> None), (''classification'', ti_classification i \<noteq> None),
      (''determination'', ti_determination i \<noteq> None), (''tags'', ti_tags i \<noteq> None),
      (''comment'', ti_comment i \<noteq> None)]"

section \<open>The hints of a call's tool\<close>

fun call_hints :: "tool_call \<Rightarrow> tool_hints" where
  "call_hints (HuntingTool i) = hunting_hints"
| "call_hints (ReadTool r) = (case r of
     TiRequest i \<Rightarrow> ti_hints | AlertsRequest i \<Rightarrow> alerts_hints | MachinesRequest i \<Rightarrow> machines_hints
   | VulnerabilitiesRequest i \<Rightarrow> vulnerabilities_hints | ForensicsRequest i \<Rightarrow> forensics_hints)"
| "call_hints (ResponseTool i) = response_hints"
| "call_hints (DeviceTool i) = device_hints"
| "call_hints (IndicatorsTool i) = indicators_hints"
| "call_hints (TriageTool i) = triage_hints"

fun call_name :: "tool_call \<Rightarrow> ustr" where
  "call_name (HuntingTool i) = asc ''defender_hunting''"
| "call_name (ReadTool r) = asc (read_tool_name r)"
| "call_name (ResponseTool i) = tool_name Response"
| "call_name (DeviceTool i) = tool_name DeviceResponse"
| "call_name (IndicatorsTool i) = tool_name Indicators"
| "call_name (TriageTool i) = tool_name Triage"

lemmas hint_defs = hunting_hints_def ti_hints_def alerts_hints_def machines_hints_def
  vulnerabilities_hints_def forensics_hints_def response_hints_def device_hints_def
  indicators_hints_def triage_hints_def

lemma hints_of_call: "hints_of (call_name c) = Some (call_hints c)"
  by (cases c; (cases "case c of ReadTool r \<Rightarrow> r")?)
    (simp_all add: hints_of_def consolidated_tools_def all_hints_def split: read_request.splits)

lemma read_only_hint_iff: "read_only_hint (call_hints c) \<longleftrightarrow> mutating_tool_of c = None"
  by (cases c) (auto simp: hint_defs split: read_request.splits)

lemma destructive_hint_iff:
  "destructive_hint (call_hints c) \<longleftrightarrow> (\<exists>tool. mutating_tool_of c = Some tool \<and> destructive tool)"
  by (cases c) (auto simp: hint_defs split: read_request.splits)

section \<open>Calls keep to the hints\<close>

context tool_handler
begin

lemma undestructive_silent:
  assumes "run_state (run_tool e s t action known cat just prepared) w = (res, w')"
    and "trace w' = trace w @ evs" and "\<not> destructive tool"
  shows "filter prompts evs = []"
  using assms(1)
proof (cases rule: run_toolE)
  case (protocol err)
  with assms(2) show ?thesis by simp
next
  case (audited err)
  from audit_error_trace [OF audited(3) assms(2)] show ?thesis by (auto simp: written_def split: if_splits)
next
  case (executed req answer)
  have no: "\<not> asks s req" using for_tool [OF executed(1)] assms(3) by (simp add: asks_def)
  from upstream_call.pipeline_trace [OF upstream [OF executed(1)] refl executed(3)] assms(2)
  have "mutation_trace e s req (hex_bytes (entropy e (reads w))) evs answer" by simp
  then show ?thesis
    by cases (use no in \<open>auto simp: written_def confirmed_def one_upstream_def list_all_iff filter_empty_conv
      split: if_splits elim!: prompts.elims sends.elims dest!: bspec\<close>)
qed

end

section \<open>Properties\<close>

text \<open>
  C3. The hints a client is told are kept by every call. Whatever tool is called with whatever input,
  the hints listed under its name are those of its kind; a call of a tool that says it is read-only
  never prompts, never touches the audit log, and sends with an access token nothing but reads of its
  own resources and checked hunting queries; and a call of a tool that says it is not destructive
  never asks for a confirmation.
\<close>

theorem advertised_hints_hold:
  assumes "printers_documented e" and "call_texts c"
    and "run_state (call_tool e s c) w = (res, w')" and "trace w' = trace w @ evs"
  shows "hints_of (call_name c) = Some (call_hints c) \<and>
    (read_only_hint (call_hints c) \<longrightarrow>
       filter prompts evs = [] \<and> filter appends evs = [] \<and>
       (\<forall>rq. Sent rq \<in> set evs \<longrightarrow> rq_bearer rq \<noteq> None \<longrightarrow> documented_call e s c rq)) \<and>
    (\<not> destructive_hint (call_hints c) \<longrightarrow> filter prompts evs = [])"
  using assms(3)
proof (cases rule: call_tool_cases)
  case (unlisted tool)
  from unlisted_no_calls [OF unlisted(3) assms(4)] unlisted(1) show ?thesis
    by (simp add: hints_of_call read_only_hint_iff)
next
  case (mutating tool)
  from run_mutating_tool [OF mutating(1,3)] obtain action known cat just prepared v where
    run: "run_state (run_tool e s tool action known cat just prepared) v = (res, w')" "trace v = trace w"
    and handler: "tool_handler tool prepared (documented_call e s c)" .
  have "filter prompts evs = []" if "\<not> destructive tool"
    by (rule tool_handler.undestructive_silent [OF handler run(1) _ that]) (use assms(4) run(2) in simp)
  with mutating(1) show ?thesis by (simp add: hints_of_call read_only_hint_iff destructive_hint_iff)
next
  case (hunting i)
  from readingD [OF reading_hunting_tool hunting(2) assms(4)] hunting(1) hints_of_call [of c] show ?thesis
    by (auto simp: list_all_iff filter_empty_conv elim!: prompts.elims appends.elims)
next
  case (reading r)
  from withinD [OF within_read_tool [of e r s] reading(2) assms(4)] assms(1,2) reading(1)
  have "list_all (read_only_event s r) evs" by simp
  then have "\<not> prompts ev \<and> \<not> appends ev" "ev = Sent rq \<Longrightarrow> rq_bearer rq \<noteq> None \<Longrightarrow> reads_from s (read_roots r) rq"
    if "ev \<in> set evs" for ev rq
    using that by (cases ev; auto simp: list_all_iff read_only_event_def dest!: bspec)+
  then show ?thesis using reading(1) hints_of_call [of c] by (auto simp: filter_empty_conv)
qed

lemma advertised_hints_hold_witness:
  "hints_of (asc ''defender_triage'') = Some triage_hints \<and>
   filter prompts (trace (snd (run_state (call_tool documented_env demo_server (TriageTool demo_triage)) world1))) = []"
proof -
  let ?run = "run_state (call_tool documented_env demo_server (TriageTool demo_triage)) world1"
  have t: "trace (snd ?run) = trace world1 @ trace (snd ?run)" by (simp add: world1_def world0_def)
  from advertised_hints_hold [OF documented_env_printers _ prod.collapse [symmetric] t] show ?thesis
    by (simp add: triage_hints_def)
qed

section \<open>What a listing says of actions and fields\<close>

lemma find_given: "find P (given_fields fs) = first_present (filter (\<lambda>f. P (fst f)) fs)"
  by (induction fs) (auto simp: given_fields_def)

lemma stated_taken:
  "n \<in> set consolidated_tools \<Longrightarrow>
   \<exists>t acts. description_of c n = Some t \<and> taken_actions c n = Some acts \<and>
     set (map asc (stated_actions t)) = set acts"
  unfolding consolidated_tools_def
  by (auto simp: description_of_def taken_actions_def all_descriptions_def consolidated_tools_def
      device_description_def hunting_description_says ti_description_says alerts_description_says
      machines_description_says vulnerabilities_description_says forensics_description_says
      simp flip: set_map
      simp: response_description_says device_description_with_offboard_says
        device_description_without_offboard_says indicators_description_says triage_description_says)

lemma router_subset: "set (router c) \<subseteq> set consolidated_tools"
  by (auto simp: router_def)

lemmas catalogue_evals = device_description_with_offboard_catalogue
  device_description_without_offboard_catalogue indicators_description_catalogue
  triage_description_catalogue

lemmas field_evals = described_def catalogue_evals find_given device_given_def indicator_given_def
  triage_given_def submit_fields_def unused_field_def indicator_unused_def triage_unused_def Let_def

lemma device_fields:
  assumes "di_action i \<in> set (device_actions (offboarding (categories c)))"
  shows "\<exists>fs. described (device_description c) (di_action i) = Some fs \<and>
    unused_field i = find (\<lambda>f. f \<notin> set fs) (device_given i)"
proof (cases "offboarding (categories c)")
  case True
  with assms show ?thesis
    by (simp only: device_actions_def device_actions_base_def if_True list.map append_Cons append_Nil
        set_simps insert_iff empty_iff simp_thms)
      (elim disjE; simp add: device_description_def field_evals)
next
  case False
  with assms show ?thesis
    by (simp only: device_actions_def device_actions_base_def if_False list.map append_Cons append_Nil
        set_simps insert_iff empty_iff simp_thms)
      (elim disjE; simp add: device_description_def field_evals)
qed

lemma indicator_fields:
  assumes "ii_action i \<in> set indicators_actions"
  shows "\<exists>fs. described indicators_description (ii_action i) = Some fs \<and>
    indicator_unused i = find (\<lambda>f. f \<notin> set fs) (indicator_given i)"
  using assms
  by (simp only: indicators_actions_def list.map set_simps insert_iff empty_iff simp_thms)
    (elim disjE; simp add: field_evals)

lemma triage_fields:
  assumes "ti_action i \<in> set triage_actions"
  shows "\<exists>fs. described triage_description (ti_action i) = Some fs \<and>
    triage_unused i = find (\<lambda>f. f \<notin> set fs) (triage_given i)"
  using assms
  by (simp only: triage_actions_def list.map set_simps insert_iff empty_iff simp_thms)
    (elim disjE; simp add: field_evals)



end
