(* ===== verification/SignIn.thy ===== *)
theory SignIn
  imports Tokens
begin

text \<open>
  The interactive sign-in of \<open>src/auth/signin.rs\<close>, the parts of \<open>src/auth/session.rs\<close> it uses and the
  constructors of the token manager in \<open>src/auth.rs\<close>: PKCE and state, the loopback listener that
  takes the redirect, the browser flow with its retry, the device-code flow with its polling loop,
  the choice between them, \<open>from_env\<close>, \<open>sign_in_user\<close> and the status line.

  \<open>sign_env\<close> adds to the environment what only these functions use: the random source (which may
  fail), base64url, the derived JSON decoders, the \<open>url\<close> crate's query builder, binding a port,
  spawning the browser, what arrives at the loopback listener, Ctrl-C during a sleep, the clock of
  \<open>tokio::time::Instant\<close> (in nanoseconds, as a function of what was done so far) and \<open>chrono\<close>'s
  rendering of a timestamp.
\<close>

section \<open>Claims of the ID token\<close>

record id_token_claims =
  preferred_username :: "ustr option"
  claim_tid :: "ustr option"
  claim_oid :: "ustr option"
  claim_upn :: "ustr option"
  claim_email :: "ustr option"

definition or_else :: "'a option \<Rightarrow> 'a option \<Rightarrow> 'a option" where
  "or_else a b = (case a of Some x \<Rightarrow> Some x | None \<Rightarrow> b)"

definition account_name :: "id_token_claims \<Rightarrow> ustr option" where
  "account_name c =
     or_else (or_else (or_else (preferred_username c) (claim_upn c)) (claim_email c)) (claim_oid c)"

datatype id_token_error = InvalidFormat | Base64Error ustr | ClaimsJson ustr

fun id_token_error_text :: "id_token_error \<Rightarrow> ustr" where
  "id_token_error_text InvalidFormat = asc ''invalid JWT format: expected at least two dot-separated segments''"
| "id_token_error_text (Base64Error m) = asc ''failed to base64url decode ID token payload: '' @ m"
| "id_token_error_text (ClaimsJson m) = asc ''failed to parse ID token JSON claims: '' @ m"

text \<open>The answer of the device authorization endpoint.\<close>

record device_code_response =
  dc_device_code :: ustr
  dc_expires_in :: "nat option"
  dc_interval :: "nat option"
  dc_message :: ustr

text \<open>The query of a request to the loopback listener, and what can end the wait for one.\<close>

record redirect_query =
  rq_code :: "ustr option"
  rq_state :: "ustr option"
  rq_error :: "ustr option"

datatype loopback_event = Redirected redirect_query | TimerFired | CtrlC

record sign_env = env +
  getrandom :: "nat \<Rightarrow> ustr + nat list"
  base64url :: "nat list \<Rightarrow> ustr"
  base64url_decode :: "ustr \<Rightarrow> ustr + nat list"
  decode_claims :: "nat list \<Rightarrow> ustr + id_token_claims"
  decode_device_code :: "ustr \<Rightarrow> ustr + device_code_response"
  url_with_query :: "ustr \<Rightarrow> (ustr \<times> ustr) list \<Rightarrow> ustr + ustr"
  bind_port :: "event list \<Rightarrow> ustr + nat"
  spawn_browser :: "event list \<Rightarrow> ustr \<Rightarrow> ustr + unit"
  loopback_events :: "event list \<Rightarrow> loopback_event list"
  interrupted :: "event list \<Rightarrow> bool"
  mono_clock :: "event list \<Rightarrow> int"
  timestamp_text :: "int \<Rightarrow> ustr option"

text \<open>Only the text between the first and the second dot is looked at.\<close>

definition decode_id_token_claims :: "'x sign_env_scheme \<Rightarrow> ustr \<Rightarrow> id_token_error + id_token_claims" where
  "decode_id_token_claims e id_token =
     (case split_chars (\<lambda>c. c = 46) id_token of
       header # payload # rest \<Rightarrow>
         (case base64url_decode e (trim_end_matches (\<lambda>c. c = 61) payload) of
           Inl m \<Rightarrow> Inl (Base64Error m)
         | Inr bytes \<Rightarrow>
             (case decode_claims e bytes of
               Inl m \<Rightarrow> Inl (ClaimsJson m)
             | Inr c \<Rightarrow> Inr c))
     | _ \<Rightarrow> Inl InvalidFormat)"

section \<open>Errors of a sign-in\<close>

datatype signin_error =
    SCancelled
  | STimeout
  | SExpiredToken
  | SDeclined
  | SBadCode
  | SStateMismatch
  | SInvalidScope
  | SMissingIdToken
  | SMissingRefreshToken
  | SConsentMissingBoth
  | SBrowserLaunchFailed ustr
  | STokenEndpoint token_endpoint_error
  | SIdToken id_token_error
  | SNetwork net_error
  | SInternal ustr

fun signin_error_text :: "'x env_scheme \<Rightarrow> signin_error \<Rightarrow> ustr" where
  "signin_error_text e SCancelled = asc ''cancelled by user''"
| "signin_error_text e STimeout = asc ''timed out waiting for sign-in redirect''"
| "signin_error_text e SExpiredToken = asc ''expired token''"
| "signin_error_text e SDeclined = asc ''authorization declined''"
| "signin_error_text e SBadCode = asc ''bad verification code''"
| "signin_error_text e SStateMismatch = asc ''state mismatch''"
| "signin_error_text e SInvalidScope = asc ''invalid scope''"
| "signin_error_text e SMissingIdToken = asc ''missing id_token in token response''"
| "signin_error_text e SMissingRefreshToken = asc ''missing refresh_token in token response''"
| "signin_error_text e SConsentMissingBoth = asc ''consent missing for both audiences''"
| "signin_error_text e (SBrowserLaunchFailed m) = asc ''browser launcher failed: '' @ m"
| "signin_error_text e (STokenEndpoint err) = asc ''token endpoint error: '' @ endpoint_error_text err"
| "signin_error_text e (SIdToken err) = asc ''id token claim error: '' @ id_token_error_text err"
| "signin_error_text e (SNetwork n) = asc ''network error: '' @ net_text e n"
| "signin_error_text e (SInternal m) = asc ''internal error: '' @ m"

fun failure_reason :: "'x env_scheme \<Rightarrow> signin_error \<Rightarrow> ustr" where
  "failure_reason e SCancelled = asc ''cancelled by user''"
| "failure_reason e STimeout = asc ''timed out waiting for browser redirect''"
| "failure_reason e SExpiredToken = asc ''expired token''"
| "failure_reason e SDeclined = asc ''authorization declined''"
| "failure_reason e SBadCode = asc ''bad verification code''"
| "failure_reason e SStateMismatch = asc ''state mismatch''"
| "failure_reason e SInvalidScope = asc ''invalid scope''"
| "failure_reason e (STokenEndpoint err) = endpoint_error_text err"
| "failure_reason e err = signin_error_text e err"

text \<open>What a flow gives: an error, or the claims and the refresh token.\<close>

type_synonym sign_in_result = "signin_error + (id_token_claims \<times> ustr)"

text \<open>
  A function that sleeps and polls either returns, or panics (an addition of times overflows), or
  has used up the turns it was given here.
\<close>

datatype 'a ending = Ended 'a | Panicked | OutOfFuel

section \<open>PKCE and state\<close>

record pkce =
  verifier :: ustr
  challenge :: ustr

definition compute_s256_challenge :: "'x sign_env_scheme \<Rightarrow> ustr \<Rightarrow> ustr" where
  "compute_s256_challenge e v = base64url e (sha256 e (utf8 v))"

definition fill_random :: "'x sign_env_scheme \<Rightarrow> (ustr + nat list) io" where
  "fill_random e = State (\<lambda>w. (getrandom e (reads w), w\<lparr>reads := Suc (reads w)\<rparr>))"

definition generate_pkce :: "'x sign_env_scheme \<Rightarrow> (ustr + pkce) io" where
  "generate_pkce e = do {
     r \<leftarrow> fill_random e;
     case r of
       Inl m \<Rightarrow> ret (Inl m)
     | Inr bytes \<Rightarrow>
         ret (Inr \<lparr>verifier = base64url e bytes,
                   challenge = compute_s256_challenge e (base64url e bytes)\<rparr>)
   }"

definition generate_state :: "'x sign_env_scheme \<Rightarrow> (ustr + ustr) io" where
  "generate_state e = do {
     r \<leftarrow> fill_random e;
     case r of Inl m \<Rightarrow> ret (Inl m) | Inr bytes \<Rightarrow> ret (Inr (base64url e bytes))
   }"

definition authorize_endpoint :: "'x env_scheme \<Rightarrow> ustr \<Rightarrow> ustr" where
  "authorize_endpoint e tenant = authority_base_url e @ asc ''/'' @ tenant @ asc ''/oauth2/v2.0/authorize''"

definition devicecode_endpoint :: "'x env_scheme \<Rightarrow> ustr \<Rightarrow> ustr" where
  "devicecode_endpoint e tenant = authority_base_url e @ asc ''/'' @ tenant @ asc ''/oauth2/v2.0/devicecode''"

definition authorize_params ::
  "ustr \<Rightarrow> ustr \<Rightarrow> ustr list \<Rightarrow> ustr \<Rightarrow> ustr \<Rightarrow> (ustr \<times> ustr) list" where
  "authorize_params client redirect_uri requested st code_challenge =
     [(asc ''client_id'', client), (asc ''response_type'', asc ''code''),
      (asc ''redirect_uri'', redirect_uri), (asc ''response_mode'', asc ''query''),
      (asc ''scope'', join (asc '' '')
         (push_new [asc ''openid'', asc ''profile'', asc ''offline_access''] requested)),
      (asc ''state'', st), (asc ''code_challenge'', code_challenge),
      (asc ''code_challenge_method'', asc ''S256''), (asc ''prompt'', asc ''select_account'')]"

definition build_authorize_url ::
  "'x sign_env_scheme \<Rightarrow> ustr \<Rightarrow> ustr \<Rightarrow> ustr \<Rightarrow> ustr list \<Rightarrow> ustr \<Rightarrow> ustr \<Rightarrow> ustr + ustr" where
  "build_authorize_url e tenant client redirect_uri requested st code_challenge =
     url_with_query e (authorize_endpoint e tenant)
       (authorize_params client redirect_uri requested st code_challenge)"

section \<open>The loopback listener\<close>

text \<open>
  \<open>sender\<close>: the oneshot sender is still there; \<open>delivered\<close>: what was sent through it. Every request
  whose query decodes runs the handler; only the first one finds the sender.
\<close>

record loopback =
  expected_state :: ustr
  sender :: bool
  delivered :: "(signin_error + ustr) option"

definition listening :: "ustr \<Rightarrow> loopback" where
  "listening st = \<lparr>expected_state = st, sender = True, delivered = None\<rparr>"

definition redirect_result :: "ustr \<Rightarrow> redirect_query \<Rightarrow> signin_error + ustr" where
  "redirect_result st q =
     (if rq_state q \<noteq> Some st then Inl SStateMismatch
      else (case rq_error q of
          Some err \<Rightarrow>
            if err = asc ''invalid_scope'' then Inl SInvalidScope
            else Inl (STokenEndpoint \<lparr>te_error = err, te_aadsts = None\<rparr>)
        | None \<Rightarrow>
            (case rq_code q of
              Some code \<Rightarrow> Inr code
            | None \<Rightarrow> Inl (SInternal (asc ''missing code or error param'')))))"

text \<open>The handler answers with a status and leaves the listener changed.\<close>

definition redirect_handler :: "redirect_query \<Rightarrow> loopback \<Rightarrow> nat \<times> loopback" where
  "redirect_handler q l =
     (if rq_state q \<noteq> Some (expected_state l) then 400 else 200,
      if sender l then l\<lparr>sender := False, delivered := Some (redirect_result (expected_state l) q)\<rparr> else l)"

text \<open>
  The wait ends with the redirect that was delivered, the timer or Ctrl-C, whichever comes first;
  where nothing else comes, the timer fires.
\<close>

fun wait_for_code :: "loopback \<Rightarrow> loopback_event list \<Rightarrow> signin_error + ustr" where
  "wait_for_code l [] = Inl STimeout"
| "wait_for_code l (TimerFired # evs) = Inl STimeout"
| "wait_for_code l (CtrlC # evs) = Inl SCancelled"
| "wait_for_code l (Redirected q # evs) =
     (let l' = snd (redirect_handler q l) in
      case delivered l' of Some r \<Rightarrow> r | None \<Rightarrow> wait_for_code l' evs)"

section \<open>The browser flow\<close>

definition is_headless :: "'x env_scheme \<Rightarrow> bool" where
  "is_headless e \<longleftrightarrow> env_var e (asc ''DISPLAY'') = None \<and> env_var e (asc ''WAYLAND_DISPLAY'') = None"

definition launch_browser :: "'x sign_env_scheme \<Rightarrow> ustr \<Rightarrow> (ustr + unit) io" where
  "launch_browser e url = do {
     h \<leftarrow> gets trace;
     emit (Launched url);
     ret (case spawn_browser e h url of
       Inr u \<Rightarrow> Inr ()
     | Inl m \<Rightarrow> Inl (asc ''failed to launch '' @ sq (asc ''xdg-open'') @ asc '': '' @ m))
   }"

text \<open>Both grants end alike: an ID token whose claims decode, then a refresh token.\<close>

definition session_of_reply :: "'x sign_env_scheme \<Rightarrow> ustr \<Rightarrow> sign_in_result" where
  "session_of_reply e body =
     (case decode_token e body of
       Inl m \<Rightarrow> Inl (SInternal (asc ''failed to parse token response: '' @ m))
     | Inr raw \<Rightarrow>
         (case raw_id_token raw of
           None \<Rightarrow> Inl SMissingIdToken
         | Some jwt \<Rightarrow>
             (case decode_id_token_claims e jwt of
               Inl err \<Rightarrow> Inl (SIdToken err)
             | Inr claims \<Rightarrow>
                 (case raw_refresh_token raw of
                   None \<Rightarrow> Inl SMissingRefreshToken
                 | Some rt \<Rightarrow> Inr (claims, rt)))))"

text \<open>A reply's status and text, or the network error.\<close>

definition reply_text :: "'x env_scheme \<Rightarrow> net_error + http_reply \<Rightarrow> net_error + (nat \<times> ustr)" where
  "reply_text e r =
     (case r of
       Inl n \<Rightarrow> Inl n
     | Inr resp \<Rightarrow>
         (case reply_body resp of
           Inl n \<Rightarrow> Inl n
         | Inr bytes \<Rightarrow> Inr (reply_status resp, decode_text e bytes)))"

definition redeem_params :: "ustr \<Rightarrow> ustr \<Rightarrow> ustr \<Rightarrow> ustr \<Rightarrow> (ustr \<times> ustr) list" where
  "redeem_params client code redirect_uri v =
     [(asc ''grant_type'', asc ''authorization_code''), (asc ''client_id'', client),
      (asc ''code'', code), (asc ''redirect_uri'', redirect_uri), (asc ''code_verifier'', v),
      (asc ''scope'', asc ''openid profile offline_access'')]"

definition redeem_auth_code ::
  "'x sign_env_scheme \<Rightarrow> ustr \<Rightarrow> ustr \<Rightarrow> ustr \<Rightarrow> ustr \<Rightarrow> ustr \<Rightarrow> sign_in_result io" where
  "redeem_auth_code e tenant client code redirect_uri v = do {
     r \<leftarrow> send e (form_post (token_endpoint e tenant) (redeem_params client code redirect_uri v));
     ret (case reply_text e r of
       Inl n \<Rightarrow> Inl (SNetwork n)
     | Inr (status, body) \<Rightarrow>
         if is_success status then session_of_reply e body
         else Inl (STokenEndpoint (parse_token_error e body)))
   }"

definition redirect_uri_of :: "nat \<Rightarrow> ustr" where
  "redirect_uri_of port = asc ''http://localhost:'' @ show_nat port"

definition visit_message :: "ustr \<Rightarrow> ustr" where
  "visit_message url =
     asc ''Sign in to Microsoft Defender MCP: a browser window was opened. If it did not open, visit:''
     @ [10] @ asc ''  '' @ url"

text \<open>From the launch on: the listener is bound and the URL built.\<close>

definition await_redirect ::
  "'x sign_env_scheme \<Rightarrow> ustr \<Rightarrow> ustr \<Rightarrow> ustr \<Rightarrow> ustr \<Rightarrow> ustr \<Rightarrow> ustr \<Rightarrow> sign_in_result io" where
  "await_redirect e tenant client redirect_uri v st url = do {
     stderr_line (visit_message url);
     launched \<leftarrow> launch_browser e url;
     case launched of
       Inl m \<Rightarrow> ret (Inl (SBrowserLaunchFailed m))
     | Inr u \<Rightarrow> do {
         h \<leftarrow> gets trace;
         case wait_for_code (listening st) (loopback_events e h) of
           Inl err \<Rightarrow> ret (Inl err)
         | Inr code \<Rightarrow> redeem_auth_code e tenant client code redirect_uri v
       }
   }"

definition run_browser_attempt ::
  "'x sign_env_scheme \<Rightarrow> ustr \<Rightarrow> ustr \<Rightarrow> ustr list \<Rightarrow> sign_in_result io" where
  "run_browser_attempt e tenant client requested = do {
     p \<leftarrow> generate_pkce e;
     case p of
       Inl m \<Rightarrow> ret (Inl (SInternal m))
     | Inr pk \<Rightarrow> do {
         s \<leftarrow> generate_state e;
         case s of
           Inl m \<Rightarrow> ret (Inl (SInternal m))
         | Inr st \<Rightarrow> do {
             h \<leftarrow> gets trace;
             case bind_port e h of
               Inl m \<Rightarrow> ret (Inl (SInternal (asc ''failed to bind loopback listener: '' @ m)))
             | Inr port \<Rightarrow>
                 (case build_authorize_url e tenant client (redirect_uri_of port) requested st (challenge pk) of
                   Inl m \<Rightarrow> ret (Inl (SInternal (asc ''failed to build authorize url: '' @ m)))
                 | Inr url \<Rightarrow> await_redirect e tenant client (redirect_uri_of port) (verifier pk) st url)
           }
       }
   }"

definition run_browser_flow ::
  "'x sign_env_scheme \<Rightarrow> ustr \<Rightarrow> ustr \<Rightarrow> ustr list \<Rightarrow> sign_in_result io" where
  "run_browser_flow e tenant client requested = do {
     r \<leftarrow> run_browser_attempt e tenant client requested;
     if r = Inl SInvalidScope \<and> requested \<noteq> [] then do {
       stderr_line (asc ''Scope invalid on authorize URL; retrying sign-in with standard OIDC scopes...'');
       run_browser_attempt e tenant client []
     } else ret r
   }"

section \<open>The device-code flow\<close>

text \<open>
  \<open>Instant + Duration\<close> panics when the seconds leave an \<open>i64\<close>, \<open>Duration + Duration\<close> when they leave a
  \<open>u64\<close>. The interval and its step are whole seconds.
\<close>

definition deadline_after :: "int \<Rightarrow> nat \<Rightarrow> int option" where
  "deadline_after t secs =
     (if t div 1000000000 + int secs < 2 ^ 63 then Some (t + int secs * 1000000000) else None)"

definition sleep_secs :: "'x sign_env_scheme \<Rightarrow> nat \<Rightarrow> bool io" where
  "sleep_secs e secs = State (\<lambda>w.
     if interrupted e (trace w) then (True, w)
     else (False, w\<lparr>trace := trace w @ [Slept (secs * 1000000000)]\<rparr>))"

datatype poll_answer = Stop sign_in_result | Pending | SlowDown

definition poll_reply :: "'x sign_env_scheme \<Rightarrow> net_error + http_reply \<Rightarrow> poll_answer" where
  "poll_reply e r =
     (case reply_text e r of
       Inl n \<Rightarrow> Stop (Inl (SNetwork n))
     | Inr (status, body) \<Rightarrow>
         if is_success status then Stop (session_of_reply e body)
         else (let err = parse_token_error e body in
           if te_error err = asc ''authorization_pending'' then Pending
           else if te_error err = asc ''slow_down'' then SlowDown
           else if te_error err = asc ''authorization_declined'' then Stop (Inl SDeclined)
           else if te_error err = asc ''expired_token'' then Stop (Inl SExpiredToken)
           else if te_error err = asc ''bad_verification_code'' then Stop (Inl SBadCode)
           else Stop (Inl (STokenEndpoint err))))"

definition poll_request :: "'x env_scheme \<Rightarrow> ustr \<Rightarrow> ustr \<Rightarrow> ustr \<Rightarrow> http_request" where
  "poll_request e tenant client device_code = form_post (token_endpoint e tenant)
     [(asc ''grant_type'', asc ''urn:ietf:params:oauth:grant-type:device_code''),
      (asc ''client_id'', client), (asc ''device_code'', device_code)]"

fun poll_loop ::
  "'x sign_env_scheme \<Rightarrow> http_request \<Rightarrow> int \<Rightarrow> nat \<Rightarrow> nat \<Rightarrow> sign_in_result ending io" where
  "poll_loop e rq deadline interval 0 = ret OutOfFuel"
| "poll_loop e rq deadline interval (Suc fuel) = do {
     t \<leftarrow> gets (\<lambda>w. mono_clock e (trace w));
     if deadline \<le> t then ret (Ended (Inl SExpiredToken))
     else do {
       stopped \<leftarrow> sleep_secs e interval;
       if stopped then ret (Ended (Inl SCancelled))
       else do {
         r \<leftarrow> send e rq;
         case poll_reply e r of
           Stop res \<Rightarrow> ret (Ended res)
         | Pending \<Rightarrow> poll_loop e rq deadline interval fuel
         | SlowDown \<Rightarrow>
             if interval + 5 < 2 ^ 64 then poll_loop e rq deadline (interval + 5) fuel
             else ret Panicked
       }
     }
   }"

definition lifetime :: "device_code_response \<Rightarrow> nat" where
  "lifetime dc = (case dc_expires_in dc of Some n \<Rightarrow> n | None \<Rightarrow> 900)"

definition pause :: "device_code_response \<Rightarrow> nat" where
  "pause dc = (case dc_interval dc of Some n \<Rightarrow> n | None \<Rightarrow> 5)"

definition run_device_code_flow ::
  "'x sign_env_scheme \<Rightarrow> nat \<Rightarrow> ustr \<Rightarrow> ustr \<Rightarrow> sign_in_result ending io" where
  "run_device_code_flow e fuel tenant client = do {
     r \<leftarrow> send e (form_post (devicecode_endpoint e tenant)
       [(asc ''client_id'', client), (asc ''scope'', asc ''openid profile offline_access'')]);
     case reply_text e r of
       Inl n \<Rightarrow> ret (Ended (Inl (SNetwork n)))
     | Inr (status, body) \<Rightarrow>
         if \<not> is_success status then ret (Ended (Inl (STokenEndpoint (parse_token_error e body))))
         else (case decode_device_code e body of
             Inl m \<Rightarrow> ret (Ended (Inl (SInternal (asc ''failed to parse device code response: '' @ m))))
           | Inr dc \<Rightarrow> do {
               stderr_line (dc_message dc);
               t \<leftarrow> gets (\<lambda>w. mono_clock e (trace w));
               case deadline_after t (lifetime dc) of
                 None \<Rightarrow> ret Panicked
               | Some deadline \<Rightarrow>
                   poll_loop e (poll_request e tenant client (dc_device_code dc)) deadline
                     (pause dc) fuel
             })
   }"

section \<open>Choosing a flow\<close>

definition as_ending :: "'a io \<Rightarrow> 'a ending io" where
  "as_ending m = do { r \<leftarrow> m; ret (Ended r) }"

fun interactive_sign_in ::
  "'x sign_env_scheme \<Rightarrow> nat \<Rightarrow> ustr \<Rightarrow> ustr \<Rightarrow> sign_in_flow \<Rightarrow> ustr list \<Rightarrow> sign_in_result ending io" where
  "interactive_sign_in e fuel tenant client Auto requested =
     (if is_headless e then run_device_code_flow e fuel tenant client
      else do {
        r \<leftarrow> run_browser_flow e tenant client requested;
        case r of
          Inl (SBrowserLaunchFailed m) \<Rightarrow> run_device_code_flow e fuel tenant client
        | _ \<Rightarrow> ret (Ended r)
      })"
| "interactive_sign_in e fuel tenant client Browser requested =
     as_ending (run_browser_flow e tenant client requested)"
| "interactive_sign_in e fuel tenant client DeviceCode requested =
     run_device_code_flow e fuel tenant client"

section \<open>Facts\<close>

lemma run_sleep:
  "run_state (sleep_secs e n) w =
     (if interrupted e (trace w) then (True, w)
      else (False, w\<lparr>trace := trace w @ [Slept (n * 1000000000)]\<rparr>))"
  by (simp add: sleep_secs_def)

lemma run_as_ending [simp]: "run_state (as_ending m) w = (Ended (fst (run_state m w)), snd (run_state m w))"
  by (simp add: as_ending_def split: prod.splits)

lemma wait_delivers:
  "wait_for_code (listening st) evs =
     (case evs of
       Redirected q # _ \<Rightarrow> redirect_result st q
     | CtrlC # _ \<Rightarrow> Inl SCancelled
     | _ \<Rightarrow> Inl STimeout)"
  by (cases "(listening st, evs)" rule: wait_for_code.cases)
    (simp_all add: listening_def redirect_handler_def)

lemma redirect_code:
  "redirect_result st q = Inr code \<longleftrightarrow>
     rq_state q = Some st \<and> rq_error q = None \<and> rq_code q = Some code"
  by (auto simp: redirect_result_def split: option.splits)

text \<open>Later requests to the listener change nothing that was delivered.\<close>

lemma handler_delivered:
  "sender l = (delivered l = None) \<Longrightarrow>
     delivered (fold (\<lambda>q. snd \<circ> redirect_handler q) qs l) =
       (case delivered l of Some r \<Rightarrow> Some r
        | None \<Rightarrow> (case qs of [] \<Rightarrow> None | q # _ \<Rightarrow> Some (redirect_result (expected_state l) q)))"
proof (induction qs arbitrary: l)
  case Nil
  then show ?case by (simp split: option.splits)
next
  case (Cons q qs)
  have "sender (snd (redirect_handler q l)) = (delivered (snd (redirect_handler q l)) = None)"
    using Cons.prems by (simp add: redirect_handler_def)
  from Cons.IH [OF this] Cons.prems show ?case
    by (auto simp: redirect_handler_def split: option.splits)
qed

subsection \<open>The clock\<close>

text \<open>
  What \<open>std::time::Instant\<close> and \<open>tokio::time::sleep\<close> document: instants never go back, and a sleep
  that completes has taken at least its duration.
\<close>

definition lawful_clock :: "'x sign_env_scheme \<Rightarrow> bool" where
  "lawful_clock e \<longleftrightarrow>
     (\<forall>h ev. mono_clock e h \<le> mono_clock e (h @ [ev])) \<and>
     (\<forall>h d. mono_clock e h + int d \<le> mono_clock e (h @ [Slept d]))"

lemma clock_step: "lawful_clock e \<Longrightarrow> mono_clock e h \<le> mono_clock e (h @ [ev])"
  by (simp add: lawful_clock_def)

lemma clock_turn:
  assumes "lawful_clock e"
  shows "mono_clock e h + int d \<le> mono_clock e (h @ [Slept d, ev])"
proof -
  have "mono_clock e h + int d \<le> mono_clock e (h @ [Slept d])"
    using assms by (simp add: lawful_clock_def)
  also have "\<dots> \<le> mono_clock e ((h @ [Slept d]) @ [ev])" using assms by (rule clock_step)
  finally show ?thesis by simp
qed

text \<open>One turn of the loop, as an equation on the whole run.\<close>

definition after_poll :: "http_request \<Rightarrow> nat \<Rightarrow> world \<Rightarrow> world" where
  "after_poll rq interval w = w\<lparr>trace := trace w @ [Slept (interval * 1000000000), Sent rq]\<rparr>"

lemma poll_turn:
  "run_state (poll_loop e rq deadline interval (Suc fuel)) w =
     (if deadline \<le> mono_clock e (trace w) then (Ended (Inl SExpiredToken), w)
      else if interrupted e (trace w) then (Ended (Inl SCancelled), w)
      else (case poll_reply e (http e (trace w @ [Slept (interval * 1000000000)]) rq) of
          Stop res \<Rightarrow> (Ended res, after_poll rq interval w)
        | Pending \<Rightarrow> run_state (poll_loop e rq deadline interval fuel) (after_poll rq interval w)
        | SlowDown \<Rightarrow> if interval + 5 < 2 ^ 64
            then run_state (poll_loop e rq deadline (interval + 5) fuel) (after_poll rq interval w)
            else (Panicked, after_poll rq interval w)))"
  by (simp add: run_sleep after_poll_def split: poll_answer.splits)

lemma clock_after_poll:
  assumes "lawful_clock e" and "0 < interval"
  shows "mono_clock e (trace w) + 1000000000 \<le> mono_clock e (trace (after_poll rq interval w))"
proof -
  have "1000000000 \<le> int (interval * 1000000000)" using assms(2) by simp
  moreover have "mono_clock e (trace w) + int (interval * 1000000000) \<le>
      mono_clock e (trace (after_poll rq interval w))"
    using clock_turn [OF assms(1), of "trace w" "interval * 1000000000" "Sent rq"]
    by (simp add: after_poll_def)
  ultimately show ?thesis by linarith
qed

lemma poll_loop_ends:
  assumes "lawful_clock e" and "0 < interval" and "interval + 5 * fuel < 2 ^ 64"
    and "deadline \<le> mono_clock e (trace w) + int fuel * 1000000000"
  shows "\<exists>res. fst (run_state (poll_loop e rq deadline interval (Suc fuel)) w) = Ended res"
  using assms(2-)
proof (induction fuel arbitrary: interval w)
  case 0
  then show ?case by (simp add: poll_turn)
next
  case (Suc fuel)
  let ?w = "after_poll rq interval w"
  have "deadline \<le> mono_clock e (trace ?w) + int fuel * 1000000000"
    using clock_after_poll [OF assms(1) Suc.prems(1), of w rq] Suc.prems(3) by (simp add: algebra_simps)
  then have again: "\<exists>res. fst (run_state (poll_loop e rq deadline j (Suc fuel)) ?w) = Ended res"
    if "0 < j" "j + 5 * fuel < 2 ^ 64" for j
    using that by (intro Suc.IH)
  have "\<exists>res. fst (run_state (poll_loop e rq deadline interval (Suc fuel)) ?w) = Ended res"
    and "\<exists>res. fst (run_state (poll_loop e rq deadline (interval + 5) (Suc fuel)) ?w) = Ended res"
    using Suc.prems(1,2) by (intro again; simp)+
  moreover have "interval + 5 < 2 ^ 64" using Suc.prems(2) by simp
  ultimately show ?case
    by (subst poll_turn) (simp del: poll_loop.simps split: poll_answer.splits)
qed

lemma poll_loop_more_fuel:
  "fst (run_state (poll_loop e rq deadline interval fuel) w) \<noteq> OutOfFuel \<Longrightarrow>
     run_state (poll_loop e rq deadline interval (fuel + k)) w =
     run_state (poll_loop e rq deadline interval fuel) w"
proof (induction fuel arbitrary: interval w)
  case (Suc fuel)
  from Suc.prems show ?case
    unfolding add_Suc poll_turn [of _ _ _ _ fuel] poll_turn [of _ _ _ _ "fuel + k"]
    by (auto simp del: poll_loop.simps intro!: Suc.IH split: poll_answer.splits if_splits)
qed simp

lemma poll_loop_requests:
  "run_state (poll_loop e rq deadline interval fuel) w = (r, w') \<Longrightarrow>
     \<exists>evs. trace w' = trace w @ evs \<and> length (filter sends evs) \<le> fuel \<and>
       (\<forall>ev\<in>set evs. ev = Sent rq \<or> (\<exists>d. ev = Slept d))"
proof (induction fuel arbitrary: interval w)
  case (Suc fuel)
  have later: "\<exists>evs. trace w' = trace w @ evs \<and> length (filter sends evs) \<le> Suc fuel \<and>
       (\<forall>ev\<in>set evs. ev = Sent rq \<or> (\<exists>d. ev = Slept d))"
    if "run_state (poll_loop e rq deadline j fuel) (after_poll rq interval w) = (r, w')" for j
  proof -
    from Suc.IH [OF that] obtain evs where "trace w' = trace (after_poll rq interval w) @ evs"
        "length (filter sends evs) \<le> fuel" "\<forall>ev\<in>set evs. ev = Sent rq \<or> (\<exists>d. ev = Slept d)" by blast
    then show ?thesis
      by (intro exI [of _ "[Slept (interval * 1000000000), Sent rq] @ evs"]) (simp add: after_poll_def)
  qed
  from Suc.prems show ?case
    unfolding poll_turn
    by (auto simp del: poll_loop.simps intro: later split: poll_answer.splits if_splits)
      (simp_all add: after_poll_def)
qed simp

section \<open>A concrete environment\<close>

text \<open>A user who never answers the device-code prompt; time passes in sleeps only.\<close>

fun slept :: "event \<Rightarrow> int" where
  "slept (Slept d) = int d"
| "slept _ = 0"

definition demo_query :: "ustr \<Rightarrow> (ustr \<times> ustr) list \<Rightarrow> ustr" where
  "demo_query base ps = base @ concat (map (\<lambda>(k, v). 38 # k @ [61] @ v) ps)"

definition sign_demo :: "(net_error + http_reply) \<Rightarrow> loopback_event list \<Rightarrow> sign_env" where
  "sign_demo answer arrivals = env.extend
     ((demo_env answer)\<lparr>decode_error := \<lambda>s. Inr \<lparr>raw_error = Some (asc ''authorization_pending''),
        raw_error_description = None, raw_error_codes = None\<rparr>,
       decode_token := \<lambda>s. Inr \<lparr>raw_access_token = Some (asc ''token''), raw_refresh_token = Some (asc ''rt''),
        raw_id_token = Some (asc ''h.p.s''), raw_expires_in = None, raw_scope = None\<rparr>\<rparr>)
     \<lparr>getrandom = \<lambda>n. Inr [n], base64url = \<lambda>bs. map (\<lambda>b. 97 + b) bs,
      base64url_decode = \<lambda>s. Inr s,
      decode_claims = \<lambda>bs. Inr \<lparr>preferred_username = Some (asc ''alice''), claim_tid = None,
        claim_oid = None, claim_upn = None, claim_email = None\<rparr>,
      decode_device_code = \<lambda>s. Inr \<lparr>dc_device_code = asc ''device'', dc_expires_in = Some 900,
        dc_interval = Some 5, dc_message = asc ''visit''\<rparr>,
      url_with_query = \<lambda>base ps. Inr (demo_query base ps),
      bind_port = \<lambda>h. Inr 4000, spawn_browser = \<lambda>h url. Inr (),
      loopback_events = \<lambda>h. arrivals, interrupted = \<lambda>h. False,
      mono_clock = \<lambda>h. sum_list (map slept h), timestamp_text = \<lambda>t. None\<rparr>"

section \<open>Properties\<close>

text \<open>
  What termination rests on: the clock's laws, an instant at which the device code arrives that is
  less than 146 years after the clock's origin, and pauses and lifetimes in bounds.
\<close>

definition patient :: "'x sign_env_scheme \<Rightarrow> nat \<Rightarrow> world \<Rightarrow> bool" where
  "patient e n w \<longleftrightarrow> lawful_clock e \<and> n < 2 ^ 32 \<and>
     (\<forall>rq m. mono_clock e (trace w @ [Sent rq, Stderr m]) < 2 ^ 62) \<and>
     (\<forall>body dc. decode_device_code e body = Inr dc \<longrightarrow> 0 < pause dc \<and> pause dc < 2 ^ 32 \<and> lifetime dc \<le> n)"

lemma deadline_exists:
  assumes "t < 2 ^ 62" and "n < 2 ^ 32"
  shows "deadline_after t n = Some (t + int n * 1000000000)"
proof -
  have "t div 1000000000 \<le> 2 ^ 62 div 1000000000" using assms(1) by (intro zdiv_mono1) auto
  moreover have "int n < 2 ^ 32" using assms(2) by simp
  ultimately show ?thesis by (simp add: deadline_after_def)
qed

lemma device_flow_polls:
  assumes "patient e n w"
  shows "\<exists>r w'. (\<forall>k. run_state (run_device_code_flow e (Suc n + k) tenant client) w = (Ended r, w')) \<and>
           (\<exists>evs. trace w' = trace w @ evs \<and> length (filter sends evs) \<le> n + 2)"
proof -
  let ?first = "form_post (devicecode_endpoint e tenant)
       [(asc ''client_id'', client), (asc ''scope'', asc ''openid profile offline_access'')]"
  let ?w = "w\<lparr>trace := trace w @ [Sent ?first]\<rparr>"
  have at_once: ?thesis if "\<And>k. run_state (run_device_code_flow e (Suc n + k) tenant client) w = (Ended r, ?w)" for r
    by (intro exI [of _ r] exI [of _ ?w] exI [of _ "[Sent ?first]"] conjI) (auto simp: that simp del: add_Suc)
  show ?thesis
  proof (cases "reply_text e (http e (trace w) ?first)")
    case (Inl m)
    then show ?thesis by (intro at_once [of "Inl (SNetwork m)"]) (simp add: run_device_code_flow_def)
  next
    case (Inr sb)
    obtain status body where sb: "sb = (status, body)" by fastforce
    show ?thesis
    proof (cases "is_success status")
      case False
      with Inr sb show ?thesis
        by (intro at_once [of "Inl (STokenEndpoint (parse_token_error e body))"])
          (simp add: run_device_code_flow_def)
    next
      case success: True
      show ?thesis
      proof (cases "decode_device_code e body")
        case err: (Inl m)
        with Inr sb success show ?thesis
          by (intro at_once) (simp add: run_device_code_flow_def)
      next
        case dc: (Inr dc)
        from assms have clock: "lawful_clock e" and small: "\<And>rq m. mono_clock e (trace w @ [Sent rq, Stderr m]) < 2 ^ 62"
          and n: "n < 2 ^ 32" by (simp_all add: patient_def)
        from assms dc have pause: "0 < pause dc" "pause dc < 2 ^ 32" and life: "lifetime dc \<le> n"
          unfolding patient_def by blast+
        define w1 where "w1 = ?w\<lparr>trace := trace ?w @ [Stderr (dc_message dc)]\<rparr>"
        define deadline where "deadline = mono_clock e (trace w1) + int (lifetime dc) * 1000000000"
        define rq where "rq = poll_request e tenant client (dc_device_code dc)"
        have "deadline_after (mono_clock e (trace w1)) (lifetime dc) = Some deadline"
          unfolding deadline_def using small life n by (intro deadline_exists) (auto simp: w1_def)
        then have run: "run_state (run_device_code_flow e fuel tenant client) w =
            run_state (poll_loop e rq deadline (pause dc) fuel) w1" for fuel
          using Inr sb success dc by (simp add: run_device_code_flow_def stderr_line_def w1_def rq_def)
        have "deadline \<le> mono_clock e (trace w1) + int n * 1000000000"
          using life by (simp add: deadline_def)
        moreover have "pause dc + 5 * n < 2 ^ 64" using pause n by simp
        ultimately obtain r where r: "fst (run_state (poll_loop e rq deadline (pause dc) (Suc n)) w1) = Ended r"
          using poll_loop_ends [OF clock pause(1)] by blast
        define w' where "w' = snd (run_state (poll_loop e rq deadline (pause dc) (Suc n)) w1)"
        from r have one: "run_state (poll_loop e rq deadline (pause dc) (Suc n)) w1 = (Ended r, w')"
          unfolding w'_def by (metis prod.collapse)
        have "run_state (run_device_code_flow e (Suc n + k) tenant client) w = (Ended r, w')" for k
          unfolding run using poll_loop_more_fuel [of e rq deadline "pause dc" "Suc n" w1 k] one r by simp
        moreover obtain evs where "trace w' = trace w1 @ evs" "length (filter sends evs) \<le> Suc n"
          using poll_loop_requests [OF one] by blast
        then have "\<exists>evs. trace w' = trace w @ evs \<and> length (filter sends evs) \<le> n + 2"
          by (intro exI [of _ "[Sent ?first, Stderr (dc_message dc)] @ evs"]) (simp add: w1_def)
        ultimately show ?thesis by blast
      qed
    qed
  qed
qed

text \<open>
  C26. The device-code flow ends. Whatever the servers, the user and the network do, on a clock that
  never goes back and that a completed sleep advances by its duration, and with an authorization
  server that asks for a pause of at least a second and a lifetime of at most \<open>n\<close> seconds, the flow
  returns a result without panicking, after at most \<open>n + 2\<close> requests, and any number of turns
  from \<open>n + 1\<close> on gives that same run.
\<close>

theorem device_flow_terminates:
  assumes "patient e n w"
  shows "\<exists>r w'. (\<forall>k. run_state (run_device_code_flow e (Suc n + k) tenant client) w = (Ended r, w')) \<and>
           (\<exists>evs. trace w' = trace w @ evs \<and> length (filter sends evs) \<le> n + 2)"
  using assms by (rule device_flow_polls)

lemma demo_clock: "lawful_clock (sign_demo answer arrivals)"
proof -
  have "mono_clock (sign_demo answer arrivals) h = sum_list (map slept h)" for h
    by (simp add: sign_demo_def env.defs)
  moreover have "0 \<le> slept ev" for ev by (cases ev) auto
  ultimately show ?thesis by (simp add: lawful_clock_def)
qed

lemma device_flow_terminates_witness:
  "\<exists>r w'. run_state (run_device_code_flow (sign_demo (demo_reply 400 []) []) 901 [] []) world0 = (Ended r, w')"
proof -
  have "patient (sign_demo (demo_reply 400 []) []) 900 world0"
    using demo_clock [of "demo_reply 400 []" "[]"]
    by (auto simp: patient_def sign_demo_def env.defs world0_def pause_def lifetime_def)
  from device_flow_terminates [OF this, of "[]" "[]"] obtain r w' where
    "\<And>k. run_state (run_device_code_flow (sign_demo (demo_reply 400 []) []) (Suc 900 + k) [] []) world0 = (Ended r, w')"
    by blast
  from this [of 0] show ?thesis by auto
qed

subsection \<open>What the browser flow redeems\<close>

text \<open>
  The redemption \<open>rq\<close> belongs to an attempt of its own: its verifier \<open>v\<close> and state \<open>st\<close> are drawn from
  two successive reads of the random source, the browser was sent to a URL with this state and the
  challenge of this verifier, the first request to reach the listener after that carried this
  state, no error and a code, and \<open>rq\<close> redeems this code with this verifier. \<open>tr\<close> is the trace.
\<close>

definition drawn :: "'x sign_env_scheme \<Rightarrow> ustr \<Rightarrow> ustr \<Rightarrow> bool" where
  "drawn e v st \<longleftrightarrow> (\<exists>n a b. getrandom e n = Inr a \<and> v = base64url e a \<and>
     getrandom e (Suc n) = Inr b \<and> st = base64url e b)"

definition redeems_own ::
  "'x sign_env_scheme \<Rightarrow> ustr \<Rightarrow> ustr \<Rightarrow> ustr list \<Rightarrow> event list \<Rightarrow> http_request \<Rightarrow> bool" where
  "redeems_own e tenant client requested tr rq \<longleftrightarrow>
     (\<exists>v st port url h q rest code. drawn e v st \<and>
        build_authorize_url e tenant client (redirect_uri_of port) requested st
          (compute_s256_challenge e v) = Inr url \<and>
        prefix (h @ [Launched url]) tr \<and>
        loopback_events e (h @ [Launched url]) = Redirected q # rest \<and>
        rq_state q = Some st \<and> rq_error q = None \<and> rq_code q = Some code \<and>
        rq = form_post (token_endpoint e tenant) (redeem_params client code (redirect_uri_of port) v))"

text \<open>What one attempt may add to the trace.\<close>

definition attempt_events ::
  "'x sign_env_scheme \<Rightarrow> ustr \<Rightarrow> ustr \<Rightarrow> ustr list \<Rightarrow> event list \<Rightarrow> event list \<Rightarrow> sign_in_result \<Rightarrow> bool" where
  "attempt_events e tenant client requested tr evs r \<longleftrightarrow>
     length (filter sends evs) \<le> 1 \<and>
     (\<forall>rq. Sent rq \<in> set evs \<longrightarrow> redeems_own e tenant client requested tr rq) \<and>
     (r = Inl SInvalidScope \<or> (\<exists>m. r = Inl (SBrowserLaunchFailed m)) \<longrightarrow> filter sends evs = [])"

lemma session_of_reply_errors [simp]:
  "session_of_reply e body \<noteq> Inl SInvalidScope" "session_of_reply e body \<noteq> Inl (SBrowserLaunchFailed m)"
  by (auto simp: session_of_reply_def split: sum.splits option.splits)

lemma redeem_run:
  assumes "run_state (redeem_auth_code e tenant client code uri v) w = (r, w')"
  shows "w' = w\<lparr>trace := trace w @ [Sent (form_post (token_endpoint e tenant) (redeem_params client code uri v))]\<rparr> \<and>
     r \<noteq> Inl SInvalidScope \<and> (\<forall>m. r \<noteq> Inl (SBrowserLaunchFailed m))"
  using assms session_of_reply_errors(2) [of e, THEN notE]
  by (auto simp: redeem_auth_code_def split: sum.splits prod.splits if_splits)

lemma await_redirect_run:
  assumes "run_state (await_redirect e tenant client (redirect_uri_of port) v st url) w = (r, w')"
    and "build_authorize_url e tenant client (redirect_uri_of port) requested st
          (compute_s256_challenge e v) = Inr url"
    and "drawn e v st"
  shows "\<exists>evs. trace w' = trace w @ evs \<and> attempt_events e tenant client requested (trace w') evs r"
proof -
  define m where "m = visit_message url"
  have m: "run_state (await_redirect e tenant client (redirect_uri_of port) v st url) w =
      (let w1 = w\<lparr>trace := trace w @ [Stderr m, Launched url]\<rparr> in
       case spawn_browser e (trace w @ [Stderr m]) url of
         Inl err \<Rightarrow> (Inl (SBrowserLaunchFailed (asc ''failed to launch '' @ sq (asc ''xdg-open'') @ asc '': '' @ err)), w1)
       | Inr u \<Rightarrow>
           (case wait_for_code (listening st) (loopback_events e (trace w1)) of
             Inl err \<Rightarrow> (Inl err, w1)
           | Inr code \<Rightarrow> run_state (redeem_auth_code e tenant client code (redirect_uri_of port) v) w1))"
    by (cases "spawn_browser e (trace w @ [Stderr m]) url";
        cases "wait_for_code (listening st) (loopback_events e (trace w @ [Stderr m, Launched url]))")
      (simp_all add: await_redirect_def launch_browser_def stderr_line_def m_def Let_def)
  define w1 where "w1 = w\<lparr>trace := trace w @ [Stderr m, Launched url]\<rparr>"
  have quiet: ?thesis if "w' = w1"
    using that by (intro exI [of _ "[Stderr m, Launched url]"]) (simp add: w1_def attempt_events_def)
  show ?thesis
  proof (cases "\<exists>code. wait_for_code (listening st) (loopback_events e (trace w1)) = Inr code \<and>
      run_state (redeem_auth_code e tenant client code (redirect_uri_of port) v) w1 = (r, w')")
    case False
    with assms(1) m have "w' = w1" by (auto simp: w1_def Let_def split: sum.splits)
    then show ?thesis by (rule quiet)
  next
    case True
    then obtain code where code: "wait_for_code (listening st) (loopback_events e (trace w1)) = Inr code"
      and run: "run_state (redeem_auth_code e tenant client code (redirect_uri_of port) v) w1 = (r, w')"
      by blast
    from code obtain q rest where q: "loopback_events e (trace w1) = Redirected q # rest"
      "rq_state q = Some st" "rq_error q = None" "rq_code q = Some code"
      by (auto simp: wait_delivers redirect_code split: list.splits loopback_event.splits)
    let ?rq = "form_post (token_endpoint e tenant) (redeem_params client code (redirect_uri_of port) v)"
    let ?evs = "[Stderr m, Launched url, Sent ?rq]"
    from redeem_run [OF run] have w': "trace w' = (trace w @ [Stderr m]) @ [Launched url] @ [Sent ?rq]"
      by (simp add: w1_def)
    then have "prefix ((trace w @ [Stderr m]) @ [Launched url]) (trace w')"
      by (metis append.assoc prefixI)
    moreover from q(1) have "loopback_events e ((trace w @ [Stderr m]) @ [Launched url]) = Redirected q # rest"
      by (simp add: w1_def)
    ultimately have own: "redeems_own e tenant client requested (trace w') ?rq"
      using q(2-) assms(2,3) unfolding redeems_own_def by blast
    then have "attempt_events e tenant client requested (trace w') ?evs r"
      using redeem_run [OF run] by (auto simp: attempt_events_def)
    with w' show ?thesis by auto
  qed
qed

lemma browser_attempt_run:
  assumes "run_state (run_browser_attempt e tenant client requested) w = (r, w')"
  shows "\<exists>evs. trace w' = trace w @ evs \<and> attempt_events e tenant client requested (trace w') evs r"
proof -
  have quiet: ?thesis if "trace w' = trace w"
    using that by (intro exI [of _ "[]"]) (simp add: attempt_events_def)
  have draw: "drawn e (base64url e a) (base64url e b)"
    if "getrandom e (reads w) = Inr a" "getrandom e (Suc (reads w)) = Inr b" for a b
    using that unfolding drawn_def by blast
  show ?thesis
    using assms quiet
    by (fastforce simp: run_browser_attempt_def generate_pkce_def generate_state_def fill_random_def
        split: sum.splits dest!: await_redirect_run intro: draw)
qed

lemma redeems_own_prefix:
  "redeems_own e tenant client requested tr rq \<Longrightarrow> redeems_own e tenant client requested (tr @ evs) rq"
  unfolding redeems_own_def by (metis prefix_prefix)

lemma browser_flow_run:
  assumes "run_state (run_browser_flow e tenant client requested) w = (r, w')"
  shows "\<exists>evs. trace w' = trace w @ evs \<and> length (filter sends evs) \<le> 1 \<and>
     (\<forall>rq. Sent rq \<in> set evs \<longrightarrow>
        redeems_own e tenant client requested (trace w') rq \<or> redeems_own e tenant client [] (trace w') rq) \<and>
     ((\<exists>m. r = Inl (SBrowserLaunchFailed m)) \<longrightarrow> filter sends evs = [])"
proof -
  obtain r1 w1 where 1: "run_state (run_browser_attempt e tenant client requested) w = (r1, w1)" by fastforce
  from browser_attempt_run [OF 1] obtain evs1 where w1: "trace w1 = trace w @ evs1"
    and evs1: "attempt_events e tenant client requested (trace w1) evs1 r1" by blast
  show ?thesis
  proof (cases "r1 = Inl SInvalidScope \<and> requested \<noteq> []")
    case False
    with assms 1 have "r = r1" "w' = w1" by (auto simp: run_browser_flow_def)
    with w1 evs1 show ?thesis by (auto simp: attempt_events_def)
  next
    case True
    then have none: "filter sends evs1 = []" using evs1 by (simp add: attempt_events_def)
    then have no: "Sent rq \<notin> set evs1" for rq by (auto simp: filter_empty_conv)
    obtain m where "run_state (run_browser_attempt e tenant client []) (w1\<lparr>trace := trace w1 @ [Stderr m]\<rparr>) = (r, w')"
      using assms 1 True by (auto simp: run_browser_flow_def stderr_line_def)
    from browser_attempt_run [OF this] obtain evs2 where
      "trace w' = trace w @ (evs1 @ [Stderr m] @ evs2)"
      and "attempt_events e tenant client [] (trace w') evs2 r" using w1 by auto
    with none no show ?thesis
      by (intro exI [of _ "evs1 @ [Stderr m] @ evs2"]) (auto simp: attempt_events_def)
  qed
qed

text \<open>
  C25. A browser sign-in cannot be completed with somebody else's redirect. However many times the
  browser is launched, at most one token request is sent, and it redeems a code that came, as the
  first request to the listener after a launch, with exactly the random state of that launch and
  without an error, using the verifier whose S256 challenge that launch's URL carried. With no such
  redirect nothing is redeemed.
\<close>

theorem redirect_bound_to_state:
  assumes "run_state (run_browser_flow e tenant client requested) w = (r, w')"
  shows "\<exists>evs. trace w' = trace w @ evs \<and> length (filter sends evs) \<le> 1 \<and>
     (\<forall>rq. Sent rq \<in> set evs \<longrightarrow>
        redeems_own e tenant client requested (trace w') rq \<or> redeems_own e tenant client [] (trace w') rq)"
  using browser_flow_run [OF assms] by blast

definition good_redirect :: loopback_event where
  "good_redirect = Redirected \<lparr>rq_code = Some (asc ''code''), rq_state = Some [98], rq_error = None\<rparr>"

lemma redirect_bound_to_state_witness:
  "\<exists>rq evs. trace (snd (run_state (run_browser_flow (sign_demo (demo_reply 200 []) [good_redirect]) [] [] []) world0)) = evs \<and>
     Sent rq \<in> set evs \<and> redeems_own (sign_demo (demo_reply 200 []) [good_redirect]) [] [] [] evs rq"
proof -
  let ?e = "sign_demo (demo_reply 200 []) [good_redirect]"
  let ?run = "run_state (run_browser_flow ?e [] [] []) world0"
  let ?rq = "form_post (token_endpoint ?e []) (redeem_params [] (asc ''code'') (redirect_uri_of 4000) [97])"
  from redirect_bound_to_state [OF prod.collapse [symmetric], of ?e "[]" "[]" "[]" world0]
  obtain evs where evs: "trace (snd ?run) = evs" "\<And>rq. Sent rq \<in> set evs \<Longrightarrow> redeems_own ?e [] [] [] (trace (snd ?run)) rq"
    by (auto simp: world0_def)
  have "Sent ?rq \<in> set (trace (snd ?run))" by code_simp
  with evs show ?thesis by blast
qed

end
