(* ===== verification/Startup.thy ===== *)
theory Startup
  imports SignIn Cli
begin

text \<open>
  From the command line to a serving process: the session half of \<open>src/auth/session.rs\<close> (status
  line), \<open>TokenManager::from_env\<close> and \<open>sign_in_user\<close> of \<open>src/auth.rs\<close>, \<open>AuditSink::open\<close> of
  \<open>src/audit.rs\<close>, the constructors of the API clients in \<open>src/client.rs\<close> and \<open>main\<close> of
  \<open>src/main.rs\<close> up to the point where it serves. \<open>clap\<close> hands over a \<open>cli_args\<close>; logging, the HTTP
  client and the transports are libraries.
\<close>

section \<open>The status line\<close>

definition strip_prefix :: "ustr \<Rightarrow> ustr \<Rightarrow> ustr option" where
  "strip_prefix p s = (if prefix p s then Some (drop (length p) s) else None)"

definition clean_scope_name :: "ustr \<Rightarrow> ustr" where
  "clean_scope_name s =
     (case or_else (strip_prefix (asc ''https://api.securitycenter.microsoft.com/'') s)
        (strip_prefix (asc ''https://graph.microsoft.com/'') s) of
       Some t \<Rightarrow> t | None \<Rightarrow> s)"

fun format_audience_section ::
  "'x sign_env_scheme \<Rightarrow> audience \<Rightarrow> consent_state option \<Rightarrow> ustr list \<Rightarrow> ustr" where
  "format_audience_section e aud (Some (Granted scopes expires)) requested =
     (let expires_str = (case timestamp_text e expires of
            Some t \<Rightarrow> t | None \<Rightarrow> show_int expires @ asc ''s'')
      in if scopes = [] then audience_str aud @ asc '': (expires '' @ expires_str @ asc '')''
         else audience_str aud @ asc '': '' @ join (asc '' '') (map clean_scope_name scopes)
                @ asc '' (expires '' @ expires_str @ asc '')'')"
| "format_audience_section e aud (Some (Missing aadsts)) requested =
     (let missing = map clean_scope_name (filter (prefix (resource_url aud @ asc ''/'')) requested)
      in audience_str aud @ asc '': consent missing''
           @ (case aadsts of Some code \<Rightarrow> asc '' (AADSTS'' @ show_nat code @ asc '')'' | None \<Rightarrow> [])
           @ (if missing \<noteq> [] then asc '' '' @ [8212] @ asc '' grant admin consent for ''
                @ join (asc '' '') missing else []))"
| "format_audience_section e aud None requested = audience_str aud @ asc '': not configured''"

definition format_status_line ::
  "'x sign_env_scheme \<Rightarrow> ustr \<Rightarrow> ustr \<Rightarrow> ustr list \<Rightarrow> (audience \<Rightarrow> consent_state option) \<Rightarrow> ustr" where
  "format_status_line e who tenant scopes consents =
     asc ''Signed in as '' @ who @ asc '' (tenant '' @ tenant @ asc '') | ''
     @ format_audience_section e Endpoint (consents Endpoint) scopes @ asc '' | ''
     @ format_audience_section e Graph (consents Graph) scopes"

section \<open>The token manager's constructors\<close>

text \<open>The part of a token manager that is fixed; what changes is in the \<open>world\<close>.\<close>

record token_manager =
  mgr_tenant :: ustr
  mgr_client :: ustr
  mgr_credential :: credential
  mgr_scopes :: "audience \<Rightarrow> ustr list option"

definition needed_var :: "'x env_scheme \<Rightarrow> string \<Rightarrow> ustr + ustr" where
  "needed_var e k = (case env_var e (asc k) of
     Some v \<Rightarrow> Inr v | None \<Rightarrow> Inl (asc k @ asc '' environment variable is required''))"

definition fresh_session ::
  "(audience \<Rightarrow> cached_token option) \<Rightarrow> (audience \<Rightarrow> consent_state option) \<Rightarrow> ustr \<Rightarrow> world \<Rightarrow> world" where
  "fresh_session tokens consents rt w =
     w\<lparr>cache := tokens, consent := consents, refresh_token := rt, reauth := None\<rparr>"

definition tm_from_env :: "'x env_scheme \<Rightarrow> (ustr + token_manager) io" where
  "tm_from_env e =
     (case needed_var e ''AZURE_TENANT_ID'' of
       Inl m \<Rightarrow> ret (Inl m)
     | Inr tenant \<Rightarrow>
         (case needed_var e ''AZURE_CLIENT_ID'' of
           Inl m \<Rightarrow> ret (Inl m)
         | Inr client \<Rightarrow>
             (case needed_var e ''AZURE_CLIENT_SECRET'' of
               Inl m \<Rightarrow> ret (Inl m)
             | Inr secret \<Rightarrow> do {
                 modify (fresh_session (\<lambda>a. None) (\<lambda>a. None) []);
                 ret (Inr \<lparr>mgr_tenant = tenant, mgr_client = client, mgr_credential = ClientSecret secret,
                   mgr_scopes = (\<lambda>a. Some [resource_url a @ asc ''/.default''])\<rparr>)
               })))"

text \<open>One refresh grant per audience: what the session starts with.\<close>

record grants =
  g_refresh :: ustr
  g_consent :: "audience \<Rightarrow> consent_state option"
  g_cache :: "audience \<Rightarrow> cached_token option"

definition consent_is_missing :: "refresh_error \<Rightarrow> bool" where
  "consent_is_missing err =
     (case as_endpoint_error err of
       Some ep \<Rightarrow> te_error ep = asc ''invalid_grant'' \<and> te_aadsts ep = Some 65001
     | None \<Rightarrow> False)"

definition record_grant :: "audience \<Rightarrow> refresh_success \<Rightarrow> int \<Rightarrow> grants \<Rightarrow> grants" where
  "record_grant aud ok expiry g =
     \<lparr>g_refresh = (case rs_refresh ok of Some rt \<Rightarrow> rt | None \<Rightarrow> g_refresh g),
      g_consent = (g_consent g)(aud \<mapsto> Granted (rs_scopes ok) expiry),
      g_cache = (g_cache g)(aud \<mapsto> \<lparr>tok = rs_access ok, expires_at = expiry\<rparr>)\<rparr>"

definition record_missing :: "audience \<Rightarrow> grants \<Rightarrow> grants" where
  "record_missing aud g = g\<lparr>g_consent := (g_consent g)(aud \<mapsto> Missing (Some 65001))\<rparr>"

fun grant_all ::
  "'x env_scheme \<Rightarrow> ustr \<Rightarrow> ustr \<Rightarrow> (audience \<Rightarrow> ustr list) \<Rightarrow> audience list \<Rightarrow> grants \<Rightarrow> (ustr + grants) io" where
  "grant_all e tenant client scopes [] g = ret (Inr g)"
| "grant_all e tenant client scopes (aud # auds) g = do {
     r \<leftarrow> refresh_token_grant e tenant client (g_refresh g) (scopes aud);
     case r of
       Inr ok \<Rightarrow> do {
         t \<leftarrow> now e;
         grant_all e tenant client scopes auds
           (record_grant aud ok (add_i64 (timestamp t) (as_i64 (rs_expires_in ok))) g)
       }
     | Inl err \<Rightarrow>
         if consent_is_missing err then grant_all e tenant client scopes auds (record_missing aud g)
         else ret (Inl (refresh_error_text e err))
   }"

fun is_missing :: "consent_state option \<Rightarrow> bool" where
  "is_missing (Some (Missing _)) = True"
| "is_missing _ = False"

definition all_resource_scopes :: "server_config \<Rightarrow> ustr list" where
  "all_resource_scopes c =
     push_new [] (compute_audience_scopes c Endpoint @ compute_audience_scopes c Graph)"

text \<open>From the claims on: the grants, then the session and its status line.\<close>

definition open_session ::
  "'x sign_env_scheme \<Rightarrow> server_config \<Rightarrow> ustr \<Rightarrow> ustr \<Rightarrow> id_token_claims \<Rightarrow> ustr \<Rightarrow> (ustr + token_manager) io" where
  "open_session e c tenant client claims rt = do {
     r \<leftarrow> grant_all e tenant client (compute_audience_scopes c) [Endpoint, Graph]
       \<lparr>g_refresh = rt, g_consent = (\<lambda>a. None), g_cache = (\<lambda>a. None)\<rparr>;
     case r of
       Inl m \<Rightarrow> ret (Inl m)
     | Inr g \<Rightarrow>
         if is_missing (g_consent g Endpoint) \<and> is_missing (g_consent g Graph)
         then ret (Inl (asc ''consent missing for both audiences''))
         else (let who = (case account_name claims of Some n \<Rightarrow> n | None \<Rightarrow> asc ''unknown'');
                   session_tenant = (case claim_tid claims of Some t \<Rightarrow> t | None \<Rightarrow> tenant)
               in do {
                 modify (fresh_session (g_cache g) (g_consent g) (g_refresh g));
                 stderr_line (format_status_line e who session_tenant (all_resource_scopes c) (g_consent g));
                 ret (Inr \<lparr>mgr_tenant = tenant, mgr_client = client,
                   mgr_credential = Delegated who session_tenant,
                   mgr_scopes = (\<lambda>a. Some (compute_audience_scopes c a))\<rparr>)
               })
   }"

definition sign_in_user ::
  "'x sign_env_scheme \<Rightarrow> nat \<Rightarrow> server_config \<Rightarrow> sign_in_flow \<Rightarrow> (ustr + token_manager) ending io" where
  "sign_in_user e fuel c fl =
     (case needed_var e ''AZURE_TENANT_ID'' of
       Inl m \<Rightarrow> ret (Ended (Inl m))
     | Inr tenant \<Rightarrow>
         (case needed_var e ''AZURE_CLIENT_ID'' of
           Inl m \<Rightarrow> ret (Ended (Inl m))
         | Inr client \<Rightarrow> do {
             r \<leftarrow> interactive_sign_in e fuel tenant client fl (all_resource_scopes c);
             case r of
               Panicked \<Rightarrow> ret Panicked
             | OutOfFuel \<Rightarrow> ret OutOfFuel
             | Ended (Inl err) \<Rightarrow> ret (Ended (Inl (failure_reason e err)))
             | Ended (Inr (claims, rt)) \<Rightarrow> as_ending (open_session e c tenant client claims rt)
           }))"

section \<open>The audit log\<close>

text \<open>The modes 0700 and 0600 are 448 and 384.\<close>

text \<open>
  \<open>Path::parent\<close> on Unix, on the reversed text: trailing separators and \<open>/.\<close> do not count, the
  root has no parent.
\<close>

fun trim_tail :: "ustr \<Rightarrow> ustr" where
  "trim_tail (c # s) =
     (if c = 47 then (if s = [] then [47] else trim_tail s)
      else if c = 46 \<and> s \<noteq> [] \<and> hd s = 47 then trim_tail s
      else c # s)"
| "trim_tail [] = []"

definition path_parent :: "ustr \<Rightarrow> ustr option" where
  "path_parent p =
     (let r = trim_tail (rev p) in
      if r = [] \<or> r = [47] then None
      else Some (rev (trim_tail (dropWhile (\<lambda>c. c \<noteq> 47) r))))"

lemma path_parent_examples:
  "path_parent (asc ''/var/log/audit.jsonl'') = Some (asc ''/var/log'')"
  "path_parent (asc ''audit.jsonl'') = Some []" "path_parent (asc ''/'') = None"
  "path_parent (asc ''a/./b/'') = Some (asc ''a'')"
  by code_simp+

record start_env = sign_env +
  path_exists :: "event list \<Rightarrow> ustr \<Rightarrow> bool"

text \<open>One file operation after another; the first error ends them.\<close>

fun file_steps :: "'x env_scheme \<Rightarrow> file_op list \<Rightarrow> (ustr + unit) io" where
  "file_steps e [] = ret (Inr ())"
| "file_steps e (f # fs) = do {
     r \<leftarrow> file_effect e f;
     case r of Inl m \<Rightarrow> ret (Inl m) | Inr _ \<Rightarrow> file_steps e fs
   }"

definition open_sink :: "'x start_env_scheme \<Rightarrow> ustr \<Rightarrow> (ustr + unit) io" where
  "open_sink e path = do {
     h \<leftarrow> gets trace;
     file_steps e
       ((case path_parent path of
          Some dir \<Rightarrow>
            if dir = [] then []
            else CreateDirs dir # (if path_exists e h dir then [] else [SetMode dir 448])
        | None \<Rightarrow> [])
        @ [OpenAppend path 384, SetMode path 384])
   }"

section \<open>From the command line to a server\<close>

record cli_args = cli +
  tool_mode_tombstone :: "ustr option"
  cli_allowed_hosts :: "ustr list"

text \<open>
  What \<open>main\<close> comes to: an exit with a status, a panic, still signing in when the turns given to the
  device-code flow are used up, or serving. Over HTTP, \<open>host_check\<close> is which \<open>Host\<close> values are accepted.
\<close>

datatype host_check = LoopbackHosts | AnyHost | OnlyHosts "ustr list"

datatype started =
    Exits nat
  | Crashes
  | Waiting
  | ServesStdio server
  | ServesHttp server host_check

definition host_check_of :: "ustr list \<Rightarrow> host_check" where
  "host_check_of hosts =
     (if asc ''*'' \<in> set hosts then AnyHost
      else if hosts \<noteq> [] then OnlyHosts hosts
      else LoopbackHosts)"

definition serve :: "ustr list \<Rightarrow> server \<Rightarrow> started" where
  "serve hosts s =
     (case transport (config s) of Http \<Rightarrow> ServesHttp s (host_check_of hosts) | Stdio \<Rightarrow> ServesStdio s)"

fun serving :: "started \<Rightarrow> server option" where
  "serving (ServesStdio s) = Some s"
| "serving (ServesHttp s h) = Some s"
| "serving _ = None"

definition warn_if_non_loopback :: "ustr \<Rightarrow> unit io" where
  "warn_if_non_loopback a =
     (if \<not> is_loopback_address a
      then stderr_line (asc ''SECURITY WARNING: HTTP transport is bound to '' @ sq a
        @ asc '', which is not a loopback address. The streamable HTTP transport has no built-in authentication or encryption; expose it only behind an authenticated reverse proxy or encrypted network boundary.'')
      else ret ())"

definition when_do :: "bool \<Rightarrow> unit io \<Rightarrow> unit io" where
  "when_do b m = (if b then m else ret ())"

definition graph_base_url :: "'x env_scheme \<Rightarrow> ustr" where
  "graph_base_url e = (case env_var e (asc ''GRAPH_BASE_URL'') of
     Some u \<Rightarrow> u | None \<Rightarrow> asc ''https://graph.microsoft.com/v1.0'')"

definition endpoint_base_url :: "'x env_scheme \<Rightarrow> ustr" where
  "endpoint_base_url e = (case env_var e (asc ''DEFENDER_ENDPOINT_BASE_URL'') of
     Some u \<Rightarrow> u | None \<Rightarrow> asc ''https://api.securitycenter.microsoft.com'')"

definition make_server :: "'x env_scheme \<Rightarrow> server_config \<Rightarrow> bool \<Rightarrow> token_manager \<Rightarrow> server" where
  "make_server e c sink tm =
     \<lparr>config = c, tm_tenant = mgr_tenant tm, tm_client = mgr_client tm, credential = mgr_credential tm,
      audience_scopes = mgr_scopes tm, graph_base = graph_base_url e,
      endpoint_base = endpoint_base_url e, audit_sink = sink\<rparr>"

definition clean_hosts :: "ustr list \<Rightarrow> ustr list" where
  "clean_hosts hs = filter (\<lambda>h. h \<noteq> []) (map trim hs)"

definition enablement_given :: "'x cli_scheme \<Rightarrow> bool" where
  "enablement_given a \<longleftrightarrow> enable_live_response a \<or> enable_device_response a \<or> enable_offboarding a
     \<or> enable_indicators a \<or> enable_triage a"

text \<open>The notices before anything is opened.\<close>

definition notices :: "'x cli_scheme \<Rightarrow> server_config \<Rightarrow> unit io" where
  "notices a c = do {
     when_do (cli_read_only a \<and> enablement_given a)
       (stderr_line (asc ''NOTE: --read-only overrides --enable-'' @ [8230] @ asc ''; no mutating tools are exposed.''));
     when_do (any_category (categories c) \<and> \<not> confirm_destructive c)
       (stderr_line (asc ''WARNING: human confirmation for destructive actions is turned OFF; destructive tools run without a confirmation prompt and the audit log records each one as unconfirmed.''));
     when_do (transport c = Http) (warn_if_non_loopback (bind_address c))
   }"

definition token_manager_for ::
  "'x sign_env_scheme \<Rightarrow> nat \<Rightarrow> server_config \<Rightarrow> (ustr + token_manager) ending io" where
  "token_manager_for e fuel c =
     (case auth c of
       AppAuth \<Rightarrow> do {
         r \<leftarrow> tm_from_env e;
         ret (Ended (case r of Inl m \<Rightarrow> Inl (asc ''Error: Configuration error: '' @ m) | Inr tm \<Rightarrow> Inr tm))
       }
     | UserAuth fl \<Rightarrow> do {
         r \<leftarrow> sign_in_user e fuel c fl;
         case r of
           Ended (Inr tm) \<Rightarrow> do {
             (case mgr_credential tm of
               Delegated who _ \<Rightarrow> when_do (transport c = Http)
                 (stderr_line (asc ''SECURITY WARNING: every HTTP client connected to this server acts as ''
                    @ who @ asc '' with that user'' @ [39] @ asc ''s Defender rights; run one server per analyst for per-person attribution.''))
             | ClientSecret _ \<Rightarrow> ret ());
             ret (Ended (Inr tm))
           }
         | Ended (Inl m) \<Rightarrow> ret (Ended (Inl (asc ''Sign-in not completed: '' @ m @ asc ''. The server did not start.'')))
         | Panicked \<Rightarrow> ret Panicked
         | OutOfFuel \<Rightarrow> ret OutOfFuel
       })"

definition open_audit :: "'x start_env_scheme \<Rightarrow> server_config \<Rightarrow> (ustr + bool) io" where
  "open_audit e c =
     (if any_category (categories c) \<or> is_explicit (audit_log c) then do {
        r \<leftarrow> open_sink e (log_path (audit_log c));
        ret (case r of
          Inr u \<Rightarrow> Inr True
        | Inl m \<Rightarrow> Inl (asc ''Audit log '' @ sq (log_path (audit_log c)) @ asc '' is not writable: '' @ m
                        @ asc ''; set --audit-log to a writable path''))
      } else ret (Inr False))"

definition exit_with :: "ustr \<Rightarrow> started io" where
  "exit_with m = do { stderr_line m; ret (Exits 1) }"

text \<open>Once the arguments are accepted: notices, audit log, sign-in, server.\<close>

definition start_configured ::
  "'x start_env_scheme \<Rightarrow> nat \<Rightarrow> 'y cli_scheme \<Rightarrow> server_config \<Rightarrow> ustr list \<Rightarrow> started io" where
  "start_configured e fuel a c hosts = do {
     notices a c;
     sink \<leftarrow> open_audit e c;
     case sink of
       Inl m \<Rightarrow> exit_with m
     | Inr opened \<Rightarrow> do {
         r \<leftarrow> token_manager_for e fuel c;
         case r of
           Ended (Inl m) \<Rightarrow> exit_with m
         | Ended (Inr tm) \<Rightarrow> ret (serve hosts (make_server e c opened tm))
         | Panicked \<Rightarrow> ret Crashes
         | OutOfFuel \<Rightarrow> ret Waiting
       }
   }"

definition main_start :: "'x start_env_scheme \<Rightarrow> nat \<Rightarrow> cli_args \<Rightarrow> started io" where
  "main_start e fuel a =
     (if tool_mode_tombstone a \<noteq> None \<or> env_var e (asc ''DEFENDER_TOOL_MODE'') \<noteq> None then
        exit_with (asc ''--tool-mode was removed in 1.0.0: granular mode no longer exists; the server always exposes domain tools (see the migration table)'')
      else if cli_auth_mode a = AppMode \<and> cli_sign_in_flow a \<noteq> None then
        exit_with (asc ''--sign-in-flow requires --auth-mode user'')
      else (case validate_credentials (env_var e) (cli_auth_mode a) of
          Inl m \<Rightarrow> exit_with (asc ''Configuration error: '' @ m)
        | Inr u \<Rightarrow> do {
            when_do (cli_auth_mode a = UserMode \<and> env_var e (asc ''AZURE_CLIENT_SECRET'') \<noteq> None)
              (stderr_line (asc ''NOTE: AZURE_CLIENT_SECRET is ignored in --auth-mode user.''));
            start_configured e fuel a (from_cli (env_var e) (cli.truncate a)) (clean_hosts (cli_allowed_hosts a))
          }))"

section \<open>Facts\<close>

lemma serving_serve [simp]: "serving (serve hosts s) = Some s"
  by (simp add: serve_def split: transport_mode.split)

text \<open>
  What holds of the session of a running server: an application has no consent state and never
  has to sign in again; a user's session has a consent state for each audience, and scopes.
\<close>

definition session_ok :: "server \<Rightarrow> world \<Rightarrow> bool" where
  "session_ok s w \<longleftrightarrow>
     (\<forall>a. audience_scopes s a \<noteq> None) \<and>
     (if is_delegated s then \<forall>a. consent w a \<noteq> None
      else reauth w = None \<and> (\<forall>a. consent w a = None))"

text \<open>What the sign-in leaves besides: tokens exactly of the audiences that were granted, at least one.\<close>

definition freshly_signed_in :: "world \<Rightarrow> bool" where
  "freshly_signed_in w \<longleftrightarrow> reauth w = None \<and>
     (\<forall>a. cache w a \<noteq> None \<longleftrightarrow> \<not> is_missing (consent w a)) \<and>
     (\<exists>a. \<not> is_missing (consent w a))"

definition managed :: "auth_config \<Rightarrow> token_manager \<Rightarrow> world \<Rightarrow> bool" where
  "managed ac tm w \<longleftrightarrow> (\<forall>a. mgr_scopes tm a \<noteq> None) \<and> reauth w = None \<and>
     (case ac of
       AppAuth \<Rightarrow> (\<exists>k. mgr_credential tm = ClientSecret k) \<and> (\<forall>a. consent w a = None)
     | UserAuth fl \<Rightarrow> (\<exists>who tenant. mgr_credential tm = Delegated who tenant) \<and>
         (\<forall>a. consent w a \<noteq> None) \<and> freshly_signed_in w)"

lemma managed_trace [simp]: "managed ac tm (trace_update f w) = managed ac tm w"
  by (simp add: managed_def freshly_signed_in_def split: auth_config.split)

lemma grant_all_step:
  "run_state (grant_all e tenant client scopes auds g) w = (Inr g', w') \<Longrightarrow>
     (\<forall>a. g_cache g a \<noteq> None \<longleftrightarrow> g_consent g a \<noteq> None \<and> \<not> is_missing (g_consent g a)) \<Longrightarrow>
     distinct auds \<Longrightarrow> (\<forall>a\<in>set auds. g_consent g a = None) \<Longrightarrow>
     (\<forall>a. g_cache g' a \<noteq> None \<longleftrightarrow> g_consent g' a \<noteq> None \<and> \<not> is_missing (g_consent g' a)) \<and>
     (\<forall>a. g_consent g' a \<noteq> None \<longleftrightarrow> g_consent g a \<noteq> None \<or> a \<in> set auds)"
proof (induction auds arbitrary: g w)
  case (Cons aud auds)
  obtain r w1 where 1: "run_state (refresh_token_grant e tenant client (g_refresh g) (scopes aud)) w = (r, w1)"
    by fastforce
  show ?case
  proof (cases r)
    case (Inr ok)
    obtain x where x: "run_state (grant_all e tenant client scopes auds (record_grant aud ok x g))
        (w1\<lparr>reads := Suc (reads w1)\<rparr>) = (Inr g', w')"
      using Cons.prems(1) 1 Inr by simp
    have "(\<forall>a. g_cache g' a \<noteq> None \<longleftrightarrow> g_consent g' a \<noteq> None \<and> \<not> is_missing (g_consent g' a)) \<and>
     (\<forall>a. g_consent g' a \<noteq> None \<longleftrightarrow> g_consent (record_grant aud ok x g) a \<noteq> None \<or> a \<in> set auds)"
      by (rule Cons.IH [OF x]) (use Cons.prems(2-) in \<open>auto simp: record_grant_def\<close>)
    then show ?thesis by (auto simp: record_grant_def)
  next
    case (Inl err)
    then have x: "run_state (grant_all e tenant client scopes auds (record_missing aud g)) w1 = (Inr g', w')"
      using Cons.prems(1) 1 by (simp split: if_splits)
    have "(\<forall>a. g_cache g' a \<noteq> None \<longleftrightarrow> g_consent g' a \<noteq> None \<and> \<not> is_missing (g_consent g' a)) \<and>
     (\<forall>a. g_consent g' a \<noteq> None \<longleftrightarrow> g_consent (record_missing aud g) a \<noteq> None \<or> a \<in> set auds)"
      by (rule Cons.IH [OF x]) (use Cons.prems(2-) in \<open>auto simp: record_missing_def\<close>)
    then show ?thesis by (auto simp: record_missing_def)
  qed
qed simp

lemma all_audiences: "(\<forall>a. P a) \<longleftrightarrow> P Endpoint \<and> P Graph"
  by (metis audience.exhaust)

lemma open_session_run:
  assumes "run_state (open_session e c tenant client claims rt) w = (Inr tm, w')"
  shows "managed (UserAuth fl) tm w'"
proof -
  let ?start = "\<lparr>g_refresh = rt, g_consent = (\<lambda>a. None), g_cache = (\<lambda>a. None)\<rparr>"
  obtain g w1 where 1: "run_state (grant_all e tenant client (compute_audience_scopes c) [Endpoint, Graph] ?start) w = (Inr g, w1)"
    using assms by (fastforce simp: open_session_def simp del: grant_all.simps split: prod.splits sum.splits)
  have g: "(\<forall>a. g_cache g a \<noteq> None \<longleftrightarrow> g_consent g a \<noteq> None \<and> \<not> is_missing (g_consent g a)) \<and>
     (\<forall>a. g_consent g a \<noteq> None)"
    using grant_all_step [OF 1] by (auto simp: all_audiences)
  have some: "\<exists>a. \<not> is_missing (g_consent g a)"
    using assms 1 by (auto simp: open_session_def simp del: grant_all.simps split: if_splits)
  then have tm: "mgr_scopes tm = (\<lambda>a. Some (compute_audience_scopes c a))"
      "\<exists>who t. mgr_credential tm = Delegated who t"
      "cache w' = g_cache g" "consent w' = g_consent g" "reauth w' = None"
    using assms 1 by (auto simp: open_session_def Let_def fresh_session_def stderr_line_def
        simp del: grant_all.simps split: if_splits)
  with g some show ?thesis
    unfolding managed_def freshly_signed_in_def by (simp del: not_None_eq)
qed

lemma token_manager_run:
  assumes "run_state (token_manager_for e fuel c) w = (Ended (Inr tm), w')"
  shows "managed (auth c) tm w'"
proof (cases "auth c")
  case AppAuth
  with assms show ?thesis
    by (auto simp: token_manager_for_def tm_from_env_def fresh_session_def managed_def split: sum.splits)
next
  case (UserAuth fl)
  have same: "\<exists>f. w1 = trace_update f w1" for w1 :: world by (rule exI [of _ "\<lambda>x. x"]) simp
  obtain r w1 where 1: "run_state (sign_in_user e fuel c fl) w = (r, w1)" by fastforce
  with UserAuth assms have r: "r = Ended (Inr tm)"
    by (auto simp: token_manager_for_def split: ending.splits sum.splits prod.splits)
  from 1 UserAuth assms have w': "\<exists>f. w' = trace_update f w1"
    unfolding r using same [of w1] same [of w']
    by (cases "mgr_credential tm") (auto simp: token_manager_for_def when_do_def stderr_line_def split: if_splits)
  note 1 = 1 [unfolded r]
  from 1 obtain tenant client claims rt w2 where
    "run_state (open_session e c tenant client claims rt) w2 = (Inr tm, w1)"
    by (auto simp: sign_in_user_def split: sum.splits prod.splits ending.splits) (metis prod.collapse)
  from open_session_run [OF this] w' UserAuth show ?thesis by auto
qed

lemma file_steps_frame:
  "run_state (file_steps e fs) w = (r, w') \<Longrightarrow> \<exists>f. w' = trace_update f w"
proof (induction fs arbitrary: w)
  case Nil
  then have "w' = trace_update (\<lambda>x. x) w" by simp
  then show ?case by blast
next
  case (Cons f fs)
  let ?w = "w\<lparr>trace := trace w @ [Filed f]\<rparr>"
  show ?case
  proof (cases "file_io e (trace w) f")
    case (Inl m)
    with Cons.prems have "w' = ?w" by simp
    then show ?thesis by blast
  next
    case (Inr u)
    with Cons.prems have "run_state (file_steps e fs) ?w = (r, w')" by simp
    then have "\<exists>f. w' = trace_update f ?w" by (rule Cons.IH)
    then obtain g where "w' = trace_update g ?w" by blast
    then have "w' = trace_update (\<lambda>t. g (trace w @ [Filed f])) w" by simp
    then show ?thesis by blast
  qed
qed

lemma serving_start:
  assumes "run_state (start_configured e fuel a c hosts) w = (st, w')" and "serving st = Some s"
  shows "\<exists>tm opened. s = make_server e c opened tm \<and> managed (auth c) tm w' \<and>
     (opened \<longleftrightarrow> any_category (categories c) \<or> is_explicit (audit_log c))"
proof -
  obtain w1 where 1: "run_state (notices a c) w = ((), w1)" by (metis old.unit.exhaust surj_pair)
  obtain sink w2 where 2: "run_state (open_audit e c) w1 = (sink, w2)" by fastforce
  obtain opened where sink: "sink = Inr opened"
    using assms 1 2 by (cases sink) (auto simp: start_configured_def exit_with_def stderr_line_def)
  obtain r w3 where 3: "run_state (token_manager_for e fuel c) w2 = (r, w3)" by fastforce
  obtain tm where r: "r = Ended (Inr tm)" and "w' = w3" "s = make_server e c opened tm"
    using assms 1 2 3 sink
    by (auto simp: start_configured_def exit_with_def stderr_line_def split: ending.splits sum.splits)
  moreover have "opened \<longleftrightarrow> any_category (categories c) \<or> is_explicit (audit_log c)"
    using 2 sink by (auto simp: open_audit_def split: if_splits sum.splits prod.splits)
  ultimately show ?thesis using token_manager_run [OF 3 [unfolded r]] by blast
qed

lemma make_server_simps [simp]:
  "config (make_server e c b tm) = c" "audit_sink (make_server e c b tm) = b"
  "credential (make_server e c b tm) = mgr_credential tm"
  "audience_scopes (make_server e c b tm) = mgr_scopes tm"
  by (simp_all add: make_server_def)

lemma managed_session:
  "managed (auth c) tm w \<Longrightarrow> session_ok (make_server e c b tm) w"
  by (auto simp: managed_def session_ok_def is_delegated_def auth_kind_of_def split: auth_config.splits)

lemma started_server:
  assumes "run_state (main_start e fuel a) w = (st, w')" and "serving st = Some s"
  shows "config s = from_cli (env_var e) (cli.truncate a) \<and>
     (audit_sink s \<longleftrightarrow> any_category (categories (config s)) \<or> is_explicit (audit_log (config s))) \<and>
     (is_delegated s \<longleftrightarrow> cli_auth_mode a = UserMode) \<and> session_ok s w' \<and>
     (is_delegated s \<longrightarrow> freshly_signed_in w')"
proof -
  let ?c = "from_cli (env_var e) (cli.truncate a)"
  from assms obtain w0 where "run_state (start_configured e fuel a ?c (clean_hosts (cli_allowed_hosts a))) w0 = (st, w')"
    by (auto simp: main_start_def exit_with_def split: if_splits sum.splits prod.splits)
  from serving_start [OF this assms(2)] obtain tm opened where
    s: "s = make_server e ?c opened tm" and m: "managed (auth ?c) tm w'"
    and op: "opened \<longleftrightarrow> any_category (categories ?c) \<or> is_explicit (audit_log ?c)" by blast
  have mode: "auth ?c = (case cli_auth_mode a of AppMode \<Rightarrow> AppAuth
      | UserMode \<Rightarrow> UserAuth (case cli_sign_in_flow a of Some f \<Rightarrow> f | None \<Rightarrow> Auto))"
    by (simp add: from_cli_def cli.defs split: auth_mode.split)
  have "(is_delegated s \<longleftrightarrow> cli_auth_mode a = UserMode) \<and> (is_delegated s \<longrightarrow> freshly_signed_in w')"
    using m s mode
    by (cases "cli_auth_mode a") (auto simp: managed_def is_delegated_def auth_kind_of_def)
  with s op managed_session [OF m, of e opened] show ?thesis by simp
qed

lemma start_session:
  assumes "run_state (main_start e fuel a) w = (st, w')" and "serving st = Some s"
  shows "session_ok s w'"
  using started_server [OF assms] by blast

section \<open>A concrete start\<close>

text \<open>A user who signs in with the browser, and only indicators enabled.\<close>

definition start_demo :: start_env where
  "start_demo = sign_env.extend
     ((sign_demo (demo_reply 200 []) [good_redirect])\<lparr>
       env_var := \<lambda>k. if k = asc ''AZURE_TENANT_ID'' then Some (asc ''tenant'')
         else if k = asc ''AZURE_CLIENT_ID'' then Some (asc ''client'') else None,
       url_with_query := \<lambda>base ps. Inr base\<rparr>)
     \<lparr>path_exists = \<lambda>h p. True\<rparr>"

definition demo_args :: cli_args where
  "demo_args = cli.extend
     (demo_cli\<lparr>cli_read_only := False, enable_live_response := False, enable_device_response := False,
        enable_offboarding := False, enable_triage := False, cli_auth_mode := UserMode,
        cli_sign_in_flow := Some Browser\<rparr>)
     \<lparr>tool_mode_tombstone = None, cli_allowed_hosts = [asc '' mcp '', asc '' '']\<rparr>"

definition demo_start :: "started \<times> world" where
  "demo_start = run_state (main_start start_demo 0 demo_args) world0"

lemma demo_serves: "\<exists>s. serving (fst demo_start) = Some s \<and> is_delegated s \<and> audit_sink s"
proof -
  have "(case fst demo_start of ServesStdio s \<Rightarrow> True | _ \<Rightarrow> False)"
    unfolding demo_start_def by code_simp
  then obtain s where s: "serving (fst demo_start) = Some s" by (auto split: started.splits)
  have "any_category (categories (from_cli (env_var start_demo) (cli.truncate demo_args)))"
    and "cli_auth_mode demo_args = UserMode" by code_simp+
  with started_server [OF prod.collapse [symmetric] s [unfolded demo_start_def]] s show ?thesis by auto
qed

section \<open>Properties\<close>

text \<open>
  C9. Start-up brings a server into being only in a consistent state: its configuration is the one
  the command line resolves to; whenever a mutating tool is enabled, or the audit log's path was
  given, the audit log is open; the credential is a user's session exactly in user mode, its
  session state is well formed; and a user's session starts with a token of exactly the audiences
  that were granted, at least one.
\<close>

theorem server_starts_ok:
  assumes "run_state (main_start e fuel a) w = (st, w')" and "serving st = Some s"
  shows "config s = from_cli (env_var e) (cli.truncate a) \<and>
     (audit_sink s \<longleftrightarrow> any_category (categories (config s)) \<or> is_explicit (audit_log (config s))) \<and>
     (is_delegated s \<longleftrightarrow> cli_auth_mode a = UserMode) \<and> session_ok s w' \<and>
     (is_delegated s \<longrightarrow> freshly_signed_in w')"
  using started_server [OF assms] .

lemma server_starts_ok_witness:
  "\<exists>s. serving (fst demo_start) = Some s \<and> audit_sink s \<and> is_delegated s \<and>
     session_ok s (snd demo_start) \<and> freshly_signed_in (snd demo_start)"
proof -
  obtain s where s: "serving (fst demo_start) = Some s" "is_delegated s" "audit_sink s"
    using demo_serves by blast
  from server_starts_ok [OF prod.collapse [symmetric] s(1) [unfolded demo_start_def]] s
  show ?thesis unfolding demo_start_def by blast
qed

end
