(* ===== verification/Lifetime.thy ===== *)
theory Lifetime
  imports Server Startup
begin

text \<open>
  The life of a server: it starts as \<open>main\<close> starts it and then answers calls, one after another.
  \<open>keeps s m\<close> says that the computation \<open>m\<close> moves the mutable state only along \<open>session_step\<close>; it is
  proved for every effectful function a call can reach, so it holds of \<open>call_tool\<close>, and an invariant
  of the session holds in every state of a server's life.
\<close>

section \<open>How the state may move\<close>

definition session_step :: "server \<Rightarrow> world \<Rightarrow> world \<Rightarrow> bool" where
  "session_step s w w' \<longleftrightarrow>
     (\<forall>r. reauth w = Some r \<longrightarrow> reauth w' = Some r) \<and>
     (is_delegated s \<or> (reauth w' = reauth w \<and> consent w' = consent w)) \<and>
     (\<forall>a. consent w a \<noteq> None \<longrightarrow> consent w' a \<noteq> None) \<and>
     (\<forall>a. is_missing (consent w a) \<longrightarrow> is_missing (consent w' a)) \<and>
     (\<forall>a. cache w a \<noteq> None \<longrightarrow> cache w' a \<noteq> None) \<and>
     (map_ok (schemas w) \<longrightarrow> map_ok (schemas w')) \<and>
     prefix (trace w) (trace w')"

lemma session_step_refl [simp]: "session_step s w w"
  by (simp add: session_step_def)

lemma session_step_trans: "session_step s w w' \<Longrightarrow> session_step s w' w'' \<Longrightarrow> session_step s w w''"
  unfolding session_step_def by (auto intro: prefix_order.trans)

lemma session_step_trace [simp]: "session_step s w (w\<lparr>trace := trace w @ evs\<rparr>)"
  "session_step s w (w\<lparr>reads := n\<rparr>)"
  by (simp_all add: session_step_def)

definition keeps :: "server \<Rightarrow> 'a io \<Rightarrow> bool" where
  "keeps s m \<longleftrightarrow> (\<forall>w. session_step s w (snd (run_state m w)))"

named_theorems keeps_rules "computations that keep the session"

lemma keeps_ret [keeps_rules]: "keeps s (ret a)"
  by (simp add: keeps_def)

lemma keeps_bind [keeps_rules]:
  "keeps s m \<Longrightarrow> (\<And>a. keeps s (f a)) \<Longrightarrow> keeps s (do { a \<leftarrow> m; f a })"
  unfolding keeps_def by (auto split: prod.splits) (metis session_step_trans snd_conv)

lemma keeps_effects [keeps_rules]:
  "keeps s (emit ev)" "keeps s (now e)" "keeps s (instant e)" "keeps s (random_bytes e)"
  "keeps s (send e rq)" "keeps s (file_effect e f)" "keeps s (gets g)" "keeps s (stderr_line m)"
  "keeps s (new_attempt_id e)" "keeps s (ask e m)"
  by (simp_all add: keeps_def stderr_line_def)

lemma keeps_append [keeps_rules]: "keeps s (sink_append e r)"
  by (auto simp: keeps_def sink_append_def split: sum.split)

lemma keeps_cases [keeps_rules]:
  "(c \<Longrightarrow> keeps s m) \<Longrightarrow> (\<not> c \<Longrightarrow> keeps s n) \<Longrightarrow> keeps s (if c then m else n)"
  "(\<And>x. keeps s (f x)) \<Longrightarrow> (\<And>y. keeps s (g y)) \<Longrightarrow> keeps s (case r of Inl x \<Rightarrow> f x | Inr y \<Rightarrow> g y)"
  "keeps s m \<Longrightarrow> (\<And>x. keeps s (f x)) \<Longrightarrow> keeps s (case v of None \<Rightarrow> m | Some x \<Rightarrow> f x)"
  "(\<And>x y. keeps s (h x y)) \<Longrightarrow> keeps s (case p of (x, y) \<Rightarrow> h x y)"
  "(\<And>x. keeps s (f x)) \<Longrightarrow> keeps s (let x = t in f x)"
  by (simp_all split: sum.split option.split prod.split)

section \<open>Tokens\<close>

lemma keeps_modify: "(\<And>w. session_step s w (f w)) \<Longrightarrow> keeps s (modify f)"
  by (simp add: keeps_def)

lemma keeps_once: "is_delegated s \<Longrightarrow> keeps s (modify (once_reauth r))"
  by (rule keeps_modify) (auto simp: session_step_def once_reauth_def split: option.split)

lemma keeps_set_reauth [keeps_rules]: "keeps s (set_reauth s r)"
  by (simp add: set_reauth_def keeps_ret keeps_once)

lemma keeps_store [keeps_rules]: "keeps s (store_token aud ct)"
  unfolding store_token_def by (rule keeps_modify) (simp add: session_step_def)

lemma keeps_refresh_token: "keeps s (modify (\<lambda>w. w\<lparr>refresh_token := rt\<rparr>))"
  by (rule keeps_modify) (simp add: session_step_def)

lemma keeps_refresh_failed: "is_delegated s \<Longrightarrow> keeps s (refresh_failed e s aud err)"
proof -
  assume d: "is_delegated s"
  have consent: "keeps s (modify (\<lambda>w. w\<lparr>consent := (consent w)(aud \<mapsto> Missing c)\<rparr>))" for c
    by (rule keeps_modify) (use d in \<open>simp add: session_step_def\<close>)
  show ?thesis
    unfolding refresh_failed_def
    by (cases "refresh_verdict err") (simp_all add: keeps_bind keeps_ret keeps_once consent d)
qed

lemma keeps_refresh_succeeded [keeps_rules]: "keeps s (refresh_succeeded e aud ok)"
  unfolding refresh_succeeded_def by (intro keeps_rules keeps_refresh_token)

lemma keeps_grants [keeps_rules]:
  "keeps s (refresh_token_grant e tenant client rt scopes)" "keeps s (fetch_app_token e s aud secret)"
  "keeps s (cached e aud)"
  unfolding refresh_token_grant_def fetch_app_token_def cached_def by (intro keeps_rules)+

lemma keeps_renew [keeps_rules]: "keeps s (renew e s aud)"
proof (cases "credential s")
  case (ClientSecret k)
  then show ?thesis unfolding renew_def by (simp, intro keeps_rules)
next
  case (Delegated who tenant)
  then have "is_delegated s" by (simp add: is_delegated_def auth_kind_of_def)
  with Delegated show ?thesis unfolding renew_def by (simp, intro keeps_rules keeps_refresh_failed)
qed

lemma keeps_get_token [keeps_rules]: "keeps s (get_token e s aud)"
  unfolding get_token_def by (intro keeps_rules)

section \<open>API clients and downloads\<close>

lemma keeps_authenticated [keeps_rules]:
  "(\<And>resp. keeps s (k resp)) \<Longrightarrow> keeps s (authenticated e s aud rq path k)"
  unfolding authenticated_def by (intro keeps_rules)

lemma keeps_requests [keeps_rules]:
  "keeps s (read_json e s resp path cat)" "keeps s (request_mutation e s aud m path query body cat)"
  "keeps s (request e s aud m path query body cat)"
  unfolding request_def request_mutation_def read_json_def by (intro keeps_rules)+

lemma keeps_explained [keeps_rules]: "keeps s (post_explained e s aud path body cat)"
  unfolding post_explained_def by (intro keeps_rules)

lemma keeps_client [keeps_rules]:
  "keeps s (graph_get_as e s path q cat)" "keeps s (graph_get e s path q)"
  "keeps s (graph_get_with_odata_as e s path od cat)" "keeps s (graph_get_with_odata e s path od)"
  "keeps s (graph_post_as e s path body cat)" "keeps s (graph_post e s path body)"
  "keeps s (graph_post_explained e s path body)"
  "keeps s (graph_patch_as e s path body cat)" "keeps s (graph_patch e s path body)"
  "keeps s (graph_delete_as e s path cat)" "keeps s (graph_delete e s path)"
  "keeps s (endpoint_get_as e s path q cat)" "keeps s (endpoint_get e s path q)"
  "keeps s (endpoint_get_with_odata_as e s path od cat)" "keeps s (endpoint_get_with_odata e s path od)"
  "keeps s (endpoint_post_as e s path body cat)" "keeps s (endpoint_post e s path body)"
  "keeps s (endpoint_patch_as e s path body cat)" "keeps s (endpoint_patch e s path body)"
  "keeps s (endpoint_delete_as e s path cat)" "keeps s (endpoint_delete e s path)"
  unfolding client_defs by (intro keeps_rules)+

lemma keeps_chunks [keeps_rules]: "keeps s (write_chunks e path cs)"
  by (induction e path cs rule: write_chunks.induct) (simp_all add: keeps_rules)

lemma keeps_download [keeps_rules]:
  "keeps s (stream_to_file e resp path)" "keeps s (write_artifact e resp path a h)"
  "keeps s (download_artifact e s url dir name a h)"
  unfolding download_artifact_def write_artifact_def stream_to_file_def by (intro keeps_rules)+

section \<open>The read tools\<close>

lemma keeps_handler_parts [keeps_rules]:
  "(\<And>v. keeps s (k v)) \<Longrightarrow> keeps s (valid_then r k)"
  "keeps s m \<Longrightarrow> keeps s (unless_blocked s a m)"
  "(\<And>p. keeps s (h p)) \<Longrightarrow> keeps s (call_action e ty fs h args)"
  "keeps s (m' :: (call_tool_result + json) io) \<Longrightarrow> keeps s (answered m')"
  by (auto simp: valid_then_def unless_blocked_def call_action_def answered_def intro!: keeps_bind
      split: sum.split option.split intro: keeps_ret)

lemma keeps_refusing [keeps_rules]: "keeps s m \<Longrightarrow> keeps s (refusing a fs m)"
  by (induction a fs m rule: refusing.induct) (simp_all add: keeps_ret)

lemma keeps_match [keeps_rules]:
  "list_all (\<lambda>(n, m). keeps s m) rows \<Longrightarrow> keeps s other \<Longrightarrow> keeps s (match_action rows other a)"
  by (induction rows other a rule: match_action.induct) auto

lemma keeps_rows [keeps_rules]:
  "list_all (\<lambda>(n, m). keeps s m) []"
  "keeps s m \<Longrightarrow> list_all (\<lambda>(n, m). keeps s m) rows \<Longrightarrow> list_all (\<lambda>(n, m). keeps s m) ((n, m) # rows)"
  by simp_all

lemma keeps_gets [keeps_rules]:
  "keeps s (simple_get e s path)" "keeps s (odata_get e s path od)" "keeps s (ep_simple_get e s path)"
  "keeps s (ep_odata_get e s path od)" "keeps s (ep_simple_get_as e s path cat)"
  "keeps s (ep_odata_get_as e s path od cat)"
  unfolding simple_get_def odata_get_def ep_simple_get_def ep_odata_get_def ep_simple_get_as_def
    ep_odata_get_as_def
  by (intro keeps_rules)+

lemma keeps_ti: "keeps s (defender_ti e s i)"
  unfolding defender_ti_def ti_routes_def custom_indicator_list_def handlers by (intro keeps_rules)

lemma keeps_alerts: "keeps s (defender_incidents_alerts e s i)"
  unfolding defender_incidents_alerts_def ia_routes_def handlers by (intro keeps_rules)

lemma keeps_machines: "keeps s (defender_machines e s i)"
  unfolding defender_machines_def mi_routes_def find_by_ip_def machine_alerts_def machine_vulnerabilities_def
    machine_missing_kbs_def handlers by (intro keeps_rules)

lemma keeps_vulnerabilities: "keeps s (defender_vulnerabilities e s i)"
  unfolding defender_vulnerabilities_def vi_routes_def exposure_action_def handlers by (intro keeps_rules)

lemma keeps_forensics: "keeps s (defender_forensics e s i)"
  unfolding defender_forensics_def fi_routes_def stage_artifact_def investigation_package_url_def
    get_investigation_package_sas_url_def download_investigation_package_def download_quarantined_file_def
    investigation_list_def investigation_get_def library_file_list_def
    defender_endpoint_live_response_get_result_def handlers
  by (intro keeps_rules)

lemma keeps_read_tool [keeps_rules]: "keeps s (call_read_tool e s r)"
  by (cases r) (simp_all add: keeps_ti keeps_alerts keeps_machines keeps_vulnerabilities keeps_forensics)

section \<open>Hunting\<close>

lemma keeps_fresh: "run_state (retain_fresh e m) w = (m', w') \<Longrightarrow>
    session_step s w w' \<and> schemas w' = schemas w \<and> set m' \<subseteq> set m \<and> (map_ok m \<longrightarrow> map_ok m')"
proof (induction e m arbitrary: m' w w' rule: retain_fresh.induct)
  case (2 e k at v m)
  obtain m1 w1 where 1: "run_state (retain_fresh e m) (w\<lparr>reads := Suc (reads w)\<rparr>) = (m1, w1)" by fastforce
  from "2.IH" [OF 1] have IH: "session_step s w w1" "schemas w1 = schemas w" "set m1 \<subseteq> set m"
      "map_ok m \<longrightarrow> map_ok m1"
    by (auto intro: session_step_trans [OF session_step_trace(2)])
  from 1 "2.prems" have "w' = w1" "m' = m1 \<or> m' = (k, at, v) # m1" by (auto split: if_splits)
  with IH show ?case by (auto simp: map_ok_def subset_iff) fastforce
qed simp

lemma keeps_cache [keeps_rules]: "keeps s (cache_get e t)" "keeps s (cache_put e t v)"
proof -
  show "keeps s (cache_get e t)" unfolding cache_get_def by (intro keeps_rules)
  have "session_step s w (snd (run_state (cache_put e t v) w))" for w
  proof -
    obtain m' w1 where 1: "run_state (retain_fresh e (schemas w)) w = (m', w1)" by fastforce
    from keeps_fresh [OF 1, of s] have step: "session_step s w w1"
      and ok: "map_ok (schemas w) \<longrightarrow> map_ok m'" by auto
    have "map_ok (map_insert t (at, v) m')" if "map_ok (schemas w)" for at
      using that ok by (simp add: map_ok_insert)
    with step 1 show ?thesis by (simp add: cache_put_def session_step_def)
  qed
  then show "keeps s (cache_put e t v)" by (simp add: keeps_def)
qed

lemma keeps_hunting [keeps_rules]: "keeps s (defender_hunting e s i)"
  unfolding defender_hunting_def hunting_run_def hunting_schema_def hunting_validate_def hunting_tables_def
  by (intro keeps_rules)

section \<open>The mutating tools\<close>

lemma keeps_pipeline_parts [keeps_rules]:
  "keeps s (record_final e s req attempt reason conf)" "keeps s (write_audit_record_best_effort e s rec)"
  "keeps s (write_outcome e attempt rec)" "keeps s (request_confirmation e tool a ps ts j ident)"
  unfolding record_final_def write_audit_record_best_effort_def write_outcome_def request_confirmation_def
  by (intro keeps_rules)+

lemma keeps_confirmation [keeps_rules]:
  "keeps s a \<Longrightarrow> keeps s b \<Longrightarrow> keeps s c \<Longrightarrow> keeps s d \<Longrightarrow> keeps s f \<Longrightarrow>
     keeps s (case out of Accepted \<Rightarrow> a | Declined \<Rightarrow> b | Unavailable \<Rightarrow> c | TurnedOff \<Rightarrow> d | NotApplicable \<Rightarrow> f)"
  by (cases out) simp_all

lemma keeps_confirm [keeps_rules]: "keeps s (confirm_stage e s req attempt j)"
  unfolding confirm_stage_def by (intro keeps_rules)

lemma keeps_pipeline:
  assumes "keeps s (mq_upstream req)"
  shows "keeps s (execute_mutation e s req)"
  unfolding execute_mutation_def submit_def by (intro keeps_rules assms)

lemma keeps_run_tool:
  assumes "\<And>req. r = Inr req \<Longrightarrow> keeps s (mq_upstream req)"
  shows "keeps s (run_tool e s tool action known cat just r)"
  unfolding run_tool_def run_request_def audit_validation_error_def
  using assms by (cases r) (simp_all add: keeps_bind keeps_pipeline keeps_ret keeps_cases)

lemma keeps_map_ok [keeps_rules]: "keeps s m \<Longrightarrow> keeps s (map_ok_io f m)"
  unfolding map_ok_io_def by (intro keeps_rules)

lemma keeps_upload [keeps_rules]: "keeps s (endpoint_multipart_upload e s path f bytes d ps ov)"
  unfolding endpoint_multipart_upload_def by (intro keeps_rules)

lemma keeps_unreachable [keeps_rules]: "keeps s unreachable_upstream"
  unfolding unreachable_upstream_def by (rule keeps_ret)

lemma keeps_device [keeps_rules]: "keeps s (defender_device_response e s i)"
  unfolding defender_device_response_def
  by (rule keeps_run_tool)
    (erule device_requestE; simp add: device_invalid_def keeps_rules)

lemma keeps_triage [keeps_rules]: "keeps s (defender_triage e s i)"
  unfolding defender_triage_def
proof (rule keeps_run_tool)
  have up: "keeps s (single_upstream e s i enc)" for enc
    unfolding single_upstream_def by (intro keeps_rules)
  fix req assume "triage_request e s i = Inr req"
  then show "keeps s (mq_upstream req)"
    by (auto simp: triage_request_def triage_invalid_def triage_mutation_def single_request_def
        batch_update_request_def Let_def intro!: keeps_rules up split: if_splits sum.splits option.splits)
qed

lemma keeps_indicators [keeps_rules]: "keeps s (defender_indicators e s i)"
proof -
  have "keeps s (mq_upstream req)" if "indicators_request e s t i = Inr req" for t req
    using that by (auto simp: indicators_request_def indicator_invalid_def indicator_mutation_def
        submit_request_def delete_request_def batch_delete_request_def Let_def
        intro!: keeps_rules split: if_splits sum.splits option.splits)
  then show ?thesis unfolding defender_indicators_def by (intro keeps_rules keeps_run_tool)
qed

lemma keeps_response [keeps_rules]: "keeps s (defender_response e s i)"
  unfolding defender_response_def
proof (rule keeps_run_tool)
  fix req assume "response_request e s i = Inr req"
  then show "keeps s (mq_upstream req)"
    by (auto simp: response_request_def collect_request_def stop_quarantine_request_def
        live_response_request_def upload_request_def library_delete_request_def response_mutation_def Let_def
        intro!: keeps_rules split: if_splits sum.splits option.splits)
qed

section \<open>Calls\<close>

lemma keeps_unlisted [keeps_rules]: "keeps s (unlisted_call e s tool)"
  unfolding unlisted_call_def by (intro keeps_rules)

lemma keeps_call: "keeps s (call_tool e s c)"
proof -
  have "keeps s (routed_call e s c)" by (cases c) (simp_all add: keeps_rules)
  then show ?thesis unfolding call_tool_def by (intro keeps_rules)
qed

section \<open>The life of a server\<close>

text \<open>
  \<open>lives e s w w'\<close>: from the world \<open>w\<close> the server \<open>s\<close> comes to the world \<open>w'\<close> by answering calls.
\<close>

inductive lives :: "'x env_scheme \<Rightarrow> server \<Rightarrow> world \<Rightarrow> world \<Rightarrow> bool" for e s w where
  born: "lives e s w w"
| answers: "lives e s w w' \<Longrightarrow> run_state (call_tool e s c) w' = (r, w'') \<Longrightarrow> lives e s w w''"

lemma call_step: "run_state (call_tool e s c) w = (r, w') \<Longrightarrow> session_step s w w'"
  using keeps_call [of s e c] unfolding keeps_def by (metis snd_conv)

lemma lives_step: "lives e s w w' \<Longrightarrow> session_step s w w'"
proof (induction rule: lives.induct)
  case (answers w' c r w'')
  from answers.IH call_step [OF answers.hyps(2)] show ?case by (rule session_step_trans)
qed simp

lemma session_ok_step: "session_ok s w \<Longrightarrow> session_step s w w' \<Longrightarrow> session_ok s w'"
  by (auto simp: session_ok_def session_step_def)

section \<open>Properties\<close>

text \<open>
  C10. The session stays well formed for the whole life of a server. From start-up on, through any
  number of calls of any tools with any inputs and whatever the outside answers: an application
  never has consent state and never has to sign in again, a user's session has a consent state for
  each audience; a required re-authentication stays required with its first reason; an audience
  whose consent is missing stays so; the cached schemas stay a sorted map without duplicates; and
  the trace only grows.
\<close>

theorem session_well_formed:
  assumes "run_state (main_start e fuel a) w0 = (st, w)" and "serving st = Some s"
    and "lives e s w w'"
  shows "session_ok s w' \<and> session_step s w w'"
proof -
  note step = lives_step [OF assms(3)]
  with session_ok_step [OF start_session [OF assms(1,2)] step] show ?thesis by simp
qed

definition demo_question :: tool_call where
  "demo_question = HuntingTool \<lparr>hi_action = asc ''tables'', hi_query = None, hi_timespan = None,
     hi_max_rows = None, hi_table = None, hi_filter = None\<rparr>"

lemma session_well_formed_witness:
  "\<exists>s r w'. run_state (call_tool start_demo s demo_question) (snd demo_start) = (r, w') \<and> is_delegated s \<and>
     session_ok s w' \<and> session_step s (snd demo_start) w'"
proof -
  obtain s where s: "serving (fst demo_start) = Some s" "is_delegated s" using demo_serves by blast
  obtain r w' where run: "run_state (call_tool start_demo s demo_question) (snd demo_start) = (r, w')"
    by fastforce
  have "lives start_demo s (snd demo_start) w'" by (rule lives.answers [OF lives.born run])
  from session_well_formed [OF prod.collapse [symmetric] s(1) [unfolded demo_start_def], folded demo_start_def, OF this] s run
  show ?thesis by blast
qed

end
