(* ===== verification/Refresh.thy ===== *)
theory Refresh
  imports Tokens
begin

text \<open>
  Concurrent token acquisition: any number of \<open>TokenManager::get_token\<close> calls of \<open>src/auth.rs\<close> that
  share one session, one cache and one \<open>refresh_lock\<close>, interleaved between every two accesses to
  something shared. A task is the audience it wants and the point its call has reached; a step moves
  one task to its next point. Besides, an answer to some other request may at any time demand a
  re-authentication (\<open>set_reauth\<close>), without the lock. \<open>get_token\<close> of the theory \<open>Tokens\<close> is what one
  task does when nobody comes in between.
\<close>

section \<open>Control points\<close>

text \<open>
  Before the lock: the checks of the session and the look at the cache; \<open>Queue\<close> is the wait for
  the lock; the points after it hold the lock. From \<open>Ask\<close> on the cache was found without a token
  that is valid (\<open>None\<close>: without a token, \<open>Some t\<close>: not valid at \<open>t\<close>).
\<close>

type_synonym staleness = "int option"

datatype pc =
    Begin | Consent1 | Cache1 | Queue
  | Reauth2 | Consent2 | Cache2
  | Ask staleness
  | Awaiting staleness "net_error + http_reply"
  | Rotate staleness refresh_success
  | Stamp staleness ustr int
  | Write staleness cached_token
  | Finished "call_tool_result + ustr"

record task =
  wants :: audience
  point :: pc

text \<open>What is shared: the lock and its holder, the tasks, and the session and cache in the world.\<close>

record conc =
  holder :: "nat option"
  tasks :: "task list"
  shared :: world

definition reauth_block :: "server \<Rightarrow> world \<Rightarrow> call_tool_result option" where
  "reauth_block s w =
     (if is_delegated s then map_option (\<lambda>r. reauthentication_required (reauth_str r)) (reauth w) else None)"

definition consent_block :: "server \<Rightarrow> audience \<Rightarrow> world \<Rightarrow> call_tool_result option" where
  "consent_block s aud w =
     (if is_delegated s then
        (case consent w aud of
          Some (Missing _) \<Rightarrow> Some (consent_missing (audience_str aud) (scopes_for s aud))
        | _ \<Rightarrow> None)
      else None)"

definition staleness_of :: "'x env_scheme \<Rightarrow> audience \<Rightarrow> world \<Rightarrow> staleness" where
  "staleness_of e aud w = (case cache w aud of None \<Rightarrow> None | Some ct \<Rightarrow> Some (clock e (reads w)))"

definition token_request :: "'x env_scheme \<Rightarrow> server \<Rightarrow> audience \<Rightarrow> world \<Rightarrow> http_request" where
  "token_request e s aud w = form_post (token_endpoint e (tm_tenant s))
     (case credential s of
       ClientSecret secret \<Rightarrow>
         [(asc ''grant_type'', asc ''client_credentials''), (asc ''client_id'', tm_client s),
          (asc ''client_secret'', secret), (asc ''scope'', resource_url aud @ asc ''/.default'')]
     | Delegated _ _ \<Rightarrow>
         [(asc ''grant_type'', asc ''refresh_token''), (asc ''client_id'', tm_client s),
          (asc ''refresh_token'', refresh_token w), (asc ''scope'', join (asc '' '') (scopes_for s aud))])"

definition app_reply ::
  "'x env_scheme \<Rightarrow> audience \<Rightarrow> net_error + http_reply \<Rightarrow> mcp_error + (ustr \<times> int)" where
  "app_reply e aud r =
     (case r of
       Inl n \<Rightarrow> Inl (internal_error (asc ''token request failed: '' @ net_text e n))
     | Inr resp \<Rightarrow>
         if \<not> is_success (reply_status resp) then
           Inl (internal_error (asc ''token acquisition failed (HTTP '' @ show_nat (reply_status resp)
                  @ asc '') for audience '' @ audience_str aud))
         else (case (case reply_body resp of Inl n \<Rightarrow> Inl (net_text e n) | Inr bytes \<Rightarrow> decode_app_token e bytes) of
             Inl m \<Rightarrow> Inl (internal_error (asc ''failed to parse token response: '' @ m))
           | Inr ok \<Rightarrow> Inr ok))"

text \<open>Where a reply takes the call, and what it changes.\<close>

definition after_reply ::
  "'x env_scheme \<Rightarrow> server \<Rightarrow> audience \<Rightarrow> staleness \<Rightarrow> net_error + http_reply \<Rightarrow> world \<Rightarrow> pc \<times> world" where
  "after_reply e s aud m r w =
     (case credential s of
       ClientSecret secret \<Rightarrow>
         (case app_reply e aud r of
           Inl err \<Rightarrow> (Finished (Inl (tool_error (asc ''Auth error: '' @ error_display e err))), w)
         | Inr (access, lifetime) \<Rightarrow> (Stamp m access lifetime, w))
     | Delegated _ _ \<Rightarrow>
         (case refresh_reply e r of
           Inr ok \<Rightarrow> (Rotate m ok, w)
         | Inl err \<Rightarrow> (let (res, w') = run_state (refresh_failed e s aud err) w in (Finished res, w'))))"

fun finished :: "pc \<Rightarrow> bool" where
  "finished (Finished r) = True"
| "finished _ = False"

fun critical :: "pc \<Rightarrow> bool" where
  "critical Begin = False" | "critical Consent1 = False" | "critical Cache1 = False"
| "critical Queue = False" | "critical (Finished r) = False"
| "critical _ = True"

definition checked_block :: "call_tool_result option \<Rightarrow> pc \<Rightarrow> pc" where
  "checked_block b k = (case b of Some err \<Rightarrow> Finished (Inl err) | None \<Rightarrow> k)"

text \<open>One task from its point to the next, and the shared world with it.\<close>

fun advance :: "'x env_scheme \<Rightarrow> server \<Rightarrow> audience \<Rightarrow> pc \<Rightarrow> world \<Rightarrow> pc \<times> world" where
  "advance e s aud Begin w = (checked_block (reauth_block s w) Consent1, w)"
| "advance e s aud Consent1 w = (checked_block (consent_block s aud w) Cache1, w)"
| "advance e s aud Cache1 w = (let (hit, w') = run_state (cached e aud) w in
     (case hit of Some t \<Rightarrow> Finished (Inr t) | None \<Rightarrow> Queue, w'))"
| "advance e s aud Queue w = (Reauth2, w)"
| "advance e s aud Reauth2 w = (checked_block (reauth_block s w) Consent2, w)"
| "advance e s aud Consent2 w = (checked_block (consent_block s aud w) Cache2, w)"
| "advance e s aud Cache2 w = (let (hit, w') = run_state (cached e aud) w in
     (case hit of Some t \<Rightarrow> Finished (Inr t) | None \<Rightarrow> Ask (staleness_of e aud w), w'))"
| "advance e s aud (Ask m) w = (let (r, w') = run_state (send e (token_request e s aud w)) w in (Awaiting m r, w'))"
| "advance e s aud (Awaiting m r) w = after_reply e s aud m r w"
| "advance e s aud (Rotate m ok) w =
     (Stamp m (rs_access ok) (as_i64 (rs_expires_in ok)),
      case rs_refresh ok of Some rt \<Rightarrow> w\<lparr>refresh_token := rt\<rparr> | None \<Rightarrow> w)"
| "advance e s aud (Stamp m access lifetime) w = (let (t, w') = run_state (now e) w in
     (Write m \<lparr>tok = access, expires_at = add_i64 (timestamp t) lifetime\<rparr>, w'))"
| "advance e s aud (Write m ct) w = (Finished (Inr (tok ct)), w\<lparr>cache := (cache w)(aud \<mapsto> ct)\<rparr>)"
| "advance e s aud (Finished r) w = (Finished r, w)"

definition ready :: "conc \<Rightarrow> nat \<Rightarrow> bool" where
  "ready c i \<longleftrightarrow> i < length (tasks c) \<and> \<not> finished (point (tasks c ! i)) \<and>
     (point (tasks c ! i) = Queue \<longrightarrow> holder c = None)"

definition move :: "'x env_scheme \<Rightarrow> server \<Rightarrow> nat \<Rightarrow> conc \<Rightarrow> conc" where
  "move e s i c =
     (let t = tasks c ! i; (p, w) = advance e s (wants t) (point t) (shared c)
      in \<lparr>holder = (if critical p then Some i else if critical (point t) then None else holder c),
          tasks = (tasks c)[i := t\<lparr>point := p\<rparr>], shared = w\<rparr>)"

text \<open>\<open>runs e s n c c'\<close>: some interleaving with \<open>n\<close> task steps leads from \<open>c\<close> to \<open>c'\<close>.\<close>

inductive runs :: "'x env_scheme \<Rightarrow> server \<Rightarrow> nat \<Rightarrow> conc \<Rightarrow> conc \<Rightarrow> bool" for e s where
  idle: "runs e s 0 c c"
| moved: "runs e s n c c' \<Longrightarrow> ready c' i \<Longrightarrow> runs e s (Suc n) c (move e s i c')"
| challenged: "runs e s n c c' \<Longrightarrow> runs e s n c (c'\<lparr>shared := snd (run_state (set_reauth s r) (shared c'))\<rparr>)"

definition begun :: "audience list \<Rightarrow> world \<Rightarrow> conc" where
  "begun auds w = \<lparr>holder = None, tasks = map (\<lambda>a. \<lparr>wants = a, point = Begin\<rparr>) auds, shared = w\<rparr>"

lemma begun_simps [simp]:
  "holder (begun auds w) = None" "length (tasks (begun auds w)) = length auds" "shared (begun auds w) = w"
  "i < length auds \<Longrightarrow> point (tasks (begun auds w) ! i) = Begin"
  "i < length auds \<Longrightarrow> wants (tasks (begun auds w) ! i) = auds ! i"
  by (simp_all add: begun_def)

text \<open>What a move changes.\<close>

definition next_of :: "'x env_scheme \<Rightarrow> server \<Rightarrow> nat \<Rightarrow> conc \<Rightarrow> pc \<times> world" where
  "next_of e s i c = advance e s (wants (tasks c ! i)) (point (tasks c ! i)) (shared c)"

lemma move_simps:
  "length (tasks (move e s i c)) = length (tasks c)"
  "wants (tasks (move e s i c) ! j) = wants (tasks c ! j)"
  "i < length (tasks c) \<Longrightarrow> point (tasks (move e s i c) ! j) =
     (if i = j then fst (next_of e s i c) else point (tasks c ! j))"
  "shared (move e s i c) = snd (next_of e s i c)"
  "holder (move e s i c) = (if critical (fst (next_of e s i c)) then Some i
     else if critical (point (tasks c ! i)) then None else holder c)"
proof -
  show "wants (tasks (move e s i c) ! j) = wants (tasks c ! j)"
    by (cases "i < length (tasks c)")
      (auto simp: move_def Let_def nth_list_update list_update_beyond not_less split: prod.split)
qed (auto simp: move_def next_of_def Let_def split: prod.split)

section \<open>Mutual exclusion\<close>

definition mutex :: "conc \<Rightarrow> bool" where
  "mutex c \<longleftrightarrow> (\<forall>i. holder c = Some i \<longleftrightarrow> i < length (tasks c) \<and> critical (point (tasks c ! i)))"

lemma mutex_others: "mutex c \<Longrightarrow> critical (point (tasks c ! i)) \<Longrightarrow> i < length (tasks c) \<Longrightarrow>
    j < length (tasks c) \<Longrightarrow> critical (point (tasks c ! j)) \<Longrightarrow> i = j"
  unfolding mutex_def by (metis option.inject)

text \<open>Only the lock lets a task into the critical section.\<close>

lemma advance_entry:
  "critical (fst (advance e s aud p w)) \<Longrightarrow> critical p \<or> p = Queue"
  by (cases p) (auto simp: checked_block_def Let_def split: option.splits prod.splits)

lemma mutex_move:
  assumes "mutex c" and "ready c i"
  shows "mutex (move e s i c)"
proof -
  let ?p = "fst (next_of e s i c)"
  from assms(2) have i: "i < length (tasks c)" by (simp add: ready_def)
  have entry: "critical ?p \<Longrightarrow> critical (point (tasks c ! i)) \<or> holder c = None"
    using assms(2) advance_entry [of e s "wants (tasks c ! i)" "point (tasks c ! i)" "shared c"]
    by (auto simp: next_of_def ready_def)
  have others: "j < length (tasks c) \<and> critical (point (tasks c ! j)) \<longleftrightarrow> holder c = Some j" for j
    using assms(1) unfolding mutex_def by blast
  show ?thesis
    unfolding mutex_def
  proof (intro allI)
    fix j
    show "holder (move e s i c) = Some j \<longleftrightarrow>
        j < length (tasks (move e s i c)) \<and> critical (point (tasks (move e s i c) ! j))"
      using others [of j] others [of i] i entry
      by (cases "i = j"; cases "critical ?p"; cases "critical (point (tasks c ! i))")
        (auto simp: move_simps)
  qed
qed

lemma mutex_begun: "mutex (begun auds w)"
  by (auto simp: mutex_def)

lemma runs_mutex: "runs e s n (begun auds w) c \<Longrightarrow> mutex c"
proof (induction n "begun auds w" c rule: runs.induct)
  case idle
  show ?case by (rule mutex_begun)
next
  case (moved n c' i)
  then show ?case by (intro mutex_move)
next
  case (challenged n c' r)
  then show ?case by (simp add: mutex_def)
qed

lemma runs_length: "runs e s n c c' \<Longrightarrow> length (tasks c') = length (tasks c)"
  by (induction rule: runs.induct) (simp_all add: move_simps)

section \<open>Progress and termination\<close>

fun rank :: "pc \<Rightarrow> nat" where
  "rank Begin = 12" | "rank Consent1 = 11" | "rank Cache1 = 10" | "rank Queue = 9"
| "rank Reauth2 = 8" | "rank Consent2 = 7" | "rank Cache2 = 6" | "rank (Ask m) = 5"
| "rank (Awaiting m r) = 4" | "rank (Rotate m ok) = 3" | "rank (Stamp m a l) = 2"
| "rank (Write m ct) = 1" | "rank (Finished r) = 0"

lemma rank_advance: "\<not> finished p \<Longrightarrow> rank (fst (advance e s aud p w)) < rank p"
  by (cases p)
    (auto simp: checked_block_def after_reply_def Let_def split: option.split prod.split credential.split sum.split)

definition remaining :: "conc \<Rightarrow> nat" where
  "remaining c = sum_list (map (rank \<circ> point) (tasks c))"

lemma sum_list_update_less:
  "i < length xs \<Longrightarrow> f y < f (xs ! i) \<Longrightarrow> sum_list (map f (xs[i := y])) < sum_list (map (f :: 'a \<Rightarrow> nat) xs)"
proof (induction xs arbitrary: i)
  case (Cons x xs)
  then show ?case by (cases i) simp_all
qed simp

lemma remaining_move: "ready c i \<Longrightarrow> remaining (move e s i c) < remaining c"
proof -
  assume r: "ready c i"
  obtain p w where p: "advance e s (wants (tasks c ! i)) (point (tasks c ! i)) (shared c) = (p, w)" by fastforce
  from r have "rank p < rank (point (tasks c ! i))"
    using rank_advance [of "point (tasks c ! i)" e s "wants (tasks c ! i)" "shared c"] p by (simp add: ready_def)
  with r p show ?thesis
    unfolding remaining_def move_def ready_def by (simp add: Let_def sum_list_update_less)
qed

lemma runs_bound: "runs e s n c c' \<Longrightarrow> n + remaining c' \<le> remaining c"
proof (induction rule: runs.induct)
  case (moved n c c' i)
  with remaining_move [of c' i e s] show ?case by linarith
qed (simp_all add: remaining_def)

lemma remaining_begun: "remaining (begun auds w) = 12 * length auds"
  by (induction auds) (simp_all add: remaining_def begun_def)

lemma critical_unfinished: "critical p \<Longrightarrow> \<not> finished p \<and> p \<noteq> Queue"
  by (cases p) simp_all

lemma somebody_ready:
  assumes "mutex c" and "i < length (tasks c)" and "\<not> finished (point (tasks c ! i))"
  shows "\<exists>j. ready c j"
proof (cases "holder c")
  case None
  with assms have "ready c i" by (simp add: ready_def)
  then show ?thesis by blast
next
  case (Some j)
  with assms(1) have "j < length (tasks c)" "critical (point (tasks c ! j))" by (auto simp: mutex_def)
  then have "ready c j" using critical_unfinished by (auto simp: ready_def)
  then show ?thesis by blast
qed

section \<open>One renewal at a time, and only of a token that is not valid\<close>

fun renewing :: "pc \<Rightarrow> staleness option" where
  "renewing (Ask m) = Some m"
| "renewing (Awaiting m r) = Some m"
| "renewing (Rotate m ok) = Some m"
| "renewing (Stamp m a l) = Some m"
| "renewing (Write m ct) = Some m"
| "renewing p = None"

definition stale :: "'x env_scheme \<Rightarrow> audience \<Rightarrow> staleness \<Rightarrow> world \<Rightarrow> bool" where
  "stale e aud m w \<longleftrightarrow>
     (case m of
       None \<Rightarrow> cache w aud = None
     | Some t \<Rightarrow> (\<exists>n. t = clock e n) \<and> (\<exists>ct. cache w aud = Some ct \<and> \<not> is_valid t ct))"

definition renewals_needed :: "'x env_scheme \<Rightarrow> conc \<Rightarrow> bool" where
  "renewals_needed e c \<longleftrightarrow> (\<forall>i<length (tasks c). \<forall>m. renewing (point (tasks c ! i)) = Some m \<longrightarrow>
     stale e (wants (tasks c ! i)) m (shared c))"

lemma renewing_critical: "renewing p = Some m \<Longrightarrow> critical p"
  by (cases p) simp_all

lemma advance_cache:
  "cache (snd (advance e s aud p w)) =
     (case p of Write m ct \<Rightarrow> (cache w)(aud \<mapsto> ct) | _ \<Rightarrow> cache w)"
  by (cases p)
    (auto simp: after_reply_def Let_def run_cached refresh_failed_def once_reauth_def split: option.splits prod.splits
       credential.splits sum.splits refresh_verdict.splits)

lemma stale_cong: "cache w' aud = cache w aud \<Longrightarrow> stale e aud m w' = stale e aud m w"
  by (simp add: stale_def split: option.split)

lemma advance_renewing:
  assumes "renewing (fst (advance e s aud p w)) = Some m"
    and "\<And>k. renewing p = Some k \<Longrightarrow> stale e aud k w"
  shows "stale e aud m (snd (advance e s aud p w))"
proof (cases "p = Cache2")
  case True
  have "m = staleness_of e aud w" "fst (run_state (cached e aud) w) = None"
    using assms(1) True by (auto simp: Let_def split: prod.splits option.splits)
  then show ?thesis
    unfolding True by (auto simp: stale_def staleness_of_def run_cached Let_def split: option.splits if_splits prod.splits)
next
  case False
  then have "renewing p = Some m \<and> (\<forall>k ct. p \<noteq> Write k ct)"
    using assms(1)
    by (cases p) (auto simp: checked_block_def after_reply_def Let_def split: option.splits prod.splits
        credential.splits sum.splits)
  then have "cache (snd (advance e s aud p w)) = cache w" and "stale e aud m w"
    using assms(2) by (auto simp: advance_cache split: pc.split)
  then show ?thesis using stale_cong by metis
qed

lemma renewals_move:
  assumes "renewals_needed e c" and "mutex c" and "ready c i"
  shows "renewals_needed e (move e s i c)"
  unfolding renewals_needed_def
proof (intro allI impI)
  fix j m assume j: "j < length (tasks (move e s i c))" and m: "renewing (point (tasks (move e s i c) ! j)) = Some m"
  have i: "i < length (tasks c)" and j': "j < length (tasks c)" using assms(3) j by (simp_all add: ready_def move_simps)
  show "stale e (wants (tasks (move e s i c) ! j)) m (shared (move e s i c))"
  proof (cases "i = j")
    case True
    with m i have "renewing (fst (next_of e s i c)) = Some m" by (simp add: move_simps)
    then show ?thesis
      using assms(1) i unfolding True move_simps next_of_def renewals_needed_def
      by (intro advance_renewing) auto
  next
    case False
    with m i have m': "renewing (point (tasks c ! j)) = Some m" by (simp add: move_simps)
    have "point (tasks c ! i) \<noteq> Write k ct" for k ct
      using mutex_others [OF assms(2), of i j] renewing_critical [OF m'] i j' False by auto
    then have "cache (shared (move e s i c)) = cache (shared c)"
      by (simp add: move_simps next_of_def advance_cache split: pc.split)
    then have "stale e (wants (tasks c ! j)) m (shared (move e s i c)) = stale e (wants (tasks c ! j)) m (shared c)"
      by (intro stale_cong) simp
    with assms(1) m' j' show ?thesis by (simp add: move_simps renewals_needed_def)
  qed
qed

lemma set_reauth_cache [simp]: "cache (snd (run_state (set_reauth s r) w)) = cache w"
  by (simp add: set_reauth_def once_reauth_def split: option.split)

lemma stale_once [simp]: "stale e aud m (once_reauth r w) = stale e aud m w"
  by (rule stale_cong) (simp add: once_reauth_def split: option.split)

lemma runs_renewals:
  "runs e s n (begun auds w) c \<Longrightarrow> renewals_needed e c"
proof (induction n "begun auds w" c rule: runs.induct)
  case idle
  then show ?case by (simp add: renewals_needed_def)
next
  case (moved n c' i)
  then show ?case by (intro renewals_move runs_mutex)
next
  case (challenged n c' r)
  then show ?case by (simp add: renewals_needed_def set_reauth_def)
qed

section \<open>One task alone\<close>

fun alone :: "'x env_scheme \<Rightarrow> server \<Rightarrow> audience \<Rightarrow> nat \<Rightarrow> pc \<Rightarrow> world \<Rightarrow> pc \<times> world" where
  "alone e s aud 0 p w = (p, w)"
| "alone e s aud (Suc k) p w = (let (p', w') = advance e s aud p w in alone e s aud k p' w')"

lemma alone_finished [simp]: "alone e s aud k (Finished r) w = (Finished r, w)"
  by (induction k) simp_all

lemma block_reads [simp]:
  "reauth_block s (w\<lparr>reads := n\<rparr>) = reauth_block s w"
  "consent_block s aud (w\<lparr>reads := n\<rparr>) = consent_block s aud w"
  by (simp_all add: reauth_block_def consent_block_def)

lemma session_block_parts:
  "session_block s aud w = (case reauth_block s w of Some err \<Rightarrow> Some err | None \<Rightarrow> consent_block s aud w)"
  by (simp add: session_block_def reauth_block_def consent_block_def split: option.split)

lemma fetch_app_parts:
  "credential s = ClientSecret secret \<Longrightarrow>
   run_state (fetch_app_token e s aud secret) w =
     (let rq = token_request e s aud w; w1 = w\<lparr>trace := trace w @ [Sent rq]\<rparr>
      in case app_reply e aud (http e (trace w) rq) of
          Inl err \<Rightarrow> (Inl err, w1)
        | Inr (access, lifetime) \<Rightarrow>
            (Inr \<lparr>tok = access, expires_at = add_i64 (timestamp (clock e (reads w))) lifetime\<rparr>,
             w1\<lparr>reads := Suc (reads w)\<rparr>))"
  by (auto simp: fetch_app_token_def token_request_def app_reply_def Let_def split: sum.splits prod.splits)

lemma alone_renews:
  assumes "run_state (renew e s aud) w = (r, w')"
  shows "alone e s aud 5 (Ask m) w = (Finished r, w')"
proof (cases "credential s")
  case (ClientSecret secret)
  let ?reply = "http e (trace w) (token_request e s aud w)"
  show ?thesis
  proof (cases "app_reply e aud ?reply")
    case (Inl err)
    with assms ClientSecret show ?thesis
      by (simp add: renew_def fetch_app_parts Let_def eval_nat_numeral after_reply_def)
  next
    case (Inr ok)
    obtain access lifetime where "ok = (access, lifetime)" by fastforce
    with assms ClientSecret Inr show ?thesis
      by (simp add: renew_def fetch_app_parts Let_def eval_nat_numeral after_reply_def store_token_def)
  qed
next
  case (Delegated who tenant)
  let ?rq = "token_request e s aud w"
  have grant: "run_state (refresh_token_grant e (tm_tenant s) (tm_client s) (refresh_token w) (scopes_for s aud)) w =
      (refresh_reply e (http e (trace w) ?rq), w\<lparr>trace := trace w @ [Sent ?rq]\<rparr>)"
    using Delegated by (simp add: refresh_token_grant_def token_request_def)
  show ?thesis
  proof (cases "refresh_reply e (http e (trace w) ?rq)")
    case (Inl err)
    with assms Delegated grant show ?thesis
      by (simp add: renew_def Let_def eval_nat_numeral after_reply_def)
  next
    case (Inr ok)
    with assms Delegated grant show ?thesis
      by (cases "rs_refresh ok")
        (simp_all add: renew_def Let_def eval_nat_numeral after_reply_def refresh_succeeded_def store_token_def)
  qed
qed

lemma alone_more: "alone e s aud (j + k) p w = (let (p', w') = alone e s aud j p w in alone e s aud k p' w')"
  by (induction j arbitrary: p w) (simp_all add: Let_def split: prod.split)

lemma alone_gets:
  assumes "run_state (get_token e s aud) w = (r, w')"
  shows "alone e s aud 12 Begin w = (Finished r, w')"
proof -
  note parts = alone_more [of e s aud 3 9 Begin w] alone_more [of e s aud 4 5 Queue]
  show ?thesis
  proof (cases "session_block s aud w")
    case (Some err)
    with assms show ?thesis
      by (auto simp: get_token_def session_block_parts alone_more Let_def eval_nat_numeral checked_block_def
          split: option.splits)
  next
    case block: None
    then have b: "reauth_block s w = None" "consent_block s aud w = None"
      by (auto simp: session_block_parts split: option.splits)
    obtain h1 w1 where 1: "run_state (cached e aud) w = (h1, w1)" by fastforce
    obtain h2 w2 where 2: "run_state (cached e aud) w1 = (h2, w2)" by fastforce
    from cached_cases [OF 1] obtain n where w1: "w1 = w\<lparr>reads := n\<rparr>" by blast
    have b1: "reauth_block s w1 = None" "consent_block s aud w1 = None" "session_block s aud w1 = None"
      using b block unfolding w1 by simp_all
    have first: "alone e s aud 3 Begin w = (case h1 of Some t \<Rightarrow> Finished (Inr t) | None \<Rightarrow> Queue, w1)"
      using b 1 by (simp add: eval_nat_numeral checked_block_def)
    have second: "alone e s aud 4 Queue w1 =
        (case h2 of Some t \<Rightarrow> Finished (Inr t) | None \<Rightarrow> Ask (staleness_of e aud w1), w2)"
      using b1 2 by (simp add: eval_nat_numeral checked_block_def)
    show ?thesis
    proof (cases h1)
      case (Some t)
      with assms block 1 first parts show ?thesis by (simp add: get_token_def)
    next
      case h1: None
      show ?thesis
      proof (cases h2)
        case (Some t)
        with assms block b1 1 2 h1 first second parts show ?thesis by (simp add: get_token_def)
      next
        case None
        with assms block b1 1 2 h1 have "run_state (renew e s aud) w2 = (r, w')" by (simp add: get_token_def)
        then have "alone e s aud 5 (Ask (staleness_of e aud w1)) w2 = (Finished r, w')" by (rule alone_renews)
        with first second h1 None parts show ?thesis by simp
      qed
    qed
  qed
qed

section \<open>Schedules\<close>

text \<open>The state after the tasks of a list have moved in turn, if each was ready.\<close>

fun follow :: "'x env_scheme \<Rightarrow> server \<Rightarrow> nat list \<Rightarrow> conc \<Rightarrow> conc option" where
  "follow e s [] c = Some c"
| "follow e s (i # is) c = (if ready c i then follow e s is (move e s i c) else None)"

lemma follow_runs: "runs e s n c0 c \<Longrightarrow> follow e s is c = Some c' \<Longrightarrow> runs e s (n + length is) c0 c'"
proof (induction "is" arbitrary: n c)
  case (Cons i "is")
  from Cons.prems(2) have "ready c i" "follow e s is (move e s i c) = Some c'" by (simp_all split: if_splits)
  with Cons.IH [OF runs.moved [OF Cons.prems(1)]] show ?case by auto
qed simp

definition two_callers :: conc where
  "two_callers = begun [Graph, Endpoint] world0"

section \<open>Properties\<close>

text \<open>
  C24. Concurrent token acquisitions make progress and end. However the calls are interleaved with
  each other and with challenges from other requests, and whatever the server replies: as long as a
  call has not returned, some call can take a step, and after at most twelve steps per call every
  call has returned. So no schedule deadlocks, starves or loops.
\<close>

theorem token_calls_return:
  assumes "runs e s n (begun auds w) c"
  shows "n \<le> 12 * length auds \<and> ((\<exists>i. ready c i) \<or> (\<forall>i<length auds. finished (point (tasks c ! i))))"
proof -
  have len: "length (tasks c) = length auds" using runs_length [OF assms] by simp
  from somebody_ready [OF runs_mutex [OF assms]] len
  have "(\<exists>i. ready c i) \<or> (\<forall>i<length auds. finished (point (tasks c ! i)))" by auto
  moreover have "n \<le> 12 * length auds" using runs_bound [OF assms] by (simp add: remaining_begun)
  ultimately show ?thesis by blast
qed

lemma token_calls_return_witness:
  "\<exists>c. runs (demo_env (demo_reply 400 [])) demo_server 14 (begun [Graph, Endpoint] world0) c \<and>
     ((\<exists>i. ready c i) \<or> (\<forall>i<2. finished (point (tasks c ! i))))"
proof -
  let ?e = "demo_env (demo_reply 400 [])"
  let ?turns = "[0, 1, 0, 1, 0, 1, 0, 0, 0, 0, 0, 0, 1, 1]"
  have "(case follow ?e demo_server ?turns two_callers of Some c \<Rightarrow> finished (point (tasks c ! 1)) | None \<Rightarrow> False)"
    by code_simp
  then obtain c where "follow ?e demo_server ?turns two_callers = Some c" by (auto split: option.splits)
  from follow_runs [OF runs.idle this] have run: "runs ?e demo_server 14 (begun [Graph, Endpoint] world0) c"
    by (simp add: two_callers_def eval_nat_numeral)
  from token_calls_return [OF run] run show ?thesis by (auto simp: numeral_2_eq_2)
qed

text \<open>
  C23. Renewal is single-flight. In every interleaving at most one call is between its renewal
  request and the end of its renewal, and it is there only because, when it held the lock, the
  cache had no token for its audience that was valid: so once a token is cached for an audience
  that every reading of the clock finds valid, no call renews that audience again.
\<close>

theorem renewal_single_flight:
  assumes "runs e s n (begun auds w) c" and "i < length auds" and "renewing (point (tasks c ! i)) = Some m"
  shows "(\<forall>j<length auds. renewing (point (tasks c ! j)) \<noteq> None \<longrightarrow> j = i) \<and>
     stale e (wants (tasks c ! i)) m (shared c) \<and>
     (\<forall>ct. cache (shared c) (wants (tasks c ! i)) = Some ct \<longrightarrow> (\<exists>k. \<not> is_valid (clock e k) ct))"
proof -
  have len: "length (tasks c) = length auds" using runs_length [OF assms(1)] by simp
  have st: "stale e (wants (tasks c ! i)) m (shared c)"
    using runs_renewals [OF assms(1)] assms(2,3) len by (simp add: renewals_needed_def)
  moreover have "j = i" if "j < length auds" "renewing (point (tasks c ! j)) \<noteq> None" for j
    using mutex_others [OF runs_mutex [OF assms(1)], of i j] that assms(2,3) len by (auto dest: renewing_critical)
  moreover have "\<exists>k. \<not> is_valid (clock e k) ct" if "cache (shared c) (wants (tasks c ! i)) = Some ct" for ct
    using st that by (auto simp: stale_def split: option.splits)
  ultimately show ?thesis by blast
qed

lemma renewal_single_flight_witness:
  "\<exists>c m. runs (demo_env (demo_reply 400 [])) demo_server 10 (begun [Graph, Endpoint] world0) c \<and>
     renewing (point (tasks c ! 0)) = Some m \<and> renewing (point (tasks c ! 1)) = None"
proof -
  let ?e = "demo_env (demo_reply 400 [])"
  let ?turns = "[0, 1, 0, 1, 0, 1, 0, 0, 0, 0]"
  have "(case follow ?e demo_server ?turns two_callers of
      Some c \<Rightarrow> (case renewing (point (tasks c ! 0)) of Some m \<Rightarrow> True | None \<Rightarrow> False) | None \<Rightarrow> False)"
    by code_simp
  then obtain c m where c: "follow ?e demo_server ?turns two_callers = Some c" "renewing (point (tasks c ! 0)) = Some m"
    by (auto split: option.splits)
  from follow_runs [OF runs.idle c(1)] have run: "runs ?e demo_server 10 (begun [Graph, Endpoint] world0) c"
    by (simp add: two_callers_def eval_nat_numeral)
  have "\<forall>j<2. renewing (point (tasks c ! j)) \<noteq> None \<longrightarrow> j = 0"
    using renewal_single_flight [OF run, of 0 m] c(2) by simp
  then have "renewing (point (tasks c ! 1)) = None" by (metis one_less_numeral_iff semiring_norm(76) zero_neq_one)
  with run c(2) show ?thesis by blast
qed

text \<open>
  The interleaved model and the sequential one agree: a call that nobody interrupts takes its
  twelve steps to exactly the result and the state that \<open>get_token\<close> gives.
\<close>

theorem uninterrupted_call_is_get_token:
  "alone e s aud 12 Begin w = (Finished (fst (run_state (get_token e s aud) w)), snd (run_state (get_token e s aud) w))"
  by (rule alone_gets) simp

end
