(* ===== verification/PromptSafety.thy ===== *)
theory PromptSafety
  imports Prompts
begin

text \<open>
  What the prompts of \<open>Prompts\<close> keep apart: the values a user gave stay inside the string literals they
  are put in, a look-back is a bounded time span and nothing else, and where the classifier panics. The
  readers below follow the rules \<open>regular_string\<close>, \<open>dyn_array\<close> and \<open>dynamic_lit\<close> of
  \<open>crates/kql-parser/src/kql.pest\<close> and give the values of the literals; \<open>json_quote\<close> is the
  documented output of \<open>serde_json\<close> for a string.
\<close>

section \<open>Reading string literals\<close>

definition unescape :: "uchar \<Rightarrow> uchar option" where
  "unescape c =
     (if c = 34 \<or> c = 39 \<or> c = 92 then Some c
      else if c = 110 then Some 10 else if c = 114 then Some 13 else if c = 116 then Some 9
      else None)"

text \<open>After the opening quote: the value and what follows the closing quote.\<close>

fun read_body :: "ustr \<Rightarrow> (ustr \<times> ustr) option" where
  "read_body [] = None"
| "read_body (c # s) =
     (if c = 34 then Some ([], s)
      else if c = 92 then
        (case s of
          [] \<Rightarrow> None
        | d # r \<Rightarrow>
            (case unescape d of
              None \<Rightarrow> None
            | Some x \<Rightarrow> map_option (\<lambda>(v, t). (x # v, t)) (read_body r)))
      else if c = 10 \<or> c = 13 then None
      else map_option (\<lambda>(v, t). (c # v, t)) (read_body s))"

definition read_regular :: "ustr \<Rightarrow> (ustr \<times> ustr) option" where
  "read_regular s = (case s of c # r \<Rightarrow> if c = 34 then read_body r else None | [] \<Rightarrow> None)"

lemma read_body_split:
  "read_body s = Some (v, t) \<Longrightarrow>
     \<exists>raw. s = raw @ 34 # t \<and> length v \<le> length raw \<and> (length v = length raw \<longrightarrow> 92 \<notin> set raw)"
proof (induction s arbitrary: v t rule: read_body.induct)
  case (2 c s)
  consider (q) "c = 34" | (b) "c = 92" | (p) "c \<noteq> 34" "c \<noteq> 92" by blast
  then show ?case
  proof cases
    case q
    with "2.prems" show ?thesis by simp
  next
    case b
    with "2.prems" obtain d r x v' where s: "s = d # r" and x: "unescape d = Some x"
      and r: "read_body r = Some (v', t)" and v: "v = x # v'"
      by (auto split: list.splits option.splits)
    from "2.IH"(1) [OF _ b s x r] b obtain raw where "r = raw @ 34 # t" "length v' \<le> length raw" by auto
    with b s v show ?thesis by (intro exI [of _ "92 # d # raw"]) simp
  next
    case p
    with "2.prems" obtain v' where r: "read_body s = Some (v', t)" and v: "v = c # v'"
      and nl: "\<not> (c = 10 \<or> c = 13)"
      by (auto split: if_splits)
    from "2.IH"(2) [OF p nl r] obtain raw where
      "s = raw @ 34 # t" "length v' \<le> length raw" "length v' = length raw \<longrightarrow> 92 \<notin> set raw"
      by blast
    with p v show ?thesis by (intro exI [of _ "c # raw"]) auto
  qed
qed simp

lemma read_body_shorter: "read_body s = Some (v, t) \<Longrightarrow> length t < length s"
  using read_body_split by fastforce

lemma read_body_plain:
  "\<forall>c\<in>set v. c \<noteq> 34 \<and> c \<noteq> 92 \<and> c \<noteq> 10 \<and> c \<noteq> 13 \<Longrightarrow> read_body (v @ 34 # r) = Some (v, r)"
  by (induction v) auto

text \<open>A literal written as it is reads back exactly when it holds no backslash.\<close>

lemma read_body_exact:
  assumes "\<forall>c\<in>set v. c \<noteq> 34 \<and> c \<noteq> 10 \<and> c \<noteq> 13"
  shows "read_body (v @ 34 # r) = Some (v, r) \<longleftrightarrow> 92 \<notin> set v"
proof
  assume "read_body (v @ 34 # r) = Some (v, r)"
  from read_body_split [OF this] show "92 \<notin> set v" by auto
next
  assume "92 \<notin> set v"
  with assms show "read_body (v @ 34 # r) = Some (v, r)"
    by (intro read_body_plain) auto
qed

section \<open>Reading lists\<close>

text \<open>The elements of \<open>dyn_array\<close> after its bracket, where they are string literals.\<close>

function read_items :: "ustr \<Rightarrow> (ustr list \<times> ustr) option" where
  "read_items s =
     (case read_regular s of
       None \<Rightarrow> None
     | Some (v, t) \<Rightarrow>
         (case t of
           [] \<Rightarrow> None
         | d # u \<Rightarrow>
             if d = 44 then map_option (\<lambda>(vs, x). (v # vs, x)) (read_items u)
             else if d = 93 then Some ([v], u)
             else None))"
  by pat_completeness auto
termination
  by (relation "measure length")
    (auto simp: read_regular_def split: list.splits if_splits dest: read_body_shorter)

declare read_items.simps [simp del]

definition read_array :: "ustr \<Rightarrow> (ustr list \<times> ustr) option" where
  "read_array s =
     (if prefix [91, 93] s then Some ([], drop 2 s)
      else if prefix [91] s then read_items (drop 1 s)
      else None)"

definition read_dynamic :: "ustr \<Rightarrow> (ustr list \<times> ustr) option" where
  "read_dynamic s =
     (if prefix (asc ''dynamic('') s then
        (case read_array (drop 8 s) of
          Some (vs, c # r) \<Rightarrow> if c = 41 then Some (vs, r) else None
        | _ \<Rightarrow> None)
      else None)"

text \<open>Statements \<open>let <name> = dynamic([...]);\<close>, one a line.\<close>

fun read_lets :: "string list \<Rightarrow> ustr \<Rightarrow> (ustr list list \<times> ustr) option" where
  "read_lets [] s = Some ([], s)"
| "read_lets (n # ns) s =
     (let p = asc ''let '' @ asc n @ asc '' = '' in
      if prefix p s then
        (case read_dynamic (drop (length p) s) of
          Some (vs, r) \<Rightarrow>
            if prefix [59, 10] r then
              map_option (\<lambda>(vss, x). (vs # vss, x)) (read_lets ns (drop 2 r))
            else None
        | None \<Rightarrow> None)
      else None)"

section \<open>Writing strings as JSON\<close>

definition json_escape :: "uchar \<Rightarrow> ustr" where
  "json_escape c =
     (if c = 34 \<or> c = 92 then [92, c]
      else if c = 8 then [92, 98] else if c = 9 then [92, 116] else if c = 10 then [92, 110]
      else if c = 12 then [92, 102] else if c = 13 then [92, 114]
      else if c < 32 then [92, 117, 48, 48, hex_lower (c div 16), hex_lower (c mod 16)]
      else [c])"

definition json_quote :: "ustr \<Rightarrow> ustr" where
  "json_quote v = 34 # concat (map json_escape v) @ [34]"

definition writes_strings :: "'x libs_scheme \<Rightarrow> bool" where
  "writes_strings e \<longleftrightarrow>
     (\<forall>vs. json_text e (JArr (map JStr vs)) = [91] @ join [44] (map json_quote vs) @ [93])"

text \<open>The characters an accepted indicator can hold.\<close>

definition clean :: "uchar \<Rightarrow> bool" where
  "clean c \<longleftrightarrow> \<not> is_control c \<and> c \<noteq> 96 \<and> c \<noteq> 92"

lemma read_quoted: "\<forall>c\<in>set v. clean c \<Longrightarrow> read_regular (json_quote v @ r) = Some (v, r)"
proof -
  assume "\<forall>c\<in>set v. clean c"
  then have "read_body (concat (map json_escape v) @ 34 # r) = Some (v, r)"
    by (induction v) (auto simp: json_escape_def unescape_def clean_def is_control_def)
  then show ?thesis by (simp add: read_regular_def json_quote_def)
qed

lemma read_items_written:
  "vs \<noteq> [] \<Longrightarrow> \<forall>v\<in>set vs. \<forall>c\<in>set v. clean c \<Longrightarrow>
     read_items (join [44] (map json_quote vs) @ 93 # r) = Some (vs, r)"
proof (induction vs)
  case (Cons v vs)
  show ?case
  proof (cases vs)
    case Nil
    with Cons.prems show ?thesis by (simp add: read_items.simps [of "json_quote v @ _"] read_quoted)
  next
    case (Cons w ws)
    have "read_items (join [44] (map json_quote vs) @ 93 # r) = Some (vs, r)"
      using Cons Cons.prems by (intro Cons.IH) simp_all
    moreover have "\<forall>c\<in>set v. clean c" using Cons.prems by simp
    ultimately show ?thesis
      using Cons by (simp add: read_items.simps [of "json_quote v @ _"] read_quoted)
  qed
qed simp

lemma read_array_written:
  assumes "\<forall>v\<in>set vs. \<forall>c\<in>set v. clean c"
  shows "read_array ([91] @ join [44] (map json_quote vs) @ 93 # r) = Some (vs, r)"
proof (cases vs)
  case Nil
  then show ?thesis by (simp add: read_array_def)
next
  case (Cons v ws)
  then obtain z where "join [44] (map json_quote vs) = 34 # z"
    by (cases ws) (simp_all add: json_quote_def)
  moreover have "read_items (join [44] (map json_quote vs) @ 93 # r) = Some (vs, r)"
    using Cons assms by (intro read_items_written) simp_all
  ultimately show ?thesis by (simp add: read_array_def)
qed

lemma read_kql_list:
  assumes "writes_strings e" and "\<forall>v\<in>set vs. \<forall>c\<in>set v. clean c"
  shows "read_dynamic (kql_list e vs @ r) = Some (vs, r)"
proof -
  have k: "kql_list e vs @ r
    = asc ''dynamic('' @ [91] @ join [44] (map json_quote vs) @ 93 # 41 # r"
    using assms(1) by (simp add: kql_list_def writes_strings_def asc_def)
  show ?thesis
    unfolding k read_dynamic_def using read_array_written [OF assms(2), of "41 # r"] by simp
qed

section \<open>Accepted indicators\<close>

named_theorems kept_clean "operations that keep the characters of an indicator clean"

lemma clean_ascii: "is_ascii_hexdigit c \<or> c = 46 \<or> c = 58 \<Longrightarrow> clean c"
  by (auto simp: clean_def char_class)

lemma set_str_replace: "set (str_replace pat t s) \<subseteq> set t \<union> set s"
proof (induction pat t s rule: str_replace.induct)
  case (2 pat t c s)
  have "set (drop (length pat) (c # s)) \<subseteq> set (c # s)" by (rule set_drop_subset)
  with 2 show ?case by (auto split: if_splits)
qed simp

lemma clean_str_replace [kept_clean]:
  "list_all clean t \<Longrightarrow> list_all clean s \<Longrightarrow> list_all clean (str_replace pat t s)"
  using set_str_replace [of pat t s] by (auto simp: list_all_iff)

lemma clean_literals [kept_clean]:
  "list_all clean (asc ''.'')" "list_all clean (asc '':'')" "list_all clean (asc ''://'')"
  "list_all clean (asc ''https://'')" "list_all clean (asc ''http://'')" "list_all clean (asc ''::'')"
  "list_all clean (asc ''::ffff:'')"
  by code_simp+

lemma split_bytes_append: "split_bytes n s = Some (a, b) \<Longrightarrow> a @ b = s"
  by (induction n s arbitrary: a b rule: split_bytes.induct) (auto split: if_splits option.splits)

lemma clean_refang_scheme:
  "refang_scheme frm to s = Some r \<Longrightarrow> list_all clean (asc to) \<Longrightarrow> list_all clean s \<Longrightarrow> list_all clean r"
  by (auto simp: refang_scheme_def split: if_splits option.splits dest!: split_bytes_append)

lemma clean_refang: "refang t = Some r \<Longrightarrow> list_all clean t \<Longrightarrow> list_all clean r"
  unfolding refang_def bind_eq_Some_conv
  by (elim exE conjE) (rule clean_refang_scheme, assumption, rule kept_clean,
    erule clean_refang_scheme, (intro kept_clean | assumption)+)

lemma clean_lower: "clean c \<Longrightarrow> clean (to_ascii_lower c)"
  by (simp add: to_ascii_lower_def clean_def is_control_def)

lemma clean_lowercase [kept_clean]: "list_all clean s \<Longrightarrow> list_all clean (to_ascii_lowercase s)"
  by (simp add: list_all_iff to_ascii_lowercase_def clean_lower)

lemma clean_join [kept_clean]:
  "list_all clean sep \<Longrightarrow> list_all (list_all clean) ws \<Longrightarrow> list_all clean (join sep ws)"
  by (induction sep ws rule: join.induct) simp_all

lemma clean_digits: "list_all clean (show_nat n)"
proof -
  have "clean c" if "c \<in> set (nat_digits n)" for c
    using nat_digits_digits [OF that] by (auto simp: clean_def char_class)
  then show ?thesis by (simp add: list_all_iff show_nat_def)
qed

lemma clean_hex: "list_all clean (hex_digits n)"
proof (induction n rule: hex_digits.induct)
  case (1 n)
  have "clean (hex_lower m)" if "m < 16" for m
    using that by (auto simp: clean_def is_control_def hex_lower_def)
  with 1 show ?case by (simp add: hex_digits.simps [of n])
qed

lemma clean_v4: "list_all clean (show_v4 a b c d)"
  unfolding show_v4_def by (intro kept_clean) (simp add: clean_digits)

lemma clean_hexes [kept_clean]: "list_all (list_all clean) (map hex_digits gs)"
  by (simp add: list_all_iff clean_hex [unfolded list_all_iff])

lemma clean_show_ip: "list_all clean (show_ip ip)"
proof (cases ip)
  case (V4 a b c d)
  then show ?thesis by (simp add: clean_v4)
next
  case (V6 gs)
  obtain st len where z: "zero_run 0 (0, 0) (0, 0) gs = (st, len)" by (cases "zero_run 0 (0, 0) (0, 0) gs")
  have p: "list_all clean (join (asc '':'') (map hex_digits xs))" for xs by (intro kept_clean)
  show ?thesis
    unfolding V6 show_ip.simps z Let_def prod.case
    using p clean_v4 clean_literals(6,7) by (simp only: list_all_append split: if_split) blast
qed

lemma url_host_subset: "url_host t = Some h \<Longrightarrow> set h \<subseteq> set (to_ascii_lowercase t)"
proof -
  assume u: "url_host t = Some h"
  then obtain rest where r: "strip_scheme (to_ascii_lowercase t) = Some rest"
    by (auto simp: url_host_def split: option.splits)
  define au where "au = last (split_chars (\<lambda>c. c = 64) (takeWhile (\<lambda>c. c \<noteq> 47 \<and> c \<noteq> 63 \<and> c \<noteq> 35) rest))"
  have "set rest \<subseteq> set (to_ascii_lowercase t)"
    using r by (auto simp: strip_scheme_def split: if_splits dest: in_set_dropD)
  moreover have "set au \<subseteq> set rest"
    using last_in_set [OF split_chars_ne] split_chars_free set_takeWhileD unfolding au_def by fast
  moreover have "set h \<subseteq> set au"
    using u r unfolding au_def
    by (auto simp: url_host_def Let_def split: if_splits dest!: set_takeWhileD intro: list.set_sel(2))
  ultimately show ?thesis by blast
qed

lemma clean_host: "url_host t = Some h \<Longrightarrow> list_all clean t \<Longrightarrow> list_all clean h"
  using url_host_subset [of t h] clean_lowercase [of t] by (auto simp: list_all_iff)

definition sweep_lists :: "indicators \<Rightarrow> ustr list list" where
  "sweep_lists i = [i_sha256 i, i_sha1 i, i_md5 i, i_ips i, i_domains i, i_urls i]"

definition clean_lists :: "indicators \<Rightarrow> bool" where
  "clean_lists i \<longleftrightarrow> list_all (list_all (list_all clean)) (sweep_lists i)"

lemma clean_push [kept_clean]:
  "list_all clean v \<Longrightarrow> list_all (list_all clean) l \<Longrightarrow> list_all (list_all clean) (push_unique v l)"
  by (simp add: push_unique_def)

lemma clean_add_host: "list_all clean h \<Longrightarrow> clean_lists i \<Longrightarrow> clean_lists (add_host h i)"
  by (auto simp: add_host_def clean_lists_def sweep_lists_def clean_show_ip
    intro!: kept_clean split: option.splits)

lemma clean_classify_one: "list_all clean t \<Longrightarrow> clean_lists i \<Longrightarrow> clean_lists (classify_one t i)"
proof -
  assume t: "list_all clean t" and i: "clean_lists i"
  have "clean_lists (i\<lparr>i_urls := push_unique t (i_urls i)\<rparr>)"
    using t i by (simp add: clean_lists_def sweep_lists_def clean_push)
  with t i show ?thesis
    by (auto simp: classify_one_def Let_def clean_show_ip clean_lists_def sweep_lists_def
      intro!: kept_clean clean_add_host [unfolded clean_lists_def sweep_lists_def, simplified]
      dest: clean_host split: option.splits)
qed

lemma token_clean: "token_ok t \<Longrightarrow> list_all clean t"
  by (auto simp: token_ok_def list_ex_iff list_all_iff clean_def)

lemma clean_classify_tokens:
  "classify_tokens ts i = Some (Inr j) \<Longrightarrow> clean_lists i \<Longrightarrow> clean_lists j"
proof (induction ts arbitrary: i)
  case (Cons t ts)
  then obtain r where "token_ok t" "refang t = Some r"
    and ts: "classify_tokens ts (classify_one r i) = Some (Inr j)"
    by (auto split: if_splits option.splits)
  have "list_all clean r" using \<open>refang t = Some r\<close> token_clean [OF \<open>token_ok t\<close>] by (rule clean_refang)
  then have "clean_lists (classify_one r i)" using Cons.prems(2) by (rule clean_classify_one)
  with ts show ?case by (rule Cons.IH)
qed simp

lemma clean_classify: "classify raw = Some (Inr i) \<Longrightarrow> clean_lists i"
proof -
  assume "classify raw = Some (Inr i)"
  then have "classify_tokens (tokens raw) no_indicators = Some (Inr i)"
    by (auto simp: classify_def Let_def split: if_splits)
  moreover have "clean_lists no_indicators"
    by (simp add: clean_lists_def sweep_lists_def no_indicators_def)
  ultimately show ?thesis by (rule clean_classify_tokens)
qed

section \<open>The sweep query reads back\<close>

definition list_names :: "string list" where
  "list_names = [''sha256s'', ''sha1s'', ''md5s'', ''ips'', ''domains'', ''urls'']"

lemma read_lets_written:
  assumes "writes_strings e" "list_all (list_all (list_all clean)) vss" "length ns = length vss"
  shows "read_lets ns
      (concat (map2 (\<lambda>n vs. asc ''let '' @ asc n @ asc '' = '' @ kql_list e vs @ [59, 10]) ns vss) @ r)
    = Some (vss, r)"
  using assms(3,2)
proof (induction ns vss rule: list_induct2)
  case (Cons n ns vs vss)
  then have "read_dynamic (kql_list e vs @ x) = Some (vs, x)" for x
    using assms(1) by (intro read_kql_list) (simp_all add: list_all_iff)
  with Cons show ?case by (simp add: Let_def)
qed simp

text \<open>
  C16. Nothing a user gives to the indicator sweep leaves the string literals of the query. The prompt is
  only rendered with a look-back that was accepted; after its line the query holds six \<open>let\<close>
  statements, and reading them as KQL reads string literals gives back exactly the lists the indicators
  were classified into, whatever characters they hold, and stops where the fixed text begins.
\<close>

theorem sweep_values_contained:
  assumes "writes_strings e" and "ioc_sweep_skill e playbook given back = Some (Inr out)"
  shows "\<exists>l i lists. lookback back = Inr l \<and> classify given = Some (Inr i)
    \<and> out = render playbook [(''Look-back'', l), (''Indicators'', summary i)] (Some (sweep_query e i l))
    \<and> sweep_query e i l = asc ''let lookback = '' @ l @ asc '';'' @ [10] @ lists
    \<and> read_lets list_names lists = Some (sweep_lists i, sweep_union i)"
proof -
  from assms(2) obtain l i where l: "lookback back = Inr l" and i: "classify given = Some (Inr i)"
    and t: "out = render playbook [(''Look-back'', l), (''Indicators'', summary i)] (Some (sweep_query e i l))"
    by (auto simp: ioc_sweep_skill_def split: sum.splits option.splits)
  have "list_all (list_all (list_all clean)) (sweep_lists i)"
    using clean_classify [OF i] by (simp add: clean_lists_def)
  from read_lets_written [OF assms(1) this, of list_names]
  have "read_lets list_names (concat (map2 (\<lambda>n vs. asc ''let '' @ asc n @ asc '' = '' @ kql_list e vs @ [59, 10])
      list_names (sweep_lists i)) @ r) = Some (sweep_lists i, r)" for r
    by (simp add: list_names_def sweep_lists_def)
  with l i t show ?thesis
    unfolding sweep_query_def sweep_lets_def by (auto simp: list_names_def sweep_lists_def asc_def)
qed

text \<open>A library whose printer writes arrays of strings as documented.\<close>

definition string_printer :: "json \<Rightarrow> ustr" where
  "string_printer v =
     (case v of
       JArr xs \<Rightarrow> [91] @ join [44] (map (\<lambda>x. case x of JStr s \<Rightarrow> json_quote s | _ \<Rightarrow> []) xs) @ [93]
     | _ \<Rightarrow> [])"

definition string_libs :: libs where
  "string_libs = \<lparr>percent_encode = percent_encode_doc, nd_digit = is_ascii_digit,
     url_parse = (\<lambda>s. Inl []), rfc3339 = (\<lambda>s. Inl []), utc_format = (\<lambda>i. []), to_rfc3339 = (\<lambda>i. []),
     json_parse = (\<lambda>s. Inl []), json_text = string_printer\<rparr>"

lemma string_libs_write: "writes_strings string_libs"
  by (simp add: writes_strings_def string_libs_def string_printer_def comp_def)

definition demo_sweep :: ustr where
  "demo_sweep = the (case ioc_sweep_skill string_libs [] (asc ''evil[.]com a\"b'') (Some (asc ''24H'')) of
     Some (Inr t) \<Rightarrow> Some t | _ \<Rightarrow> None)"

theorem sweep_values_contained_witness:
  "\<exists>l i lists. lookback (Some (asc ''24H'')) = Inr l \<and> classify (asc ''evil[.]com a\"b'') = Some (Inr i)
    \<and> demo_sweep = render [] [(''Look-back'', l), (''Indicators'', summary i)] (Some (sweep_query string_libs i l))
    \<and> sweep_query string_libs i l = asc ''let lookback = '' @ l @ asc '';'' @ [10] @ lists
    \<and> read_lets list_names lists = Some (sweep_lists i, sweep_union i)"
proof (rule sweep_values_contained [OF string_libs_write])
  have "case ioc_sweep_skill string_libs [] (asc ''evil[.]com a\"b'') (Some (asc ''24H'')) of
      Some (Inr t) \<Rightarrow> True | _ \<Rightarrow> False"
    by code_simp
  then show "ioc_sweep_skill string_libs [] (asc ''evil[.]com a\"b'') (Some (asc ''24H'')) = Some (Inr demo_sweep)"
    unfolding demo_sweep_def by (auto split: option.splits sum.splits)
qed

section \<open>Look-back windows\<close>

lemma lookback_accepted:
  "lookback (Some v) = Inr l \<Longrightarrow> trim v \<noteq> [] \<Longrightarrow>
     l = to_ascii_lowercase (trim v) \<and> l \<noteq> [] \<and>
     (\<exists>h. lookback_hours l = Some h \<and> 1 \<le> h \<and> h \<le> max_lookback_hours)"
  by (auto simp: lookback_def non_empty_def Let_def to_ascii_lowercase_def split: if_splits option.splits)

lemma parsed_digits:
  assumes "parse_unsigned bits s = Some n"
  shows "\<exists>sg ds. s = sg @ ds \<and> sg \<in> {[], [43]} \<and> ds \<noteq> [] \<and> list_all is_ascii_digit ds \<and> digits_value 0 ds = n"
proof (cases "s \<noteq> [] \<and> hd s = 43")
  case True
  then have "s = [43] @ tl s" by (cases s) simp_all
  with assms True show ?thesis
    by (intro exI [of _ "[43]"] exI [of _ "tl s"])
      (cases s; simp add: parse_unsigned_def list_all_iff split: if_splits)
next
  case False
  with assms show ?thesis
    by (intro exI [of _ "[]"] exI [of _ s])
      (cases s; simp add: parse_unsigned_def list_all_iff split: if_splits)
qed

lemma hours_shape:
  assumes "lookback_hours v = Some h" "v \<noteq> []"
  shows "\<exists>sg ds u. v = sg @ ds @ [u] \<and> sg \<in> {[], [43]} \<and> ds \<noteq> [] \<and> list_all is_ascii_digit ds \<and>
    (u = 104 \<and> h = digits_value 0 ds \<or> u = 100 \<and> h = digits_value 0 ds * 24)"
proof -
  from assms(1) obtain n where n: "parse_unsigned 32 (butlast v) = Some n"
    and u: "last v = 104 \<and> h = n \<or> last v = 100 \<and> h = n * 24"
    by (auto simp: lookback_hours_def split: option.splits if_splits)
  from parsed_digits [OF n] obtain sg ds where b: "butlast v = sg @ ds"
    and d: "sg \<in> {[], [43]}" "ds \<noteq> []" "list_all is_ascii_digit ds" "digits_value 0 ds = n" by blast
  have "v = sg @ ds @ [last v]" using append_butlast_last_id [OF assms(2)] b by simp
  with d u show ?thesis by blast
qed

text \<open>
  An accepted look-back is a time span and nothing else: an optional plus, decimal digits and the unit
  \<open>h\<close> or \<open>d\<close>, at least one hour and at most thirty days. It can be put into a query as it is.
\<close>

theorem lookback_bounded:
  assumes "lookback given = Inr l"
  shows "\<exists>sg ds u. l = sg @ ds @ [u] \<and> sg \<in> {[], [43]} \<and> ds \<noteq> [] \<and> list_all is_ascii_digit ds \<and>
    (u = 104 \<and> 1 \<le> digits_value 0 ds \<and> digits_value 0 ds \<le> 720 \<or>
     u = 100 \<and> 1 \<le> digits_value 0 ds \<and> digits_value 0 ds \<le> 30)"
proof (cases "non_empty given")
  case None
  with assms have "l = [] @ [55] @ [100]" by (simp add: lookback_def asc_def)
  then show ?thesis
    by (intro exI [of _ "[]"] exI [of _ "[55]"] exI [of _ 100]) (simp add: char_class)
next
  case (Some t)
  then obtain v where v: "given = Some v" "trim v \<noteq> []"
    by (auto simp: non_empty_def split: option.splits if_splits)
  from lookback_accepted [OF assms [unfolded v(1)] v(2)] obtain h
    where "l \<noteq> []" "lookback_hours l = Some h" and h: "1 \<le> h" "h \<le> 720"
    by (auto simp: max_lookback_hours_def)
  from hours_shape [OF this(2,1)] obtain sg ds u where
    "l = sg @ ds @ [u]" "sg \<in> {[], [43]}" "ds \<noteq> []" "list_all is_ascii_digit ds"
    "u = 104 \<and> h = digits_value 0 ds \<or> u = 100 \<and> h = digits_value 0 ds * 24" by blast
  with h show ?thesis by (intro exI [of _ sg] exI [of _ ds] exI [of _ u]) auto
qed

theorem lookback_bounded_witness:
  "\<exists>sg ds u. asc ''24h'' = sg @ ds @ [u] \<and> sg \<in> {[], [43]} \<and> ds \<noteq> [] \<and> list_all is_ascii_digit ds \<and>
    (u = 104 \<and> 1 \<le> digits_value 0 ds \<and> digits_value 0 ds \<le> 720 \<or>
     u = 100 \<and> 1 \<le> digits_value 0 ds \<and> digits_value 0 ds \<le> 30)"
  by (rule lookback_bounded [of "Some (asc '' 24H '')"]) code_simp

section \<open>Accounts\<close>

lemma account_plain: "account_char c \<Longrightarrow> c \<noteq> 34 \<and> c \<noteq> 10 \<and> c \<noteq> 13"
  by (auto simp: account_char_def char_class)

text \<open>
  C39. The playbook puts the account between double quotes. An accepted account is read back from that
  literal exactly when it holds no backslash; with one, as in \<open>DOMAIN\name\<close>, the literal means another
  text, or does not end at its closing quote.
\<close>

theorem account_literal_exact:
  assumes "compromised_user_skill playbook given back = Inr out"
  shows "\<exists>a. a = trim given \<and> account_ok a \<and>
    (read_regular ([34] @ a @ [34] @ r) = Some (a, r) \<longleftrightarrow> 92 \<notin> set a)"
proof -
  have a: "account_ok (trim given)"
    using assms by (auto simp: compromised_user_skill_def Let_def split: if_splits)
  then have "\<forall>c\<in>set (trim given). c \<noteq> 34 \<and> c \<noteq> 10 \<and> c \<noteq> 13"
    using account_plain by (simp add: account_ok_def list_all_iff)
  from read_body_exact [OF this, of r] a show ?thesis by (simp add: read_regular_def)
qed

theorem account_literal_exact_witness:
  "(\<exists>a. a = trim (asc ''CORP'' @ [92] @ asc ''eve'') \<and> account_ok a \<and>
     (read_regular ([34] @ a @ [34] @ []) = Some (a, []) \<longleftrightarrow> 92 \<notin> set a))
   \<and> read_regular ([34] @ (asc ''CORP'' @ [92]) @ [34] @ asc '' | x'') = None"
proof
  show "\<exists>a. a = trim (asc ''CORP'' @ [92] @ asc ''eve'') \<and> account_ok a \<and>
     (read_regular ([34] @ a @ [34] @ []) = Some (a, []) \<longleftrightarrow> 92 \<notin> set a)"
  proof (rule account_literal_exact)
    have "case compromised_user_skill [] (asc ''CORP'' @ [92] @ asc ''eve'') None of Inr t \<Rightarrow> True | _ \<Rightarrow> False"
      by code_simp
    then show "compromised_user_skill [] (asc ''CORP'' @ [92] @ asc ''eve'') None
        = Inr (projr (compromised_user_skill [] (asc ''CORP'' @ [92] @ asc ''eve'') None))"
      by (auto split: sum.splits)
  qed
  show "read_regular ([34] @ (asc ''CORP'' @ [92]) @ [34] @ asc '' | x'') = None" by code_simp
qed

section \<open>Where the classifier panics\<close>

lemma split_bytes_ascii: "list_all (\<lambda>c. c < 0x80) s \<Longrightarrow> n \<le> str_len s \<Longrightarrow> split_bytes n s \<noteq> None"
proof (induction s arbitrary: n)
  case (Cons c s)
  then have "utf8_len c = 1" by (simp add: utf8_len_def)
  with Cons show ?case by (cases n) (auto split: option.splits)
qed simp

lemma refang_scheme_ascii:
  assumes "list_all (\<lambda>c. c < 0x80) s" "list_all (\<lambda>c. c < 0x80) (asc to)"
  shows "\<exists>r. refang_scheme frm to s = Some r \<and> list_all (\<lambda>c. c < 0x80) r"
proof (cases "length frm \<le> str_len s")
  case True
  then obtain a b where ab: "split_bytes (length frm) s = Some (a, b)"
    using split_bytes_ascii [OF assms(1), of "length frm"] by auto
  have "list_all (\<lambda>c. c < 0x80) (a @ b)" using split_bytes_append [OF ab] assms(1) by simp
  with True ab assms show ?thesis by (auto simp: refang_scheme_def)
next
  case False
  with assms show ?thesis by (simp add: refang_scheme_def)
qed

lemma ascii_str_replace:
  "list_all (\<lambda>c. c < (0x80::nat)) t \<Longrightarrow> list_all (\<lambda>c. c < 0x80) s \<Longrightarrow> list_all (\<lambda>c. c < 0x80) (str_replace pat t s)"
  using set_str_replace [of pat t s] by (auto simp: list_all_iff)

lemma ascii_literals:
  "list_all (\<lambda>c. c < 0x80) (asc ''.'')" "list_all (\<lambda>c. c < 0x80) (asc '':'')"
  "list_all (\<lambda>c. c < 0x80) (asc ''://'')" "list_all (\<lambda>c. c < 0x80) (asc ''https://'')"
  "list_all (\<lambda>c. c < 0x80) (asc ''http://'')"
  by code_simp+

lemma refang_ascii: "list_all (\<lambda>c. c < 0x80) t \<Longrightarrow> refang t \<noteq> None"
proof -
  assume t: "list_all (\<lambda>c. c < 0x80) t"
  have "list_all (\<lambda>c. c < 0x80) (str_replace (asc ''[://]'') (asc ''://'') (str_replace (asc ''[:]'') (asc '':'')
    (str_replace (asc ''(.)'') (asc ''.'') (str_replace (asc ''[.]'') (asc ''.'') t))))"
    by (intro ascii_str_replace ascii_literals t)
  from refang_scheme_ascii [OF this ascii_literals(4), of "''hxxps://''"] obtain s where
    s: "refang_scheme ''hxxps://'' ''https://'' (str_replace (asc ''[://]'') (asc ''://'') (str_replace (asc ''[:]'') (asc '':'')
    (str_replace (asc ''(.)'') (asc ''.'') (str_replace (asc ''[.]'') (asc ''.'') t)))) = Some s"
    and "list_all (\<lambda>c. c < 0x80) s" by blast
  from refang_scheme_ascii [OF this(2) ascii_literals(5), of "''hxxp://''"] s show ?thesis
    by (auto simp: refang_def)
qed

lemma classify_tokens_total:
  "\<forall>t\<in>set ts. refang t \<noteq> None \<Longrightarrow> classify_tokens ts i \<noteq> None"
proof (induction ts arbitrary: i)
  case (Cons t ts)
  then obtain r where "refang t = Some r" by fastforce
  moreover have "classify_tokens ts (classify_one r i) \<noteq> None"
    by (rule Cons.IH) (use Cons.prems in simp)
  ultimately show ?case by simp
qed simp

lemma tokens_chars: "t \<in> set (tokens raw) \<Longrightarrow> set t \<subseteq> set raw"
  unfolding tokens_def using set_trim_matches split_chars_free by fastforce

text \<open>
  Classifying indicators of ASCII characters always ends with lists or an error, it never panics.
\<close>

theorem classify_total_on_ascii:
  assumes "list_all (\<lambda>c. c < 0x80) raw"
  shows "\<exists>r. classify raw = Some r"
proof -
  have "refang t \<noteq> None" if "t \<in> set (tokens raw)" for t
    using tokens_chars [OF that] assms by (intro refang_ascii) (auto simp: list_all_iff)
  then have "classify_tokens (tokens raw) no_indicators \<noteq> None" by (intro classify_tokens_total) simp
  then show ?thesis by (auto simp: classify_def Let_def)
qed

theorem classify_total_on_ascii_witness: "\<exists>r. classify (asc ''hxxp://evil[.]com, 10.0.0.1'') = Some r"
  by (rule classify_total_on_ascii) code_simp

lemma str_replace_absent: "\<forall>d\<in>set s. d \<noteq> q \<Longrightarrow> str_replace (q # p) t s = s"
  by (induction s) auto

lemma split_bytes_inside:
  "list_all (\<lambda>d. d < 0x80) b \<Longrightarrow> 0x80 \<le> c \<Longrightarrow> split_bytes (Suc (length b)) (b @ [c]) = None"
  by (induction b) (simp_all add: utf8_len_def)

text \<open>
  C40. An indicator of seven letters or digits followed by a character of several bytes makes the classifier
  panic: \<open>refang\<close> cuts the text after eight bytes, inside that character.
\<close>

theorem classify_panics_inside_character:
  assumes "length a = 7" and "list_all is_ascii_alphanumeric a"
    and "0x80 \<le> c" and "\<not> is_whitespace c" and "\<not> is_control c"
  shows "classify (a @ [c]) = None"
proof -
  have alnum: "\<not> is_whitespace d \<and> \<not> is_control d \<and> d \<notin> {91, 40, 96, 92, 44, 59, 34, 39, 60, 62, 41}"
    if "is_ascii_alphanumeric d" for d
    using that by (auto simp: char_class)
  have plain: "\<not> is_whitespace d \<and> \<not> is_control d \<and> d \<notin> {91, 40, 96, 92, 44, 59, 34, 39, 60, 62, 41}"
    if "d \<in> set (a @ [c])" for d
  proof (cases "d = c")
    case True
    with assms(3-5) show ?thesis by simp
  next
    case False
    with that assms(2) alnum [of d] show ?thesis by (simp add: list_all_iff)
  qed
  have len: "str_len a = 7" "list_all (\<lambda>c. c < 0x80) a"
    using assms(1,2) alphanumeric_ascii str_len_ascii [of a] by (auto simp: list_all_iff)
  have "split_chars (\<lambda>c. is_whitespace c \<or> c = 44 \<or> c = 59) (a @ [c]) = [a @ [c]]"
    using plain by (intro split_chars_single) auto
  moreover have "trim_matches (\<lambda>c. c \<in> {34, 39, 60, 62, 40, 41}) (a @ [c]) = a @ [c]"
    using plain [OF hd_in_set] plain [of c] by (intro trim_matches_fix) auto
  ultimately have toks: "tokens (a @ [c]) = [a @ [c]]" by (simp add: tokens_def)
  have "token_ok (a @ [c])"
    using plain len(1) utf8_len_bounds(2) [of c] by (auto simp: token_ok_def list_ex_iff)
  moreover have "refang (a @ [c]) = None"
  proof -
    have "str_replace (91 # p) t (a @ [c]) = a @ [c]" "str_replace (40 # p) t (a @ [c]) = a @ [c]" for p t
      using plain [of 91] plain [of 40] by (intro str_replace_absent; auto)+
    moreover have "split_bytes 8 (a @ [c]) = None"
      using split_bytes_inside [OF len(2) assms(3)] assms(1) by simp
    moreover have "8 \<le> str_len (a @ [c])" using len(1) utf8_len_bounds(1) [of c] by simp
    ultimately show ?thesis by (simp add: refang_def refang_scheme_def asc_Cons eval_nat_numeral)
  qed
  ultimately show ?thesis by (simp add: classify_def Let_def toks max_indicators_def)
qed

theorem classify_panics_inside_character_witness: "classify (asc ''abcdefg'' @ [0xE9]) = None"
  by (rule classify_panics_inside_character) code_simp+

end
