(* ===== verification/Secrecy.thy ===== *)
theory Secrecy
  imports Server
begin

text \<open>
  Access and refresh tokens are secrets (\<open>Secret\<close> of \<open>src/auth/session.rs\<close> is never printed): they
  belong in the requests that need them and nowhere else. That is stated
  for two runs. Two worlds are \<open>alike\<close> when they differ at most in the values of the tokens held and of
  the tokens in requests already sent; a computation is \<open>blind\<close> when, on an outside that does not
  answer by those values, it gives the same result in alike worlds and leaves them alike. The
  judgement composes like that of \<open>Lifetime\<close>, and every effectful function a call can reach has it.
\<close>

section \<open>What is hidden\<close>

fun hide_param :: "ustr \<times> ustr \<Rightarrow> ustr \<times> ustr" where
  "hide_param (k, v) = (k, if k = asc ''refresh_token'' then [] else v)"

fun hide_body :: "http_body \<Rightarrow> http_body" where
  "hide_body (FormBody kvs) = FormBody (map hide_param kvs)"
| "hide_body b = b"

definition hide_request :: "http_request \<Rightarrow> http_request" where
  "hide_request rq = rq\<lparr>rq_bearer := map_option (\<lambda>_. []) (rq_bearer rq), rq_body := hide_body (rq_body rq)\<rparr>"

fun hide_event :: "event \<Rightarrow> event" where
  "hide_event (Sent rq) = Sent (hide_request rq)"
| "hide_event ev = ev"

definition alike :: "world \<Rightarrow> world \<Rightarrow> bool" where
  "alike w1 w2 \<longleftrightarrow>
     map hide_event (trace w1) = map hide_event (trace w2) \<and> reads w1 = reads w2 \<and>
     (\<forall>a. map_option expires_at (cache w1 a) = map_option expires_at (cache w2 a)) \<and>
     consent w1 = consent w2 \<and> reauth w1 = reauth w2 \<and> schemas w1 = schemas w2"

text \<open>An outside that answers alike when it is asked alike.\<close>

definition unaware :: "'x env_scheme \<Rightarrow> bool" where
  "unaware e \<longleftrightarrow> (\<forall>h1 h2. map hide_event h1 = map hide_event h2 \<longrightarrow>
     (\<forall>r1 r2. hide_request r1 = hide_request r2 \<longrightarrow> http e h1 r1 = http e h2 r2) \<and>
     sink_io e h1 = sink_io e h2 \<and> elicit e h1 = elicit e h2 \<and> file_io e h1 = file_io e h2 \<and>
     body_chunks e h1 = body_chunks e h2)"

lemma alike_refl [simp]: "alike w w"
  by (simp add: alike_def)

lemma alike_emit: "alike w1 w2 \<Longrightarrow> map hide_event evs = map hide_event evs' \<Longrightarrow>
    alike (w1\<lparr>trace := trace w1 @ evs\<rparr>) (w2\<lparr>trace := trace w2 @ evs'\<rparr>)"
  by (simp add: alike_def)

lemma same_answers:
  assumes "unaware e" "alike w1 w2"
  shows "sink_io e (trace w1) = sink_io e (trace w2)" "elicit e (trace w1) = elicit e (trace w2)"
    "file_io e (trace w1) = file_io e (trace w2)" "body_chunks e (trace w1) = body_chunks e (trace w2)"
    "hide_request r1 = hide_request r2 \<Longrightarrow> http e (trace w1) r1 = http e (trace w2) r2"
  using assms unfolding unaware_def alike_def by blast+

section \<open>Twin runs\<close>

definition twin :: "'x env_scheme \<Rightarrow> ('a \<Rightarrow> 'b \<Rightarrow> bool) \<Rightarrow> 'a io \<Rightarrow> 'b io \<Rightarrow> bool" where
  "twin e R m1 m2 \<longleftrightarrow> (unaware e \<longrightarrow> (\<forall>w1 w2. alike w1 w2 \<longrightarrow>
     R (fst (run_state m1 w1)) (fst (run_state m2 w2)) \<and>
     alike (snd (run_state m1 w1)) (snd (run_state m2 w2))))"

definition blind :: "'x env_scheme \<Rightarrow> 'a io \<Rightarrow> bool" where
  "blind e m \<longleftrightarrow> twin e (=) m m"

named_theorems blind_rules "computations that do not depend on tokens"

lemma twinI:
  "(\<And>w1 w2. unaware e \<Longrightarrow> alike w1 w2 \<Longrightarrow>
      R (fst (run_state m1 w1)) (fst (run_state m2 w2)) \<and>
      alike (snd (run_state m1 w1)) (snd (run_state m2 w2))) \<Longrightarrow> twin e R m1 m2"
  by (simp add: twin_def)

lemma twinD:
  assumes "twin e R m1 m2" "unaware e" "alike w1 w2" "run_state m1 w1 = (a, v1)" "run_state m2 w2 = (b, v2)"
  shows "R a b \<and> alike v1 v2"
  using assms unfolding twin_def by (metis fst_conv snd_conv)

lemma twin_bind:
  assumes m: "twin e R m1 m2" and f: "\<And>a b. R a b \<Longrightarrow> twin e Q (f a) (g b)"
  shows "twin e Q (do { a \<leftarrow> m1; f a }) (do { b \<leftarrow> m2; g b })"
proof (rule twinI)
  fix w1 w2 assume u: "unaware e" and w: "alike w1 w2"
  obtain a v1 where 1: "run_state m1 w1 = (a, v1)" by fastforce
  obtain b v2 where 2: "run_state m2 w2 = (b, v2)" by fastforce
  from twinD [OF m u w 1 2] have "R a b" "alike v1 v2" by auto
  with f [of a b] u 1 2 show "Q (fst (run_state (do { a \<leftarrow> m1; f a }) w1)) (fst (run_state (do { b \<leftarrow> m2; g b }) w2)) \<and>
      alike (snd (run_state (do { a \<leftarrow> m1; f a }) w1)) (snd (run_state (do { b \<leftarrow> m2; g b }) w2))"
    by (simp add: twin_def)
qed

lemma twin_ret: "R a b \<Longrightarrow> twin e R (ret a) (ret b)"
  by (simp add: twin_def)

lemma blind_ret [blind_rules]: "blind e (ret a)"
  by (simp add: blind_def twin_ret)

lemma blind_bind [blind_rules]: "blind e m \<Longrightarrow> (\<And>a. blind e (f a)) \<Longrightarrow> blind e (do { a \<leftarrow> m; f a })"
  unfolding blind_def by (erule twin_bind) simp

lemma blind_twin_bind:
  "twin e R m1 m2 \<Longrightarrow> (\<And>a b. R a b \<Longrightarrow> twin e (=) (f a) (f b)) \<Longrightarrow> twin e (=) (do { a \<leftarrow> m1; f a }) (do { a \<leftarrow> m2; f a })"
  by (rule twin_bind)

lemma twin_send: "hide_request r1 = hide_request r2 \<Longrightarrow> twin e (=) (send e r1) (send e r2)"
  by (rule twinI) (simp add: same_answers alike_emit)

lemma blind_send [blind_rules]: "blind e (send e rq)"
  unfolding blind_def by (rule twin_send) simp

lemma blind_emit [blind_rules]: "blind e (emit ev)" "blind e (stderr_line m)"
  unfolding blind_def stderr_line_def by (rule twinI; simp add: alike_def)+

lemma blind_reads [blind_rules]:
  "blind e (now e)" "blind e (instant e)" "blind e (random_bytes e)" "blind e (new_attempt_id e)"
  unfolding blind_def by (rule twinI; simp add: alike_def)+

lemma blind_outside [blind_rules]:
  "blind e (file_effect e f)" "blind e (ask e m)" "blind e (sink_append e r)"
proof -
  show "blind e (file_effect e f)" unfolding blind_def
    by (rule twinI) (simp add: same_answers(3) alike_emit)
  show "blind e (ask e m)" unfolding blind_def
    by (rule twinI) (simp add: same_answers(2) alike_emit)
  show "blind e (sink_append e r)" unfolding blind_def
    by (rule twinI) (simp add: same_answers(1) alike_emit sink_append_def split: sum.split)
qed

lemma blind_cases [blind_rules]:
  "(c \<Longrightarrow> blind e m) \<Longrightarrow> (\<not> c \<Longrightarrow> blind e n) \<Longrightarrow> blind e (if c then m else n)"
  "(\<And>x. blind e (f x)) \<Longrightarrow> (\<And>y. blind e (g y)) \<Longrightarrow> blind e (case r of Inl x \<Rightarrow> f x | Inr y \<Rightarrow> g y)"
  "blind e m \<Longrightarrow> (\<And>x. blind e (f x)) \<Longrightarrow> blind e (case v of None \<Rightarrow> m | Some x \<Rightarrow> f x)"
  "(\<And>x y. blind e (h x y)) \<Longrightarrow> blind e (case p of (x, y) \<Rightarrow> h x y)"
  "(\<And>x. blind e (f x)) \<Longrightarrow> blind e (let x = t in f x)"
  by (simp_all split: sum.split option.split prod.split)

section \<open>Tokens\<close>

lemma blind_modify: "(\<And>w1 w2. alike w1 w2 \<Longrightarrow> alike (f w1) (f w2)) \<Longrightarrow> blind e (modify f)"
  unfolding blind_def by (rule twinI) simp

lemma blind_once: "blind e (modify (once_reauth r))"
  by (rule blind_modify) (auto simp: alike_def once_reauth_def split: option.split)

lemma blind_set_reauth [blind_rules]: "blind e (set_reauth s r)"
  unfolding set_reauth_def by (intro blind_rules blind_once)

lemma blind_store [blind_rules]: "blind e (store_token aud ct)"
  unfolding store_token_def by (rule blind_modify) (simp add: alike_def)

lemma blind_refresh_done [blind_rules]: "blind e (refresh_failed e s aud err)" "blind e (refresh_succeeded e aud ok)"
proof -
  have "blind e (modify (\<lambda>w. w\<lparr>consent := (consent w)(aud \<mapsto> Missing c)\<rparr>))" for c
    by (rule blind_modify) (simp add: alike_def)
  then show "blind e (refresh_failed e s aud err)"
    unfolding refresh_failed_def by (cases "refresh_verdict err") (simp_all add: blind_bind blind_ret blind_once)
  have "blind e (modify (\<lambda>w. w\<lparr>refresh_token := rt\<rparr>))" for rt
    by (rule blind_modify) (simp add: alike_def)
  then show "blind e (refresh_succeeded e aud ok)"
    unfolding refresh_succeeded_def by (intro blind_rules)
qed

lemma blind_app_token [blind_rules]: "blind e (fetch_app_token e s aud secret)"
  unfolding fetch_app_token_def by (intro blind_rules)

lemma twin_grant: "twin e (=) (refresh_token_grant e tenant client rt1 scopes) (refresh_token_grant e tenant client rt2 scopes)"
  unfolding refresh_token_grant_def
  by (rule twin_bind [OF twin_send]) (simp_all add: form_post_def hide_request_def twin_ret)

lemma blind_renew [blind_rules]: "blind e (renew e s aud)"
proof (cases "credential s")
  case (ClientSecret k)
  then show ?thesis unfolding renew_def by (simp, intro blind_rules)
next
  case (Delegated who tenant)
  have rt: "twin e (\<lambda>_ _. True) (gets refresh_token) (gets refresh_token)"
    by (rule twinI) simp
  have "blind e (case r of Inr ok \<Rightarrow> refresh_succeeded e aud ok | Inl err \<Rightarrow> refresh_failed e s aud err)" for r
    by (intro blind_rules)
  then show ?thesis
    unfolding blind_def renew_def
    by (simp add: Delegated) (rule twin_bind [OF rt], rule twin_bind [OF twin_grant], simp)
qed

lemma blind_block [blind_rules]: "blind e (gets (session_block s aud))"
proof -
  have "session_block s aud w1 = session_block s aud w2" if "alike w1 w2" for w1 w2
  proof -
    from that have "consent w1 = consent w2" "reauth w1 = reauth w2" by (simp_all add: alike_def)
    then show ?thesis unfolding session_block_def by (simp only:)
  qed
  then show ?thesis unfolding blind_def by (intro twinI) simp
qed

text \<open>The one place where results may differ: whether there is a token is the same, its value is not.\<close>

abbreviation some_token :: "(call_tool_result + ustr) \<Rightarrow> (call_tool_result + ustr) \<Rightarrow> bool" where
  "some_token \<equiv> rel_sum (=) (\<lambda>_ _. True)"

lemma twin_cached: "twin e (rel_option (\<lambda>_ _. True)) (cached e aud) (cached e aud)"
proof (rule twinI)
  fix w1 w2 assume "alike w1 w2"
  then have "map_option expires_at (cache w1 aud) = map_option expires_at (cache w2 aud)" "reads w1 = reads w2"
    by (simp_all add: alike_def)
  with \<open>alike w1 w2\<close> show "rel_option (\<lambda>_ _. True) (fst (run_state (cached e aud) w1)) (fst (run_state (cached e aud) w2)) \<and>
      alike (snd (run_state (cached e aud) w1)) (snd (run_state (cached e aud) w2))"
    by (cases "cache w1 aud"; cases "cache w2 aud") (auto simp: cached_def Tokens.is_valid_def alike_def)
qed

lemma twin_get_token: "twin e some_token (get_token e s aud) (get_token e s aud)"
proof -
  have "some_token r r" for r by (cases r) simp_all
  then have weaken: "twin e some_token m m" if "blind e m" for m
    using that by (simp add: blind_def twin_def)
  note checked = twin_bind [OF blind_block [unfolded blind_def]] and hit = twin_bind [OF twin_cached]
  have "twin e some_token (do { hit2 \<leftarrow> cached e aud; case hit2 of Some t \<Rightarrow> ret (Inr t) | None \<Rightarrow> renew e s aud })
    (do { hit2 \<leftarrow> cached e aud; case hit2 of Some t \<Rightarrow> ret (Inr t) | None \<Rightarrow> renew e s aud })" (is "twin e _ ?m ?m")
    by (rule hit) (erule option.rel_cases; simp add: twin_ret weaken [OF blind_renew])
  then have "twin e some_token
      (do { blocked2 \<leftarrow> gets (session_block s aud); case blocked2 of Some err \<Rightarrow> ret (Inl err) | None \<Rightarrow> ?m })
      (do { blocked2 \<leftarrow> gets (session_block s aud); case blocked2 of Some err \<Rightarrow> ret (Inl err) | None \<Rightarrow> ?m })"
    (is "twin e _ ?n ?n")
    by (intro checked) (simp add: twin_ret split: option.split)
  then have "twin e some_token (do { hit \<leftarrow> cached e aud; case hit of Some t \<Rightarrow> ret (Inr t) | None \<Rightarrow> ?n })
      (do { hit \<leftarrow> cached e aud; case hit of Some t \<Rightarrow> ret (Inr t) | None \<Rightarrow> ?n })"
    by (intro hit) (erule option.rel_cases; simp add: twin_ret)
  then show ?thesis
    unfolding get_token_def by (intro checked) (simp add: twin_ret split: option.split)
qed

section \<open>API clients and downloads\<close>

lemma blind_authenticated:
  assumes rq: "\<And>t1 t2. hide_request (rq t1) = hide_request (rq t2)" and k: "\<And>resp. blind e (k resp)"
  shows "blind e (authenticated e s aud rq path k)"
proof -
  have after: "blind e (case r of Inl n \<Rightarrow> ret (Inl (network_error n path)) | Inr resp \<Rightarrow> k resp)" for r
    by (intro blind_rules k)
  have "twin e (=)
      (case a of Inl err \<Rightarrow> ret (Inl err) | Inr t \<Rightarrow> do { r \<leftarrow> send e (rq t);
        case r of Inl n \<Rightarrow> ret (Inl (network_error n path)) | Inr resp \<Rightarrow> k resp })
      (case b of Inl err \<Rightarrow> ret (Inl err) | Inr t \<Rightarrow> do { r \<leftarrow> send e (rq t);
        case r of Inl n \<Rightarrow> ret (Inl (network_error n path)) | Inr resp \<Rightarrow> k resp })" if "some_token a b" for a b
    using that after [unfolded blind_def]
    by (cases a; cases b) (auto intro!: twin_ret twin_bind [OF twin_send] rq)
  then show ?thesis
    unfolding blind_def authenticated_def by (intro twin_bind [OF twin_get_token])
qed

lemma hide_api_request: "hide_request (api_request s aud m path q body t1) = hide_request (api_request s aud m path q body t2)"
  by (simp add: hide_request_def api_request_def)

lemma blind_requests [blind_rules]:
  "blind e (read_json e s resp path cat)" "blind e (request_mutation e s aud m path query body cat)"
  "blind e (request e s aud m path query body cat)" "blind e (post_explained e s aud path jbody cat)"
proof -
  show read: "blind e (read_json e s resp path cat)" for resp
    unfolding read_json_def by (intro blind_rules)
  then show mutation: "blind e (request_mutation e s aud m path query body cat)"
    unfolding request_mutation_def by (intro blind_authenticated hide_api_request)
  then show "blind e (request e s aud m path query body cat)"
    unfolding request_def by (intro blind_rules)
  show "blind e (post_explained e s aud path jbody cat)"
    unfolding post_explained_def by (intro blind_authenticated hide_api_request blind_rules read)
qed

lemma blind_client [blind_rules]:
  "blind e (graph_get_as e s path q cat)" "blind e (graph_get e s path q)"
  "blind e (graph_get_with_odata_as e s path od cat)" "blind e (graph_get_with_odata e s path od)"
  "blind e (graph_post_as e s path body cat)" "blind e (graph_post e s path body)"
  "blind e (graph_post_explained e s path body)"
  "blind e (graph_patch_as e s path body cat)" "blind e (graph_patch e s path body)"
  "blind e (graph_delete_as e s path cat)" "blind e (graph_delete e s path)"
  "blind e (endpoint_get_as e s path q cat)" "blind e (endpoint_get e s path q)"
  "blind e (endpoint_get_with_odata_as e s path od cat)" "blind e (endpoint_get_with_odata e s path od)"
  "blind e (endpoint_post_as e s path body cat)" "blind e (endpoint_post e s path body)"
  "blind e (endpoint_patch_as e s path body cat)" "blind e (endpoint_patch e s path body)"
  "blind e (endpoint_delete_as e s path cat)" "blind e (endpoint_delete e s path)"
  unfolding client_defs by (intro blind_rules)+

lemma blind_upload [blind_rules]: "blind e (endpoint_multipart_upload e s path f bytes d ps ov)"
  unfolding endpoint_multipart_upload_def by (intro blind_authenticated hide_api_request blind_rules)

lemma blind_body [blind_rules]: "blind e (gets (\<lambda>w. body_chunks e (trace w) resp))"
  unfolding blind_def by (rule twinI) (simp add: same_answers(4))

lemma blind_chunks [blind_rules]: "blind e (write_chunks e path cs)"
  by (induction e path cs rule: write_chunks.induct) (simp_all add: blind_rules)

lemma blind_download [blind_rules]:
  "blind e (stream_to_file e resp path)" "blind e (write_artifact e resp path a h)"
  "blind e (download_artifact e s url dir name a h)"
  unfolding download_artifact_def write_artifact_def stream_to_file_def by (intro blind_rules)+

section \<open>The tools\<close>

lemma blind_handler_parts [blind_rules]:
  "(\<And>v. blind e (k v)) \<Longrightarrow> blind e (valid_then r k)"
  "blind e m \<Longrightarrow> blind e (unless_blocked s a m)"
  "(\<And>p. blind e (h p)) \<Longrightarrow> blind e (call_action e ty fs h args)"
  "blind e (m' :: (call_tool_result + json) io) \<Longrightarrow> blind e (answered m')"
  by (auto simp: valid_then_def unless_blocked_def call_action_def answered_def intro!: blind_bind
      split: sum.split option.split intro: blind_ret)

lemma blind_refusing [blind_rules]: "blind e m \<Longrightarrow> blind e (refusing a fs m)"
  by (induction a fs m rule: refusing.induct) (simp_all add: blind_ret)

lemma blind_match [blind_rules]:
  "list_all (\<lambda>(n, m). blind e m) rows \<Longrightarrow> blind e other \<Longrightarrow> blind e (match_action rows other a)"
  by (induction rows other a rule: match_action.induct) auto

lemma blind_rows [blind_rules]:
  "list_all (\<lambda>(n, m). blind e m) []"
  "blind e m \<Longrightarrow> list_all (\<lambda>(n, m). blind e m) rows \<Longrightarrow> list_all (\<lambda>(n, m). blind e m) ((n, m) # rows)"
  by simp_all

lemma blind_gets [blind_rules]:
  "blind e (simple_get e s path)" "blind e (odata_get e s path od)" "blind e (ep_simple_get e s path)"
  "blind e (ep_odata_get e s path od)" "blind e (ep_simple_get_as e s path cat)"
  "blind e (ep_odata_get_as e s path od cat)"
  unfolding simple_get_def odata_get_def ep_simple_get_def ep_odata_get_def ep_simple_get_as_def
    ep_odata_get_as_def
  by (intro blind_rules)+

lemma blind_ti: "blind e (defender_ti e s i)"
  unfolding defender_ti_def ti_routes_def custom_indicator_list_def handlers by (intro blind_rules)

lemma blind_alerts: "blind e (defender_incidents_alerts e s i)"
  unfolding defender_incidents_alerts_def ia_routes_def handlers by (intro blind_rules)

lemma blind_machines: "blind e (defender_machines e s i)"
  unfolding defender_machines_def mi_routes_def find_by_ip_def machine_alerts_def machine_vulnerabilities_def
    machine_missing_kbs_def handlers by (intro blind_rules)

lemma blind_vulnerabilities: "blind e (defender_vulnerabilities e s i)"
  unfolding defender_vulnerabilities_def vi_routes_def exposure_action_def handlers by (intro blind_rules)

lemma blind_forensics: "blind e (defender_forensics e s i)"
  unfolding defender_forensics_def fi_routes_def stage_artifact_def investigation_package_url_def
    get_investigation_package_sas_url_def download_investigation_package_def download_quarantined_file_def
    investigation_list_def investigation_get_def library_file_list_def
    defender_endpoint_live_response_get_result_def handlers
  by (intro blind_rules)

lemma blind_read_tool [blind_rules]: "blind e (call_read_tool e s r)"
  by (cases r) (simp_all add: blind_ti blind_alerts blind_machines blind_vulnerabilities blind_forensics)

lemma blind_fresh [blind_rules]: "blind e (retain_fresh e m)"
  by (induction e m rule: retain_fresh.induct) (simp_all add: blind_ret, intro blind_rules)

lemma blind_schemas [blind_rules]: "blind e (gets schemas)"
  unfolding blind_def by (rule twinI) (simp add: alike_def)

lemma blind_cache [blind_rules]: "blind e (cache_get e t)" "blind e (cache_put e t v)"
proof -
  show "blind e (cache_get e t)" unfolding cache_get_def by (intro blind_rules)
  have "blind e (modify (\<lambda>w. w\<lparr>schemas := m\<rparr>))" for m
    by (rule blind_modify) (simp add: alike_def)
  then show "blind e (cache_put e t v)" unfolding cache_put_def by (intro blind_rules)
qed

lemma blind_hunting [blind_rules]: "blind e (defender_hunting e s i)"
  unfolding defender_hunting_def hunting_run_def hunting_schema_def hunting_validate_def hunting_tables_def
  by (intro blind_rules)

section \<open>The mutating tools\<close>

lemma blind_pipeline_parts [blind_rules]:
  "blind e (record_final e s req attempt reason conf)" "blind e (write_audit_record_best_effort e s rec)"
  "blind e (write_outcome e attempt rec)" "blind e (request_confirmation e tool a ps ts j ident)"
  unfolding record_final_def write_audit_record_best_effort_def write_outcome_def request_confirmation_def
  by (intro blind_rules)+

lemma blind_confirmation [blind_rules]:
  "blind e a \<Longrightarrow> blind e b \<Longrightarrow> blind e c \<Longrightarrow> blind e d \<Longrightarrow> blind e f \<Longrightarrow>
     blind e (case out of Accepted \<Rightarrow> a | Declined \<Rightarrow> b | Unavailable \<Rightarrow> c | TurnedOff \<Rightarrow> d | NotApplicable \<Rightarrow> f)"
  by (cases out) simp_all

lemma blind_confirm [blind_rules]: "blind e (confirm_stage e s req attempt j)"
  unfolding confirm_stage_def by (intro blind_rules)

lemma blind_pipeline:
  assumes "blind e (mq_upstream req)"
  shows "blind e (execute_mutation e s req)"
  unfolding execute_mutation_def submit_def by (intro blind_rules assms)

lemma blind_run_tool:
  assumes "\<And>req. r = Inr req \<Longrightarrow> blind e (mq_upstream req)"
  shows "blind e (run_tool e s tool action known cat just r)"
  unfolding run_tool_def run_request_def audit_validation_error_def
  using assms by (cases r) (simp_all add: blind_bind blind_pipeline blind_ret blind_cases)

lemma blind_map_ok [blind_rules]: "blind e m \<Longrightarrow> blind e (map_ok_io f m)"
  unfolding map_ok_io_def by (intro blind_rules)

lemma blind_unreachable [blind_rules]: "blind e unreachable_upstream"
  unfolding unreachable_upstream_def by (rule blind_ret)

lemma blind_device [blind_rules]: "blind e (defender_device_response e s i)"
  unfolding defender_device_response_def
  by (rule blind_run_tool)
    (erule device_requestE; simp add: device_invalid_def blind_rules)

lemma blind_triage [blind_rules]: "blind e (defender_triage e s i)"
  unfolding defender_triage_def
proof (rule blind_run_tool)
  have up: "blind e (single_upstream e s i enc)" for enc
    unfolding single_upstream_def by (intro blind_rules)
  fix req assume "triage_request e s i = Inr req"
  then show "blind e (mq_upstream req)"
    by (auto simp: triage_request_def triage_invalid_def triage_mutation_def single_request_def
        batch_update_request_def Let_def intro!: blind_rules up split: if_splits sum.splits option.splits)
qed

lemma blind_indicators [blind_rules]: "blind e (defender_indicators e s i)"
proof -
  have "blind e (mq_upstream req)" if "indicators_request e s t i = Inr req" for t req
    using that by (auto simp: indicators_request_def indicator_invalid_def indicator_mutation_def
        submit_request_def delete_request_def batch_delete_request_def Let_def
        intro!: blind_rules split: if_splits sum.splits option.splits)
  then show ?thesis unfolding defender_indicators_def by (intro blind_rules blind_run_tool)
qed

lemma blind_response [blind_rules]: "blind e (defender_response e s i)"
  unfolding defender_response_def
proof (rule blind_run_tool)
  fix req assume "response_request e s i = Inr req"
  then show "blind e (mq_upstream req)"
    by (auto simp: response_request_def collect_request_def stop_quarantine_request_def
        live_response_request_def upload_request_def library_delete_request_def response_mutation_def Let_def
        intro!: blind_rules split: if_splits sum.splits option.splits)
qed

section \<open>Calls\<close>

lemma blind_call [blind_rules]: "blind e (call_tool e s c)"
proof -
  have "blind e (unlisted_call e s tool)" for tool
    unfolding unlisted_call_def by (intro blind_rules)
  moreover have "blind e (routed_call e s c)" by (cases c) (simp_all add: blind_rules)
  ultimately show ?thesis unfolding call_tool_def by (intro blind_rules)
qed

text \<open>Any number of calls, one after another, with their answers.\<close>

fun answer_all :: "'x env_scheme \<Rightarrow> server \<Rightarrow> tool_call list \<Rightarrow> (mcp_error + call_tool_result) list io" where
  "answer_all e s [] = ret []"
| "answer_all e s (c # cs) = do { r \<leftarrow> call_tool e s c; rs \<leftarrow> answer_all e s cs; ret (r # rs) }"

lemma blind_answer_all: "blind e (answer_all e s cs)"
  by (induction cs) (simp_all add: blind_rules)

lemma unsent_same: "map hide_event h1 = map hide_event h2 \<Longrightarrow>
    filter (\<lambda>ev. \<not> sends ev) h1 = filter (\<lambda>ev. \<not> sends ev) h2"
proof (induction h1 arbitrary: h2)
  case (Cons x h1)
  then obtain y h where h2: "h2 = y # h" "hide_event x = hide_event y" "map hide_event h1 = map hide_event h"
    by (cases h2) auto
  from h2(2) have "sends x = sends y" "\<not> sends x \<Longrightarrow> x = y" by (cases x; cases y; simp)+
  with Cons.IH [OF h2(3)] h2(1) show ?case by simp
qed simp

section \<open>Properties\<close>

text \<open>
  C4. Tokens stay secret. Take a server twice, holding any access tokens and any refresh token in the
  one run and others, of the same lifetimes, in the other, facing an outside that answers alike when
  all but the tokens it is sent is alike. Then any calls of any tools are answered alike: the same
  answers to the client, the same audit records, lines on standard error, prompts and file contents,
  and requests that differ only in the value of the bearer header and of the refresh_token field.
  So nothing a client, an operator or a log reader sees depends on the tokens.
\<close>

theorem tokens_stay_secret:
  assumes "unaware e" and "alike w1 w2"
    and "run_state (answer_all e s cs) w1 = (rs1, w1')" and "run_state (answer_all e s cs) w2 = (rs2, w2')"
  shows "rs1 = rs2 \<and>
    filter (\<lambda>ev. \<not> sends ev) (trace w1') = filter (\<lambda>ev. \<not> sends ev) (trace w2') \<and>
    map hide_event (trace w1') = map hide_event (trace w2') \<and> alike w1' w2'"
proof -
  from twinD [OF blind_answer_all [unfolded blind_def] assms] have "rs1 = rs2" "alike w1' w2'" by auto
  then show ?thesis using unsent_same [of "trace w1'" "trace w2'"] by (simp add: alike_def)
qed

text \<open>Isolating a machine with one token and with another.\<close>

definition holding :: "string \<Rightarrow> world" where
  "holding t = world0\<lparr>cache := (\<lambda>a. Some \<lparr>tok = asc t, expires_at = 3600\<rparr>), refresh_token := asc t\<rparr>"

abbreviation isolate_with :: "string \<Rightarrow> (mcp_error + call_tool_result) list \<times> world" where
  "isolate_with t \<equiv> run_state (answer_all documented_env demo_server [DeviceTool demo_device]) (holding t)"

lemma tokens_stay_secret_witness:
  "fst (isolate_with ''alpha'') = fst (isolate_with ''beta'') \<and>
   trace (snd (isolate_with ''alpha'')) \<noteq> trace (snd (isolate_with ''beta''))"
proof -
  have "unaware documented_env" by (simp add: unaware_def documented_env_def demo_env_def)
  moreover have "alike (holding ''alpha'') (holding ''beta'')"
    by (simp add: alike_def holding_def world0_def)
  ultimately have "fst (isolate_with ''alpha'') = fst (isolate_with ''beta'')"
    using tokens_stay_secret [OF _ _ prod.collapse [symmetric] prod.collapse [symmetric]] by blast
  moreover have "(case filter sends (trace (snd (isolate_with ''alpha''))) of
      Sent rq # _ \<Rightarrow> rq_bearer rq = Some (asc ''alpha'') | _ \<Rightarrow> False)"
    "(case filter sends (trace (snd (isolate_with ''beta''))) of
      Sent rq # _ \<Rightarrow> rq_bearer rq = Some (asc ''beta'') | _ \<Rightarrow> False)"
    by code_simp+
  then have "trace (snd (isolate_with ''alpha'')) \<noteq> trace (snd (isolate_with ''beta''))"
    by (auto split: list.splits event.splits)
  ultimately show ?thesis by blast
qed

end
