(* ===== verification/AuditFile.thy ===== *)
theory AuditFile
  imports World "HOL-Library.Countable"
begin

text \<open>
  The audit log as a file: the JSON lines \<open>AuditSink::append\<close> of \<open>src/audit.rs\<close> writes, the order of
  whose fields is that of the derived serializers, and what reading the file back gives. A write
  that fails may leave the first bytes of its line behind; the next line then follows them directly.
  The text of a value is \<open>serde_json\<close>'s (a parameter, with its documented laws), as is the text of a
  time stamp.
\<close>

section \<open>Serialized values\<close>

text \<open>What a derived serializer hands over: fields in the order of their declaration.\<close>

datatype serial =
    Val json
  | Fields "(ustr \<times> serial) list"
  | Seq "serial list"

fun value_of :: "serial \<Rightarrow> json" where
  "value_of (Val v) = v"
| "value_of (Fields fs) = jobj (map (\<lambda>f. (fst f, value_of (snd f))) fs)"
| "value_of (Seq vs) = JArr (map value_of vs)"

text \<open>
  The values whose text \<open>serde_json\<close> reads back as they are: maps with sorted keys, integers of 64 bits,
  no floating-point numbers, and strings of scalar values, as every Rust string is.
\<close>

fun plain_value :: "json \<Rightarrow> bool" where
  "plain_value JNull = True"
| "plain_value (JBool b) = True"
| "plain_value (JNum i) \<longleftrightarrow> - (2 ^ 63) \<le> i \<and> i < 2 ^ 64"
| "plain_value (JFloat t) = False"
| "plain_value (JStr s) \<longleftrightarrow> (\<forall>c\<in>set s. is_scalar c)"
| "plain_value (JArr vs) \<longleftrightarrow> (\<forall>v\<in>set vs. plain_value v)"
| "plain_value (JObj kvs) \<longleftrightarrow> map_ok kvs \<and> (\<forall>kv\<in>set kvs. (\<forall>c\<in>set (fst kv). is_scalar c) \<and> plain_value (snd kv))"

record audit_env = env +
  write_value :: "serial \<Rightarrow> ustr"
  instant_text :: "int \<Rightarrow> ustr"
  instant_of :: "ustr \<Rightarrow> int option"
  fragment :: "event list \<Rightarrow> audit_record \<Rightarrow> nat"

text \<open>
  The documented behaviour of \<open>serde_json::to_vec\<close> (compact: no line feed, and strings escape theirs) and
  of \<open>chrono\<close>'s serialization of instants.
\<close>

definition text_documented :: "'x audit_env_scheme \<Rightarrow> bool" where
  "text_documented e \<longleftrightarrow>
     (\<forall>v. plain_value (value_of v) \<longrightarrow> 10 \<notin> set (utf8 (write_value e v)) \<and>
        json_parse e (utf8 (write_value e v)) = Inr (value_of v)) \<and>
     (\<forall>t. instant_of e (instant_text e t) = Some t \<and> (\<forall>c\<in>set (instant_text e t). is_scalar c))"

section \<open>Records as JSON\<close>

fun target_kind_str :: "target_kind \<Rightarrow> ustr" where
  "target_kind_str KMachineId = asc ''machine_id''"
| "target_kind_str KMachineActionId = asc ''machine_action_id''"
| "target_kind_str KIndicatorId = asc ''indicator_id''"
| "target_kind_str KIndicatorValue = asc ''indicator_value''"
| "target_kind_str KAlertId = asc ''alert_id''"
| "target_kind_str KIncidentId = asc ''incident_id''"
| "target_kind_str KFileName = asc ''file_name''"
| "target_kind_str KSha1 = asc ''sha1''"

definition str_field :: "string \<Rightarrow> ustr \<Rightarrow> ustr \<times> serial" where
  "str_field k v = (asc k, Val (JStr v))"

definition opt_entry :: "string \<Rightarrow> ustr option \<Rightarrow> (ustr \<times> serial) list" where
  "opt_entry k v = (case v of None \<Rightarrow> [] | Some t \<Rightarrow> [str_field k t])"

definition target_serial :: "audit_target \<Rightarrow> serial" where
  "target_serial t = Fields [str_field ''kind'' (target_kind_str (target_kind t)), str_field ''value'' (target_value t)]"

fun identity_serial :: "identity_snapshot \<Rightarrow> serial" where
  "identity_serial (AppIdentity c) = Fields [str_field ''kind'' (asc ''app''), str_field ''client_id'' c]"
| "identity_serial (UserIdentity a t) =
     Fields [str_field ''kind'' (asc ''user''), str_field ''account'' a, str_field ''tenant_id'' t]"

fun result_serial :: "audit_result \<Rightarrow> serial" where
  "result_serial Pending = Fields [str_field ''kind'' (asc ''pending'')]"
| "result_serial (Submitted s i u) = Fields ([str_field ''kind'' (asc ''submitted''),
     (asc ''http_status'', Val (JNum (int s)))] @ opt_entry ''tracking_id'' i @ opt_entry ''upstream_status'' u)"
| "result_serial (UpstreamError s m) = Fields [str_field ''kind'' (asc ''upstream_error''),
     (asc ''http_status'', Val (JNum (int s))), str_field ''message'' m]"
| "result_serial (TransportError m) = Fields [str_field ''kind'' (asc ''transport_error''), str_field ''message'' m]"
| "result_serial (Rejected r) = Fields [str_field ''kind'' (asc ''rejected''), str_field ''reason'' (reject_str r)]"
| "result_serial RDeclined = Fields [str_field ''kind'' (asc ''declined'')]"

definition record_serial :: "'x audit_env_scheme \<Rightarrow> audit_record \<Rightarrow> serial" where
  "record_serial e r = Fields (
     [str_field ''ts'' (instant_text e (ar_ts r)), str_field ''attempt_id'' (ar_attempt_id r),
      str_field ''phase'' (phase_str (ar_phase r)), str_field ''tool'' (ar_tool r),
      str_field ''action'' (ar_action r), (asc ''targets'', Seq (map target_serial (ar_targets r))),
      (asc ''parameters'', Val (JObj (ar_parameters r)))]
     @ opt_entry ''justification'' (ar_justification r)
     @ [(asc ''identity'', identity_serial (ar_identity r)),
        str_field ''confirmation'' (confirmation_str (ar_confirmation r)),
        (asc ''result'', result_serial (ar_result r))])"

text \<open>The bytes \<open>append\<close> writes.\<close>

definition audit_line :: "'x audit_env_scheme \<Rightarrow> audit_record \<Rightarrow> nat list" where
  "audit_line e r = utf8 (write_value e (record_serial e r)) @ [10]"

section \<open>Reading a record\<close>

text \<open>The derived deserializers: a tag or field that is missing or of another type is an error.\<close>

definition decode_enum :: "('a \<Rightarrow> ustr) \<Rightarrow> 'a list \<Rightarrow> ustr \<Rightarrow> 'a option" where
  "decode_enum name xs s = find (\<lambda>x. name x = s) xs"

definition decode_phase :: "ustr \<Rightarrow> audit_phase option" where
  "decode_phase = decode_enum phase_str [Intent, Outcome, Final]"

definition decode_confirmation :: "ustr \<Rightarrow> confirmation_outcome option" where
  "decode_confirmation = decode_enum confirmation_str [Accepted, Declined, Unavailable, TurnedOff, NotApplicable]"

definition decode_reason :: "ustr \<Rightarrow> reject_reason option" where
  "decode_reason = decode_enum reject_str
     [RReadOnly, RCategoryDisabled, RValidation, RConfirmationUnavailable, RNotConfirmed, RAuditUnavailable]"

definition decode_kind :: "ustr \<Rightarrow> target_kind option" where
  "decode_kind = decode_enum target_kind_str
     [KMachineId, KMachineActionId, KIndicatorId, KIndicatorValue, KAlertId, KIncidentId, KFileName, KSha1]"

fun optional_str :: "json option \<Rightarrow> ustr option option" where
  "optional_str None = Some None"
| "optional_str (Some JNull) = Some None"
| "optional_str (Some (JStr s)) = Some (Some s)"
| "optional_str _ = None"

fun as_u16 :: "json \<Rightarrow> nat option" where
  "as_u16 (JNum i) = (if 0 \<le> i \<and> i < 2 ^ 16 then Some (nat i) else None)"
| "as_u16 _ = None"

fun as_map :: "json \<Rightarrow> json_map option" where
  "as_map (JObj m) = Some m"
| "as_map _ = None"

definition decode_target :: "json \<Rightarrow> audit_target option" where
  "decode_target v = do {
     k \<leftarrow> Option.bind (get_str (asc ''kind'') v) decode_kind;
     t \<leftarrow> get_str (asc ''value'') v;
     Some \<lparr>target_kind = k, target_value = t\<rparr>
   }"

definition decode_identity :: "json \<Rightarrow> identity_snapshot option" where
  "decode_identity v = do {
     k \<leftarrow> get_str (asc ''kind'') v;
     if k = asc ''app'' then do { c \<leftarrow> get_str (asc ''client_id'') v; Some (AppIdentity c) }
     else if k = asc ''user'' then do {
       a \<leftarrow> get_str (asc ''account'') v;
       t \<leftarrow> get_str (asc ''tenant_id'') v;
       Some (UserIdentity a t)
     }
     else None
   }"

definition decode_result :: "json \<Rightarrow> audit_result option" where
  "decode_result v = do {
     k \<leftarrow> get_str (asc ''kind'') v;
     if k = asc ''pending'' then Some Pending
     else if k = asc ''submitted'' then do {
       s \<leftarrow> Option.bind (jget (asc ''http_status'') v) as_u16;
       i \<leftarrow> optional_str (jget (asc ''tracking_id'') v);
       u \<leftarrow> optional_str (jget (asc ''upstream_status'') v);
       Some (Submitted s i u)
     }
     else if k = asc ''upstream_error'' then do {
       s \<leftarrow> Option.bind (jget (asc ''http_status'') v) as_u16;
       m \<leftarrow> get_str (asc ''message'') v;
       Some (UpstreamError s m)
     }
     else if k = asc ''transport_error'' then do { m \<leftarrow> get_str (asc ''message'') v; Some (TransportError m) }
     else if k = asc ''rejected'' then do {
       r \<leftarrow> Option.bind (get_str (asc ''reason'') v) decode_reason;
       Some (Rejected r)
     }
     else if k = asc ''declined'' then Some RDeclined
     else None
   }"

definition decode_record :: "'x audit_env_scheme \<Rightarrow> json \<Rightarrow> audit_record option" where
  "decode_record e v = do {
     ts \<leftarrow> Option.bind (get_str (asc ''ts'') v) (instant_of e);
     i \<leftarrow> get_str (asc ''attempt_id'') v;
     p \<leftarrow> Option.bind (get_str (asc ''phase'') v) decode_phase;
     tl \<leftarrow> get_str (asc ''tool'') v;
     ac \<leftarrow> get_str (asc ''action'') v;
     ts' \<leftarrow> Option.bind (jget (asc ''targets'') v) as_array;
     targets \<leftarrow> those (map decode_target ts');
     ps \<leftarrow> Option.bind (jget (asc ''parameters'') v) as_map;
     j \<leftarrow> optional_str (jget (asc ''justification'') v);
     who \<leftarrow> Option.bind (jget (asc ''identity'') v) decode_identity;
     c \<leftarrow> Option.bind (get_str (asc ''confirmation'') v) decode_confirmation;
     res \<leftarrow> Option.bind (jget (asc ''result'') v) decode_result;
     Some \<lparr>ar_ts = ts, ar_attempt_id = i, ar_phase = p, ar_tool = tl, ar_action = ac, ar_targets = targets,
       ar_parameters = ps, ar_justification = j, ar_identity = who, ar_confirmation = c, ar_result = res\<rparr>
   }"

section \<open>A record reads back\<close>

lemma jget_fields: "jget k (value_of (Fields fs)) = map_of (rev (map (\<lambda>f. (fst f, value_of (snd f))) fs)) k"
  by (simp add: jget_jobj)

lemma decode_names [simp]:
  "decode_phase (phase_str p) = Some p" "decode_confirmation (confirmation_str c) = Some c"
  "decode_reason (reject_str r) = Some r" "decode_kind (target_kind_str k) = Some k"
proof -
  show "decode_phase (phase_str p) = Some p" by (cases p) (simp_all add: decode_phase_def decode_enum_def)
  show "decode_confirmation (confirmation_str c) = Some c"
    by (cases c) (simp_all add: decode_confirmation_def decode_enum_def)
  show "decode_reason (reject_str r) = Some r" by (cases r) (simp_all add: decode_reason_def decode_enum_def)
  show "decode_kind (target_kind_str k) = Some k" by (cases k) (simp_all add: decode_kind_def decode_enum_def)
qed

lemma decode_target_serial: "decode_target (value_of (target_serial t)) = Some t"
  by (cases t) (simp add: target_serial_def str_field_def decode_target_def get_str_def jget_jobj)

lemma decode_targets: "those (map (\<lambda>t. decode_target (value_of (target_serial t))) ts) = Some ts"
  by (induction ts) (simp_all add: decode_target_serial)

lemma decode_identity_serial: "decode_identity (value_of (identity_serial i)) = Some i"
  by (cases i) (simp_all add: str_field_def decode_identity_def get_str_def jget_jobj)

fun status_ok :: "audit_result \<Rightarrow> bool" where
  "status_ok (Submitted s _ _) \<longleftrightarrow> s < 2 ^ 16"
| "status_ok (UpstreamError s _) \<longleftrightarrow> s < 2 ^ 16"
| "status_ok _ = True"

lemma decode_result_serial: "status_ok r \<Longrightarrow> decode_result (value_of (result_serial r)) = Some r"
  by (cases r)
    (auto simp: str_field_def opt_entry_def decode_result_def get_str_def jget_jobj split: option.split)

lemma decode_record_serial:
  assumes "instant_of e (instant_text e (ar_ts r)) = Some (ar_ts r)" and "status_ok (ar_result r)"
  shows "decode_record e (value_of (record_serial e r)) = Some r"
proof -
  let ?v = "value_of (record_serial e r)"
  have f: "jget (asc ''ts'') ?v = Some (JStr (instant_text e (ar_ts r)))"
    "jget (asc ''attempt_id'') ?v = Some (JStr (ar_attempt_id r))"
    "jget (asc ''phase'') ?v = Some (JStr (phase_str (ar_phase r)))"
    "jget (asc ''tool'') ?v = Some (JStr (ar_tool r))"
    "jget (asc ''action'') ?v = Some (JStr (ar_action r))"
    "jget (asc ''targets'') ?v = Some (JArr (map (\<lambda>t. value_of (target_serial t)) (ar_targets r)))"
    "jget (asc ''parameters'') ?v = Some (JObj (ar_parameters r))"
    "optional_str (jget (asc ''justification'') ?v) = Some (ar_justification r)"
    "jget (asc ''identity'') ?v = Some (value_of (identity_serial (ar_identity r)))"
    "jget (asc ''confirmation'') ?v = Some (JStr (confirmation_str (ar_confirmation r)))"
    "jget (asc ''result'') ?v = Some (value_of (result_serial (ar_result r)))"
    by (simp_all add: record_serial_def str_field_def opt_entry_def jget_jobj comp_def split: option.split)
  show ?thesis
    unfolding decode_record_def get_str_def f
    by (simp add: assms decode_targets decode_identity_serial decode_result_serial comp_def)
qed

section \<open>Records whose text is read back\<close>

definition scalar_text :: "ustr \<Rightarrow> bool" where
  "scalar_text s \<longleftrightarrow> (\<forall>c\<in>set s. is_scalar c)"

fun identity_ok :: "identity_snapshot \<Rightarrow> bool" where
  "identity_ok (AppIdentity c) = scalar_text c"
| "identity_ok (UserIdentity a t) = (scalar_text a \<and> scalar_text t)"

fun result_ok :: "audit_result \<Rightarrow> bool" where
  "result_ok (Submitted s i u) \<longleftrightarrow> s < 2 ^ 16 \<and> pred_option scalar_text i \<and> pred_option scalar_text u"
| "result_ok (UpstreamError s m) \<longleftrightarrow> s < 2 ^ 16 \<and> scalar_text m"
| "result_ok (TransportError m) = scalar_text m"
| "result_ok _ = True"

definition record_ok :: "audit_record \<Rightarrow> bool" where
  "record_ok r \<longleftrightarrow> scalar_text (ar_attempt_id r) \<and> scalar_text (ar_tool r) \<and> scalar_text (ar_action r) \<and>
     (\<forall>t\<in>set (ar_targets r). scalar_text (target_value t)) \<and> plain_value (JObj (ar_parameters r)) \<and>
     pred_option scalar_text (ar_justification r) \<and> identity_ok (ar_identity r) \<and> result_ok (ar_result r)"

lemma scalar_text_asc [simp]: "scalar_text (asc t)"
  using set_asc_bound by (fastforce simp: scalar_text_def is_scalar_def)

lemma text_ok_names [simp]:
  "scalar_text (phase_str p)" "scalar_text (confirmation_str c)" "scalar_text (reject_str r)" "scalar_text (target_kind_str k)"
  by (cases p, simp_all, cases c, simp_all, cases r, simp_all, cases k, simp_all)

lemma plain_obj_of: "plain_value (jobj kvs) \<longleftrightarrow> plain_value (JObj (obj_of kvs))"
  by (simp add: jobj_def)

lemma set_of_obj: "set (obj_of kvs) \<subseteq> set kvs"
proof (induction kvs rule: obj_of.induct)
  case (2 k v kvs)
  have "set (map_insert k v m) \<subseteq> insert (k, v) (set m)" for m :: json_map
    by (induction k v m rule: map_insert.induct) auto
  with 2 show ?case by (simp split: if_splits) blast
qed simp

lemma plain_fields:
  "(\<And>k v. (k, v) \<in> set fs \<Longrightarrow> scalar_text k \<and> plain_value (value_of v)) \<Longrightarrow> plain_value (value_of (Fields fs))"
  using set_of_obj [of "map (\<lambda>f. (fst f, value_of (snd f))) fs"]
  by (fastforce simp: jobj_def map_ok_obj_of scalar_text_def)

lemma plain_text: "plain_value (JStr s) = scalar_text s"
  by (simp add: scalar_text_def)

lemmas serial_fields = str_field_def opt_entry_def

lemma plain_target: "scalar_text (target_value t) \<Longrightarrow> plain_value (value_of (target_serial t))"
  unfolding target_serial_def by (rule plain_fields) (auto simp: serial_fields plain_text simp del: plain_value.simps(5))

lemma plain_identity: "identity_ok i \<Longrightarrow> plain_value (value_of (identity_serial i))"
  by (cases i) (auto simp: serial_fields plain_text simp del: plain_value.simps(5) value_of.simps(2) intro!: plain_fields)

lemma plain_result: "result_ok r \<Longrightarrow> plain_value (value_of (result_serial r))"
  by (cases r) (auto simp: serial_fields plain_text simp del: plain_value.simps(5) value_of.simps(2)
    intro!: plain_fields split: option.splits)

lemma plain_record:
  assumes "record_ok r" and "scalar_text (instant_text e (ar_ts r))"
  shows "plain_value (value_of (record_serial e r))"
  unfolding record_serial_def
proof (rule plain_fields)
  fix k v assume "(k, v) \<in> set (
     [str_field ''ts'' (instant_text e (ar_ts r)), str_field ''attempt_id'' (ar_attempt_id r),
      str_field ''phase'' (phase_str (ar_phase r)), str_field ''tool'' (ar_tool r),
      str_field ''action'' (ar_action r), (asc ''targets'', Seq (map target_serial (ar_targets r))),
      (asc ''parameters'', Val (JObj (ar_parameters r)))]
     @ opt_entry ''justification'' (ar_justification r)
     @ [(asc ''identity'', identity_serial (ar_identity r)),
        str_field ''confirmation'' (confirmation_str (ar_confirmation r)),
        (asc ''result'', result_serial (ar_result r))])"
  then show "scalar_text k \<and> plain_value (value_of v)"
    using assms plain_identity plain_result
    by (auto simp: record_ok_def serial_fields plain_text plain_target
      simp del: plain_value.simps(5,7) dest!: sym [of "Some _" "ar_justification r"] split: option.splits)
qed

text \<open>One line: it holds no line feed but its last byte, and decodes to its record.\<close>

definition decode_line :: "'x audit_env_scheme \<Rightarrow> nat list \<Rightarrow> audit_record option" where
  "decode_line e l = (case json_parse e l of Inl err \<Rightarrow> None | Inr v \<Rightarrow> decode_record e v)"

definition line_text :: "'x audit_env_scheme \<Rightarrow> audit_record \<Rightarrow> nat list" where
  "line_text e r = utf8 (write_value e (record_serial e r))"

lemma line_reads_back:
  assumes "text_documented e" and "record_ok r"
  shows "10 \<notin> set (line_text e r) \<and> decode_line e (line_text e r) = Some r"
proof -
  from assms(1) have t: "instant_of e (instant_text e (ar_ts r)) = Some (ar_ts r)"
    "scalar_text (instant_text e (ar_ts r))" by (simp_all add: text_documented_def scalar_text_def)
  have "status_ok (ar_result r)" using assms(2) by (cases "ar_result r") (simp_all add: record_ok_def)
  with t(1) have "decode_record e (value_of (record_serial e r)) = Some r" by (rule decode_record_serial)
  moreover from assms(1) plain_record [OF assms(2) t(2)]
  have "10 \<notin> set (line_text e r)" "json_parse e (line_text e r) = Inr (value_of (record_serial e r))"
    by (simp_all add: text_documented_def line_text_def)
  ultimately show ?thesis by (simp add: decode_line_def)
qed

section \<open>The file\<close>

text \<open>
  What an event adds to the file: a successful append its line, a failed one the first \<open>fragment\<close>
  bytes of its line. The history is that before the event.
\<close>

fun event_bytes :: "'x audit_env_scheme \<Rightarrow> event list \<Rightarrow> event \<Rightarrow> nat list" where
  "event_bytes e h (Appended r (Inr u)) = audit_line e r"
| "event_bytes e h (Appended r (Inl m)) = take (fragment e h r) (audit_line e r)"
| "event_bytes e h _ = []"

fun file_bytes_from :: "'x audit_env_scheme \<Rightarrow> event list \<Rightarrow> event list \<Rightarrow> nat list" where
  "file_bytes_from e h [] = []"
| "file_bytes_from e h (ev # evs) = event_bytes e h ev @ file_bytes_from e (h @ [ev]) evs"

definition log_file :: "'x audit_env_scheme \<Rightarrow> event list \<Rightarrow> nat list" where
  "log_file e tr = file_bytes_from e [] tr"

text \<open>The lines of a file: the text between line feeds, and the rest after the last one when there is any.\<close>

definition file_lines :: "nat list \<Rightarrow> nat list list" where
  "file_lines bs = (let ls = split_chars (\<lambda>b. b = 10) bs in if last ls = [] then butlast ls else ls)"

definition read_log :: "'x audit_env_scheme \<Rightarrow> nat list \<Rightarrow> audit_record option list" where
  "read_log e bs = map (decode_line e) (file_lines bs)"

fun appended_ok :: "event \<Rightarrow> audit_record option" where
  "appended_ok (Appended r (Inr u)) = Some r"
| "appended_ok _ = None"

definition logged :: "event list \<Rightarrow> audit_record list" where
  "logged tr = List.map_filter appended_ok tr"

text \<open>
  The lines the file really has: what failed appends left behind is glued to the front of the next
  line. A failed append that wrote its whole line has written a line.
\<close>

fun glued_lines :: "'x audit_env_scheme \<Rightarrow> event list \<Rightarrow> nat list \<Rightarrow> event list \<Rightarrow> nat list list" where
  "glued_lines e h rest [] = (if rest = [] then [] else [rest])"
| "glued_lines e h rest (ev # evs) =
     (case ev of
       Appended r (Inr u) \<Rightarrow> (rest @ line_text e r) # glued_lines e (h @ [ev]) [] evs
     | Appended r (Inl m) \<Rightarrow>
         if length (line_text e r) < fragment e h r
         then (rest @ line_text e r) # glued_lines e (h @ [ev]) [] evs
         else glued_lines e (h @ [ev]) (rest @ take (fragment e h r) (line_text e r)) evs
     | _ \<Rightarrow> glued_lines e (h @ [ev]) rest evs)"

lemma file_lines_Nil: "file_lines [] = []"
  by (simp add: file_lines_def)

lemma no_feed: "10 \<notin> set a \<Longrightarrow> split_chars (\<lambda>b. b = 10) a = [a]"
  by (rule split_chars_single) auto

lemma file_lines_rest: "10 \<notin> set a \<Longrightarrow> file_lines a = (if a = [] then [] else [a])"
  by (simp add: file_lines_def no_feed)

lemma file_lines_line: "10 \<notin> set a \<Longrightarrow> file_lines (a @ 10 # b) = a # file_lines b"
  using split_chars_sep [of "\<lambda>b. b = 10" 10 a b] split_chars_ne [of "\<lambda>b. b = 10" b]
  by (simp add: file_lines_def Let_def no_feed)

lemma lines_glued:
  assumes "\<And>r ok. Appended r ok \<in> set evs \<Longrightarrow> 10 \<notin> set (line_text e r)" and "10 \<notin> set rest"
  shows "file_lines (rest @ file_bytes_from e h evs) = glued_lines e h rest evs"
  using assms
proof (induction evs arbitrary: h rest)
  case Nil
  then show ?case by (simp add: file_lines_rest)
next
  case (Cons ev evs)
  have IH: "file_lines (r @ file_bytes_from e h' evs) = glued_lines e h' r evs" if "10 \<notin> set r" for r h'
    by (rule Cons.IH) (use Cons.prems(1) that in auto)
  show ?case
  proof (cases ev)
    case (Appended r ok)
    have nl: "10 \<notin> set (rest @ line_text e r)" using Cons.prems Appended by auto
    show ?thesis
    proof (cases ok)
      case (Inr u)
      with Appended nl IH [of "[]" "h @ [ev]"] show ?thesis
        using file_lines_line [OF nl, of "file_bytes_from e (h @ [ev]) evs"]
        by (simp add: audit_line_def line_text_def)
    next
      case (Inl m)
      show ?thesis
      proof (cases "length (line_text e r) < fragment e h r")
        case True
        with Appended Inl nl IH [of "[]" "h @ [ev]"] show ?thesis
          using file_lines_line [OF nl, of "file_bytes_from e (h @ [ev]) evs"]
          by (simp add: audit_line_def line_text_def)
      next
        case False
        then have t: "take (fragment e h r) (audit_line e r) = take (fragment e h r) (line_text e r)"
          by (simp add: audit_line_def line_text_def)
        have "10 \<notin> set (rest @ take (fragment e h r) (line_text e r))"
          using nl by (auto dest: in_set_takeD)
        from IH [OF this, of "h @ [ev]"] False Appended Inl t show ?thesis by simp
      qed
    qed
  qed (use IH [OF Cons.prems(2)] in simp_all)
qed

lemma glued_clean:
  "(\<And>h' r m t. evs = h' @ Appended r (Inl m) # t \<Longrightarrow> fragment e (h @ h') r = 0) \<Longrightarrow>
     glued_lines e h [] evs = map (line_text e) (logged evs)"
proof (induction evs arbitrary: h)
  case (Cons ev evs)
  have IH: "glued_lines e (h @ [ev]) [] evs = map (line_text e) (logged evs)"
  proof (rule Cons.IH)
    fix h' r m t assume "evs = h' @ Appended r (Inl m) # t"
    then show "fragment e ((h @ [ev]) @ h') r = 0" using Cons.prems [of "ev # h'" r m t] by simp
  qed
  show ?case
  proof (cases ev)
    case (Appended r ok)
    show ?thesis
    proof (cases ok)
      case (Inl m)
      with Appended Cons.prems [of "[]" r m evs] have "fragment e h r = 0" by simp
      with Appended Inl IH show ?thesis by (simp add: logged_def)
    qed (use Appended IH in \<open>simp add: logged_def\<close>)
  qed (use IH in \<open>simp_all add: logged_def\<close>)
qed (simp add: logged_def)

lemma logged_set: "r \<in> set (logged tr) \<Longrightarrow> \<exists>ok. Appended r ok \<in> set tr"
proof (induction tr)
  case (Cons ev tr)
  then show ?case by (cases ev rule: appended_ok.cases) (auto simp: logged_def)
qed (simp add: logged_def)

section \<open>Properties\<close>

text \<open>
  C8. The audit log reads back. Whatever happened so far, the lines of the log file are those of the
  records appended successfully, in their order, but that the bytes a failed append left behind stand in
  front of the next line. When no failed append left bytes behind, every line decodes, and the records
  read are exactly the ones appended successfully.
\<close>

theorem audit_log_reads_back:
  assumes "text_documented e" and "\<And>r ok. Appended r ok \<in> set tr \<Longrightarrow> record_ok r"
  shows "file_lines (log_file e tr) = glued_lines e [] [] tr \<and>
    ((\<forall>h r m t. tr = h @ Appended r (Inl m) # t \<longrightarrow> fragment e h r = 0) \<longrightarrow>
       read_log e (log_file e tr) = map Some (logged tr))"
proof -
  note line = line_reads_back [OF assms(1)]
  have lines: "file_lines (log_file e tr) = glued_lines e [] [] tr"
    using lines_glued [of tr e "[]" "[]"] line assms(2) by (simp add: log_file_def)
  moreover have "read_log e (log_file e tr) = map Some (logged tr)"
    if "\<forall>h r m t. tr = h @ Appended r (Inl m) # t \<longrightarrow> fragment e h r = 0"
  proof -
    have "glued_lines e [] [] tr = map (line_text e) (logged tr)"
      using that by (intro glued_clean) simp
    moreover have "decode_line e (line_text e r) = Some r" if "r \<in> set (logged tr)" for r
      using line assms(2) logged_set [OF that] by blast
    ultimately show ?thesis by (simp add: read_log_def lines)
  qed
  ultimately show ?thesis by blast
qed

text \<open>
  A write that stops in the middle takes the next record with it: the two share one line, which begins
  with the first bytes of the record that was not written.
\<close>

lemma fragment_swallows_record:
  assumes "text_documented e" and "record_ok r1" and "record_ok r2"
    and "fragment e [] r1 \<le> length (line_text e r1)"
  shows "file_lines (log_file e [Appended r1 (Inl m), Appended r2 (Inr ())])
    = [take (fragment e [] r1) (line_text e r1) @ line_text e r2]"
proof -
  let ?tr = "[Appended r1 (Inl m), Appended r2 (Inr ())]"
  have "10 \<notin> set (line_text e r)" if "Appended r ok \<in> set ?tr" for r ok
    using that line_reads_back [OF assms(1,2)] line_reads_back [OF assms(1,3)] by auto
  from lines_glued [of ?tr e "[]" "[]", OF this]
  have "file_lines (file_bytes_from e [] ?tr) = glued_lines e [] [] ?tr" by simp
  with assms(4) show ?thesis unfolding log_file_def by simp
qed

text \<open>A library that writes values so that they can be told apart: the number of the value.\<close>

instance json :: countable
  by countable_datatype

definition numbered :: audit_env where
  "numbered = env.extend
     ((demo_env (demo_reply 200 []))\<lparr>json_parse := (\<lambda>bs. Inr (from_nat (digits_value 0 bs)))\<rparr>)
     (audit_env.fields (\<lambda>v. nat_digits (to_nat (value_of v))) (\<lambda>t. nat_digits (to_nat t))
        (\<lambda>s. Some (from_nat (digits_value 0 s))) (\<lambda>h r. 0))"

lemma numbered_fields [simp]:
  "write_value numbered v = nat_digits (to_nat (value_of v))"
  "instant_text numbered t = nat_digits (to_nat t)"
  "instant_of numbered s = Some (from_nat (digits_value 0 s))"
  "fragment numbered h r = 0"
  "json_parse numbered bs = Inr (from_nat (digits_value 0 bs))"
  by (simp_all add: numbered_def env.defs audit_env.defs demo_env_def)

lemma digits_ascii: "\<forall>c\<in>set (nat_digits n). c < 0x80 \<and> c \<noteq> 10"
  using nat_digits_digits by (force simp: char_class)

lemma numbered_documented: "text_documented numbered"
proof -
  have "utf8 (nat_digits n) = nat_digits n" for n
    using digits_ascii by (intro utf8_ascii) blast
  moreover have "10 \<notin> set (nat_digits n)" for n using digits_ascii by blast
  moreover have "\<forall>c\<in>set (nat_digits n). is_scalar c" for n
    using digits_ascii [of n] by (auto simp: is_scalar_def)
  ultimately show ?thesis by (simp add: text_documented_def digits_value_show)
qed

definition demo_record :: "audit_phase \<Rightarrow> audit_result \<Rightarrow> audit_record" where
  "demo_record p res = \<lparr>ar_ts = 1, ar_attempt_id = asc ''ab'', ar_phase = p, ar_tool = asc ''defender_triage'',
     ar_action = asc ''xdr_incident_update'', ar_targets = [mk_target KIncidentId (asc ''7'')],
     ar_parameters = [(asc ''status'', JStr (asc ''resolved''))], ar_justification = Some (asc ''confirmed''),
     ar_identity = UserIdentity (asc ''alice'') (asc ''tenant''), ar_confirmation = NotApplicable, ar_result = res\<rparr>"

lemma audit_log_reads_back_witness:
  "read_log numbered (log_file numbered
     [Appended (demo_record Intent Pending) (Inr ()), Stderr [],
      Appended (demo_record Outcome (Submitted 200 None None)) (Inr ())])
   = [Some (demo_record Intent Pending), Some (demo_record Outcome (Submitted 200 None None))]"
proof -
  let ?tr = "[Appended (demo_record Intent Pending) (Inr ()), Stderr [],
      Appended (demo_record Outcome (Submitted 200 None None)) (Inr ())]"
  have "record_ok (demo_record p res)" if "result_ok res" for p res
    using that scalar_text_asc unfolding record_ok_def demo_record_def mk_target_def
    by (simp add: map_ok_def scalar_text_def)
  then have ok: "record_ok r" if "Appended r ok \<in> set ?tr" for r ok using that by auto
  from audit_log_reads_back [of numbered ?tr, OF numbered_documented ok]
  have "read_log numbered (log_file numbered ?tr) = map Some (logged ?tr)" by simp
  then show ?thesis by (simp add: logged_def)
qed

end
