(* ===== verification/Spec2Isabelle.thy ===== *)
theory Spec2Isabelle
  imports Prelude Json Errors Ip Cli ServerTypes Validation AuditLog World Tokens Client Confirm
    Mutation ActionBase ResponseActions DeviceActions IndicatorActions TriageActions
    ReadTools KqlTree Kql KqlPolicy Catalog Hunting Server Descriptions Listing SignIn Startup Lifetime Refresh
    Prompts PromptSafety Secrecy AuditFile
begin

text \<open>
  A model of microsoft-defender-mcp: a server that speaks the model context protocol and lets a
  language model query and act on Microsoft Defender XDR and Defender for Endpoint. It is written in
  Rust; the paths below are those under \<open>src/\<close>.

  The program. \<open>src/main.rs\<close> reads the command line (\<open>src/cli.rs\<close>), opens the audit log
  (\<open>src/audit.rs\<close>), signs in as an application or as a user (\<open>src/auth.rs\<close>, \<open>src/auth/session.rs\<close>,
  \<open>src/auth/signin.rs\<close>) and serves ten tools (\<open>src/server.rs\<close>). Six of them only read: hunting queries
  (\<open>src/hunting\<close>, checked by the parser and policy of \<open>crates/kql-parser\<close>), threat intelligence,
  incidents and alerts, machines, vulnerabilities and forensics, the last of which also downloads
  artifacts into a quarantine directory. Four change things: live response, device response,
  indicators and triage. Each of those is off unless a flag enables it, and each request of theirs
  goes through one pipeline: guards, the confirmation of a person (\<open>src/confirm.rs\<close>), an intent
  record in the audit log, the call, an outcome record. Every call to the outside goes through the
  clients of \<open>src/client.rs\<close>, which get an access token first; every input goes through
  \<open>src/validation.rs\<close>; every failure is one of the results of \<open>src/error.rs\<close>. Five prompts
  (\<open>src/prompts.rs\<close>) and one resource (\<open>src/resources.rs\<close>) are served beside the tools.

  How it is modelled. A Rust string is a list of Unicode scalar values, with \<open>str_len\<close> its length in
  bytes; a \<open>Result\<close> is a sum with the error on the left; integers whose overflow matters are words or
  are reduced where the code reduces them. Code with effects is a state monad over \<open>world\<close>: the
  changing parts of the process (token cache, refresh token, consent and re-authentication state,
  schema cache), a counter of what has been read from the outside, and the trace, the list of events
  an observer sees (requests, prompts, audit records, lines on standard error, file operations,
  browser launches, pauses). The outside is the record \<open>env\<close>: the clock, random bytes, the answer
  to each request, the person's answer to each prompt and the result of each file operation are
  functions of the trace so far or of the counter, so a theorem for every \<open>env\<close> is one for every
  behaviour of the outside. The fixed part of a server is the record \<open>server\<close>.

  The theories, in the order in which they build on each other:

  \<^item> \<open>Prelude\<close>, \<open>Json\<close>: strings, character classes, trimming, splitting, UTF-8 and decimal numbers of
    the standard library; JSON values, and \<open>libs\<close>, the functions of libraries that the source calls.
  \<^item> \<open>Errors\<close>: \<open>error.rs\<close>. \<open>Ip\<close>: the address parser of the standard library. \<open>Cli\<close>: \<open>cli.rs\<close>.
  \<^item> \<open>ServerTypes\<close>, \<open>Validation\<close>: the closed enumerations of \<open>server.rs\<close> with their wire spellings, and
    \<open>validation.rs\<close>; each validator accepts exactly what its documentation says, and a validated
    identifier is one path segment of the URL it is put in.
  \<^item> \<open>AuditLog\<close>, \<open>World\<close>: the records of \<open>audit.rs\<close> and their text, the world and the effects.
    \<open>AuditFile\<close>: the JSON line of a record as its derived serializer writes it, the derived
    deserializers, and the bytes of the log file after any events: the file gives the records back.
  \<^item> \<open>Tokens\<close>: \<open>get_token\<close> of \<open>auth.rs\<close> with its cache, its renewals and what ends a session.
    \<open>Refresh\<close> interleaves any number of such calls between every two accesses to something shared:
    mutual exclusion of renewals, single flight, progress, and agreement with \<open>get_token\<close>.
  \<^item> \<open>Client\<close>, \<open>Staging\<close>: \<open>client.rs\<close>; its contracts are the locales \<open>upstream_call\<close> of the pipeline and
    the reading rules of \<open>ReadBase\<close>.
  \<^item> \<open>Confirm\<close>, \<open>Mutation\<close>, \<open>ActionBase\<close>: the confirmation and \<open>execute_mutation\<close>. The relation
    \<open>mutation_trace\<close> is the specification of the pipeline as the traces it may leave; every execution
    has one, and the properties are read off it. The locale \<open>tool_handler\<close> is what a tool promises.
  \<^item> \<open>ResponseActions\<close>, \<open>DeviceActions\<close>, \<open>IndicatorActions\<close>, \<open>TriageActions\<close>: the four mutating tools,
    each an interpretation of \<open>tool_handler\<close> with a table of the API calls its actions may make.
  \<^item> \<open>ReadBase\<close>, \<open>ReadTI\<close>, \<open>ReadAlerts\<close>, \<open>ReadMachines\<close>, \<open>ReadVulnerabilities\<close>, \<open>Forensics\<close>,
    \<open>ReadTools\<close>: the five read-only tools on the Defender APIs and what they share.
  \<^item> \<open>KqlTree\<close>, \<open>Kql\<close>, \<open>KqlPolicy\<close>: the parse tree and the walk of \<open>crates/kql-parser/src/lib.rs\<close>, the
    policy of \<open>policy.rs\<close> and the row bound appended to a query. The equivalence of the walk with
    the set of nodes of the tree makes the policy exact however deep an offence is nested.
  \<^item> \<open>Catalog\<close>, \<open>Hunting\<close>: the table catalogue, \<open>defender_hunting\<close>, compact answers, the schema cache.
  \<^item> \<open>Server\<close>, \<open>Descriptions\<close>, \<open>Listing\<close>: the router, \<open>call_tool\<close>, the texts of the tools and what a
    listing tells clients; here the tools meet, and the properties speak of any call of any tool. The
    texts are read as words and fields in parentheses and compared with what the dispatchers take.
  \<^item> \<open>Secrecy\<close>: two runs of any calls that differ in the tokens held; every effectful function a call
    reaches is blind to their values, so that they show in nothing but the requests they belong in.
  \<^item> \<open>SignIn\<close>: the browser flow with PKCE, state and loopback listener, and the device-code flow.
    \<open>Startup\<close>: \<open>main\<close> up to the serving process. \<open>Lifetime\<close>: a server from its start through any
    sequence of calls; each function of the model keeps the shape of the session.
  \<^item> \<open>Prompts\<close>, \<open>PromptSafety\<close>: the prompts, the indicator classifier and the sweep query, the resource;
    what the user gave stays inside the string literals it is put in.

  What the properties show. Safety of the whole: every request with a token is one its tool's table
  allows and comes after all guards (\<open>complete_mediation\<close>), the hints a client is told are kept
  (\<open>advertised_hints_hold\<close>), a read-only server only reads, the log has every attempt, and without a
  log nothing is sent; tokens show nowhere but in requests; the log file reads back. Functional behaviour and refinement: the calls of every action, the order of
  the rejections, the answers and the records. Of the queries: what is sent was checked and is bounded,
  and an offence is found wherever it stands. Of the session: tokens go to their own audience only,
  a session that ended stays ended, renewals are single-flight, sign-in is bound to its own redirect
  and ends. Every property with a hypothesis is followed by a witness, a closed instance of it.

  Bounds and fuel. Loops over data are structural recursion or have a measure. The polling loop of the
  device-code flow is \<open>poll_loop\<close> with fuel; \<open>device_flow_terminates\<close> shows that one turn more than the
  seconds the code lives is enough, since each turn sleeps at least a second on a clock that never
  goes back (\<open>lawful_clock\<close>, \<open>patient\<close>). The steps of concurrent token calls are not bounded in the
  model; \<open>token_calls_return\<close> bounds them by twelve a call. Of \<open>main\<close>, the fuel is that of the flow.

  Assumed of code outside \<open>src/\<close>. The parser generated from \<open>kql.pest\<close> is a parameter, a function from
  text to a tree of rules and spans; \<open>grammar_shape\<close> and \<open>spans_ok\<close> state the nesting of rules and of
  spans that the grammar fixes. \<open>percent_documented\<close>, \<open>printers_documented\<close> and \<open>writes_strings\<close> state the
  documented output of \<open>percent-encoding\<close>, of \<open>chrono\<close> for time stamps and of \<open>serde_json\<close> for strings,
  and \<open>text_documented\<close> that the two latter read back what they wrote. \<open>unaware\<close> says that the outside
  does not answer by the value of a token: it is the assumption under which two runs are compared.
  Each is shown to hold of a concrete function.

  Not modelled. The decoding of a request's JSON by serde, beyond field names, aliases, required fields
  and closed enumerations; the protocol library (dispatch by name, sessions, the order of listings), the
  HTTP and TLS library, Tokio, axum and the transports; the parsing of the command line by clap;
  logging by \<open>tracing\<close>. Constant texts: JSON schemas, the markdown of playbooks and of the resource,
  which are parameters where a function works on them. The hooks of debug builds (\<open>DEFENDER_TEST_*\<close>) except that
  of the confirmation time-out, the constructors \<open>for_test\<close>, the tests, and the branches for systems
  other than Linux. Concurrency is modelled for token acquisition, where the source has a lock;
  elsewhere a call runs from its start to its end.
\<close>

end
